(* ===== verification/Prelude.thy ===== *)
theory Prelude
  imports Main
begin

text \<open>
  Shared vocabulary of the development: the JavaScript built-ins the storefront's
  TypeScript calls (\<open>parseInt(s, 10)\<close>, \<open>Number.prototype.toString\<close>,
  \<open>String.prototype.trim\<close>, the regular-expression class \<open>\s\<close>), the
  \<open>catch (err) { err instanceof Error ? err.message : fallback }\<close> idiom every
  page uses, and the list of requests a page has in flight. Strings are Isabelle
  strings, so a JavaScript string is modelled by its code units below 256; numbers
  that the code only uses as integers (ids, quantities, stock, prices in the smallest
  currency unit) are \<open>int\<close>, and the value \<open>NaN\<close> that \<open>parseInt\<close> can return
  is \<open>None\<close> of \<open>int option\<close>.
\<close>

named_theorems js_simps "evaluation rules of the JavaScript built-ins"
named_theorems page_simps "unfolding rules of the page handlers"

subsection \<open>Characters\<close>

text \<open>
  ECMAScript's \<open>WhiteSpace\<close> and \<open>LineTerminator\<close> code units below 256: tab,
  line feed, vertical tab, form feed, carriage return, space and no-break space.
  \<open>trim\<close>, \<open>parseInt\<close> and the class \<open>\s\<close> all use this set.
\<close>

definition js_ws :: "char \<Rightarrow> bool" where
  "js_ws c \<longleftrightarrow> of_char c \<in> {9, 10, 11, 12, 13, 32, 160 :: nat}"

definition is_digit :: "char \<Rightarrow> bool" where
  "is_digit c \<longleftrightarrow> 48 \<le> (of_char c :: nat) \<and> (of_char c :: nat) \<le> 57"

definition digit_val :: "char \<Rightarrow> nat" where
  "digit_val c = of_char c - 48"

definition digit_char :: "nat \<Rightarrow> char" where
  "digit_char d = char_of (48 + d)"

definition js_trim :: "string \<Rightarrow> string" where
  "js_trim s = rev (dropWhile js_ws (rev (dropWhile js_ws s)))"

text \<open>The case folding of a regular expression's \<open>i\<close> flag: below 256 it identifies
  exactly the ASCII letters.\<close>

definition ascii_lower :: "char \<Rightarrow> char" where
  "ascii_lower c =
     (if 65 \<le> (of_char c :: nat) \<and> (of_char c :: nat) \<le> 90 then char_of ((of_char c :: nat) + 32) else c)"

text \<open>\<open>/pat/i.test(s)\<close> for a pattern of literal characters: \<open>pat\<close> occurs in \<open>s\<close> up
  to case folding.\<close>

definition regex_ci :: "string \<Rightarrow> string \<Rightarrow> bool" where
  "regex_ci pat s =
     list_ex (\<lambda>i. take (length pat) (drop i (map ascii_lower s)) = map ascii_lower pat) [0..<Suc (length s)]"

subsection \<open>Number to string and back\<close>

text \<open>\<open>String(n)\<close> and template interpolation \<open>${n}\<close> of an integral number.\<close>

fun show_nat :: "nat \<Rightarrow> string" where
  "show_nat n = (if n < 10 then [digit_char n] else show_nat (n div 10) @ [digit_char (n mod 10)])"

declare show_nat.simps [simp del]

definition show_int :: "int \<Rightarrow> string" where
  "show_int i = (if i < 0 then CHR ''-'' # show_nat (nat (- i)) else show_nat (nat i))"

definition parse_digits :: "string \<Rightarrow> nat" where
  "parse_digits ds = foldl (\<lambda>acc c. 10 * acc + digit_val c) 0 ds"

text \<open>
  \<open>parseInt(s, 10)\<close>: skip leading white space, read an optional sign, then the
  longest prefix of decimal digits; no digit at all is \<open>NaN\<close> (here \<open>None\<close>).
  Trailing garbage is ignored, so \<open>parseInt("12abc") = 12\<close> and
  \<open>parseInt("2.7") = 2\<close>.
\<close>

definition parse_int :: "string \<Rightarrow> int option" where
  "parse_int s =
     (let s1 = dropWhile js_ws s;
          (sgn, s2) = (case s1 of
                         c # r \<Rightarrow> if c = CHR ''-'' then (-1 :: int, r)
                                  else if c = CHR ''+'' then (1, r) else (1, s1)
                       | [] \<Rightarrow> (1, []));
          z = takeWhile is_digit s2
      in if z = [] then None else Some (sgn * int (parse_digits z)))"

text \<open>A number that may be \<open>NaN\<close>, printed as JavaScript prints it.\<close>

definition show_js_int :: "int option \<Rightarrow> string" where
  "show_js_int n = (case n of None \<Rightarrow> ''NaN'' | Some i \<Rightarrow> show_int i)"

subsection \<open>Rejections and the catch idiom\<close>

text \<open>
  What a rejected promise carries: an \<open>Error\<close> with its \<open>message\<close>, or any other
  thrown value (a string, \<open>null\<close>, a plain object), which has no message the pages use.
\<close>

datatype rejection = RejError string | RejOther

text \<open>\<open>err instanceof Error ? err.message : fallback\<close>, the catch clause of every page.\<close>

definition caught_message :: "string \<Rightarrow> rejection \<Rightarrow> string" where
  "caught_message fallback e = (case e of RejError m \<Rightarrow> m | RejOther \<Rightarrow> fallback)"

text \<open>
  JavaScript truthiness of a user id held as \<open>number | null\<close>: the guards
  \<open>if (!currentUserId)\<close> and \<open>currentUserId ? ... : ...\<close> of the pages.
\<close>

definition id_truthy :: "int option \<Rightarrow> bool" where
  "id_truthy u = (case u of None \<Rightarrow> False | Some i \<Rightarrow> i \<noteq> 0)"

text \<open>Truthiness of a \<open>string | null\<close> state such as \<open>error\<close> or \<open>message\<close>:
  \<open>{error && ...}\<close>, \<open>if (error)\<close>. The empty string is falsy.\<close>

definition str_truthy :: "string option \<Rightarrow> bool" where
  "str_truthy m = (case m of None \<Rightarrow> False | Some x \<Rightarrow> x \<noteq> [])"

subsection \<open>Requests in flight\<close>

text \<open>
  A page's awaited calls that have not resolved yet, oldest first. Any of them may
  resolve next (the network does not preserve order); \<open>drop_at i\<close> removes the one
  that did.
\<close>

definition drop_at :: "nat \<Rightarrow> 'a list \<Rightarrow> 'a list" where
  "drop_at i xs = take i xs @ drop (Suc i) xs"

subsection \<open>Lemmas on the built-ins\<close>

lemma of_char_digit_char: "d < 10 \<Longrightarrow> (of_char (digit_char d) :: nat) = 48 + d"
  by (simp add: digit_char_def)

lemma digit_char_digit [simp]: "d < 10 \<Longrightarrow> is_digit (digit_char d)"
  by (simp add: is_digit_def digit_char_def)

lemma digit_val_char [simp]: "d < 10 \<Longrightarrow> digit_val (digit_char d) = d"
  by (simp add: digit_val_def digit_char_def)

lemma digit_char_not_ws [simp]: "d < 10 \<Longrightarrow> \<not> js_ws (digit_char d)"
  by (auto simp add: js_ws_def digit_char_def)

lemma digit_char_neq: "d < 10 \<Longrightarrow> (of_char c :: nat) < 48 \<Longrightarrow> digit_char d \<noteq> c"
proof
  assume d: "d < 10" and c: "(of_char c :: nat) < 48" and eq: "digit_char d = c"
  from d have "(of_char (digit_char d) :: nat) = 48 + d" by (rule of_char_digit_char)
  with c eq show False by simp
qed

lemma digit_char_not_sign [simp]:
  "d < 10 \<Longrightarrow> digit_char d \<noteq> CHR ''-''" "d < 10 \<Longrightarrow> digit_char d \<noteq> CHR ''+''"
  by (simp_all add: digit_char_neq)

lemma show_nat_digits: "\<forall>c \<in> set (show_nat n). is_digit c"
  by (induction n rule: show_nat.induct) (subst show_nat.simps, simp)

lemma show_nat_Cons: "\<exists>d r. show_nat n = digit_char d # r \<and> d < 10"
proof (induction n rule: show_nat.induct)
  case (1 n)
  then show ?case
    by (cases "n < 10") (subst show_nat.simps, force)+
qed

lemma parse_digits_snoc [simp]:
  "parse_digits (ds @ [c]) = 10 * parse_digits ds + digit_val c"
  by (simp add: parse_digits_def)

lemma parse_show_nat [simp]: "parse_digits (show_nat n) = n"
proof (induction n rule: show_nat.induct)
  case (1 n)
  then show ?case
    by (cases "n < 10") (subst show_nat.simps, simp add: parse_digits_def)+
qed

lemma takeWhile_digits_show_nat [simp]: "takeWhile is_digit (show_nat n) = show_nat n"
  using show_nat_digits by (simp add: takeWhile_eq_all_conv)

lemma dropWhile_ws_show_nat [simp]: "dropWhile js_ws (show_nat n) = show_nat n"
  using show_nat_Cons [of n] by auto

lemma show_nat_ne [simp]: "show_nat n \<noteq> []"
  using show_nat_Cons [of n] by auto

lemma parse_int_unsigned:
  assumes "s = c # r" "\<not> js_ws c" "c \<noteq> CHR ''-''" "c \<noteq> CHR ''+''"
  shows "parse_int s =
           (if takeWhile is_digit s = [] then None else Some (int (parse_digits (takeWhile is_digit s))))"
  using assms by (simp add: parse_int_def)

lemma parse_int_show_nat: "parse_int (show_nat n) = Some (int n)"
proof -
  obtain d r where s: "show_nat n = digit_char d # r" and d: "d < 10"
    using show_nat_Cons by blast
  have "parse_int (show_nat n) =
      (if takeWhile is_digit (show_nat n) = [] then None
       else Some (int (parse_digits (takeWhile is_digit (show_nat n)))))"
    by (rule parse_int_unsigned [OF s]) (simp_all add: d)
  then show ?thesis by simp
qed

lemma takeWhile_digits_show_nat_append:
  "\<not> is_digit c \<Longrightarrow> takeWhile is_digit (show_nat n @ c # r) = show_nat n"
  using show_nat_digits [of n] by (simp add: takeWhile_append2)

lemma parse_int_show_nat_append:
  assumes "\<not> is_digit c"
  shows "parse_int (show_nat n @ c # r) = Some (int n)"
proof -
  obtain d t where s: "show_nat n = digit_char d # t" and d: "d < 10"
    using show_nat_Cons by blast
  have "parse_int (show_nat n @ c # r) =
      (if takeWhile is_digit (show_nat n @ c # r) = [] then None
       else Some (int (parse_digits (takeWhile is_digit (show_nat n @ c # r)))))"
    by (rule parse_int_unsigned [of _ "digit_char d" "t @ c # r"]) (simp_all add: s d)
  with assms show ?thesis by (simp add: takeWhile_digits_show_nat_append)
qed

text \<open>Printing an integer and parsing it back gives the integer: the round trip
  the persisted user id relies on.\<close>

lemma parse_show_int [simp, js_simps]: "parse_int (show_int i) = Some i"
proof (cases "i < 0")
  case True
  have "js_ws CHR ''-'' = False" by (simp add: js_ws_def)
  with True show ?thesis
    by (simp add: show_int_def parse_int_def Let_def)
next
  case False
  then show ?thesis
    using parse_int_show_nat [of "nat i"] by (simp add: show_int_def)
qed

text \<open>\<open>parseInt\<close> stops at the first non-digit, so a printed integer followed by a
  fraction or any other non-digit reads as that integer: the truncation towards zero
  of \<open>parseInt("-2.7") = -2\<close>.\<close>

lemma parse_show_int_append [js_simps]:
  assumes "\<not> is_digit c"
  shows "parse_int (show_int i @ c # r) = Some i"
proof (cases "i < 0")
  case True
  have "js_ws CHR ''-'' = False" by (simp add: js_ws_def)
  with True assms show ?thesis
    by (simp add: show_int_def parse_int_def Let_def takeWhile_digits_show_nat_append)
next
  case False
  with assms show ?thesis
    using parse_int_show_nat_append [of c "nat i" r] by (simp add: show_int_def)
qed

lemma show_int_ne [simp]: "show_int i \<noteq> []"
  by (simp add: show_int_def)

lemma length_drop_at [simp]: "i < length xs \<Longrightarrow> length (drop_at i xs) = length xs - 1"
  by (simp add: drop_at_def)

lemma set_drop_at: "set (drop_at i xs) \<subseteq> set xs"
  unfolding drop_at_def using set_take_subset [of i xs] set_drop_subset [of "Suc i" xs]
  by auto

lemma in_set_drop_atD: "x \<in> set (drop_at i xs) \<Longrightarrow> x \<in> set xs"
  using set_drop_at [of i xs] by blast

lemma in_set_drop_at_other:
  assumes "x \<in> set xs" "i < length xs" "xs ! i \<noteq> x"
  shows "x \<in> set (drop_at i xs)"
proof -
  have "xs = take i xs @ xs ! i # drop (Suc i) xs"
    using assms(2) by (rule id_take_nth_drop)
  with assms(1,3) show ?thesis
    unfolding drop_at_def by (metis Un_iff set_ConsD set_append)
qed

lemma list_all_drop_at: "list_all P xs \<Longrightarrow> list_all P (drop_at i xs)"
  using set_drop_at [of i xs] by (auto simp add: list_all_iff)

lemma caught_message_error [simp, js_simps]: "caught_message f (RejError m) = m"
  and caught_message_other [simp, js_simps]: "caught_message f RejOther = f"
  by (simp_all add: caught_message_def)

lemma str_truthy_simps [simp, js_simps]:
  "str_truthy None = False" "str_truthy (Some x) = (x \<noteq> [])"
  by (simp_all add: str_truthy_def)

lemma id_truthy_simps [simp, js_simps]:
  "id_truthy None = False" "id_truthy (Some i) = (i \<noteq> 0)"
  by (simp_all add: id_truthy_def)

text \<open>Evaluation of printed numbers on concrete inputs.\<close>

text \<open>The digits as the characters the printed numbers are compared with.\<close>

lemma char_of_digits:
  "char_of (48::nat) = CHR ''0''" "char_of (49::nat) = CHR ''1''" "char_of (50::nat) = CHR ''2''"
  "char_of (51::nat) = CHR ''3''" "char_of (52::nat) = CHR ''4''" "char_of (53::nat) = CHR ''5''"
  "char_of (54::nat) = CHR ''6''" "char_of (55::nat) = CHR ''7''" "char_of (56::nat) = CHR ''8''"
  "char_of (57::nat) = CHR ''9''"
  by code_simp+

lemmas show_eval = show_int_def show_nat.simps digit_char_def char_of_eq_iff

end
