(* ===== verification/UserContext.thy ===== *)
theory UserContext
  imports Prelude
begin

text \<open>
  The session identity of \<open>src/unnamed/part_007\<close> (\<open>context/UserContext.tsx\<close>):
  the provider's state \<open>currentUserId\<close> and the browser's \<open>localStorage\<close>, one
  record. \<open>ctx_init\<close> is the first render (\<open>useState(null)\<close>), \<open>ctx_load\<close> the
  mount effect that reads the stored id back, \<open>set_current_user_id\<close> and
  \<open>clear_user\<close> the two operations the provider hands to the pages. The lemmas show
  that storage and state agree after the mount (an invariant of every reachable
  context) and that a stored id survives a reload.
\<close>

record user_ctx =
  current_user_id :: "int option"
  storage :: "string \<rightharpoonup> string"

definition user_id_storage_key :: string where
  "user_id_storage_key = ''ai-store-user-id''"

definition ctx_init :: "(string \<rightharpoonup> string) \<Rightarrow> user_ctx" where
  "ctx_init st = \<lparr>current_user_id = None, storage = st\<rparr>"

text \<open>The mount effect: \<open>if (stored)\<close> skips a missing or empty entry, and an entry
  that \<open>parseInt\<close> reads as \<open>NaN\<close> leaves the state as it is.\<close>

definition ctx_load :: "user_ctx \<Rightarrow> user_ctx" where
  "ctx_load c =
     (case storage c user_id_storage_key of
        None \<Rightarrow> c
      | Some stored \<Rightarrow>
          if stored = [] then c
          else (case parse_int stored of
                  None \<Rightarrow> c
                | Some i \<Rightarrow> c\<lparr>current_user_id := Some i\<rparr>))"

definition set_current_user_id :: "int option \<Rightarrow> user_ctx \<Rightarrow> user_ctx" where
  "set_current_user_id u c =
     c\<lparr>current_user_id := u,
       storage := (case u of
                     Some i \<Rightarrow> (storage c)(user_id_storage_key \<mapsto> show_int i)
                   | None \<Rightarrow> (storage c)(user_id_storage_key := None))\<rparr>"

definition clear_user :: "user_ctx \<Rightarrow> user_ctx" where
  "clear_user c = set_current_user_id None c"

text \<open>\<open>useUser\<close> outside a provider throws.\<close>

definition use_user :: "user_ctx option \<Rightarrow> rejection + user_ctx" where
  "use_user ctx =
     (case ctx of
        None \<Rightarrow> Inl (RejError ''useUser must be used within a UserContextProvider'')
      | Some c \<Rightarrow> Inr c)"

text \<open>The contexts a session can be in: mounted over any stored entries, then any
  sequence of identity changes (registration, logout).\<close>

inductive ctx_reach :: "user_ctx \<Rightarrow> bool" where
  mount: "ctx_reach (ctx_load (ctx_init st))"
| set_id: "ctx_reach c \<Longrightarrow> ctx_reach (set_current_user_id u c)"
| clear: "ctx_reach c \<Longrightarrow> ctx_reach (clear_user c)"

text \<open>State and storage agree: the state is what a reload would read back.\<close>

definition ctx_synced :: "user_ctx \<Rightarrow> bool" where
  "ctx_synced c \<longleftrightarrow>
     current_user_id c =
       (case storage c user_id_storage_key of None \<Rightarrow> None | Some v \<Rightarrow> parse_int v)"

subsection \<open>Lemmas\<close>

lemma parse_int_Nil [simp]: "parse_int [] = None"
  by (simp add: parse_int_def)

lemma ctx_load_init_synced: "ctx_synced (ctx_load (ctx_init st))"
  by (auto simp add: ctx_synced_def ctx_load_def ctx_init_def split: option.splits)

lemma set_current_user_id_synced: "ctx_synced (set_current_user_id u c)"
  by (cases u) (simp_all add: ctx_synced_def set_current_user_id_def)

lemma storage_set_current_user_id [simp]:
  "storage (set_current_user_id u c) user_id_storage_key = map_option show_int u"
  by (cases u) (simp_all add: set_current_user_id_def)

lemma current_set_current_user_id [simp]:
  "current_user_id (set_current_user_id u c) = u"
  by (simp add: set_current_user_id_def)

lemma ctx_load_storage [simp]: "storage (ctx_load c) = storage c"
  by (simp add: ctx_load_def split: option.splits)

lemma ctx_load_fresh:
  "current_user_id (ctx_load (ctx_init st)) =
     (case st user_id_storage_key of None \<Rightarrow> None | Some v \<Rightarrow> parse_int v)"
  using ctx_load_init_synced [of st] by (simp add: ctx_synced_def ctx_init_def)

subsection \<open>Properties\<close>

text \<open>(C7) A stored identity survives a reload: after \<open>setCurrentUserId(i)\<close>, a new
  provider over the same storage loads \<open>i\<close> back, for every integer \<open>i\<close>.\<close>

theorem ctx_reload_roundtrip:
  "current_user_id (ctx_load (ctx_init (storage (set_current_user_id (Some i) c)))) = Some i"
  by (simp add: ctx_load_fresh)

text \<open>(C8) Logout forgets the identity: after \<open>clearUser\<close> the state is anonymous, the
  key is gone, and a reload stays anonymous.\<close>

theorem ctx_logout_forgets:
  "current_user_id (clear_user c) = None \<and>
   storage (clear_user c) user_id_storage_key = None \<and>
   current_user_id (ctx_load (ctx_init (storage (clear_user c)))) = None"
  by (simp add: clear_user_def ctx_load_fresh)

text \<open>(C9) In every context a session reaches, the state is the identity that storage
  holds: the key is absent exactly when the state is anonymous, up to entries that
  \<open>parseInt\<close> rejects.\<close>

theorem ctx_reach_synced:
  assumes "ctx_reach c"
  shows "ctx_synced c"
  using assms
proof (induction rule: ctx_reach.induct)
  case (mount st)
  show ?case by (rule ctx_load_init_synced)
next
  case (set_id c u)
  show ?case by (rule set_current_user_id_synced)
next
  case (clear c)
  show ?case unfolding clear_user_def by (rule set_current_user_id_synced)
qed

theorem ctx_reach_synced_witness:
  "ctx_synced (set_current_user_id (Some 42) (ctx_load (ctx_init Map.empty)))"
  by (rule ctx_reach_synced) (rule ctx_reach.set_id, rule ctx_reach.mount)

text \<open>A corrupted entry with a numeric prefix is accepted: \<open>"12abc"\<close> loads user 12.\<close>

theorem ctx_load_numeric_prefix:
  "current_user_id (ctx_load (ctx_init [user_id_storage_key \<mapsto> ''12abc''])) = Some 12"
  by (simp add: ctx_load_fresh parse_int_def is_digit_def js_ws_def parse_digits_def digit_val_def)

end
