(* ===== verification/Dto.thy ===== *)
theory Dto
  imports Prelude
begin

text \<open>
  The data transfer objects of \<open>src/unnamed/part_003\<close> (\<open>types/api.ts\<close>): one record
  per TypeScript interface, an optional field (\<open>description?: string\<close>) as an
  \<open>option\<close>. Field names carry the record's prefix because the interfaces share
  field names (\<open>id\<close>, \<open>price\<close>, \<open>quantity\<close>). Prices, subtotals and totals are
  \<open>number\<close> in TypeScript; the model reads them as integral amounts.
\<close>

record user_dto =
  user_id :: int
  user_username :: string
  user_email :: string

record product_dto =
  product_id :: int
  product_name :: string
  product_description :: "string option"
  product_price :: int
  product_stock_quantity :: int

record cart_item_dto =
  item_id :: int
  item_product_id :: int
  item_product_name :: string
  item_price :: int
  item_quantity :: int
  item_subtotal :: int

record add_to_cart_request =
  add_product_id :: int
  add_quantity :: int

record checkout_result_dto =
  co_success :: bool
  co_message :: string
  co_total_amount :: "int option"
  co_purchased_items :: "cart_item_dto list option"

record create_user_request =
  cu_username :: string
  cu_email :: string

record update_user_request =
  uu_username :: "string option"
  uu_email :: "string option"

end
