(* ===== verification/Api.thy ===== *)
theory Api
  imports Dto
begin

text \<open>
  The API client of \<open>src/unnamed/part_006\<close> (\<open>api/api.ts\<close>): the JSON values a
  response body parses to, the \<open>Response\<close> fields \<open>handleResponse\<close> reads, the
  normalisation \<open>handleResponse\<close> itself, and one request builder per exported
  function. \<open>fetch\<close> is the environment: it either rejects (a transport failure) or
  yields a response, and every exported function is \<open>handleResponse\<close> after
  \<open>fetch\<close> of its request (\<open>api_result\<close>). \<open>JSON.parse\<close> is not modelled: a
  body is given as what \<open>res.json()\<close> yields, a value or the message of the
  \<open>SyntaxError\<close> it rejects with.
\<close>

subsection \<open>JSON values and the JavaScript operations on them\<close>

datatype json =
    JNull
  | JBool bool
  | JNum int
  | JStr string
  | JArr "json list"
  | JObj "(string \<times> json) list"

fun join_with :: "string \<Rightarrow> string list \<Rightarrow> string" where
  "join_with sep [] = []"
| "join_with sep [x] = x"
| "join_with sep (x # xs) = x @ sep @ join_with sep xs"

text \<open>
  \<open>String(v)\<close>, which \<open>new Error(v)\<close> applies to its argument: an array joins its
  elements with commas, \<open>null\<close> elements as the empty string; every object prints
  as \<open>[object Object]\<close>.
\<close>

fun json_to_string :: "json \<Rightarrow> string" where
  "json_to_string JNull = ''null''"
| "json_to_string (JBool b) = (if b then ''true'' else ''false'')"
| "json_to_string (JNum n) = show_int n"
| "json_to_string (JStr s) = s"
| "json_to_string (JArr xs) =
     join_with '','' (map (\<lambda>x. if x = JNull then [] else json_to_string x) xs)"
| "json_to_string (JObj kvs) = ''[object Object]''"

text \<open>Truthiness of a value that may be \<open>undefined\<close> (\<open>None\<close>).\<close>

fun json_truthy :: "json option \<Rightarrow> bool" where
  "json_truthy None = False"
| "json_truthy (Some JNull) = False"
| "json_truthy (Some (JBool b)) = b"
| "json_truthy (Some (JNum n)) = (n \<noteq> 0)"
| "json_truthy (Some (JStr s)) = (s \<noteq> [])"
| "json_truthy (Some (JArr xs)) = True"
| "json_truthy (Some (JObj kvs)) = True"

text \<open>\<open>v?.p\<close>: only an object has own properties; \<open>JSON.parse\<close> keeps the last of
  repeated keys.\<close>

fun js_prop :: "json \<Rightarrow> string \<Rightarrow> json option" where
  "js_prop (JObj kvs) k = map_of (rev kvs) k"
| "js_prop v k = None"

subsection \<open>Responses and handleResponse\<close>

record http_response =
  res_status :: int
  res_status_text :: string
  res_body :: "string + json"

definition res_ok :: "http_response \<Rightarrow> bool" where
  "res_ok res \<longleftrightarrow> 200 \<le> res_status res \<and> res_status res \<le> 299"

text \<open>
  The error branch of \<open>handleResponse\<close>: \<open>body?.message\<close> when \<open>res.json()\<close>
  succeeds (\<open>None\<close> is \<open>undefined\<close>), and the variable \<open>err\<close>, which starts as
  \<open>statusText\<close> and takes the message when that is truthy.
\<close>

definition body_message :: "http_response \<Rightarrow> json option" where
  "body_message res = (case res_body res of Inl _ \<Rightarrow> None | Inr body \<Rightarrow> js_prop body ''message'')"

definition error_value :: "http_response \<Rightarrow> json" where
  "error_value res =
     (case body_message res of
        Some m \<Rightarrow> if json_truthy (Some m) then m else JStr (res_status_text res)
      | None \<Rightarrow> JStr (res_status_text res))"

text \<open>
  \<open>handleResponse\<close>: \<open>Inr None\<close> is the \<open>undefined\<close> of a 204, \<open>Inr (Some v)\<close>
  a parsed body, \<open>Inl\<close> the rejection; \<open>throw new Error(err || `HTTP ${res.status}`)\<close>
  converts \<open>err\<close> with \<open>String\<close>.
\<close>

definition handle_response :: "http_response \<Rightarrow> rejection + json option" where
  "handle_response res =
     (if res_ok res then
        (if res_status res = 204 then Inr None
         else (case res_body res of Inl e \<Rightarrow> Inl (RejError e) | Inr v \<Rightarrow> Inr (Some v)))
      else
        (let err = error_value res
         in Inl (RejError (if json_truthy (Some err) then json_to_string err
                           else ''HTTP '' @ show_int (res_status res)))))"

text \<open>Every exported function: \<open>await fetch(...)\<close>, whose rejection propagates as it
  is, then \<open>handleResponse\<close>.\<close>

definition api_result :: "rejection + http_response \<Rightarrow> rejection + json option" where
  "api_result fetched = (case fetched of Inl e \<Rightarrow> Inl e | Inr res \<Rightarrow> handle_response res)"

subsection \<open>Requests\<close>

datatype http_method = GET | POST | PUT | DELETE

record http_request =
  req_method :: http_method
  req_url :: string
  req_headers :: "(string \<times> string) list"
  req_body :: "json option"

text \<open>\<open>import.meta.env.VITE_API_BASE_URL ?? ""\<close>\<close>

definition api_base :: "string option \<Rightarrow> string" where
  "api_base env = (case env of None \<Rightarrow> [] | Some b \<Rightarrow> b)"

definition json_headers :: "(string \<times> string) list" where
  "json_headers = [(''Content-Type'', ''application/json''), (''Accept'', ''application/json'')]"

definition accept_headers :: "(string \<times> string) list" where
  "accept_headers = [(''Accept'', ''application/json'')]"

text \<open>\<open>JSON.stringify\<close> of the request objects; an \<open>undefined\<close> field is left out.\<close>

definition create_user_json :: "create_user_request \<Rightarrow> json" where
  "create_user_json dto = JObj [(''username'', JStr (cu_username dto)), (''email'', JStr (cu_email dto))]"

definition update_user_json :: "update_user_request \<Rightarrow> json" where
  "update_user_json dto =
     JObj ((case uu_username dto of None \<Rightarrow> [] | Some u \<Rightarrow> [(''username'', JStr u)]) @
           (case uu_email dto of None \<Rightarrow> [] | Some e \<Rightarrow> [(''email'', JStr e)]))"

definition add_to_cart_json :: "add_to_cart_request \<Rightarrow> json" where
  "add_to_cart_json r = JObj [(''productId'', JNum (add_product_id r)), (''quantity'', JNum (add_quantity r))]"

definition create_user :: "string \<Rightarrow> create_user_request \<Rightarrow> http_request" where
  "create_user base dto = \<lparr>req_method = POST, req_url = base @ ''/api/users'',
     req_headers = json_headers, req_body = Some (create_user_json dto)\<rparr>"

definition get_users :: "string \<Rightarrow> http_request" where
  "get_users base = \<lparr>req_method = GET, req_url = base @ ''/api/users'',
     req_headers = accept_headers, req_body = None\<rparr>"

definition get_user_by_id :: "string \<Rightarrow> int \<Rightarrow> http_request" where
  "get_user_by_id base i = \<lparr>req_method = GET, req_url = base @ ''/api/users/'' @ show_int i,
     req_headers = accept_headers, req_body = None\<rparr>"

definition update_user :: "string \<Rightarrow> int \<Rightarrow> update_user_request \<Rightarrow> http_request" where
  "update_user base i dto = \<lparr>req_method = PUT, req_url = base @ ''/api/users/'' @ show_int i,
     req_headers = json_headers, req_body = Some (update_user_json dto)\<rparr>"

definition delete_user :: "string \<Rightarrow> int \<Rightarrow> http_request" where
  "delete_user base i = \<lparr>req_method = DELETE, req_url = base @ ''/api/users/'' @ show_int i,
     req_headers = [], req_body = None\<rparr>"

definition get_products :: "string \<Rightarrow> http_request" where
  "get_products base = \<lparr>req_method = GET, req_url = base @ ''/api/products'',
     req_headers = accept_headers, req_body = None\<rparr>"

text \<open>The id may be \<open>NaN\<close> (a route parameter that \<open>parseInt\<close> rejects); the URL
  then reads \<open>/api/products/NaN\<close>.\<close>

definition get_product_by_id :: "string \<Rightarrow> int option \<Rightarrow> http_request" where
  "get_product_by_id base i = \<lparr>req_method = GET, req_url = base @ ''/api/products/'' @ show_js_int i,
     req_headers = accept_headers, req_body = None\<rparr>"

definition get_cart :: "string \<Rightarrow> int \<Rightarrow> http_request" where
  "get_cart base u = \<lparr>req_method = GET, req_url = base @ ''/api/cart?userId='' @ show_int u,
     req_headers = accept_headers, req_body = None\<rparr>"

definition add_to_cart :: "string \<Rightarrow> int \<Rightarrow> add_to_cart_request \<Rightarrow> http_request" where
  "add_to_cart base u r = \<lparr>req_method = POST, req_url = base @ ''/api/cart/add?userId='' @ show_int u,
     req_headers = json_headers, req_body = Some (add_to_cart_json r)\<rparr>"

definition remove_from_cart :: "string \<Rightarrow> int \<Rightarrow> int \<Rightarrow> http_request" where
  "remove_from_cart base u p = \<lparr>req_method = DELETE,
     req_url = base @ ''/api/cart/remove/'' @ show_int p @ ''?userId='' @ show_int u,
     req_headers = [], req_body = None\<rparr>"

definition checkout :: "string \<Rightarrow> int \<Rightarrow> http_request" where
  "checkout base u = \<lparr>req_method = POST, req_url = base @ ''/api/cart/checkout?userId='' @ show_int u,
     req_headers = accept_headers, req_body = None\<rparr>"

subsection \<open>Calls as the pages issue them\<close>

text \<open>One constructor per exported function, with its arguments.\<close>

datatype api_call =
    CreateUser create_user_request
  | GetUsers
  | GetUserById int
  | UpdateUser int update_user_request
  | DeleteUser int
  | GetProducts
  | GetProductById "int option"
  | GetCart int
  | AddToCart int add_to_cart_request
  | RemoveFromCart int int
  | Checkout int

fun call_request :: "string \<Rightarrow> api_call \<Rightarrow> http_request" where
  "call_request base (CreateUser dto) = create_user base dto"
| "call_request base GetUsers = get_users base"
| "call_request base (GetUserById i) = get_user_by_id base i"
| "call_request base (UpdateUser i dto) = update_user base i dto"
| "call_request base (DeleteUser i) = delete_user base i"
| "call_request base GetProducts = get_products base"
| "call_request base (GetProductById i) = get_product_by_id base i"
| "call_request base (GetCart u) = get_cart base u"
| "call_request base (AddToCart u r) = add_to_cart base u r"
| "call_request base (RemoveFromCart u p) = remove_from_cart base u p"
| "call_request base (Checkout u) = checkout base u"

text \<open>
  The values the TypeScript signatures promise (\<open>Promise<UserDto>\<close>, ...). The cast
  \<open>res.json() as Promise<T>\<close> checks nothing, so a page receives these values only
  when the backend sends the documented shapes; \<open>reply_fits\<close> is that typing.
\<close>

datatype api_value =
    VUser user_dto
  | VUsers "user_dto list"
  | VProduct product_dto
  | VProducts "product_dto list"
  | VCartItems "cart_item_dto list"
  | VVoid
  | VCheckout checkout_result_dto

fun reply_fits :: "api_call \<Rightarrow> api_value \<Rightarrow> bool" where
  "reply_fits (CreateUser _) (VUser _) = True"
| "reply_fits GetUsers (VUsers _) = True"
| "reply_fits (GetUserById _) (VUser _) = True"
| "reply_fits (UpdateUser _ _) (VUser _) = True"
| "reply_fits (DeleteUser _) VVoid = True"
| "reply_fits GetProducts (VProducts _) = True"
| "reply_fits (GetProductById _) (VProduct _) = True"
| "reply_fits (GetCart _) (VCartItems _) = True"
| "reply_fits (AddToCart _ _) VVoid = True"
| "reply_fits (RemoveFromCart _ _) VVoid = True"
| "reply_fits (Checkout _) (VCheckout _) = True"
| "reply_fits _ _ = False"

text \<open>What a page does besides changing its own state: issue a call, navigate.\<close>

datatype effect = Call api_call | Navigate string

subsection \<open>Lemmas\<close>

lemma json_to_string_nonempty_scalar:
  "json_truthy (Some v) \<Longrightarrow> (\<forall>xs. v \<noteq> JArr xs) \<Longrightarrow> json_to_string v \<noteq> []"
  by (cases v) simp_all

lemma handle_response_ok [simp]:
  "res_ok res \<Longrightarrow> handle_response res =
     (if res_status res = 204 then Inr None
      else (case res_body res of Inl e \<Rightarrow> Inl (RejError e) | Inr v \<Rightarrow> Inr (Some v)))"
  by (simp add: handle_response_def)

lemma res_ok_204 [simp]: "res_status res = 204 \<Longrightarrow> res_ok res"
  by (simp add: res_ok_def)

lemmas request_defs = create_user_def get_users_def get_user_by_id_def update_user_def
  delete_user_def get_products_def get_product_by_id_def get_cart_def add_to_cart_def
  remove_from_cart_def checkout_def json_headers_def accept_headers_def

lemma handle_response_error [simp]:
  "\<not> res_ok res \<Longrightarrow> handle_response res =
     Inl (RejError (if json_truthy (Some (error_value res)) then json_to_string (error_value res)
                    else ''HTTP '' @ show_int (res_status res)))"
  by (simp add: handle_response_def)

lemma error_value_truthy_message:
  "json_truthy (body_message res) \<Longrightarrow> body_message res = Some (error_value res)"
  by (cases "body_message res") (simp_all add: error_value_def)

lemma error_value_falsy_message:
  "\<not> json_truthy (body_message res) \<Longrightarrow> error_value res = JStr (res_status_text res)"
  by (cases "body_message res") (simp_all add: error_value_def)

subsection \<open>The contract of handleResponse\<close>

text \<open>(C1) The void marker: \<open>handleResponse\<close> resolves with \<open>undefined\<close> exactly when
  the status is 204, whatever the body; every other success resolves with a parsed
  value, so a body is never read on a 204.\<close>

theorem handle_response_void_iff_204:
  "handle_response res = Inr None \<longleftrightarrow> res_status res = 204"
  by (cases "res_ok res") (auto split: sum.splits)

text \<open>(C2) The message of an HTTP failure prefers the body's \<open>message\<close> field, then
  \<open>statusText\<close>, then \<open>HTTP {status}\<close>.\<close>

theorem handle_response_error_precedence:
  assumes "\<not> res_ok res"
  shows "(body_message res = Some (JStr m) \<and> m \<noteq> [] \<longrightarrow>
            handle_response res = Inl (RejError m)) \<and>
         (\<not> json_truthy (body_message res) \<and> res_status_text res \<noteq> [] \<longrightarrow>
            handle_response res = Inl (RejError (res_status_text res))) \<and>
         (\<not> json_truthy (body_message res) \<and> res_status_text res = [] \<longrightarrow>
            handle_response res = Inl (RejError (''HTTP '' @ show_int (res_status res))))"
proof -
  have "body_message res = Some (JStr m) \<Longrightarrow> m \<noteq> [] \<Longrightarrow> error_value res = JStr m"
    by (simp add: error_value_def)
  with assms show ?thesis by (auto simp add: error_value_falsy_message)
qed

lemma handle_response_message_nonempty:
  assumes "\<not> res_ok res" and "\<forall>xs. body_message res \<noteq> Some (JArr xs)"
  shows "\<exists>m. handle_response res = Inl (RejError m) \<and> m \<noteq> []"
proof (cases "json_truthy (body_message res)")
  case True
  then have "body_message res = Some (error_value res)"
    by (rule error_value_truthy_message)
  with True assms(2) have "json_truthy (Some (error_value res))"
    and "\<forall>xs. error_value res \<noteq> JArr xs" by auto
  then have "json_to_string (error_value res) \<noteq> []"
    by (rule json_to_string_nonempty_scalar)
  with assms(1) show ?thesis by simp
next
  case False
  with assms(1) show ?thesis by (simp add: error_value_falsy_message)
qed

text \<open>(C3) An HTTP failure always rejects with an \<open>Error\<close>, and its message is
  non-empty unless the body's \<open>message\<close> field is an array.\<close>

theorem handle_response_error_nonempty:
  assumes "\<not> res_ok res" and "\<forall>xs. body_message res \<noteq> Some (JArr xs)"
  shows "\<exists>m. handle_response res = Inl (RejError m) \<and> m \<noteq> []"
  using assms by (rule handle_response_message_nonempty)

text \<open>(C4) A success status whose body does not parse is a failure carrying the parse
  error's message, not a success with no data.\<close>

theorem handle_response_malformed_success:
  assumes "res_ok res" and "res_status res \<noteq> 204" and "res_body res = Inl e"
  shows "handle_response res = Inl (RejError e)"
  using assms by simp

theorem handle_response_error_precedence_witness:
  "handle_response \<lparr>res_status = 404, res_status_text = ''Not Found'',
     res_body = Inr (JObj [(''message'', JStr ''Product not found'')])\<rparr>
     = Inl (RejError ''Product not found'') \<and>
   handle_response \<lparr>res_status = 500, res_status_text = ''Internal Server Error'',
     res_body = Inl ''Unexpected token''\<rparr>
     = Inl (RejError ''Internal Server Error'') \<and>
   handle_response \<lparr>res_status = 502, res_status_text = [], res_body = Inr (JObj [])\<rparr>
     = Inl (RejError ''HTTP 502'')"
proof -
  note p1 = handle_response_error_precedence [of "\<lparr>res_status = 404, res_status_text = ''Not Found'',
     res_body = Inr (JObj [(''message'', JStr ''Product not found'')])\<rparr>" "''Product not found''"]
  note p2 = handle_response_error_precedence [of "\<lparr>res_status = 500,
     res_status_text = ''Internal Server Error'', res_body = Inl ''Unexpected token''\<rparr>" "[]"]
  note p3 = handle_response_error_precedence [of "\<lparr>res_status = 502, res_status_text = [],
     res_body = Inr (JObj [])\<rparr>" "[]"]
  show ?thesis
    using p1 p2 p3
    by (simp add: res_ok_def body_message_def show_eval del: handle_response_error)
qed

theorem handle_response_error_nonempty_witness:
  "\<exists>m. handle_response \<lparr>res_status = 409, res_status_text = [],
     res_body = Inr (JObj [(''message'', JNum 0)])\<rparr> = Inl (RejError m) \<and> m \<noteq> []"
  by (rule handle_response_error_nonempty) (simp_all add: res_ok_def body_message_def)

theorem handle_response_malformed_success_witness:
  "handle_response \<lparr>res_status = 200, res_status_text = ''OK'', res_body = Inl ''Invalid JSON''\<rparr>
     = Inl (RejError ''Invalid JSON'')"
  by (rule handle_response_malformed_success) (simp_all add: res_ok_def)

subsection \<open>What handleResponse does not promise\<close>

text \<open>(C19) An error body whose \<open>message\<close> is an array becomes the message whatever the
  array holds. Arrays are truthy, so neither \<open>statusText\<close> nor \<open>HTTP {status}\<close> is
  used, and the message is \<open>String(array)\<close>, the elements joined by commas: for an
  empty array the page shows an empty error.\<close>

theorem handle_response_array_message:
  assumes "\<not> res_ok res" and "body_message res = Some (JArr xs)"
  shows "handle_response res = Inl (RejError (json_to_string (JArr xs))) \<and>
         (xs = [] \<longrightarrow> handle_response res = Inl (RejError []))"
proof -
  have "error_value res = JArr xs" using assms(2) by (simp add: error_value_def)
  with assms(1) show ?thesis by simp
qed

theorem handle_response_array_message_witness:
  "handle_response \<lparr>res_status = 500, res_status_text = ''Internal Server Error'',
     res_body = Inr (JObj [(''message'', JArr [])])\<rparr> = Inl (RejError (json_to_string (JArr []))) \<and>
   handle_response \<lparr>res_status = 500, res_status_text = ''Internal Server Error'',
     res_body = Inr (JObj [(''message'', JArr [])])\<rparr> = Inl (RejError [])"
  using handle_response_array_message
    [of "\<lparr>res_status = 500, res_status_text = ''Internal Server Error'', res_body = Inr (JObj [(''message'', JArr [])])\<rparr>" "[]"]
  by (simp add: res_ok_def body_message_def)

text \<open>An object-valued \<open>message\<close> is shown as \<open>[object Object]\<close>.\<close>

theorem handle_response_object_message:
  "handle_response \<lparr>res_status = 400, res_status_text = ''Bad Request'',
     res_body = Inr (JObj [(''message'', JObj [(''code'', JNum 7)])])\<rparr>
     = Inl (RejError ''[object Object]'')"
  by (simp add: res_ok_def error_value_def body_message_def)

text \<open>A success body is not checked against the expected type: an object where
  \<open>getCart\<close> promises an array resolves.\<close>

theorem handle_response_unchecked_shape:
  "api_result (Inr \<lparr>res_status = 200, res_status_text = ''OK'', res_body = Inr (JObj [])\<rparr>)
     = Inr (Some (JObj []))"
  by (simp add: api_result_def res_ok_def)

subsection \<open>Request headers\<close>

text \<open>(C5) A request carries \<open>Content-Type: application/json\<close> exactly when it has
  a JSON body.\<close>

theorem request_content_type_iff_body:
  "(''Content-Type'', ''application/json'') \<in> set (req_headers (call_request base c)) \<longleftrightarrow>
   req_body (call_request base c) \<noteq> None"
  by (cases c) (simp_all add: request_defs)

text \<open>(C6) Every request sends \<open>Accept: application/json\<close> except \<open>deleteUser\<close> and
  \<open>removeFromCart\<close>, which send no headers.\<close>

theorem request_accept_header:
  "(''Accept'', ''application/json'') \<in> set (req_headers (call_request base c)) \<longleftrightarrow>
   (\<forall>i. c \<noteq> DeleteUser i) \<and> (\<forall>u p. c \<noteq> RemoveFromCart u p)"
  by (cases c) (simp_all add: request_defs)

end
