(* ===== verification/CartPage.thy ===== *)
theory CartPage
  imports Api
begin

text \<open>
  The cart page, \<open>CartPage\<close> in \<open>src/src/pages/CartPage.tsx\<close> (lines 15--183). Its
  React state (\<open>cartItems\<close>, \<open>loading\<close>, \<open>error\<close>, \<open>checkoutResult\<close>) is one
  record, together with the user id the page read from the context, the calls it
  awaits and the effects it has issued. Each handler is split at its \<open>await\<close>: the
  synchronous part (\<open>load_cart\<close>, \<open>handle_remove\<close>, \<open>handle_checkout\<close>) records
  the call in flight, and the continuation (\<open>*_done\<close>) runs when that call
  resolves. Calls resolve in any order (\<open>Resolve i\<close> picks the \<open>i\<close>-th pending
  one); a click is possible only on a button the current render shows
  (\<open>cart_view\<close>).
\<close>

record cart_page =
  cp_user :: "int option"
  cp_items :: "cart_item_dto list"
  cp_loading :: bool
  cp_error :: "string option"
  cp_result :: "checkout_result_dto option"
  cp_pending :: "api_call list"
  cp_effects :: "effect list"

text \<open>The first render: \<open>useState\<close> initial values.\<close>

definition cart_init :: "int option \<Rightarrow> cart_page" where
  "cart_init u = \<lparr>cp_user = u, cp_items = [], cp_loading = True, cp_error = None,
     cp_result = None, cp_pending = [], cp_effects = []\<rparr>"

definition cart_issue :: "api_call \<Rightarrow> cart_page \<Rightarrow> cart_page" where
  "cart_issue c s = s\<lparr>cp_pending := cp_pending s @ [c], cp_effects := cp_effects s @ [Call c]\<rparr>"

definition cart_navigate :: "string \<Rightarrow> cart_page \<Rightarrow> cart_page" where
  "cart_navigate path s = s\<lparr>cp_effects := cp_effects s @ [Navigate path]\<rparr>"

subsection \<open>Handlers\<close>

text \<open>\<open>loadCart\<close> up to \<open>await getCart(currentUserId)\<close>. It is a closure over
  the \<open>currentUserId\<close> of the render that created it: \<open>load_cart_as u\<close>. The mount
  effect runs the current render's (\<open>load_cart\<close>); \<open>handleRemove\<close> awaits the one of
  the render it was created in, whose user is the user of its removal.\<close>

definition load_cart_as :: "int option \<Rightarrow> cart_page \<Rightarrow> cart_page" where
  "load_cart_as u s =
     (case u of
        None \<Rightarrow> s
      | Some uid \<Rightarrow> if uid = 0 then s
                   else cart_issue (GetCart uid) (s\<lparr>cp_loading := True, cp_error := None\<rparr>))"

definition load_cart :: "cart_page \<Rightarrow> cart_page" where
  "load_cart s = load_cart_as (cp_user s) s"

text \<open>The rest of \<open>loadCart\<close>: the items replace the cart, or the error is shown;
  \<open>finally\<close> ends the loading state.\<close>

definition load_cart_done :: "rejection + cart_item_dto list \<Rightarrow> cart_page \<Rightarrow> cart_page" where
  "load_cart_done r s =
     (case r of
        Inr data \<Rightarrow> s\<lparr>cp_items := data, cp_loading := False\<rparr>
      | Inl e \<Rightarrow> s\<lparr>cp_error := Some (caught_message ''Failed to load cart'' e), cp_loading := False\<rparr>)"

text \<open>The mount effect: an anonymous visitor is sent to registration, anyone else
  loads the cart.\<close>

definition cart_mount :: "cart_page \<Rightarrow> cart_page" where
  "cart_mount s = (if \<not> id_truthy (cp_user s) then cart_navigate ''/register'' s else load_cart s)"

definition handle_remove :: "int \<Rightarrow> cart_page \<Rightarrow> cart_page" where
  "handle_remove pid s =
     (case cp_user s of
        None \<Rightarrow> s
      | Some uid \<Rightarrow> if uid = 0 then s
                   else cart_issue (RemoveFromCart uid pid) (s\<lparr>cp_error := None\<rparr>))"

text \<open>After \<open>removeFromCart\<close>: reload the cart, or show the failure. \<open>loadCart\<close>
  catches its own errors, so only the removal's rejection reaches this catch.\<close>

definition handle_remove_done :: "int \<Rightarrow> rejection + unit \<Rightarrow> cart_page \<Rightarrow> cart_page" where
  "handle_remove_done uid r s =
     (case r of
        Inr _ \<Rightarrow> load_cart_as (Some uid) s
      | Inl e \<Rightarrow> s\<lparr>cp_error := Some (caught_message ''Failed to remove item'' e)\<rparr>)"

definition handle_checkout :: "cart_page \<Rightarrow> cart_page" where
  "handle_checkout s =
     (case cp_user s of
        None \<Rightarrow> s
      | Some uid \<Rightarrow>
          if uid = 0 then s
          else if cp_items s = [] then s\<lparr>cp_error := Some ''Your cart is empty''\<rparr>
          else cart_issue (Checkout uid) (s\<lparr>cp_error := None\<rparr>))"

text \<open>After \<open>checkout\<close>: the result is kept whatever its \<open>success\<close> flag; only a
  successful one clears the cart.\<close>

definition handle_checkout_done :: "rejection + checkout_result_dto \<Rightarrow> cart_page \<Rightarrow> cart_page" where
  "handle_checkout_done r s =
     (case r of
        Inr result \<Rightarrow> s\<lparr>cp_result := Some result,
                           cp_items := (if co_success result then [] else cp_items s)\<rparr>
      | Inl e \<Rightarrow> s\<lparr>cp_error := Some (caught_message ''Checkout failed'' e)\<rparr>)"

definition calculate_total :: "cart_item_dto list \<Rightarrow> int" where
  "calculate_total items = foldl (\<lambda>sum item. sum + item_subtotal item) 0 items"

subsection \<open>Rendering\<close>

text \<open>Which of the page's branches renders: nothing (redirecting), the loading
  indicator, the checkout result, the empty cart or the items with their total; the
  last two show the error banner.\<close>

datatype cart_view =
    CartNull
  | CartLoadingView
  | CartResultView checkout_result_dto
  | CartEmptyView "string option"
  | CartItemsView "string option" "cart_item_dto list" int

definition cart_view :: "cart_page \<Rightarrow> cart_view" where
  "cart_view s =
     (if \<not> id_truthy (cp_user s) then CartNull
      else if cp_loading s then CartLoadingView
      else (case cp_result s of
              Some r \<Rightarrow> CartResultView r
            | None \<Rightarrow> if cp_items s = [] then CartEmptyView (cp_error s)
                      else CartItemsView (cp_error s) (cp_items s) (calculate_total (cp_items s))))"

subsection \<open>Events\<close>

datatype cart_event =
    ClickRemove int
  | ClickCheckout
  | ClickContinue
  | ClickStartShopping
  | Resolve nat "rejection + api_value"

text \<open>Which continuation a resolved call resumes; a value of the wrong type for the
  call is no step.\<close>

fun cart_continue :: "api_call \<Rightarrow> rejection + api_value \<Rightarrow> cart_page \<Rightarrow> cart_page option" where
  "cart_continue (GetCart _) (Inl e) s = Some (load_cart_done (Inl e) s)"
| "cart_continue (GetCart _) (Inr (VCartItems xs)) s = Some (load_cart_done (Inr xs) s)"
| "cart_continue (RemoveFromCart uid _) (Inl e) s = Some (handle_remove_done uid (Inl e) s)"
| "cart_continue (RemoveFromCart uid _) (Inr VVoid) s = Some (handle_remove_done uid (Inr ()) s)"
| "cart_continue (Checkout _) (Inl e) s = Some (handle_checkout_done (Inl e) s)"
| "cart_continue (Checkout _) (Inr (VCheckout res)) s = Some (handle_checkout_done (Inr res) s)"
| "cart_continue _ _ s = None"

definition cart_resolve :: "nat \<Rightarrow> rejection + api_value \<Rightarrow> cart_page \<Rightarrow> cart_page option" where
  "cart_resolve i r s =
     (if i < length (cp_pending s)
      then cart_continue (cp_pending s ! i) r (s\<lparr>cp_pending := drop_at i (cp_pending s)\<rparr>)
      else None)"

text \<open>One step of the page: a click on a rendered button (\<open>CartItem\<close>'s remove button
  passes its item's product id), or the resolution of an awaited call.\<close>

fun cart_step :: "cart_page \<Rightarrow> cart_event \<Rightarrow> cart_page option" where
  "cart_step s (ClickRemove pid) =
     (case cart_view s of
        CartItemsView _ items _ \<Rightarrow>
          if pid \<in> set (map item_product_id items) then Some (handle_remove pid s) else None
      | _ \<Rightarrow> None)"
| "cart_step s ClickCheckout =
     (case cart_view s of CartItemsView _ _ _ \<Rightarrow> Some (handle_checkout s) | _ \<Rightarrow> None)"
| "cart_step s ClickContinue =
     (case cart_view s of CartResultView _ \<Rightarrow> Some (cart_navigate ''/'' s) | _ \<Rightarrow> None)"
| "cart_step s ClickStartShopping =
     (case cart_view s of CartEmptyView _ \<Rightarrow> Some (cart_navigate ''/'' s) | _ \<Rightarrow> None)"
| "cart_step s (Resolve i r) = cart_resolve i r s"

fun cart_run :: "cart_page \<Rightarrow> cart_event list \<Rightarrow> cart_page option" where
  "cart_run s [] = Some s"
| "cart_run s (e # es) = (case cart_step s e of None \<Rightarrow> None | Some s' \<Rightarrow> cart_run s' es)"

inductive cart_reach :: "cart_page \<Rightarrow> bool" where
  mount: "cart_reach (cart_mount (cart_init u))"
| step: "cart_reach s \<Longrightarrow> cart_step s e = Some s' \<Longrightarrow> cart_reach s'"

text \<open>The calls this page awaits: cart calls of its own, non-anonymous user.\<close>

fun cart_call :: "int option \<Rightarrow> api_call \<Rightarrow> bool" where
  "cart_call (Some uid) (GetCart u) = (u = uid \<and> uid \<noteq> 0)"
| "cart_call (Some uid) (RemoveFromCart u _) = (u = uid \<and> uid \<noteq> 0)"
| "cart_call (Some uid) (Checkout u) = (u = uid \<and> uid \<noteq> 0)"
| "cart_call _ _ = False"

definition cart_inv :: "cart_page \<Rightarrow> bool" where
  "cart_inv s \<longleftrightarrow>
     (cp_loading s \<and> id_truthy (cp_user s) \<longrightarrow> (\<exists>u. GetCart u \<in> set (cp_pending s))) \<and>
     list_all (cart_call (cp_user s)) (cp_pending s)"

subsection \<open>Example states\<close>

text \<open>Concrete states for the witnesses: user 7 with one line item, loaded, and the
  same page with a checkout in flight.\<close>

definition example_item :: cart_item_dto where
  "example_item = \<lparr>item_id = 1, item_product_id = 10, item_product_name = ''Test Product'',
     item_price = 4999, item_quantity = 2, item_subtotal = 9998\<rparr>"

definition cart_example_loaded :: cart_page where
  "cart_example_loaded = \<lparr>cp_user = Some 7, cp_items = [example_item], cp_loading = False,
     cp_error = None, cp_result = None, cp_pending = [], cp_effects = [Call (GetCart 7)]\<rparr>"

definition cart_example_checkout :: cart_page where
  "cart_example_checkout = cart_example_loaded\<lparr>cp_pending := [Checkout 7],
     cp_effects := [Call (GetCart 7), Call (Checkout 7)]\<rparr>"

definition example_failed_result :: checkout_result_dto where
  "example_failed_result = \<lparr>co_success = False, co_message = ''Some items out of stock'',
     co_total_amount = None, co_purchased_items = None\<rparr>"

definition example_paid_result :: checkout_result_dto where
  "example_paid_result = \<lparr>co_success = True, co_message = ''Order placed'',
     co_total_amount = Some 9998, co_purchased_items = Some [example_item]\<rparr>"

lemmas cart_examples = cart_example_loaded_def cart_example_checkout_def example_item_def
  example_failed_result_def example_paid_result_def

subsection \<open>Lemmas\<close>

lemmas cart_handler_defs [page_simps] = load_cart_def load_cart_as_def load_cart_done_def cart_mount_def
  handle_remove_def handle_remove_done_def handle_checkout_def handle_checkout_done_def
  cart_issue_def cart_navigate_def

lemma cart_user_handlers [simp]:
  "cp_user (load_cart s) = cp_user s" "cp_user (load_cart_done r s) = cp_user s"
  "cp_user (handle_remove p s) = cp_user s" "cp_user (handle_remove_done u q s) = cp_user s"
  "cp_user (handle_checkout s) = cp_user s" "cp_user (handle_checkout_done c s) = cp_user s"
  "cp_user (cart_navigate path s) = cp_user s" "cp_user (cart_mount s) = cp_user s"
  by (simp_all add: page_simps split: option.splits sum.splits)

lemma cart_continue_user:
  "cart_continue c r s = Some s' \<Longrightarrow> cp_user s' = cp_user s"
  by (induction c r s rule: cart_continue.induct) auto

lemma cart_step_user:
  assumes "cart_step s e = Some s'"
  shows "cp_user s' = cp_user s"
proof (cases e)
  case (Resolve i r)
  with assms show ?thesis
    by (auto simp add: cart_resolve_def dest: cart_continue_user split: if_splits)
qed (use assms in \<open>auto split: cart_view.splits if_splits\<close>)

lemma cart_view_anonymous [simp]: "\<not> id_truthy (cp_user s) \<Longrightarrow> cart_view s = CartNull"
  by (simp add: cart_view_def)

lemma cart_step_anonymous:
  assumes "\<not> id_truthy (cp_user s)" and "cp_pending s = []"
  shows "cart_step s e = None"
  using assms by (cases e) (simp_all add: cart_resolve_def)

lemma cart_anonymous_run:
  assumes "cart_reach s" and "\<not> id_truthy (cp_user s)"
  shows "s = cart_navigate ''/register'' (cart_init (cp_user s))"
  using assms
proof (induction rule: cart_reach.induct)
  case (mount u)
  then show ?case by (auto simp add: cart_mount_def cart_init_def split: if_splits)
next
  case (step s e s')
  then have user: "cp_user s' = cp_user s" by (simp add: cart_step_user)
  with step have "s = cart_navigate ''/register'' (cart_init (cp_user s))" by simp
  then have "cp_pending s = cp_pending (cart_navigate ''/register'' (cart_init (cp_user s)))"
    by (rule arg_cong)
  then have "cp_pending s = []" by (simp add: cart_navigate_def cart_init_def)
  with step user have "cart_step s e = None" by (simp add: cart_step_anonymous)
  with step show ?case by simp
qed

lemma cart_call_cases:
  assumes "cart_call u c"
  obtains uid where "u = Some uid" "uid \<noteq> 0" "c = GetCart uid"
    | uid p where "u = Some uid" "uid \<noteq> 0" "c = RemoveFromCart uid p"
    | uid where "u = Some uid" "uid \<noteq> 0" "c = Checkout uid"
  using assms by (cases "(u, c)" rule: cart_call.cases) auto

lemma cart_inv_mount: "cart_inv (cart_mount (cart_init u))"
  by (simp add: cart_inv_def cart_init_def page_simps split: option.splits)

lemma cart_inv_load_cart: "cart_inv s \<Longrightarrow> cart_inv (load_cart s)"
  by (auto simp add: cart_inv_def page_simps split: option.splits)

lemma cart_inv_continue:
  assumes inv: "cart_inv s" and i: "i < length (cp_pending s)"
    and cont: "cart_continue (cp_pending s ! i) r (s\<lparr>cp_pending := drop_at i (cp_pending s)\<rparr>) = Some s'"
  shows "cart_inv s'"
proof -
  let ?s0 = "s\<lparr>cp_pending := drop_at i (cp_pending s)\<rparr>"
  have calls: "list_all (cart_call (cp_user s)) (cp_pending s)" using inv by (simp add: cart_inv_def)
  then have c: "cart_call (cp_user s) (cp_pending s ! i)" using i by (simp add: list_all_length)
  have calls0: "list_all (cart_call (cp_user ?s0)) (cp_pending ?s0)"
    using calls by (simp add: list_all_drop_at)
  have load0: "cp_loading ?s0 \<and> id_truthy (cp_user ?s0) \<Longrightarrow> (\<nexists>u. cp_pending s ! i = GetCart u)
      \<Longrightarrow> \<exists>u. GetCart u \<in> set (cp_pending ?s0)"
    using inv i by (auto simp add: cart_inv_def intro: in_set_drop_at_other)
  from c show ?thesis
  proof (cases rule: cart_call_cases)
    case (1 uid)
    with cont calls0 show ?thesis
      by (cases r rule: sum.exhaust; cases "projr r")
         (auto simp add: cart_inv_def page_simps)
  next
    case (2 uid p)
    with cont calls0 load0 show ?thesis
      by (cases r rule: sum.exhaust; cases "projr r")
         (auto simp add: cart_inv_def page_simps)
  next
    case (3 uid)
    with cont calls0 load0 show ?thesis
      by (cases r rule: sum.exhaust; cases "projr r")
         (auto simp add: cart_inv_def page_simps)
  qed
qed

lemma cart_inv_step:
  assumes inv: "cart_inv s" and st: "cart_step s e = Some s'"
  shows "cart_inv s'"
proof (cases e)
  case (ClickRemove pid)
  with inv st show ?thesis
    by (auto simp add: cart_inv_def cart_view_def page_simps split: option.splits if_splits)
next
  case ClickCheckout
  with inv st show ?thesis
    by (auto simp add: cart_inv_def cart_view_def page_simps split: option.splits if_splits)
next
  case ClickContinue
  with inv st show ?thesis
    by (auto simp add: cart_inv_def page_simps split: cart_view.splits)
next
  case ClickStartShopping
  with inv st show ?thesis
    by (auto simp add: cart_inv_def page_simps split: cart_view.splits)
next
  case (Resolve i r)
  with st have "i < length (cp_pending s)"
    and "cart_continue (cp_pending s ! i) r (s\<lparr>cp_pending := drop_at i (cp_pending s)\<rparr>) = Some s'"
    by (simp_all add: cart_resolve_def split: if_splits)
  with inv show ?thesis by (rule cart_inv_continue)
qed

lemma cart_reach_inv: "cart_reach s \<Longrightarrow> cart_inv s"
proof (induction rule: cart_reach.induct)
  case (mount u)
  show ?case by (rule cart_inv_mount)
next
  case (step s e s')
  then show ?case by (blast intro: cart_inv_step)
qed

lemma cart_view_items_enabled:
  "cart_view s = CartItemsView err items t \<Longrightarrow>
     \<exists>uid. cp_user s = Some uid \<and> uid \<noteq> 0 \<and> \<not> cp_loading s \<and> cp_result s = None \<and>
       cp_items s = items \<and> items \<noteq> [] \<and> cp_error s = err"
  by (cases "cp_user s") (auto simp add: cart_view_def split: if_splits option.splits)

lemma cart_step_checkout_click:
  assumes "cart_view s = CartItemsView err items t"
  shows "\<exists>uid. cp_user s = Some uid \<and>
           cart_step s ClickCheckout = Some (cart_issue (Checkout uid) (s\<lparr>cp_error := None\<rparr>))"
  using cart_view_items_enabled [OF assms] assms by (auto simp add: handle_checkout_def)

lemma cart_resolve_rejection:
  assumes "cart_step s (Resolve i (Inl e)) = Some s'"
  shows "\<exists>fallback. cp_error s' = Some (caught_message fallback e)"
proof -
  from assms have "cart_continue (cp_pending s ! i) (Inl e) (s\<lparr>cp_pending := drop_at i (cp_pending s)\<rparr>) = Some s'"
    by (simp add: cart_resolve_def split: if_splits)
  then show ?thesis
    by (cases "cp_pending s ! i") (auto simp add: page_simps)
qed

subsection \<open>Properties\<close>

text \<open>(C10) An anonymous visitor of the cart route is redirected to registration and
  nothing else ever happens on the page: no call is issued, none is awaited.\<close>

theorem cart_anonymous_redirect:
  assumes "cart_reach s" and "\<not> id_truthy (cp_user s)"
  shows "cp_effects s = [Navigate ''/register''] \<and> cp_pending s = []"
proof -
  have "s = cart_navigate ''/register'' (cart_init (cp_user s))"
    using assms by (rule cart_anonymous_run)
  then have "cp_effects s = cp_effects (cart_navigate ''/register'' (cart_init (cp_user s)))"
    and "cp_pending s = cp_pending (cart_navigate ''/register'' (cart_init (cp_user s)))"
    by (rule arg_cong)+
  then show ?thesis by (simp add: cart_navigate_def cart_init_def)
qed

theorem cart_anonymous_redirect_witness:
  "cp_effects (cart_mount (cart_init None)) = [Navigate ''/register''] \<and>
   cp_pending (cart_mount (cart_init None)) = []"
  by (rule cart_anonymous_redirect) (rule cart_reach.mount, simp add: cart_init_def)

text \<open>(C11) Whenever the page shows its loading indicator, a \<open>getCart\<close> call is in
  flight, so the indicator does not stay forever once the network answers.\<close>

theorem cart_loading_has_fetch:
  assumes "cart_reach s" and "cart_view s = CartLoadingView"
  shows "\<exists>u. GetCart u \<in> set (cp_pending s)"
proof -
  have "cart_inv s" using assms(1) by (rule cart_reach_inv)
  moreover have "cp_loading s \<and> id_truthy (cp_user s)"
    using assms(2) by (auto simp add: cart_view_def split: if_splits option.splits)
  ultimately show ?thesis by (simp add: cart_inv_def)
qed

theorem cart_loading_has_fetch_witness:
  "\<exists>u. GetCart u \<in> set (cp_pending (cart_mount (cart_init (Some 7))))"
  by (rule cart_loading_has_fetch)
     (rule cart_reach.mount, simp add: cart_view_def cart_init_def page_simps)

text \<open>(C12) A checkout that resolves with \<open>success = false\<close> is no exception: the
  result is kept and shown, the cart is not cleared, and no error is raised.\<close>

theorem cart_checkout_business_failure:
  assumes "i < length (cp_pending s)" and "cp_pending s ! i = Checkout uid"
    and "\<not> co_success r"
  shows "\<exists>s'. cart_step s (Resolve i (Inr (VCheckout r))) = Some s' \<and>
           cp_items s' = cp_items s \<and> cp_result s' = Some r \<and> cp_error s' = cp_error s \<and>
           (\<not> cp_loading s \<and> id_truthy (cp_user s) \<longrightarrow> cart_view s' = CartResultView r)"
  using assms by (simp add: cart_resolve_def handle_checkout_done_def cart_view_def)

text \<open>(C13) A successful checkout clears the live cart and replaces the cart view by
  the result.\<close>

theorem cart_checkout_success_clears:
  assumes "i < length (cp_pending s)" and "cp_pending s ! i = Checkout uid"
    and "co_success r"
  shows "\<exists>s'. cart_step s (Resolve i (Inr (VCheckout r))) = Some s' \<and>
           cp_items s' = [] \<and> cp_result s' = Some r \<and>
           (\<not> cp_loading s \<and> id_truthy (cp_user s) \<longrightarrow> cart_view s' = CartResultView r)"
  using assms by (simp add: cart_resolve_def handle_checkout_done_def cart_view_def)

text \<open>(C14) A rejected call ends as the page's error text: the rejection's own message
  when it is an \<open>Error\<close>, else the fallback of the call site that awaited it, namely
  \<open>loadCart\<close> for \<open>getCart\<close>, \<open>handleRemove\<close> for \<open>removeFromCart\<close> and
  \<open>handleCheckout\<close> for \<open>checkout\<close>.\<close>

theorem cart_error_shows_message:
  assumes "cart_step s (Resolve i (Inl e)) = Some s'"
  shows "i < length (cp_pending s) \<and>
         cp_error s' = Some (caught_message
           (case cp_pending s ! i of
              GetCart _ \<Rightarrow> ''Failed to load cart''
            | RemoveFromCart _ _ \<Rightarrow> ''Failed to remove item''
            | _ \<Rightarrow> ''Checkout failed'') e)"
proof -
  from assms have i: "i < length (cp_pending s)"
    and cont: "cart_continue (cp_pending s ! i) (Inl e) (s\<lparr>cp_pending := drop_at i (cp_pending s)\<rparr>) = Some s'"
    by (simp_all add: cart_resolve_def split: if_splits)
  from cont i show ?thesis
    by (cases "cp_pending s ! i") (auto simp add: page_simps)
qed

text \<open>(C15) Every remove or checkout click clears the previous error before it awaits
  its own call, and issues exactly one call.\<close>

theorem cart_action_clears_error:
  assumes "cart_step s e = Some s'" and "e = ClickCheckout \<or> (\<exists>p. e = ClickRemove p)"
  shows "cp_error s' = None \<and> (\<exists>c. cp_pending s' = cp_pending s @ [c] \<and> cp_effects s' = cp_effects s @ [Call c])"
  using assms
  by (auto simp add: cart_view_def page_simps split: if_splits option.splits)

text \<open>Two checkouts that fail one after the other leave the second failure's
  message and no trace of the first; the cart and its view stay as they were.\<close>

theorem cart_two_failed_checkouts:
  assumes "cart_view s = CartItemsView err items t"
  shows "\<exists>s'. cart_run s [ClickCheckout, Resolve (length (cp_pending s)) (Inl (RejError m1)),
                          ClickCheckout, Resolve (length (cp_pending s)) (Inl (RejError m2))] = Some s' \<and>
              cp_error s' = Some m2 \<and> cp_items s' = items \<and> cp_pending s' = cp_pending s \<and>
              cart_view s' = CartItemsView (Some m2) items t"
proof -
  obtain uid where u: "cp_user s = Some uid" "uid \<noteq> 0" and l: "\<not> cp_loading s"
    and r: "cp_result s = None" and it: "cp_items s = items" "items \<noteq> []"
    using cart_view_items_enabled [OF assms] by blast
  have t: "t = calculate_total items"
    using assms u l r it by (simp add: cart_view_def)
  show ?thesis
    using u l r it t
    by (simp add: cart_view_def handle_checkout_def cart_issue_def cart_resolve_def drop_at_def
                  handle_checkout_done_def nth_append)
qed

text \<open>(C17) The checkout result is terminal: once it exists it is never dropped, and the
  only click the page still offers is "Continue Shopping".\<close>

theorem cart_result_terminal:
  assumes "cp_result s \<noteq> None" and "cart_step s e = Some s'"
  shows "cp_result s' \<noteq> None \<and> (e = ClickContinue \<or> (\<exists>i r. e = Resolve i r))"
proof (cases e)
  case (Resolve i r)
  with assms have "cart_continue (cp_pending s ! i) r (s\<lparr>cp_pending := drop_at i (cp_pending s)\<rparr>) = Some s'"
    by (simp add: cart_resolve_def split: if_splits)
  with assms(1) Resolve show ?thesis
    by (cases "(cp_pending s ! i, r, s\<lparr>cp_pending := drop_at i (cp_pending s)\<rparr>)" rule: cart_continue.cases)
       (auto simp add: page_simps split: option.splits)
qed (use assms in \<open>auto simp add: cart_view_def page_simps split: if_splits option.splits\<close>)

subsection \<open>Witnesses\<close>

theorem cart_checkout_business_failure_witness:
  "\<exists>s'. cart_step cart_example_checkout (Resolve 0 (Inr (VCheckout example_failed_result))) = Some s' \<and>
     cp_items s' = [example_item] \<and> cp_result s' = Some example_failed_result \<and> cp_error s' = None \<and>
     cart_view s' = CartResultView example_failed_result"
  using cart_checkout_business_failure [of 0 cart_example_checkout 7 example_failed_result]
  by (simp add: cart_examples)

theorem cart_checkout_success_clears_witness:
  "\<exists>s'. cart_step cart_example_checkout (Resolve 0 (Inr (VCheckout example_paid_result))) = Some s' \<and>
     cp_items s' = [] \<and> cp_result s' = Some example_paid_result \<and>
     cart_view s' = CartResultView example_paid_result"
  using cart_checkout_success_clears [of 0 cart_example_checkout 7 example_paid_result]
  by (simp add: cart_examples)

theorem cart_error_shows_message_witness:
  "cp_error (the (cart_step cart_example_checkout (Resolve 0 (Inl RejOther)))) = Some ''Checkout failed''"
proof -
  have st: "cart_step cart_example_checkout (Resolve 0 (Inl RejOther)) =
      Some (handle_checkout_done (Inl RejOther) (cart_example_checkout\<lparr>cp_pending := []\<rparr>))"
    by (simp add: cart_examples cart_resolve_def drop_at_def)
  from cart_error_shows_message [OF st] show ?thesis
    unfolding st option.sel by (simp add: cart_examples caught_message_def)
qed

theorem cart_action_clears_error_witness:
  "cp_error (the (cart_step (cart_example_loaded\<lparr>cp_error := Some ''Payment failed''\<rparr>) ClickCheckout)) = None"
proof -
  have st: "cart_step (cart_example_loaded\<lparr>cp_error := Some ''Payment failed''\<rparr>) ClickCheckout =
      Some (handle_checkout (cart_example_loaded\<lparr>cp_error := Some ''Payment failed''\<rparr>))"
    by (simp add: cart_examples cart_view_def)
  from cart_action_clears_error [OF st] show ?thesis
    unfolding st option.sel by simp
qed

theorem cart_two_failed_checkouts_witness:
  "\<exists>s'. cart_run cart_example_loaded [ClickCheckout, Resolve 0 (Inl (RejError ''Payment failed'')),
       ClickCheckout, Resolve 0 (Inl (RejError ''Card declined''))] = Some s' \<and>
     cp_error s' = Some ''Card declined'' \<and> cp_items s' = [example_item] \<and> cp_pending s' = [] \<and>
     cart_view s' = CartItemsView (Some ''Card declined'') [example_item] 9998"
proof -
  have v: "cart_view cart_example_loaded = CartItemsView None [example_item] 9998"
    by (simp add: cart_examples cart_view_def calculate_total_def)
  from cart_two_failed_checkouts [OF v, of "''Payment failed''" "''Card declined''"] show ?thesis
    by (simp add: cart_examples)
qed

theorem cart_result_terminal_witness:
  "cp_result (the (cart_step (cart_example_loaded\<lparr>cp_result := Some example_failed_result\<rparr>) ClickContinue)) \<noteq> None"
proof -
  have st: "cart_step (cart_example_loaded\<lparr>cp_result := Some example_failed_result\<rparr>) ClickContinue =
      Some (cart_navigate ''/'' (cart_example_loaded\<lparr>cp_result := Some example_failed_result\<rparr>))"
    by (simp add: cart_examples cart_view_def)
  have "cp_result (cart_example_loaded\<lparr>cp_result := Some example_failed_result\<rparr>) \<noteq> None" by simp
  from cart_result_terminal [OF this st] show ?thesis
    unfolding st option.sel by simp
qed

end
