(* ===== verification/CartSpec.thy ===== *)
theory CartSpec
  imports CartPage
begin

text \<open>
  The cart page against the state machine of the specification (section 4.2):
  \<open>Anonymous\<close>, \<open>Loading\<close>, \<open>Loaded-Empty\<close>, \<open>Loaded-Populated\<close> and the
  \<open>Checkout-Result\<close>. \<open>cart_abs\<close> reads the state the page renders off
  \<open>cart_view\<close>. The action banner is the specification's side channel and is not
  part of it. A loading indicator shown after a checkout result exists is told apart,
  since the result comes back when it ends.

  \<open>cart_spec_move\<close> is the machine the page implements, with labelled transitions:
  the four clicks and the settling of each kind of call, with its outcome.
  \<open>cart_label\<close> names the transition a step of the page takes. Each click is
  allowed only from the state whose rendering shows its button, and it leaves the
  state alone. A fetched list decides between empty and populated. A removal's
  success reloads. A checkout's result replaces a settled cart, but while a reload
  is in flight it waits behind the loading indicator. A failed call changes only the
  banner. The anonymous state has no transition. The machine is looser than the text
  of the specification in two places, both reached by the code. A result also
  replaces an empty cart (a checkout resolving after a removal's reload). A result
  is followed by the loading indicator (a removal resolving after the checkout
  reloads the cart).
\<close>

datatype cart_abs =
    AAnonymous
  | ALoading bool
  | AEmpty
  | APopulated "cart_item_dto list"
  | AResult bool

definition cart_abs :: "cart_page \<Rightarrow> cart_abs" where
  "cart_abs s =
     (case cart_view s of
        CartNull \<Rightarrow> AAnonymous
      | CartLoadingView \<Rightarrow> ALoading (cp_result s \<noteq> None)
      | CartResultView r \<Rightarrow> AResult (co_success r)
      | CartEmptyView _ \<Rightarrow> AEmpty
      | CartItemsView _ items _ \<Rightarrow> APopulated items)"

text \<open>The states after a checkout result.\<close>

fun checked_out :: "cart_abs \<Rightarrow> bool" where
  "checked_out (AResult _) = True"
| "checked_out (ALoading b) = b"
| "checked_out _ = False"

text \<open>The states a click or a reply can leave as they are: the settled renderings.\<close>

fun settled :: "cart_abs \<Rightarrow> bool" where
  "settled AEmpty = True"
| "settled (APopulated _) = True"
| "settled (AResult _) = True"
| "settled _ = False"

definition loaded_abs :: "cart_item_dto list \<Rightarrow> cart_abs" where
  "loaded_abs xs = (if xs = [] then AEmpty else APopulated xs)"

datatype cart_spec_label =
    LClickRemove
  | LClickCheckout
  | LClickContinue
  | LClickStart
  | LLoaded "cart_item_dto list"
  | LLoadFailed
  | LRemoved
  | LRemoveFailed
  | LCheckedOut checkout_result_dto
  | LCheckoutFailed
  | LIgnored

text \<open>The transition a reply takes: the call it settles and its outcome. A value of
  the wrong type for the call is \<open>LIgnored\<close>, which the page never takes.\<close>

fun reply_label :: "api_call \<Rightarrow> rejection + api_value \<Rightarrow> cart_spec_label" where
  "reply_label (GetCart _) (Inl _) = LLoadFailed"
| "reply_label (GetCart _) (Inr (VCartItems xs)) = LLoaded xs"
| "reply_label (RemoveFromCart _ _) (Inl _) = LRemoveFailed"
| "reply_label (RemoveFromCart _ _) (Inr VVoid) = LRemoved"
| "reply_label (Checkout _) (Inl _) = LCheckoutFailed"
| "reply_label (Checkout _) (Inr (VCheckout r)) = LCheckedOut r"
| "reply_label _ _ = LIgnored"

fun cart_label :: "cart_page \<Rightarrow> cart_event \<Rightarrow> cart_spec_label" where
  "cart_label s (ClickRemove _) = LClickRemove"
| "cart_label s ClickCheckout = LClickCheckout"
| "cart_label s ClickContinue = LClickContinue"
| "cart_label s ClickStartShopping = LClickStart"
| "cart_label s (Resolve i r) = reply_label (cp_pending s ! i) r"

inductive cart_spec_move :: "cart_abs \<Rightarrow> cart_spec_label \<Rightarrow> cart_abs \<Rightarrow> bool" where
  remove: "cart_spec_move (APopulated xs) LClickRemove (APopulated xs)"
| checkout: "cart_spec_move (APopulated xs) LClickCheckout (APopulated xs)"
| continue: "cart_spec_move (AResult b) LClickContinue (AResult b)"
| start: "cart_spec_move AEmpty LClickStart AEmpty"
| loaded: "a \<noteq> AAnonymous \<Longrightarrow> \<not> checked_out a \<Longrightarrow> cart_spec_move a (LLoaded xs) (loaded_abs xs)"
| loaded_result: "cart_spec_move (ALoading True) (LLoaded xs) (AResult b)"
| loaded_after_result: "cart_spec_move (AResult b) (LLoaded xs) (AResult b)"
| load_failed: "cart_spec_move (ALoading False) LLoadFailed (loaded_abs ys)"
| load_failed_result: "cart_spec_move (ALoading True) LLoadFailed (AResult b)"
| load_failed_settled: "settled a \<Longrightarrow> cart_spec_move a LLoadFailed a"
| removed: "a \<noteq> AAnonymous \<Longrightarrow> cart_spec_move a LRemoved (ALoading (checked_out a))"
| remove_failed: "a \<noteq> AAnonymous \<Longrightarrow> cart_spec_move a LRemoveFailed a"
| checked_out_loading: "cart_spec_move (ALoading b) (LCheckedOut r) (ALoading True)"
| checked_out_settled: "settled a \<Longrightarrow> cart_spec_move a (LCheckedOut r) (AResult (co_success r))"
| checkout_failed: "a \<noteq> AAnonymous \<Longrightarrow> cart_spec_move a LCheckoutFailed a"

section \<open>Lemmas\<close>

lemma cart_continue_result:
  "cart_continue c r s = Some s' \<Longrightarrow> cp_result s \<noteq> None \<Longrightarrow> cp_result s' \<noteq> None"
  by (induction c r s rule: cart_continue.induct) (auto simp add: page_simps split: option.splits)

lemma cart_step_result:
  assumes "cart_step s e = Some s'" and "cp_result s \<noteq> None"
  shows "cp_result s' \<noteq> None"
proof (cases e)
  case (Resolve i r)
  with assms show ?thesis
    by (auto simp add: cart_resolve_def dest: cart_continue_result split: if_splits)
qed (use assms in \<open>auto simp add: page_simps split: cart_view.splits if_splits option.splits\<close>)

lemma cart_abs_anonymous: "cart_abs s = AAnonymous \<longleftrightarrow> \<not> id_truthy (cp_user s)"
  by (simp add: cart_abs_def cart_view_def split: option.splits)

lemma cart_abs_checked_out: "checked_out (cart_abs s) \<longleftrightarrow> id_truthy (cp_user s) \<and> cp_result s \<noteq> None"
  by (auto simp add: cart_abs_def cart_view_def split: option.splits)

lemma cart_abs_mount:
  "cart_abs (cart_mount (cart_init u)) = (if id_truthy u then ALoading False else AAnonymous)"
  by (simp add: cart_abs_def cart_view_def cart_init_def page_simps split: option.splits)

lemma cart_abs_updates [simp]:
  "cart_abs (s\<lparr>cp_error := x\<rparr>) = cart_abs s" "cart_abs (s\<lparr>cp_pending := p\<rparr>) = cart_abs s"
  "cart_abs (s\<lparr>cp_effects := f\<rparr>) = cart_abs s"
  "cart_abs (cart_issue c s) = cart_abs s" "cart_abs (cart_navigate path s) = cart_abs s"
  by (simp_all add: cart_abs_def cart_view_def cart_issue_def cart_navigate_def split: option.splits)

lemma loaded_abs_simps [simp]:
  "settled (loaded_abs xs)" "loaded_abs xs \<noteq> AAnonymous" "\<not> checked_out (loaded_abs xs)"
  by (simp_all add: loaded_abs_def)

lemma cart_abs_user:
  assumes "id_truthy (cp_user s)"
  shows "cart_abs s = (if cp_loading s then ALoading (cp_result s \<noteq> None)
           else case cp_result s of Some r \<Rightarrow> AResult (co_success r) | None \<Rightarrow> loaded_abs (cp_items s))"
  using assms by (simp add: cart_abs_def cart_view_def loaded_abs_def split: option.splits)

lemma cart_reach_identified:
  assumes "cart_reach s" and "cart_step s e = Some s'"
  shows "id_truthy (cp_user s)"
proof (rule ccontr)
  assume n: "\<not> id_truthy (cp_user s)"
  have "cart_inv s" using assms(1) by (rule cart_reach_inv)
  then have "list_all (cart_call (cp_user s)) (cp_pending s)" by (simp add: cart_inv_def)
  moreover have "\<not> cart_call (cp_user s) c" for c
    using n by (cases "cp_user s"; cases c) (simp_all add: id_truthy_def)
  ultimately have "cp_pending s = []" by (cases "cp_pending s") simp_all
  with n have "cart_step s e = None" by (rule cart_step_anonymous)
  with assms(2) show False by simp
qed

lemma cart_resolve_get_cart:
  assumes "i < length (cp_pending s)" and "cp_pending s ! i = GetCart u"
  shows "cart_step s (Resolve i (Inl e)) = Some (load_cart_done (Inl e) (s\<lparr>cp_pending := drop_at i (cp_pending s)\<rparr>))"
    and "cart_step s (Resolve i (Inr (VCartItems xs))) =
           Some (load_cart_done (Inr xs) (s\<lparr>cp_pending := drop_at i (cp_pending s)\<rparr>))"
  using assms by (simp_all add: cart_resolve_def)

lemmas cart_spec_eval = cart_init_def cart_resolve_def drop_at_def page_simps cart_abs_def
  cart_view_def example_item_def example_paid_result_def

text \<open>The settling of each kind of call, on a page with its pending list already
  shortened, follows the transition its label names.\<close>

lemma cart_move_get_cart:
  assumes "id_truthy (cp_user s)" and "cart_continue (GetCart u) r s = Some s'"
  shows "cart_spec_move (cart_abs s) (reply_label (GetCart u) r) (cart_abs s')"
proof (cases r)
  case (Inl e)
  with assms have s': "s' = s\<lparr>cp_error := Some (caught_message ''Failed to load cart'' e), cp_loading := False\<rparr>"
    by (simp add: load_cart_done_def)
  show ?thesis using assms(1) unfolding s' Inl
    by (cases "cp_loading s"; cases "cp_result s")
       (simp_all add: cart_abs_user cart_spec_move.load_failed
         cart_spec_move.load_failed_result cart_spec_move.load_failed_settled)
next
  case (Inr v)
  with assms obtain xs where v: "v = VCartItems xs" by (cases v) simp_all
  with Inr assms have s': "s' = s\<lparr>cp_items := xs, cp_loading := False\<rparr>"
    by (simp add: load_cart_done_def)
  show ?thesis using assms(1) unfolding s' Inr v
    by (cases "cp_loading s"; cases "cp_result s")
       (simp_all add: cart_abs_user cart_spec_move.loaded
         cart_spec_move.loaded_result cart_spec_move.loaded_after_result)
qed

lemma cart_move_remove:
  assumes "id_truthy (cp_user s)" and "uid \<noteq> 0" and "cart_continue (RemoveFromCart uid p) r s = Some s'"
  shows "cart_spec_move (cart_abs s) (reply_label (RemoveFromCart uid p) r) (cart_abs s')"
proof (cases r)
  case (Inl e)
  with assms have "s' = s\<lparr>cp_error := Some (caught_message ''Failed to remove item'' e)\<rparr>"
    by (simp add: handle_remove_done_def)
  with Inl assms(1) show ?thesis by (simp add: cart_abs_anonymous cart_spec_move.remove_failed)
next
  case (Inr v)
  with assms have v: "v = VVoid" by (cases v) simp_all
  with Inr assms have s': "s' = cart_issue (GetCart uid) (s\<lparr>cp_loading := True, cp_error := None\<rparr>)"
    by (simp add: handle_remove_done_def load_cart_as_def)
  have co: "checked_out (cart_abs s) \<longleftrightarrow> cp_result s \<noteq> None"
    using assms(1) by (simp add: cart_abs_checked_out)
  have "cart_abs s' = ALoading (cp_result s \<noteq> None)"
    using assms(1) unfolding s' by (simp add: cart_abs_user)
  moreover have "cart_abs s \<noteq> AAnonymous" using assms(1) by (simp add: cart_abs_anonymous)
  ultimately show ?thesis using Inr v co cart_spec_move.removed [of "cart_abs s"] by simp
qed

lemma cart_move_checkout:
  assumes "id_truthy (cp_user s)" and "cart_continue (Checkout u) r s = Some s'"
  shows "cart_spec_move (cart_abs s) (reply_label (Checkout u) r) (cart_abs s')"
proof (cases r)
  case (Inl e)
  with assms have "s' = s\<lparr>cp_error := Some (caught_message ''Checkout failed'' e)\<rparr>"
    by (simp add: handle_checkout_done_def)
  with Inl assms(1) show ?thesis by (simp add: cart_abs_anonymous cart_spec_move.checkout_failed)
next
  case (Inr v)
  with assms obtain res where v: "v = VCheckout res" by (cases v) simp_all
  with Inr assms have s': "s' = s\<lparr>cp_result := Some res, cp_items := (if co_success res then [] else cp_items s)\<rparr>"
    by (simp add: handle_checkout_done_def)
  show ?thesis using assms(1) unfolding s' Inr v
    by (cases "cp_loading s"; cases "cp_result s")
       (simp_all add: cart_abs_user cart_spec_move.checked_out_loading cart_spec_move.checked_out_settled)
qed

lemma cart_step_checked_out:
  assumes "cart_step s e = Some s'" and "checked_out (cart_abs s)"
  shows "checked_out (cart_abs s')"
  using assms cart_step_user [OF assms(1)] cart_step_result [OF assms(1)]
  by (simp add: cart_abs_checked_out)

lemma cart_run_simulation:
  "cart_run s es = Some s' \<Longrightarrow> checked_out (cart_abs s) \<Longrightarrow> checked_out (cart_abs s')"
proof (induction es arbitrary: s)
  case Nil
  then show ?case by simp
next
  case (Cons e es)
  then obtain s1 where st: "cart_step s e = Some s1" and run: "cart_run s1 es = Some s'"
    by (auto split: option.splits)
  have "checked_out (cart_abs s1)" using st Cons.prems(2) by (rule cart_step_checked_out)
  with run show ?case by (rule Cons.IH)
qed

section \<open>Properties\<close>

text \<open>(C27) The cart page refines the specification's state machine. Every step of
  a reachable page moves its rendered state along \<open>cart_spec_move\<close>, by the
  transition the step's click or reply names. So a click acts only from the state
  that renders its button, a checkout result never appears over the loading
  indicator, and an anonymous page takes no step at all.\<close>

theorem cart_refines_spec:
  assumes "cart_reach s" and "cart_step s e = Some s'"
  shows "cart_spec_move (cart_abs s) (cart_label s e) (cart_abs s')"
proof -
  have idt: "id_truthy (cp_user s)" using assms by (rule cart_reach_identified)
  show ?thesis
  proof (cases e)
    case (ClickRemove pid)
    with assms(2) obtain err xs t where v: "cart_view s = CartItemsView err xs t" and s': "s' = handle_remove pid s"
      by (auto split: cart_view.splits if_splits)
    have "cart_abs s = APopulated xs" using v by (simp add: cart_abs_def)
    moreover have "cart_abs s' = cart_abs s" using s' by (simp add: handle_remove_def split: option.splits)
    ultimately show ?thesis using ClickRemove by (simp add: cart_spec_move.remove)
  next
    case ClickCheckout
    with assms(2) obtain err xs t where v: "cart_view s = CartItemsView err xs t" and s': "s' = handle_checkout s"
      by (auto split: cart_view.splits)
    have "cart_abs s = APopulated xs" using v by (simp add: cart_abs_def)
    moreover have "cart_abs s' = cart_abs s" using s' by (simp add: handle_checkout_def split: option.splits)
    ultimately show ?thesis using ClickCheckout by (simp add: cart_spec_move.checkout)
  next
    case ClickContinue
    with assms(2) obtain res where v: "cart_view s = CartResultView res" and s': "s' = cart_navigate ''/'' s"
      by (auto split: cart_view.splits)
    then have "cart_abs s' = cart_abs s" by simp
    moreover have "cart_abs s = AResult (co_success res)" using v by (simp add: cart_abs_def)
    ultimately show ?thesis using ClickContinue by (simp add: cart_spec_move.continue)
  next
    case ClickStartShopping
    with assms(2) obtain err where v: "cart_view s = CartEmptyView err" and s': "s' = cart_navigate ''/'' s"
      by (auto split: cart_view.splits)
    then have "cart_abs s' = cart_abs s" by simp
    moreover have "cart_abs s = AEmpty" using v by (simp add: cart_abs_def)
    ultimately show ?thesis using ClickStartShopping by (simp add: cart_spec_move.start)
  next
    case (Resolve i r)
    let ?t = "s\<lparr>cp_pending := drop_at i (cp_pending s)\<rparr>"
    have "cart_inv s" using assms(1) by (rule cart_reach_inv)
    with assms(2) Resolve have i: "i < length (cp_pending s)" and c: "cart_call (cp_user s) (cp_pending s ! i)"
      by (auto simp add: cart_resolve_def cart_inv_def list_all_length split: if_splits)
    from assms(2) Resolve i have st: "cart_continue (cp_pending s ! i) r ?t = Some s'"
      by (simp add: cart_resolve_def)
    have idt': "id_truthy (cp_user ?t)" using idt by simp
    from c show ?thesis
    proof (cases rule: cart_call_cases)
      case (1 uid)
      with st cart_move_get_cart [OF idt'] Resolve show ?thesis by simp
    next
      case (2 uid p)
      with st cart_move_remove [OF idt'] Resolve show ?thesis by simp
    next
      case (3 uid)
      with st cart_move_checkout [OF idt'] Resolve show ?thesis by simp
    qed
  qed
qed

theorem cart_refines_spec_witness:
  "\<exists>s'. cart_step (cart_mount (cart_init (Some 7))) (Resolve 0 (Inr (VCartItems [example_item]))) = Some s' \<and>
     cart_spec_move (ALoading False) (LLoaded [example_item]) (cart_abs s')"
proof -
  let ?s = "cart_mount (cart_init (Some 7))"
  obtain s' where st: "cart_step ?s (Resolve 0 (Inr (VCartItems [example_item]))) = Some s'"
    by (simp add: cart_spec_eval)
  have a: "cart_abs ?s = ALoading False" and l: "cart_label ?s (Resolve 0 (Inr (VCartItems [example_item]))) = LLoaded [example_item]"
    by (simp_all add: cart_spec_eval)
  from cart_refines_spec [OF cart_reach.mount st] st a l show ?thesis by auto
qed

text \<open>(C29) The loading indicator always ends: a reachable page that shows it awaits
  a \<open>getCart\<close> call whose settling, with any rejection or any list of items, takes
  the page out of the loading state.\<close>

theorem cart_loading_progress:
  assumes "cart_reach s" and "cart_view s = CartLoadingView"
  shows "\<exists>i < length (cp_pending s).
           (\<forall>e. \<exists>s'. cart_step s (Resolve i (Inl e)) = Some s' \<and> \<not> cp_loading s') \<and>
           (\<forall>xs. \<exists>s'. cart_step s (Resolve i (Inr (VCartItems xs))) = Some s' \<and> \<not> cp_loading s')"
proof -
  have "cart_inv s" using assms(1) by (rule cart_reach_inv)
  moreover have "cp_loading s \<and> id_truthy (cp_user s)"
    using assms(2) by (auto simp add: cart_view_def split: if_splits option.splits)
  ultimately obtain u where "GetCart u \<in> set (cp_pending s)" by (auto simp add: cart_inv_def)
  then obtain i where i: "i < length (cp_pending s)" and g: "cp_pending s ! i = GetCart u"
    by (auto simp add: in_set_conv_nth)
  show ?thesis
    using cart_resolve_get_cart [OF i g] i by (auto simp add: load_cart_done_def)
qed

theorem cart_loading_progress_witness:
  "\<exists>i < length (cp_pending (cart_mount (cart_init (Some 7)))).
     (\<forall>e. \<exists>s'. cart_step (cart_mount (cart_init (Some 7))) (Resolve i (Inl e)) = Some s' \<and> \<not> cp_loading s') \<and>
     (\<forall>xs. \<exists>s'. cart_step (cart_mount (cart_init (Some 7))) (Resolve i (Inr (VCartItems xs))) = Some s' \<and>
        \<not> cp_loading s')"
  by (rule cart_loading_progress [OF cart_reach.mount]) (simp add: cart_spec_eval)

text \<open>After a checkout result no sequence of events shows the cart again: the page
  ends on the result or on a loading indicator over it.\<close>

theorem cart_result_never_shows_items:
  assumes "cp_result s \<noteq> None" and "id_truthy (cp_user s)" and "cart_run s es = Some s'"
  shows "cart_view s' = CartLoadingView \<or> (\<exists>r. cart_view s' = CartResultView r)"
proof -
  have "checked_out (cart_abs s)" using assms(1,2) by (simp add: cart_abs_checked_out)
  then have "checked_out (cart_abs s')" by (rule cart_run_simulation [OF assms(3)])
  then show ?thesis
    by (cases "cart_view s'") (simp_all add: cart_abs_def)
qed

text \<open>Where the page is looser than the text of the specification. The result of a
  checkout replaces a loading indicator and an empty cart, not only the populated
  cart: a removal and a checkout are in flight together and the removal's reload
  settles first.\<close>

theorem cart_result_from_empty:
  "\<exists>s s'. cart_run (cart_mount (cart_init (Some 7)))
       [Resolve 0 (Inr (VCartItems [example_item])), ClickRemove 10, ClickCheckout,
        Resolve 0 (Inr VVoid), Resolve 1 (Inr (VCartItems []))] = Some s \<and>
     cart_abs s = AEmpty \<and>
     cart_step s (Resolve 0 (Inr (VCheckout example_paid_result))) = Some s' \<and> cart_abs s' = AResult True"
  by (simp add: cart_spec_eval)

text \<open>The result is not terminal: a removal that settles after the checkout reloads
  the cart, and the page shows the loading indicator until the reload settles.\<close>

theorem cart_loading_after_result:
  "\<exists>s s'. cart_run (cart_mount (cart_init (Some 7)))
       [Resolve 0 (Inr (VCartItems [example_item])), ClickRemove 10, ClickCheckout,
        Resolve 1 (Inr (VCheckout example_paid_result))] = Some s \<and>
     cart_abs s = AResult True \<and>
     cart_step s (Resolve 0 (Inr VVoid)) = Some s' \<and> cart_abs s' = ALoading True \<and> GetCart 7 \<in> set (cp_pending s')"
  by (simp add: cart_spec_eval)

end
