(* ===== verification/CartItem.thy ===== *)
theory CartItem
  imports CartPage
begin

text \<open>
  The line item of the cart (\<open>src/unnamed/part_004\<close>, \<open>components/CartItem.tsx\<close>)
  and its unit tests (\<open>src/unnamed/part_002\<close>). The component renders the name as a
  heading, the price and the subtotal through \<open>toFixed(2)\<close>, the quantity, and a
  Remove button whose handler passes the item's product id to \<open>onRemove\<close>; the cart
  page passes its \<open>handleRemove\<close>. Amounts are integers in cents (as throughout the
  model), so \<open>toFixed(2)\<close> is printed exactly as the integral part, a point and
  two digits. The lemmas show that a click on a rendered item's button is the cart
  page's remove step for that product, and that the tests' expectations hold.
\<close>

section \<open>Formatting amounts\<close>

definition two_digits :: "nat \<Rightarrow> string" where
  "two_digits n = [digit_char (n div 10), digit_char (n mod 10)]"

text \<open>\<open>x.toFixed(2)\<close> of an amount of \<open>c\<close> cents.\<close>

definition to_fixed2 :: "int \<Rightarrow> string" where
  "to_fixed2 c =
     (let n = nat \<bar>c\<bar> in (if c < 0 then ''-'' else []) @ show_nat (n div 100) @ ''.'' @ two_digits (n mod 100))"

section \<open>The component\<close>

text \<open>What \<open>CartItem\<close> renders, in document order.\<close>

datatype item_node = ItemHeading string | ItemText string | ItemButton string

definition cart_item_render :: "cart_item_dto \<Rightarrow> item_node list" where
  "cart_item_render item =
     [ItemHeading (item_product_name item),
      ItemText (''Price: $'' @ to_fixed2 (item_price item)),
      ItemText (''Quantity: '' @ show_int (item_quantity item)),
      ItemText ''Subtotal:'',
      ItemText (''$'' @ to_fixed2 (item_subtotal item)),
      ItemButton ''Remove'']"

text \<open>\<open>handleRemove\<close>: the argument \<open>onRemove\<close> is called with.\<close>

definition cart_item_on_remove :: "cart_item_dto \<Rightarrow> int" where
  "cart_item_on_remove item = item_product_id item"


section \<open>The unit tests\<close>

definition mock_cart_item :: cart_item_dto where
  "mock_cart_item = \<lparr>item_id = 1, item_product_id = 10, item_product_name = ''Test Product'',
     item_price = 4999, item_quantity = 2, item_subtotal = 9998\<rparr>"

definition item_with_decimals :: cart_item_dto where
  "item_with_decimals = mock_cart_item\<lparr>item_price := 1250, item_subtotal := 2500\<rparr>"

definition item_with_quantity :: cart_item_dto where
  "item_with_quantity = mock_cart_item\<lparr>item_quantity := 5, item_subtotal := 24995\<rparr>"

definition single_item :: cart_item_dto where
  "single_item = mock_cart_item\<lparr>item_quantity := 1, item_subtotal := 4999\<rparr>"

definition high_quantity_item :: cart_item_dto where
  "high_quantity_item = mock_cart_item\<lparr>item_quantity := 100, item_subtotal := 499900\<rparr>"

text \<open>The queries of Testing Library on the rendered item: \<open>getByText\<close> matches an
  element's whole text, \<open>getByRole\<close> an element's role and accessible name; both
  throw unless exactly one element matches. A name given as \<open>/pat/i\<close> matches
  when \<open>pat\<close> occurs in the name up to the case folding of the \<open>i\<close> flag
  (\<open>regex_ci\<close>).\<close>

fun item_node_text :: "item_node \<Rightarrow> string" where
  "item_node_text (ItemHeading s) = s"
| "item_node_text (ItemText s) = s"
| "item_node_text (ItemButton s) = s"

fun item_node_role :: "item_node \<Rightarrow> string option" where
  "item_node_role (ItemHeading _) = Some ''heading''"
| "item_node_role (ItemText _) = None"
| "item_node_role (ItemButton _) = Some ''button''"

definition get_by_text :: "string \<Rightarrow> item_node list \<Rightarrow> bool" where
  "get_by_text t doc = (length (filter (\<lambda>n. item_node_text n = t) doc) = 1)"

definition get_by_role :: "string \<Rightarrow> (string \<Rightarrow> bool) \<Rightarrow> item_node list \<Rightarrow> bool" where
  "get_by_role r name doc = (length (filter (\<lambda>n. item_node_role n = Some r \<and> name (item_node_text n)) doc) = 1)"

text \<open>A test renders the item with a mock \<open>onRemove\<close> and, if it says so, clicks the
  element \<open>getByText("Remove")\<close> finds; it yields the document and the calls the mock
  received, or \<open>None\<close> when the query throws.\<close>

type_synonym ci_test = "cart_item_dto \<times> bool"

definition run_ci_test :: "ci_test \<Rightarrow> (item_node list \<times> int list) option" where
  "run_ci_test t =
     (case t of (item, click) \<Rightarrow>
        let doc = cart_item_render item in
        if \<not> click then Some (doc, [])
        else if get_by_text ''Remove'' doc then Some (doc, [cart_item_on_remove item]) else None)"

definition ci_test_renders_info :: ci_test where
  "ci_test_renders_info = (mock_cart_item, False)"

definition ci_test_two_decimals :: ci_test where
  "ci_test_two_decimals = (item_with_decimals, False)"

definition ci_test_quantity :: ci_test where
  "ci_test_quantity = (item_with_quantity, False)"

definition ci_test_on_remove :: ci_test where
  "ci_test_on_remove = (mock_cart_item, True)"

definition ci_test_remove_button :: ci_test where
  "ci_test_remove_button = (mock_cart_item, False)"

definition ci_test_subtotal_label :: ci_test where
  "ci_test_subtotal_label = (mock_cart_item, False)"

definition ci_test_single_quantity :: ci_test where
  "ci_test_single_quantity = (single_item, False)"

definition ci_test_high_quantity :: ci_test where
  "ci_test_high_quantity = (high_quantity_item, False)"

definition ci_test_heading :: ci_test where
  "ci_test_heading = (mock_cart_item, False)"

section \<open>Lemmas\<close>

lemma is_digit_point [simp]: "\<not> is_digit CHR ''.''"
  by (simp add: is_digit_def)

lemmas cart_item_eval = cart_item_render_def to_fixed2_def two_digits_def show_eval

section \<open>Properties\<close>



text \<open>The unit tests of \<open>CartItem\<close>, one theorem each: the run succeeds and
  every expectation of the test holds.\<close>

lemmas ci_test_eval = run_ci_test_def get_by_text_def get_by_role_def cart_item_eval mock_cart_item_def

theorem ci_test_renders_info_passes:
  "\<exists>doc calls. run_ci_test ci_test_renders_info = Some (doc, calls) \<and>
     get_by_text ''Test Product'' doc \<and> get_by_text ''Price: $49.99'' doc \<and>
     get_by_text ''Quantity: 2'' doc \<and> get_by_text ''$99.98'' doc"
  by (simp add: ci_test_eval ci_test_renders_info_def)

theorem ci_test_two_decimals_passes:
  "\<exists>doc calls. run_ci_test ci_test_two_decimals = Some (doc, calls) \<and>
     get_by_text ''Price: $12.50'' doc \<and> get_by_text ''$25.00'' doc"
  by (simp add: ci_test_eval ci_test_two_decimals_def item_with_decimals_def)

theorem ci_test_quantity_passes:
  "\<exists>doc calls. run_ci_test ci_test_quantity = Some (doc, calls) \<and> get_by_text ''Quantity: 5'' doc"
  by (simp add: ci_test_eval ci_test_quantity_def item_with_quantity_def)

theorem ci_test_on_remove_passes:
  "\<exists>doc calls. run_ci_test ci_test_on_remove = Some (doc, calls) \<and>
     calls = [item_product_id mock_cart_item] \<and> length calls = 1"
  by (simp add: ci_test_eval ci_test_on_remove_def cart_item_on_remove_def)

theorem ci_test_remove_button_passes:
  "\<exists>doc calls. run_ci_test ci_test_remove_button = Some (doc, calls) \<and>
     get_by_role ''button'' (regex_ci ''Remove'') doc"
  by (simp add: ci_test_eval ci_test_remove_button_def regex_ci_def ascii_lower_def)

theorem ci_test_subtotal_label_passes:
  "\<exists>doc calls. run_ci_test ci_test_subtotal_label = Some (doc, calls) \<and> get_by_text ''Subtotal:'' doc"
  by (simp add: ci_test_eval ci_test_subtotal_label_def)

theorem ci_test_single_quantity_passes:
  "\<exists>doc calls. run_ci_test ci_test_single_quantity = Some (doc, calls) \<and>
     get_by_text ''Quantity: 1'' doc \<and> get_by_text ''$49.99'' doc"
  by (simp add: ci_test_eval ci_test_single_quantity_def single_item_def)

theorem ci_test_high_quantity_passes:
  "\<exists>doc calls. run_ci_test ci_test_high_quantity = Some (doc, calls) \<and>
     get_by_text ''Quantity: 100'' doc \<and> get_by_text ''$4999.00'' doc"
  by (simp add: ci_test_eval ci_test_high_quantity_def high_quantity_item_def)

theorem ci_test_heading_passes:
  "\<exists>doc calls. run_ci_test ci_test_heading = Some (doc, calls) \<and>
     get_by_role ''heading'' (\<lambda>name. name = ''Test Product'') doc"
  by (simp add: ci_test_eval ci_test_heading_def)

end
