(* ===== verification/ProductDetail.thy ===== *)
theory ProductDetail
  imports Api
begin

text \<open>
  The product detail page, \<open>ProductDetail\<close> in \<open>src/src/pages/CartPage.tsx\<close>
  (lines 196--343). The React state (\<open>product\<close>, \<open>loading\<close>, \<open>error\<close>,
  \<open>quantity\<close>, \<open>message\<close>) is a record together with the user id from the
  context, the calls in flight, the \<open>setTimeout\<close> callbacks not yet run and the
  effects issued. As on the cart page, each async handler is split at its
  \<open>await\<close>; calls and timers complete in any order (for timers an
  over-approximation of the wall clock, which runs equal delays in the order they were
  set).
\<close>

datatype pd_timer = ClearMessageTimer | RegisterRedirectTimer

record pd_page =
  pd_user :: "int option"
  pd_product :: "product_dto option"
  pd_loading :: bool
  pd_error :: "string option"
  pd_quantity :: int
  pd_message :: "string option"
  pd_pending :: "api_call list"
  pd_timers :: "pd_timer list"
  pd_effects :: "effect list"

definition pd_init :: "int option \<Rightarrow> pd_page" where
  "pd_init u = \<lparr>pd_user = u, pd_product = None, pd_loading = True, pd_error = None,
     pd_quantity = 1, pd_message = None, pd_pending = [], pd_timers = [], pd_effects = []\<rparr>"

definition pd_issue :: "api_call \<Rightarrow> pd_page \<Rightarrow> pd_page" where
  "pd_issue c s = s\<lparr>pd_pending := pd_pending s @ [c], pd_effects := pd_effects s @ [Call c]\<rparr>"

definition pd_navigate :: "string \<Rightarrow> pd_page \<Rightarrow> pd_page" where
  "pd_navigate path s = s\<lparr>pd_effects := pd_effects s @ [Navigate path]\<rparr>"

subsection \<open>Handlers\<close>

definition load_product :: "int option \<Rightarrow> pd_page \<Rightarrow> pd_page" where
  "load_product pid s = pd_issue (GetProductById pid) (s\<lparr>pd_loading := True, pd_error := None\<rparr>)"

definition load_product_done :: "rejection + product_dto \<Rightarrow> pd_page \<Rightarrow> pd_page" where
  "load_product_done r s =
     (case r of
        Inr data \<Rightarrow> s\<lparr>pd_product := Some data, pd_loading := False\<rparr>
      | Inl e \<Rightarrow> s\<lparr>pd_error := Some (caught_message ''Failed to load product'' e), pd_loading := False\<rparr>)"

text \<open>The mount effect with the route parameter \<open>id\<close>: \<open>parseInt(id, 10)\<close>, which
  is \<open>NaN\<close> for a non-numeric parameter.\<close>

definition pd_mount :: "string \<Rightarrow> pd_page \<Rightarrow> pd_page" where
  "pd_mount param s = (if param = [] then s else load_product (parse_int param) s)"

text \<open>The quantity input's \<open>onChange\<close>: \<open>isNaN(val) ? 1 : val\<close>.\<close>

definition quantity_input :: "string \<Rightarrow> pd_page \<Rightarrow> pd_page" where
  "quantity_input v s = s\<lparr>pd_quantity := (case parse_int v of None \<Rightarrow> 1 | Some n \<Rightarrow> n)\<rparr>"

definition pd_login_prompt :: "pd_page \<Rightarrow> pd_page" where
  "pd_login_prompt s = s\<lparr>pd_message := Some ''Please register or login to add items to cart'',
     pd_timers := pd_timers s @ [RegisterRedirectTimer]\<rparr>"

text \<open>\<open>handleAddToCart\<close> up to \<open>await addToCart(...)\<close>: the login check, the
  product check and the two quantity guards, each an early return.\<close>

definition pd_handle_add_to_cart :: "pd_page \<Rightarrow> pd_page" where
  "pd_handle_add_to_cart s =
     (case pd_user s of
        None \<Rightarrow> pd_login_prompt s
      | Some uid \<Rightarrow>
          if uid = 0 then pd_login_prompt s
          else (case pd_product s of
                  None \<Rightarrow> s
                | Some p \<Rightarrow>
                    if pd_quantity s \<le> 0 then s\<lparr>pd_message := Some ''Quantity must be greater than 0''\<rparr>
                    else if pd_quantity s > product_stock_quantity p then
                      s\<lparr>pd_message := Some (''Only '' @ show_int (product_stock_quantity p) @
                                            '' items available in stock'')\<rparr>
                    else pd_issue (AddToCart uid \<lparr>add_product_id = product_id p, add_quantity = pd_quantity s\<rparr>)
                           (s\<lparr>pd_message := None\<rparr>)))"

definition pd_add_to_cart_done :: "rejection + unit \<Rightarrow> pd_page \<Rightarrow> pd_page" where
  "pd_add_to_cart_done r s =
     (case r of
        Inr _ \<Rightarrow> s\<lparr>pd_message := Some ''Item added to cart!'', pd_timers := pd_timers s @ [ClearMessageTimer]\<rparr>
      | Inl e \<Rightarrow> s\<lparr>pd_error := Some (caught_message ''Failed to add to cart'' e)\<rparr>)"

fun pd_timer_fire :: "pd_timer \<Rightarrow> pd_page \<Rightarrow> pd_page" where
  "pd_timer_fire ClearMessageTimer s = s\<lparr>pd_message := None\<rparr>"
| "pd_timer_fire RegisterRedirectTimer s = pd_navigate ''/register'' s"

subsection \<open>Rendering\<close>

text \<open>\<open>{error || "Product not found"}\<close> and \<open>if (error || !product)\<close> test the
  error's truthiness (\<open>str_truthy\<close>): an empty message counts as no error.\<close>

datatype pd_view =
    PdLoadingView
  | PdErrorView string
  | PdProductView product_dto "string option" bool bool

text \<open>The product view carries the message banner, whether the add-to-cart controls
  are shown (a logged-in user) and whether they are disabled (out of stock).\<close>

definition pd_view :: "pd_page \<Rightarrow> pd_view" where
  "pd_view s =
     (if pd_loading s then PdLoadingView
      else if str_truthy (pd_error s) then PdErrorView (the (pd_error s))
      else (case pd_product s of
              None \<Rightarrow> PdErrorView ''Product not found''
            | Some p \<Rightarrow> PdProductView p (pd_message s) (id_truthy (pd_user s))
                          (product_stock_quantity p \<le> 0)))"

subsection \<open>Events\<close>

datatype pd_event =
    PdQuantityInput string
  | PdClickAdd
  | PdClickBack
  | PdClickRegister
  | PdResolve nat "rejection + api_value"
  | PdFire nat

fun pd_continue :: "api_call \<Rightarrow> rejection + api_value \<Rightarrow> pd_page \<Rightarrow> pd_page option" where
  "pd_continue (GetProductById _) (Inl e) s = Some (load_product_done (Inl e) s)"
| "pd_continue (GetProductById _) (Inr (VProduct p)) s = Some (load_product_done (Inr p) s)"
| "pd_continue (AddToCart _ _) (Inl e) s = Some (pd_add_to_cart_done (Inl e) s)"
| "pd_continue (AddToCart _ _) (Inr VVoid) s = Some (pd_add_to_cart_done (Inr ()) s)"
| "pd_continue _ _ s = None"

definition pd_resolve :: "nat \<Rightarrow> rejection + api_value \<Rightarrow> pd_page \<Rightarrow> pd_page option" where
  "pd_resolve i r s =
     (if i < length (pd_pending s)
      then pd_continue (pd_pending s ! i) r (s\<lparr>pd_pending := drop_at i (pd_pending s)\<rparr>)
      else None)"

definition pd_fire :: "nat \<Rightarrow> pd_page \<Rightarrow> pd_page option" where
  "pd_fire i s =
     (if i < length (pd_timers s)
      then Some (pd_timer_fire (pd_timers s ! i) (s\<lparr>pd_timers := drop_at i (pd_timers s)\<rparr>))
      else None)"

text \<open>The input and the add button exist for a logged-in user and are disabled when
  the product is out of stock; the back button is on the error and product views, the
  register button on the product view of an anonymous visitor.\<close>

fun pd_step :: "pd_page \<Rightarrow> pd_event \<Rightarrow> pd_page option" where
  "pd_step s (PdQuantityInput v) =
     (case pd_view s of PdProductView _ _ True False \<Rightarrow> Some (quantity_input v s) | _ \<Rightarrow> None)"
| "pd_step s PdClickAdd =
     (case pd_view s of PdProductView _ _ True False \<Rightarrow> Some (pd_handle_add_to_cart s) | _ \<Rightarrow> None)"
| "pd_step s PdClickBack =
     (case pd_view s of PdLoadingView \<Rightarrow> None | _ \<Rightarrow> Some (pd_navigate ''/'' s))"
| "pd_step s PdClickRegister =
     (case pd_view s of PdProductView _ _ False _ \<Rightarrow> Some (pd_navigate ''/register'' s) | _ \<Rightarrow> None)"
| "pd_step s (PdResolve i r) = pd_resolve i r s"
| "pd_step s (PdFire i) = pd_fire i s"

fun pd_run :: "pd_page \<Rightarrow> pd_event list \<Rightarrow> pd_page option" where
  "pd_run s [] = Some s"
| "pd_run s (e # es) = (case pd_step s e of None \<Rightarrow> None | Some s' \<Rightarrow> pd_run s' es)"

text \<open>The route \<open>/product/:id\<close> only matches a non-empty parameter.\<close>

inductive pd_reach :: "pd_page \<Rightarrow> bool" where
  mount: "param \<noteq> [] \<Longrightarrow> pd_reach (pd_mount param (pd_init u))"
| step: "pd_reach s \<Longrightarrow> pd_step s e = Some s' \<Longrightarrow> pd_reach s'"

definition pd_inv :: "pd_page \<Rightarrow> bool" where
  "pd_inv s \<longleftrightarrow> (pd_loading s \<longrightarrow> (\<exists>pid. GetProductById pid \<in> set (pd_pending s)))"

subsection \<open>Example state\<close>

definition example_product :: product_dto where
  "example_product = \<lparr>product_id = 3, product_name = ''Desk Lamp'', product_description = None,
     product_price = 2500, product_stock_quantity = 5\<rparr>"

definition pd_example :: pd_page where
  "pd_example = \<lparr>pd_user = Some 7, pd_product = Some example_product, pd_loading = False,
     pd_error = None, pd_quantity = 1, pd_message = None, pd_pending = [], pd_timers = [],
     pd_effects = [Call (GetProductById (Some 3))]\<rparr>"

subsection \<open>Lemmas\<close>

lemmas pd_handler_defs [page_simps] = load_product_def load_product_done_def pd_mount_def
  quantity_input_def pd_login_prompt_def pd_handle_add_to_cart_def pd_add_to_cart_done_def
  pd_issue_def pd_navigate_def

lemma parse_int_no_digits:
  assumes "\<forall>c \<in> set v. \<not> is_digit c"
  shows "parse_int v = None"
proof -
  have d: "\<forall>c \<in> set (dropWhile js_ws v). \<not> is_digit c"
    using assms set_dropWhileD by fastforce
  show ?thesis
  proof (cases "dropWhile js_ws v")
    case Nil
    show ?thesis unfolding parse_int_def Let_def Nil by simp
  next
    case (Cons c r)
    with d have c: "\<not> is_digit c" and r: "\<forall>x \<in> set r. \<not> is_digit x" by simp_all
    from r have "takeWhile is_digit r = []" by (cases r) simp_all
    with c show ?thesis unfolding parse_int_def Let_def Cons by simp
  qed
qed

lemma pd_view_product_enabled:
  "pd_view s = PdProductView p m True False \<Longrightarrow>
     \<exists>uid. pd_user s = Some uid \<and> uid \<noteq> 0 \<and> \<not> pd_loading s \<and> pd_product s = Some p \<and>
       pd_message s = m \<and> 0 < product_stock_quantity p"
  by (cases "pd_user s") (auto simp add: pd_view_def split: if_splits option.splits)

lemma pd_continue_effects:
  "pd_continue c r s = Some s' \<Longrightarrow> pd_effects s' = pd_effects s \<and> pd_pending s' = pd_pending s"
  by (induction c r s rule: pd_continue.induct) (auto simp add: page_simps)

lemma pd_continue_get:
  assumes "pd_continue (GetProductById pid) r s = Some s'"
  shows "\<not> pd_loading s'"
proof (cases r)
  case (Inl e)
  with assms show ?thesis by (auto simp add: page_simps)
next
  case (Inr v)
  with assms show ?thesis by (cases v) (auto simp add: page_simps)
qed

lemma pd_fire_effects:
  "pd_fire i s = Some s' \<Longrightarrow> (\<forall>c. Call c \<notin> set (pd_effects s') - set (pd_effects s))"
proof -
  have "\<And>t s. set (pd_effects (pd_timer_fire t s)) \<subseteq> insert (Navigate ''/register'') (set (pd_effects s))"
    by (case_tac t) (auto simp add: page_simps)
  then show "pd_fire i s = Some s' \<Longrightarrow> ?thesis"
    by (force simp add: pd_fire_def split: if_splits)
qed

lemma pd_handle_add_to_cart_cases:
  assumes "Call c \<in> set (pd_effects (pd_handle_add_to_cart s))" "Call c \<notin> set (pd_effects s)"
  shows "\<exists>uid p r. c = AddToCart uid r \<and> pd_user s = Some uid \<and> uid \<noteq> 0 \<and> pd_product s = Some p \<and>
     add_product_id r = product_id p \<and> add_quantity r = pd_quantity s \<and>
     0 < pd_quantity s \<and> pd_quantity s \<le> product_stock_quantity p \<and>
     pd_message (pd_handle_add_to_cart s) = None \<and>
     pd_pending (pd_handle_add_to_cart s) = pd_pending s @ [c]"
  using assms by (auto simp add: page_simps split: option.splits if_splits)

lemma pd_inv_step:
  assumes inv: "pd_inv s" and st: "pd_step s e = Some s'"
  shows "pd_inv s'"
proof (cases e)
  case (PdResolve i r)
  with st have i: "i < length (pd_pending s)"
    and cont: "pd_continue (pd_pending s ! i) r (s\<lparr>pd_pending := drop_at i (pd_pending s)\<rparr>) = Some s'"
    by (simp_all add: pd_resolve_def split: if_splits)
  show ?thesis
  proof (cases "\<exists>pid. pd_pending s ! i = GetProductById pid")
    case True
    then obtain pid where "pd_pending s ! i = GetProductById pid" by blast
    with cont have "pd_continue (GetProductById pid) r (s\<lparr>pd_pending := drop_at i (pd_pending s)\<rparr>) = Some s'"
      by simp
    then have "\<not> pd_loading s'" by (rule pd_continue_get)
    then show ?thesis by (simp add: pd_inv_def)
  next
    case False
    from cont False have "pd_loading s' = pd_loading s \<and> pd_pending s' = drop_at i (pd_pending s)"
      by (cases "(pd_pending s ! i, r, s\<lparr>pd_pending := drop_at i (pd_pending s)\<rparr>)" rule: pd_continue.cases)
         (auto simp add: page_simps)
    with inv i False show ?thesis
      by (auto simp add: pd_inv_def intro: in_set_drop_at_other)
  qed
next
  case (PdFire i)
  with st inv show ?thesis
    by (cases "pd_timers s ! i") (auto simp add: pd_fire_def pd_inv_def page_simps split: if_splits)
qed (use inv st in \<open>auto simp add: pd_inv_def pd_view_def page_simps
                              split: if_splits option.splits bool.splits\<close>)

lemma pd_reach_inv: "pd_reach s \<Longrightarrow> pd_inv s"
proof (induction rule: pd_reach.induct)
  case (mount param u)
  then show ?case by (simp add: pd_inv_def pd_init_def page_simps)
next
  case (step s e s')
  then show ?case by (blast intro: pd_inv_step)
qed

lemma pd_view_quantity [simp]: "pd_view (s\<lparr>pd_quantity := q\<rparr>) = pd_view s"
  by (simp add: pd_view_def split: option.splits)

lemma pd_view_quantity_input [simp]: "pd_view (quantity_input v s) = pd_view s"
  unfolding quantity_input_def by (rule pd_view_quantity)

lemma parse_int_literals:
  "parse_int ''0'' = Some 0" "parse_int ''5'' = Some 5" "parse_int ''6'' = Some 6"
  "parse_int ''abc'' = None"
  by (simp_all add: parse_int_def js_ws_def is_digit_def parse_digits_def digit_val_def)

subsection \<open>Properties\<close>

text \<open>(C22) The add-to-cart request is issued only by the add button, only after both
  guards pass (\<open>0 < quantity \<le> stock\<close> of the product shown), for the product shown
  and the logged-in user, and with the previous message cleared.\<close>

theorem pd_add_request_guarded:
  assumes st: "pd_step s e = Some s'" and new: "Call c \<in> set (pd_effects s')"
    and old: "Call c \<notin> set (pd_effects s)"
  shows "\<exists>uid p r. c = AddToCart uid r \<and> e = PdClickAdd \<and> pd_user s = Some uid \<and>
           pd_product s = Some p \<and> add_product_id r = product_id p \<and>
           0 < add_quantity r \<and> add_quantity r \<le> product_stock_quantity p \<and> pd_message s' = None"
proof (cases e)
  case PdClickAdd
  with st have s': "s' = pd_handle_add_to_cart s"
    by (simp split: pd_view.splits bool.splits)
  from new old show ?thesis
    unfolding s' using PdClickAdd by (auto dest!: pd_handle_add_to_cart_cases)
next
  case (PdResolve i r)
  with st have "pd_continue (pd_pending s ! i) r (s\<lparr>pd_pending := drop_at i (pd_pending s)\<rparr>) = Some s'"
    by (simp add: pd_resolve_def split: if_splits)
  then have "pd_effects s' = pd_effects s" by (auto dest: pd_continue_effects)
  with new old show ?thesis by simp
next
  case (PdFire i)
  with st new old show ?thesis by (auto dest: pd_fire_effects)
qed (use st new old in \<open>auto simp add: page_simps split: pd_view.splits bool.splits\<close>)

text \<open>(C23) The quantity guards on a product with 5 in stock: 6 is refused with
  "Only 5 items available in stock", 0 with "Quantity must be greater than 0", neither
  issues a call; "abc" becomes 1; 5 issues the request.\<close>

theorem pd_quantity_guard_stock_5:
  assumes v: "pd_view s = PdProductView p m True False" and stock: "product_stock_quantity p = 5"
  shows "(\<exists>s'. pd_run s [PdQuantityInput ''6'', PdClickAdd] = Some s' \<and>
            pd_message s' = Some ''Only 5 items available in stock'' \<and> pd_pending s' = pd_pending s) \<and>
         (\<exists>s'. pd_run s [PdQuantityInput ''0'', PdClickAdd] = Some s' \<and>
            pd_message s' = Some ''Quantity must be greater than 0'' \<and> pd_pending s' = pd_pending s) \<and>
         (\<exists>s'. pd_run s [PdQuantityInput ''abc''] = Some s' \<and> pd_quantity s' = 1) \<and>
         (\<exists>s' uid. pd_run s [PdQuantityInput ''5'', PdClickAdd] = Some s' \<and>
            pd_pending s' = pd_pending s @ [AddToCart uid \<lparr>add_product_id = product_id p, add_quantity = 5\<rparr>])"
proof -
  obtain uid where u: "pd_user s = Some uid" "uid \<noteq> 0" and pr: "pd_product s = Some p"
    using pd_view_product_enabled [OF v] by blast
  show ?thesis
    using v u pr stock
    by (simp add: parse_int_literals quantity_input_def pd_handle_add_to_cart_def pd_issue_def show_eval)
qed

text \<open>(C24) Quantity input normalises: a decimal is truncated towards zero (the digits
  before the point, with their sign), and an input without any digit becomes 1.\<close>

theorem pd_quantity_input_normalises:
  "pd_quantity (quantity_input (show_int n @ CHR ''.'' # frac) s) = n \<and>
   ((\<forall>c \<in> set v. \<not> is_digit c) \<longrightarrow> pd_quantity (quantity_input v s) = 1)"
proof -
  have "\<not> is_digit CHR ''.''" by (simp add: is_digit_def)
  then have "parse_int (show_int n @ CHR ''.'' # frac) = Some n" by (rule parse_show_int_append)
  then show ?thesis by (simp add: quantity_input_def parse_int_no_digits)
qed

text \<open>(C25) A rejected add-to-cart shows exactly the rejection's message, and it does
  so by replacing the whole product view with the error view.\<close>

theorem pd_add_failure_replaces_view:
  assumes "i < length (pd_pending s)" and "pd_pending s ! i = AddToCart u r"
    and "m \<noteq> []" and "\<not> pd_loading s"
  shows "\<exists>s'. pd_step s (PdResolve i (Inl (RejError m))) = Some s' \<and>
           pd_error s' = Some m \<and> pd_view s' = PdErrorView m"
  using assms by (simp add: pd_resolve_def pd_add_to_cart_done_def pd_view_def str_truthy_def)

lemma pd_continue_timers:
  "pd_continue c r s = Some s' \<Longrightarrow> \<exists>ts. pd_timers s' = pd_timers s @ ts"
  by (induction c r s rule: pd_continue.induct) (auto simp add: page_simps split: sum.splits)

text \<open>(C26) The 3-second timer of a success is never cancelled. No step other than a
  timer's own firing removes a pending timer. Whenever a clear-message timer fires,
  it erases the message shown at that moment, even a message set after the timer was
  started, such as a refused quantity's.\<close>

theorem pd_stale_timer_clears_message:
  "(pd_step s e = Some s' \<longrightarrow> (\<forall>j. e \<noteq> PdFire j) \<longrightarrow> (\<exists>ts. pd_timers s' = pd_timers s @ ts)) \<and>
   (i < length (pd_timers s) \<longrightarrow> pd_timers s ! i = ClearMessageTimer \<longrightarrow>
      (\<exists>s''. pd_step s (PdFire i) = Some s'' \<and> pd_message s'' = None))"
proof (intro conjI impI)
  assume st: "pd_step s e = Some s'" and nf: "\<forall>j. e \<noteq> PdFire j"
  show "\<exists>ts. pd_timers s' = pd_timers s @ ts"
  proof (cases e)
    case (PdResolve k r)
    with st have "k < length (pd_pending s)"
      and "pd_continue (pd_pending s ! k) r (s\<lparr>pd_pending := drop_at k (pd_pending s)\<rparr>) = Some s'"
      by (simp_all add: pd_resolve_def split: if_splits)
    then show ?thesis by (auto dest: pd_continue_timers)
  qed (use st nf in \<open>auto simp add: page_simps quantity_input_def pd_handle_add_to_cart_def pd_login_prompt_def
      split: pd_view.splits if_splits option.splits bool.splits\<close>)
next
  assume "i < length (pd_timers s)" and "pd_timers s ! i = ClearMessageTimer"
  then show "\<exists>s''. pd_step s (PdFire i) = Some s'' \<and> pd_message s'' = None"
    by (simp add: pd_fire_def)
qed

text \<open>(C40) Whenever the product page shows its loading indicator, a
  \<open>getProductById\<close> call is in flight.\<close>

theorem pd_loading_has_fetch:
  assumes "pd_reach s" and "pd_view s = PdLoadingView"
  shows "\<exists>pid. GetProductById pid \<in> set (pd_pending s)"
proof -
  have "pd_inv s" using assms(1) by (rule pd_reach_inv)
  moreover have "pd_loading s" using assms(2) by (auto simp add: pd_view_def split: if_splits option.splits)
  ultimately show ?thesis by (simp add: pd_inv_def)
qed

text \<open>A non-numeric route parameter is not rejected: the page requests
  \<open>/api/products/NaN\<close>.\<close>

theorem pd_nan_route:
  "pd_pending (pd_mount ''abc'' (pd_init u)) = [GetProductById None] \<and>
   req_url (call_request base (GetProductById None)) = base @ ''/api/products/NaN''"
  by (simp add: page_simps pd_init_def parse_int_literals get_product_by_id_def show_js_int_def)

subsection \<open>Witnesses\<close>

theorem pd_add_request_guarded_witness:
  "pd_message (pd_handle_add_to_cart pd_example) = None"
proof -
  have st: "pd_step pd_example PdClickAdd = Some (pd_handle_add_to_cart pd_example)"
    by (simp add: pd_example_def example_product_def pd_view_def str_truthy_def)
  have c: "Call (AddToCart 7 \<lparr>add_product_id = 3, add_quantity = 1\<rparr>) \<in> set (pd_effects (pd_handle_add_to_cart pd_example))"
    by (simp add: pd_example_def example_product_def page_simps)
  have o: "Call (AddToCart 7 \<lparr>add_product_id = 3, add_quantity = 1\<rparr>) \<notin> set (pd_effects pd_example)"
    by (simp add: pd_example_def)
  from pd_add_request_guarded [OF st c o] show ?thesis by blast
qed

theorem pd_quantity_guard_stock_5_witness:
  "\<exists>s'. pd_run pd_example [PdQuantityInput ''6'', PdClickAdd] = Some s' \<and>
     pd_message s' = Some ''Only 5 items available in stock''"
proof -
  have v: "pd_view pd_example = PdProductView example_product None True False"
    by (simp add: pd_example_def example_product_def pd_view_def str_truthy_def)
  have "product_stock_quantity example_product = 5" by (simp add: example_product_def)
  from pd_quantity_guard_stock_5 [OF v this] show ?thesis by blast
qed

theorem pd_quantity_input_normalises_witness:
  "pd_quantity (quantity_input (show_int (-2) @ CHR ''.'' # ''7'') pd_example) = -2 \<and>
   pd_quantity (quantity_input ''abc'' pd_example) = 1"
proof -
  have "\<forall>c \<in> set ''abc''. \<not> is_digit c" by (simp add: is_digit_def)
  with pd_quantity_input_normalises [of "-2" "''7''" pd_example "''abc''"] show ?thesis by blast
qed

theorem pd_add_failure_replaces_view_witness:
  "\<exists>s'. pd_step (pd_example\<lparr>pd_pending := [AddToCart 7 \<lparr>add_product_id = 3, add_quantity = 1\<rparr>]\<rparr>)
          (PdResolve 0 (Inl (RejError ''Insufficient stock''))) = Some s' \<and>
     pd_error s' = Some ''Insufficient stock'' \<and> pd_view s' = PdErrorView ''Insufficient stock''"
  by (rule pd_add_failure_replaces_view) (simp_all add: pd_example_def)

theorem pd_stale_timer_clears_message_witness:
  "(\<exists>ts. pd_timers (quantity_input ''2'' (pd_example\<lparr>pd_message := Some ''Quantity must be greater than 0'',
       pd_timers := [ClearMessageTimer]\<rparr>)) = [ClearMessageTimer] @ ts) \<and>
   (\<exists>s''. pd_step (pd_example\<lparr>pd_message := Some ''Quantity must be greater than 0'',
       pd_timers := [ClearMessageTimer]\<rparr>) (PdFire 0) = Some s'' \<and> pd_message s'' = None)"
proof -
  let ?s = "pd_example\<lparr>pd_message := Some ''Quantity must be greater than 0'', pd_timers := [ClearMessageTimer]\<rparr>"
  have st: "pd_step ?s (PdQuantityInput ''2'') = Some (quantity_input ''2'' ?s)"
    by (simp add: pd_example_def example_product_def pd_view_def str_truthy_def)
  show ?thesis
    using pd_stale_timer_clears_message [of ?s "PdQuantityInput ''2''" "quantity_input ''2'' ?s" 0] st by simp
qed

theorem pd_loading_has_fetch_witness:
  "\<exists>pid. GetProductById pid \<in> set (pd_pending (pd_mount ''3'' (pd_init (Some 7))))"
  by (rule pd_loading_has_fetch)
     (rule pd_reach.mount, simp, simp add: pd_view_def pd_init_def page_simps)

end
