(* ===== verification/Home.thy ===== *)
theory Home
  imports Api
begin

text \<open>
  The product list, \<open>Home\<close> in \<open>src/src/pages/Home.tsx\<close> (lines 14--95), with the
  card it renders per product, \<open>ProductCard\<close> of \<open>src/unnamed/part_005\<close>. The page
  state (\<open>products\<close>, \<open>loading\<close>, \<open>error\<close>, \<open>message\<close>) is a record with the
  user id, the calls in flight, the number of pending clear-message timers and the
  effects. A card's add button calls the page's handler with quantity 1; the error
  view offers the manual retry.
\<close>

record home_page =
  hp_user :: "int option"
  hp_products :: "product_dto list"
  hp_loading :: bool
  hp_error :: "string option"
  hp_message :: "string option"
  hp_pending :: "api_call list"
  hp_timers :: nat
  hp_effects :: "effect list"

definition home_init :: "int option \<Rightarrow> home_page" where
  "home_init u = \<lparr>hp_user = u, hp_products = [], hp_loading = True, hp_error = None,
     hp_message = None, hp_pending = [], hp_timers = 0, hp_effects = []\<rparr>"

definition home_issue :: "api_call \<Rightarrow> home_page \<Rightarrow> home_page" where
  "home_issue c s = s\<lparr>hp_pending := hp_pending s @ [c], hp_effects := hp_effects s @ [Call c]\<rparr>"

subsection \<open>Handlers\<close>

text \<open>\<open>loadProducts\<close> up to \<open>await getProducts()\<close>; the mount effect and the
  Retry button both run it.\<close>

definition load_products :: "home_page \<Rightarrow> home_page" where
  "load_products s = home_issue GetProducts (s\<lparr>hp_loading := True, hp_error := None\<rparr>)"

definition load_products_done :: "rejection + product_dto list \<Rightarrow> home_page \<Rightarrow> home_page" where
  "load_products_done r s =
     (case r of
        Inr data \<Rightarrow> s\<lparr>hp_products := data, hp_loading := False\<rparr>
      | Inl e \<Rightarrow> s\<lparr>hp_error := Some (caught_message ''Failed to load products'' e), hp_loading := False\<rparr>)"

definition home_handle_add_to_cart :: "int \<Rightarrow> int \<Rightarrow> home_page \<Rightarrow> home_page" where
  "home_handle_add_to_cart pid q s =
     (case hp_user s of
        None \<Rightarrow> s\<lparr>hp_message := Some ''Please register or login to add items to cart''\<rparr>
      | Some uid \<Rightarrow>
          if uid = 0 then s\<lparr>hp_message := Some ''Please register or login to add items to cart''\<rparr>
          else home_issue (AddToCart uid \<lparr>add_product_id = pid, add_quantity = q\<rparr>) (s\<lparr>hp_message := None\<rparr>))"

definition home_add_to_cart_done :: "rejection + unit \<Rightarrow> home_page \<Rightarrow> home_page" where
  "home_add_to_cart_done r s =
     (case r of
        Inr _ \<Rightarrow> s\<lparr>hp_message := Some ''Item added to cart!'', hp_timers := Suc (hp_timers s)\<rparr>
      | Inl e \<Rightarrow> s\<lparr>hp_error := Some (caught_message ''Failed to add to cart'' e)\<rparr>)"

text \<open>\<open>ProductCard\<close>'s \<open>handleAddToCart\<close>: \<open>onAddToCart(product.id, 1)\<close> when the
  callback is given and a user is logged in.\<close>

definition card_add_to_cart :: "bool \<Rightarrow> product_dto \<Rightarrow> home_page \<Rightarrow> home_page" where
  "card_add_to_cart has_callback p s =
     (if has_callback \<and> id_truthy (hp_user s) then home_handle_add_to_cart (product_id p) 1 s else s)"

text \<open>The card's description: cut to 100 characters with an ellipsis.\<close>

definition card_description :: "string \<Rightarrow> string" where
  "card_description d = (if length d > 100 then take 100 d @ ''...'' else d)"

definition card_out_of_stock :: "product_dto \<Rightarrow> bool" where
  "card_out_of_stock p \<longleftrightarrow> product_stock_quantity p \<le> 0"

subsection \<open>Rendering\<close>

datatype home_view =
    HomeLoadingView
  | HomeErrorView string
  | HomeListView "string option" "product_dto list"

definition home_view :: "home_page \<Rightarrow> home_view" where
  "home_view s =
     (if hp_loading s then HomeLoadingView
      else if str_truthy (hp_error s) then HomeErrorView (the (hp_error s))
      else HomeListView (hp_message s) (hp_products s))"

subsection \<open>Events\<close>

datatype home_event =
    HomeRetry
  | HomeClickCardAdd product_dto
  | HomeResolve nat "rejection + api_value"
  | HomeFire

fun home_continue :: "api_call \<Rightarrow> rejection + api_value \<Rightarrow> home_page \<Rightarrow> home_page option" where
  "home_continue GetProducts (Inl e) s = Some (load_products_done (Inl e) s)"
| "home_continue GetProducts (Inr (VProducts ps)) s = Some (load_products_done (Inr ps) s)"
| "home_continue (AddToCart _ _) (Inl e) s = Some (home_add_to_cart_done (Inl e) s)"
| "home_continue (AddToCart _ _) (Inr VVoid) s = Some (home_add_to_cart_done (Inr ()) s)"
| "home_continue _ _ s = None"

text \<open>A card's add button exists for a logged-in user and is disabled when the
  product is out of stock; Retry is on the error view. A pending
  \<open>setTimeout(() => setMessage(null), 3000)\<close> may fire at any time.\<close>

fun home_step :: "home_page \<Rightarrow> home_event \<Rightarrow> home_page option" where
  "home_step s HomeRetry =
     (case home_view s of HomeErrorView _ \<Rightarrow> Some (load_products s) | _ \<Rightarrow> None)"
| "home_step s (HomeClickCardAdd p) =
     (case home_view s of
        HomeListView _ ps \<Rightarrow>
          if p \<in> set ps \<and> id_truthy (hp_user s) \<and> \<not> card_out_of_stock p
          then Some (card_add_to_cart True p s) else None
      | _ \<Rightarrow> None)"
| "home_step s (HomeResolve i r) =
     (if i < length (hp_pending s)
      then home_continue (hp_pending s ! i) r (s\<lparr>hp_pending := drop_at i (hp_pending s)\<rparr>)
      else None)"
| "home_step s HomeFire =
     (if hp_timers s = 0 then None
      else Some (s\<lparr>hp_message := None, hp_timers := hp_timers s - 1\<rparr>))"

inductive home_reach :: "home_page \<Rightarrow> bool" where
  mount: "home_reach (load_products (home_init u))"
| step: "home_reach s \<Longrightarrow> home_step s e = Some s' \<Longrightarrow> home_reach s'"

subsection \<open>Example state\<close>

definition home_example :: home_page where
  "home_example = \<lparr>hp_user = Some 7,
     hp_products = [\<lparr>product_id = 3, product_name = ''Desk Lamp'', product_description = None,
                     product_price = 2500, product_stock_quantity = 5\<rparr>],
     hp_loading = False, hp_error = None, hp_message = None, hp_pending = [], hp_timers = 0,
     hp_effects = [Call GetProducts]\<rparr>"

subsection \<open>Lemmas\<close>

lemmas home_handler_defs [page_simps] = load_products_def load_products_done_def
  home_handle_add_to_cart_def home_add_to_cart_done_def card_add_to_cart_def home_issue_def

lemma home_continue_effects:
  "home_continue c r s = Some s' \<Longrightarrow> hp_effects s' = hp_effects s \<and> hp_user s' = hp_user s"
  by (induction c r s rule: home_continue.induct) (auto simp add: page_simps)

subsection \<open>Properties\<close>

text \<open>The error view's Retry re-enters the loading state: the error is cleared
  and a new \<open>getProducts\<close> call is issued.\<close>

theorem home_retry_reloads:
  assumes "home_view s = HomeErrorView m"
  shows "\<exists>s'. home_step s HomeRetry = Some s' \<and> home_view s' = HomeLoadingView \<and>
           hp_error s' = None \<and> hp_pending s' = hp_pending s @ [GetProducts]"
  using assms by (simp add: home_view_def page_simps)

text \<open>(C21) Every call the product list issues besides the product fetch is an
  add-to-cart of quantity 1 for a listed, in-stock product and the logged-in user.\<close>

theorem home_add_request_quantity_one:
  assumes st: "home_step s e = Some s'" and new: "Call c \<in> set (hp_effects s')"
    and old: "Call c \<notin> set (hp_effects s)" and nf: "c \<noteq> GetProducts"
  shows "\<exists>uid p. c = AddToCart uid \<lparr>add_product_id = product_id p, add_quantity = 1\<rparr> \<and>
           hp_user s = Some uid \<and> uid \<noteq> 0 \<and> p \<in> set (hp_products s) \<and> 0 < product_stock_quantity p"
proof (cases e)
  case (HomeClickCardAdd p)
  with st have "p \<in> set (hp_products s)" "id_truthy (hp_user s)" "\<not> card_out_of_stock p"
    "s' = card_add_to_cart True p s"
    by (auto simp add: home_view_def split: if_splits)
  with new old show ?thesis
    by (cases "hp_user s") (auto simp add: page_simps card_out_of_stock_def)
next
  case (HomeResolve i r)
  with st have "home_continue (hp_pending s ! i) r (s\<lparr>hp_pending := drop_at i (hp_pending s)\<rparr>) = Some s'"
    by (simp split: if_splits)
  then have "hp_effects s' = hp_effects s" by (auto dest: home_continue_effects)
  with new old show ?thesis by simp
qed (use st new old nf in \<open>auto simp add: page_simps split: home_view.splits if_splits\<close>)

text \<open>(C34) A rejected add-to-cart replaces the whole product list by the error view
  with its message, whose Retry then refetches the products.\<close>

theorem home_add_failure_replaces_list:
  assumes "i < length (hp_pending s)" and "hp_pending s ! i = AddToCart u r"
    and "m \<noteq> []" and "\<not> hp_loading s"
  shows "\<exists>s'. home_step s (HomeResolve i (Inl (RejError m))) = Some s' \<and>
           home_view s' = HomeErrorView m \<and> hp_products s' = hp_products s"
  using assms by (simp add: home_add_to_cart_done_def home_view_def)

text \<open>(C32) A card shows at most 103 characters of a description, and a description
  of at most 100 characters unchanged.\<close>

theorem card_description_bound:
  "length (card_description d) \<le> 103 \<and> (length d \<le> 100 \<longrightarrow> card_description d = d)"
  by (simp add: card_description_def)

subsection \<open>Witnesses\<close>

theorem home_retry_reloads_witness:
  "\<exists>s'. home_step (home_example\<lparr>hp_error := Some ''Network error''\<rparr>) HomeRetry = Some s' \<and>
     home_view s' = HomeLoadingView \<and> hp_error s' = None \<and> hp_pending s' = [GetProducts]"
proof -
  have "home_view (home_example\<lparr>hp_error := Some ''Network error''\<rparr>) = HomeErrorView ''Network error''"
    by (simp add: home_example_def home_view_def)
  from home_retry_reloads [OF this] show ?thesis by (simp add: home_example_def)
qed

theorem home_add_request_quantity_one_witness:
  "\<exists>p :: product_dto. AddToCart 7 \<lparr>add_product_id = 3, add_quantity = 1\<rparr> =
       AddToCart 7 \<lparr>add_product_id = product_id p, add_quantity = 1\<rparr> \<and> 0 < product_stock_quantity p"
proof -
  let ?p = "\<lparr>product_id = 3, product_name = ''Desk Lamp'', product_description = None,
             product_price = 2500, product_stock_quantity = 5\<rparr> :: product_dto"
  have st: "home_step home_example (HomeClickCardAdd ?p) = Some (card_add_to_cart True ?p home_example)"
    by (simp add: home_example_def home_view_def card_out_of_stock_def)
  have c: "Call (AddToCart 7 \<lparr>add_product_id = 3, add_quantity = 1\<rparr>) \<in> set (hp_effects (card_add_to_cart True ?p home_example))"
    by (simp add: home_example_def page_simps)
  have o: "Call (AddToCart 7 \<lparr>add_product_id = 3, add_quantity = 1\<rparr>) \<notin> set (hp_effects home_example)"
    by (simp add: home_example_def)
  have nf: "AddToCart 7 \<lparr>add_product_id = 3, add_quantity = 1\<rparr> \<noteq> GetProducts" by simp
  from home_add_request_quantity_one [OF st c o nf] show ?thesis by auto
qed

theorem home_add_failure_replaces_list_witness:
  "\<exists>s'. home_step (home_example\<lparr>hp_pending := [AddToCart 7 \<lparr>add_product_id = 3, add_quantity = 1\<rparr>]\<rparr>)
          (HomeResolve 0 (Inl (RejError ''Insufficient stock''))) = Some s' \<and>
     home_view s' = HomeErrorView ''Insufficient stock'' \<and> hp_products s' = hp_products home_example"
  using home_add_failure_replaces_list
    [of 0 "home_example\<lparr>hp_pending := [AddToCart 7 \<lparr>add_product_id = 3, add_quantity = 1\<rparr>]\<rparr>"
        7 "\<lparr>add_product_id = 3, add_quantity = 1\<rparr>" "''Insufficient stock''"]
  by (simp add: home_example_def)

theorem card_description_bound_witness:
  "length (card_description (replicate 120 CHR ''a'')) \<le> 103 \<and> card_description ''A bright lamp'' = ''A bright lamp''"
  using card_description_bound [of "replicate 120 CHR ''a''"] card_description_bound [of "''A bright lamp''"]
  by simp

end
