(* ===== verification/Register.thy ===== *)
theory Register
  imports Api UserContext
begin

text \<open>
  The registration page, \<open>Register\<close> in \<open>src/src/pages/Register.tsx\<close>. Its state
  (\<open>username\<close>, \<open>email\<close>, \<open>loading\<close>, \<open>error\<close>) is a record with the calls in
  flight and the effects; the session context of \<open>UserContext\<close> is the other half of
  the state, because a successful registration calls \<open>setCurrentUserId\<close>. The
  e-mail check \<open>/^[^\s@]+@[^\s@]+\.[^\s@]+$/\<close> is given twice: as the language the
  regular expression denotes (\<open>email_lang\<close>) and as the executable test the page
  runs (\<open>email_regex_test\<close>); a lemma proves them equal.
\<close>

record reg_page =
  rg_username :: string
  rg_email :: string
  rg_loading :: bool
  rg_error :: "string option"
  rg_pending :: "api_call list"
  rg_effects :: "effect list"

definition reg_init :: reg_page where
  "reg_init = \<lparr>rg_username = [], rg_email = [], rg_loading = False, rg_error = None,
     rg_pending = [], rg_effects = []\<rparr>"

subsection \<open>The e-mail regular expression\<close>

text \<open>\<open>[^\s@]\<close>\<close>

definition email_char :: "char \<Rightarrow> bool" where
  "email_char c \<longleftrightarrow> \<not> js_ws c \<and> c \<noteq> CHR ''@''"

definition email_lang :: "string set" where
  "email_lang = {a @ CHR ''@'' # b @ CHR ''.'' # d | a b d.
                   a \<noteq> [] \<and> b \<noteq> [] \<and> d \<noteq> [] \<and>
                   list_all email_char a \<and> list_all email_char b \<and> list_all email_char d}"

text \<open>\<open>emailRegex.test(email)\<close>: the part before the only \<open>@\<close> is non-empty, no
  character is white space or a second \<open>@\<close>, and the part after it has a dot that
  is neither its first nor its last character.\<close>

definition email_regex_test :: "string \<Rightarrow> bool" where
  "email_regex_test s =
     (let a = takeWhile (\<lambda>c. c \<noteq> CHR ''@'') s; rest = drop (length a) s
      in a \<noteq> [] \<and> rest \<noteq> [] \<and> list_all email_char a \<and> list_all email_char (tl rest) \<and>
         CHR ''.'' \<in> set (butlast (tl (tl rest))))"

subsection \<open>The e-mail input\<close>

text \<open>The address is typed into an \<open><input type="email">\<close>. The DOM sanitizes the
  value of such an input: it removes line breaks and strips leading and trailing
  ASCII white space. So \<open>e.target.value\<close>, which \<open>onChange\<close> passes to
  \<open>setEmail\<close>, is the sanitized text, both under jsdom and in a browser. The no-break
  space is not ASCII white space and stays.\<close>

definition html_ws :: "char \<Rightarrow> bool" where
  "html_ws c = (c \<in> set [CHR 0x09, CHR 0x0A, CHR 0x0C, CHR 0x0D, CHR 0x20])"

definition email_sanitize :: "string \<Rightarrow> string" where
  "email_sanitize v =
     rev (dropWhile html_ws (rev (dropWhile html_ws (filter (\<lambda>c. c \<noteq> CHR 0x0A \<and> c \<noteq> CHR 0x0D) v))))"

subsection \<open>Handlers\<close>

definition reg_issue :: "api_call \<Rightarrow> reg_page \<Rightarrow> reg_page" where
  "reg_issue c s = s\<lparr>rg_pending := rg_pending s @ [c], rg_effects := rg_effects s @ [Call c]\<rparr>"

text \<open>\<open>handleSubmit\<close> up to \<open>await createUser(...)\<close>: the error is cleared, then
  three validations each end the handler with their message.\<close>

definition reg_handle_submit :: "reg_page \<Rightarrow> reg_page" where
  "reg_handle_submit s =
     (let s0 = s\<lparr>rg_error := None\<rparr> in
      if js_trim (rg_username s) = [] then s0\<lparr>rg_error := Some ''Username is required''\<rparr>
      else if js_trim (rg_email s) = [] then s0\<lparr>rg_error := Some ''Email is required''\<rparr>
      else if \<not> email_regex_test (rg_email s) then s0\<lparr>rg_error := Some ''Please enter a valid email address''\<rparr>
      else reg_issue (CreateUser \<lparr>cu_username = js_trim (rg_username s), cu_email = js_trim (rg_email s)\<rparr>)
             (s0\<lparr>rg_loading := True\<rparr>))"

text \<open>After \<open>createUser\<close>: the new id goes to the context (and so to storage), the
  page navigates home; a failure shows its message; \<open>finally\<close> ends loading.\<close>

definition reg_submit_done :: "rejection + user_dto \<Rightarrow> reg_page \<times> user_ctx \<Rightarrow> reg_page \<times> user_ctx" where
  "reg_submit_done r sc =
     (case sc of (s, c) \<Rightarrow>
       (case r of
          Inr user \<Rightarrow> (s\<lparr>rg_effects := rg_effects s @ [Navigate ''/''], rg_loading := False\<rparr>,
                       set_current_user_id (Some (user_id user)) c)
        | Inl e \<Rightarrow> (s\<lparr>rg_error := Some (caught_message ''Failed to create user'' e), rg_loading := False\<rparr>, c)))"

subsection \<open>Rendering and events\<close>

datatype reg_view = RegAlreadyView int | RegFormView "string option" bool

definition reg_view :: "reg_page \<Rightarrow> user_ctx \<Rightarrow> reg_view" where
  "reg_view s c =
     (case current_user_id c of
        Some uid \<Rightarrow> if uid \<noteq> 0 then RegAlreadyView uid else RegFormView (rg_error s) (rg_loading s)
      | None \<Rightarrow> RegFormView (rg_error s) (rg_loading s))"

datatype reg_event =
    RegTypeUsername string
  | RegTypeEmail string
  | RegSubmit
  | RegGoProducts
  | RegViewCart
  | RegResolve nat "rejection + api_value"

text \<open>The inputs and the submit button are disabled while loading; the e-mail input
  stores the sanitized value; the two buttons of the logged-in view navigate.\<close>

fun reg_step :: "reg_page \<times> user_ctx \<Rightarrow> reg_event \<Rightarrow> (reg_page \<times> user_ctx) option" where
  "reg_step (s, c) (RegTypeUsername v) =
     (case reg_view s c of RegFormView _ False \<Rightarrow> Some (s\<lparr>rg_username := v\<rparr>, c) | _ \<Rightarrow> None)"
| "reg_step (s, c) (RegTypeEmail v) =
     (case reg_view s c of RegFormView _ False \<Rightarrow> Some (s\<lparr>rg_email := email_sanitize v\<rparr>, c) | _ \<Rightarrow> None)"
| "reg_step (s, c) RegSubmit =
     (case reg_view s c of RegFormView _ False \<Rightarrow> Some (reg_handle_submit s, c) | _ \<Rightarrow> None)"
| "reg_step (s, c) RegGoProducts =
     (case reg_view s c of RegAlreadyView _ \<Rightarrow> Some (s\<lparr>rg_effects := rg_effects s @ [Navigate ''/'']\<rparr>, c)
      | _ \<Rightarrow> None)"
| "reg_step (s, c) RegViewCart =
     (case reg_view s c of RegAlreadyView _ \<Rightarrow> Some (s\<lparr>rg_effects := rg_effects s @ [Navigate ''/cart'']\<rparr>, c)
      | _ \<Rightarrow> None)"
| "reg_step (s, c) (RegResolve i r) =
     (if i < length (rg_pending s)
      then (case (rg_pending s ! i, r) of
              (CreateUser _, Inl e) \<Rightarrow>
                Some (reg_submit_done (Inl e) (s\<lparr>rg_pending := drop_at i (rg_pending s)\<rparr>, c))
            | (CreateUser _, Inr (VUser u)) \<Rightarrow>
                Some (reg_submit_done (Inr u) (s\<lparr>rg_pending := drop_at i (rg_pending s)\<rparr>, c))
            | _ \<Rightarrow> None)
      else None)"

inductive reg_reach :: "reg_page \<times> user_ctx \<Rightarrow> bool" where
  mount: "ctx_reach c \<Longrightarrow> reg_reach (reg_init, c)"
| step: "reg_reach sc \<Longrightarrow> reg_step sc e = Some sc' \<Longrightarrow> reg_reach sc'"

definition reg_inv :: "reg_page \<Rightarrow> bool" where
  "reg_inv s \<longleftrightarrow> (rg_loading s \<longleftrightarrow> rg_pending s \<noteq> []) \<and> length (rg_pending s) \<le> 1"

text \<open>A visitor with no stored identity who has typed a name and an address.\<close>

definition reg_example_filled :: reg_page where
  "reg_example_filled = reg_init\<lparr>rg_username := ''bob'', rg_email := ''bob@shop.io''\<rparr>"

subsection \<open>Lemmas\<close>

lemmas reg_handler_defs [page_simps] =
  reg_init_def reg_issue_def reg_handle_submit_def reg_submit_done_def reg_view_def

lemma dropWhile_dropWhile: "dropWhile P (dropWhile P xs) = dropWhile P xs"
  by (induction xs) auto

lemma last_dropWhile: "dropWhile P xs \<noteq> [] \<Longrightarrow> last (dropWhile P xs) = last xs"
  by (induction xs) auto

lemma js_trim_idem: "js_trim (js_trim s) = js_trim s"
proof (cases "dropWhile js_ws (rev (dropWhile js_ws s)) = []")
  case True
  then have e: "js_trim s = []" by (simp only: js_trim_def rev.simps(1))
  show ?thesis by (simp only: e) (simp add: js_trim_def)
next
  case False
  define t where "t = dropWhile js_ws s"
  define y where "y = dropWhile js_ws (rev t)"
  have ne: "y \<noteq> []" using False by (simp add: y_def t_def)
  then have "t \<noteq> []" by (auto simp: y_def)
  then have "\<not> js_ws (hd t)" using hd_dropWhile [of js_ws s] by (simp add: t_def)
  moreover have "last y = hd t" using ne \<open>t \<noteq> []\<close> by (simp add: y_def last_dropWhile last_rev)
  ultimately have "dropWhile js_ws (rev y) = rev y"
    using ne by (simp add: hd_rev dropWhile_eq_self_iff)
  moreover have "dropWhile js_ws y = y" by (simp add: y_def dropWhile_dropWhile)
  moreover have "js_trim s = rev y" by (simp add: js_trim_def t_def y_def)
  ultimately show ?thesis by (simp add: js_trim_def)
qed

lemma js_trim_no_ws: "list_all (\<lambda>c. \<not> js_ws c) s \<Longrightarrow> js_trim s = s"
proof -
  assume a: "list_all (\<lambda>c. \<not> js_ws c) s"
  then have "dropWhile js_ws s = s" by (cases s) auto
  moreover have "dropWhile js_ws (rev s) = rev s" using a by (cases "rev s") (auto simp: list_all_iff)
  ultimately show ?thesis by (simp add: js_trim_def)
qed

lemma email_char_dot [simp]: "email_char CHR ''.''"
  by (simp add: email_char_def js_ws_def)

lemma takeWhile_email_prefix:
  "list_all email_char a \<Longrightarrow> takeWhile (\<lambda>c. c \<noteq> CHR ''@'') (a @ CHR ''@'' # r) = a"
  by (induction a) (auto simp: email_char_def)

lemma in_set_butlastD: "x \<in> set (butlast xs) \<Longrightarrow> \<exists>u w. xs = u @ x # w \<and> w \<noteq> []"
proof -
  assume x: "x \<in> set (butlast xs)"
  then obtain u v where "butlast xs = u @ x # v" by (meson split_list)
  moreover have "xs \<noteq> []" using x by auto
  ultimately have "xs = u @ x # (v @ [last xs])" by (metis append_butlast_last_id append.assoc append_Cons)
  then show ?thesis by blast
qed

lemma email_lang_test: "s \<in> email_lang \<Longrightarrow> email_regex_test s"
proof -
  assume "s \<in> email_lang"
  then obtain a b d where s: "s = a @ CHR ''@'' # b @ CHR ''.'' # d"
    and ne: "a \<noteq> []" "b \<noteq> []" "d \<noteq> []"
    and ok: "list_all email_char a" "list_all email_char b" "list_all email_char d"
    unfolding email_lang_def by blast
  have tw: "takeWhile (\<lambda>c. c \<noteq> CHR ''@'') s = a" using ok(1) by (simp add: s takeWhile_email_prefix)
  have "butlast (tl b @ CHR ''.'' # d) = tl b @ CHR ''.'' # butlast d" using ne(3) by (simp add: butlast_append)
  then have "CHR ''.'' \<in> set (butlast (tl (b @ CHR ''.'' # d)))" using ne(2) by (cases b) auto
  then show ?thesis using ne ok tw by (simp add: email_regex_test_def s Let_def)
qed

lemma email_test_lang: "email_regex_test s \<Longrightarrow> s \<in> email_lang"
proof -
  assume t: "email_regex_test s"
  define a where "a = takeWhile (\<lambda>c. c \<noteq> CHR ''@'') s"
  define rest where "rest = dropWhile (\<lambda>c. c \<noteq> CHR ''@'') s"
  have s: "s = a @ rest" by (simp add: a_def rest_def)
  have dr: "drop (length a) s = rest" by (simp add: s)
  from t have ne: "a \<noteq> []" "rest \<noteq> []" and oka: "list_all email_char a"
    and okr: "list_all email_char (tl rest)" and dot: "CHR ''.'' \<in> set (butlast (tl (tl rest)))"
    unfolding email_regex_test_def Let_def a_def [symmetric] dr by simp_all
  have "hd rest = CHR ''@''" using ne(2) hd_dropWhile [of "\<lambda>c. c \<noteq> CHR ''@''" s] by (simp add: rest_def)
  then obtain r where rest: "rest = CHR ''@'' # r" using ne(2) by (cases rest) auto
  from dot obtain u w where r': "tl r = u @ CHR ''.'' # w" and w: "w \<noteq> []"
    using rest in_set_butlastD [of "CHR ''.''" "tl r"] by auto
  have "r \<noteq> []" using dot rest by auto
  then obtain x where r: "r = x # u @ CHR ''.'' # w" using r' by (cases r) auto
  have "s = a @ CHR ''@'' # (x # u) @ CHR ''.'' # w" by (simp add: s rest r)
  moreover have "list_all email_char (x # u)" "list_all email_char w" using okr by (simp_all add: rest r)
  ultimately show ?thesis using ne(1) oka w unfolding email_lang_def by blast
qed

lemma email_char_no_ws: "list_all email_char a \<Longrightarrow> list_all (\<lambda>c. \<not> js_ws c) a"
  by (simp add: list_all_iff email_char_def)

lemma js_ws_at_dot [simp]: "\<not> js_ws CHR ''@''" "\<not> js_ws CHR ''.''"
  by (simp_all add: js_ws_def)

lemma email_lang_no_ws: "s \<in> email_lang \<Longrightarrow> list_all (\<lambda>c. \<not> js_ws c) s"
proof -
  assume "s \<in> email_lang"
  then obtain a b d where "s = a @ CHR ''@'' # b @ CHR ''.'' # d"
    and "list_all email_char a" "list_all email_char b" "list_all email_char d"
    unfolding email_lang_def by blast
  then show ?thesis by (simp add: email_char_no_ws)
qed

lemma reg_form_enabled: "reg_view s c = RegFormView m False \<Longrightarrow> \<not> rg_loading s"
  by (auto simp: reg_view_def split: option.splits if_splits)

lemma reg_step_submit: "reg_step (s, c) RegSubmit = Some sc' \<Longrightarrow> sc' = (reg_handle_submit s, c)"
  by (auto split: reg_view.splits bool.splits)

lemma reg_step_resolve:
  "reg_step (s, c) (RegResolve i r) = Some sc' \<Longrightarrow>
   i < length (rg_pending s) \<and> (\<exists>r'. sc' = reg_submit_done r' (s\<lparr>rg_pending := drop_at i (rg_pending s)\<rparr>, c))"
  by (auto split: if_splits api_call.splits sum.splits api_value.splits)

lemma reg_submit_done_effects:
  "reg_submit_done r (s, c) = (s', c') \<Longrightarrow> set (rg_effects s') \<subseteq> set (rg_effects s) \<union> {Navigate ''/''}"
  by (cases r) (auto simp: reg_submit_done_def)

lemma reg_inv_submit: "reg_inv s \<Longrightarrow> \<not> rg_loading s \<Longrightarrow> reg_inv (reg_handle_submit s)"
  by (simp add: reg_inv_def reg_handle_submit_def reg_issue_def Let_def)

lemma reg_inv_done:
  "reg_inv s \<Longrightarrow> i < length (rg_pending s) \<Longrightarrow>
   reg_submit_done r (s\<lparr>rg_pending := drop_at i (rg_pending s)\<rparr>, c) = (s', c') \<Longrightarrow> reg_inv s'"
proof -
  assume "reg_inv s" "i < length (rg_pending s)"
  then have "length (drop_at i (rg_pending s)) = 0" by (simp add: reg_inv_def)
  moreover assume "reg_submit_done r (s\<lparr>rg_pending := drop_at i (rg_pending s)\<rparr>, c) = (s', c')"
  ultimately show ?thesis by (cases r) (auto simp: reg_inv_def reg_submit_done_def)
qed

lemma reg_inv_step:
  assumes st: "reg_step (s, c) e = Some (s', c')" and inv: "reg_inv s"
  shows "reg_inv s'"
proof (cases e)
  case (RegResolve i r)
  with st obtain r' where "i < length (rg_pending s)"
    and "reg_submit_done r' (s\<lparr>rg_pending := drop_at i (rg_pending s)\<rparr>, c) = (s', c')"
    using reg_step_resolve by metis
  with inv show ?thesis by (rule reg_inv_done)
next
  case RegSubmit
  with st show ?thesis using inv reg_inv_submit
    by (auto dest: reg_form_enabled split: reg_view.splits bool.splits)
qed (use st inv in \<open>auto simp: reg_inv_def split: reg_view.splits bool.splits\<close>)

lemma reg_effects_step:
  assumes st: "reg_step (s, c) e = Some (s', c')" and k: "Call k \<in> set (rg_effects s')"
  shows "Call k \<in> set (rg_effects s) \<or>
    (k = CreateUser \<lparr>cu_username = js_trim (rg_username s), cu_email = js_trim (rg_email s)\<rparr> \<and>
     js_trim (rg_username s) \<noteq> [] \<and> email_regex_test (rg_email s))"
proof (cases e)
  case (RegResolve i r)
  with st obtain r' where "reg_submit_done r' (s\<lparr>rg_pending := drop_at i (rg_pending s)\<rparr>, c) = (s', c')"
    using reg_step_resolve by metis
  then have "set (rg_effects s') \<subseteq> set (rg_effects s) \<union> {Navigate ''/''}"
    using reg_submit_done_effects by fastforce
  with k show ?thesis by auto
next
  case RegSubmit
  with st have "s' = reg_handle_submit s" using reg_step_submit by blast
  with k show ?thesis by (auto simp add: reg_handle_submit_def reg_issue_def Let_def split: if_splits)
next
  case (RegTypeUsername v)
  with st k show ?thesis by (auto split: reg_view.splits bool.splits)
next
  case (RegTypeEmail v)
  with st k show ?thesis by (auto split: reg_view.splits bool.splits)
next
  case RegGoProducts
  with st k show ?thesis by (auto split: reg_view.splits)
next
  case RegViewCart
  with st k show ?thesis by (auto split: reg_view.splits)
qed

lemma reg_example_reach:
  "reg_reach (reg_handle_submit reg_example_filled, ctx_load (ctx_init Map.empty))"
proof -
  let ?c = "ctx_load (ctx_init Map.empty)"
  have c: "current_user_id ?c = None" by (simp add: ctx_load_def ctx_init_def)
  have r0: "reg_reach (reg_init, ?c)" by (rule reg_reach.mount, rule ctx_reach.mount)
  have "reg_step (reg_init, ?c) (RegTypeUsername ''bob'') = Some (reg_init\<lparr>rg_username := ''bob''\<rparr>, ?c)"
    using c by (simp add: reg_view_def reg_init_def)
  with r0 have r1: "reg_reach (reg_init\<lparr>rg_username := ''bob''\<rparr>, ?c)" by (rule reg_reach.step)
  have "reg_step (reg_init\<lparr>rg_username := ''bob''\<rparr>, ?c) (RegTypeEmail ''bob@shop.io'') =
          Some (reg_example_filled, ?c)"
    using c by (simp add: reg_view_def reg_init_def reg_example_filled_def email_sanitize_def html_ws_def)
  with r1 have r2: "reg_reach (reg_example_filled, ?c)" by (rule reg_reach.step)
  have "reg_step (reg_example_filled, ?c) RegSubmit = Some (reg_handle_submit reg_example_filled, ?c)"
    using c by (simp add: reg_view_def reg_init_def reg_example_filled_def)
  with r2 show ?thesis by (rule reg_reach.step)
qed

lemma reg_example_submitted:
  "reg_handle_submit reg_example_filled =
     reg_example_filled\<lparr>rg_loading := True,
       rg_pending := [CreateUser \<lparr>cu_username = ''bob'', cu_email = ''bob@shop.io''\<rparr>],
       rg_effects := [Call (CreateUser \<lparr>cu_username = ''bob'', cu_email = ''bob@shop.io''\<rparr>)]\<rparr>"
  by (simp add: reg_handle_submit_def reg_issue_def reg_example_filled_def reg_init_def js_trim_def
      js_ws_def email_regex_test_def email_char_def)

lemma reg_step_resolve_user:
  "reg_step (s, c) (RegResolve i (Inr (VUser u))) = Some (s', c') \<Longrightarrow>
   c' = set_current_user_id (Some (user_id u)) c \<and> rg_effects s' = rg_effects s @ [Navigate ''/'']"
  by (auto simp: reg_submit_done_def split: if_splits api_call.splits)

lemma reg_request_ok:
  "js_trim u \<noteq> [] \<Longrightarrow> email_regex_test e \<Longrightarrow> js_trim (js_trim u) = js_trim u \<and> js_trim e \<in> email_lang"
  using js_trim_idem email_test_lang email_lang_no_ws js_trim_no_ws by metis

subsection \<open>Properties\<close>

text \<open>(C33) A blank username is refused on the client: submitting a form whose username
  is empty after \<open>trim()\<close> shows "Username is required", sends no request and leaves
  the session as it is.\<close>

theorem reg_blank_username_rejected:
  assumes "reg_step (s, c) RegSubmit = Some (s', c')" and "js_trim (rg_username s) = []"
  shows "rg_error s' = Some ''Username is required'' \<and> rg_pending s' = rg_pending s \<and>
         rg_effects s' = rg_effects s \<and> c' = c"
  using reg_step_submit [OF assms(1)] assms(2) by (simp add: reg_handle_submit_def)

theorem reg_blank_username_rejected_witness:
  "rg_error (reg_handle_submit (reg_init\<lparr>rg_username := ''  ''\<rparr>)) = Some ''Username is required'' \<and>
   rg_effects (reg_handle_submit (reg_init\<lparr>rg_username := ''  ''\<rparr>)) = []"
proof -
  have "reg_step (reg_init\<lparr>rg_username := ''  ''\<rparr>, ctx_init Map.empty) RegSubmit =
          Some (reg_handle_submit (reg_init\<lparr>rg_username := ''  ''\<rparr>), ctx_init Map.empty)"
    by (simp add: reg_view_def reg_init_def ctx_init_def)
  moreover have "js_trim (rg_username (reg_init\<lparr>rg_username := ''  ''\<rparr>)) = []"
    by (simp add: js_trim_def js_ws_def)
  ultimately show ?thesis using reg_blank_username_rejected by (simp add: reg_init_def)
qed

text \<open>(C35) At most one registration request is in flight, and the form is disabled
  (\<open>loading\<close>) exactly while it is: double submission cannot create two users.\<close>

theorem reg_reach_single_flight:
  assumes "reg_reach (s, c)"
  shows "length (rg_pending s) \<le> 1 \<and> (rg_loading s \<longleftrightarrow> rg_pending s \<noteq> [])"
proof -
  have "reg_inv (fst sc)" if "reg_reach sc" for sc
    using that
  proof (induction rule: reg_reach.induct)
    case (mount c)
    show ?case by (simp add: reg_inv_def reg_init_def)
  next
    case (step sc e sc')
    obtain s0 c0 s1 c1 where "sc = (s0, c0)" "sc' = (s1, c1)" by (cases sc, cases sc')
    with step show ?case using reg_inv_step by simp
  qed
  from this [OF assms] show ?thesis by (simp add: reg_inv_def)
qed

theorem reg_reach_single_flight_witness:
  "length (rg_pending (reg_handle_submit reg_example_filled)) \<le> 1 \<and>
   rg_loading (reg_handle_submit reg_example_filled)"
  using reg_reach_single_flight [OF reg_example_reach] by (simp add: reg_example_submitted)

text \<open>(C36) Every \<open>createUser\<close> request the page sends carries a non-empty, trimmed
  username and an address in the language of the e-mail expression, which has no
  white space, so the trimmed address sent is the address that was checked.\<close>

theorem reg_requests_valid:
  assumes "reg_reach (s, c)" and "Call k \<in> set (rg_effects s)"
  shows "\<exists>r. k = CreateUser r \<and> cu_username r \<noteq> [] \<and> js_trim (cu_username r) = cu_username r \<and>
             cu_email r \<in> email_lang"
proof -
  have "\<forall>k. Call k \<in> set (rg_effects (fst sc)) \<longrightarrow> (\<exists>r. k = CreateUser r \<and> cu_username r \<noteq> [] \<and>
           js_trim (cu_username r) = cu_username r \<and> cu_email r \<in> email_lang)"
    if "reg_reach sc" for sc
    using that
  proof (induction rule: reg_reach.induct)
    case (mount c)
    show ?case by (simp add: reg_init_def)
  next
    case (step sc e sc')
    obtain s0 c0 s1 c1 where sc: "sc = (s0, c0)" "sc' = (s1, c1)" by (cases sc, cases sc')
    show ?case
    proof (intro allI impI)
      fix k
      assume "Call k \<in> set (rg_effects (fst sc'))"
      with step.hyps(2) sc have "Call k \<in> set (rg_effects s0) \<or>
        (k = CreateUser \<lparr>cu_username = js_trim (rg_username s0), cu_email = js_trim (rg_email s0)\<rparr> \<and>
         js_trim (rg_username s0) \<noteq> [] \<and> email_regex_test (rg_email s0))"
        using reg_effects_step by simp
      then show "\<exists>r. k = CreateUser r \<and> cu_username r \<noteq> [] \<and>
           js_trim (cu_username r) = cu_username r \<and> cu_email r \<in> email_lang"
      proof
        assume "Call k \<in> set (rg_effects s0)"
        with step.IH sc show ?thesis by simp
      next
        assume new: "k = CreateUser \<lparr>cu_username = js_trim (rg_username s0), cu_email = js_trim (rg_email s0)\<rparr> \<and>
          js_trim (rg_username s0) \<noteq> [] \<and> email_regex_test (rg_email s0)"
        then show ?thesis using reg_request_ok [of "rg_username s0" "rg_email s0"] by auto
      qed
    qed
  qed
  from this [OF assms(1)] assms(2) show ?thesis by simp
qed

theorem reg_requests_valid_witness:
  "cu_username \<lparr>cu_username = ''bob'', cu_email = ''bob@shop.io''\<rparr> \<noteq> [] \<and>
   ''bob@shop.io'' \<in> email_lang"
  using reg_requests_valid [OF reg_example_reach,
      of "CreateUser \<lparr>cu_username = ''bob'', cu_email = ''bob@shop.io''\<rparr>"]
  by (simp add: reg_example_submitted)

text \<open>The address is tested before it is trimmed, although it is trimmed for the
  emptiness check and for the request. The e-mail input strips ASCII white space but
  not a no-break space, which \<open>trim\<close> removes: an address typed after a no-break
  space is rejected, although its trimmed form is valid.\<close>

theorem reg_padded_email_rejected:
  "email_regex_test (js_trim (CHR 0xA0 # ''bob@shop.io'')) \<and>
   email_sanitize (CHR 0xA0 # ''bob@shop.io'') = CHR 0xA0 # ''bob@shop.io'' \<and>
   rg_error (reg_handle_submit (reg_init\<lparr>rg_username := ''bob'', rg_email := CHR 0xA0 # ''bob@shop.io''\<rparr>)) =
     Some ''Please enter a valid email address''"
  by (simp add: reg_handle_submit_def reg_init_def js_trim_def js_ws_def email_regex_test_def email_char_def
      email_sanitize_def html_ws_def)

text \<open>(C31) Filling the form and submitting it, from any enabled form. The username
  is typed as is and the address as the e-mail input sanitizes it. The submit then
  ends with the first failing check: a blank username, a blank address, or an
  address the regular expression rejects. Each failure shows its message and calls
  nothing. Otherwise the page starts loading and calls \<open>createUser\<close> once, with both
  values trimmed.\<close>

theorem reg_fill_and_submit:
  assumes "reg_view s c = RegFormView m False"
  shows "\<exists>s1 s2 s3. reg_step (s, c) (RegTypeUsername u) = Some (s1, c) \<and>
     reg_step (s1, c) (RegTypeEmail v) = Some (s2, c) \<and> reg_step (s2, c) RegSubmit = Some (s3, c) \<and>
     (if js_trim u = [] then rg_error s3 = Some ''Username is required'' \<and> rg_effects s3 = rg_effects s
      else if js_trim (email_sanitize v) = [] then rg_error s3 = Some ''Email is required'' \<and> rg_effects s3 = rg_effects s
      else if \<not> email_regex_test (email_sanitize v)
      then rg_error s3 = Some ''Please enter a valid email address'' \<and> rg_effects s3 = rg_effects s
      else rg_error s3 = None \<and> rg_loading s3 \<and>
        rg_effects s3 = rg_effects s @ [Call (CreateUser \<lparr>cu_username = js_trim u, cu_email = js_trim (email_sanitize v)\<rparr>)])"
  using assms
  by (auto simp add: reg_view_def reg_handle_submit_def reg_issue_def Let_def split: option.splits if_splits)

theorem reg_fill_and_submit_witness:
  "\<exists>s1 s2 s3. reg_step (reg_init, ctx_load (ctx_init Map.empty)) (RegTypeUsername '' testuser'') =
       Some (s1, ctx_load (ctx_init Map.empty)) \<and>
     reg_step (s1, ctx_load (ctx_init Map.empty)) (RegTypeEmail ''  test@example.com  '') = Some (s2, ctx_load (ctx_init Map.empty)) \<and>
     reg_step (s2, ctx_load (ctx_init Map.empty)) RegSubmit = Some (s3, ctx_load (ctx_init Map.empty)) \<and>
     rg_error s3 = None \<and> rg_loading s3 \<and>
     rg_effects s3 = [Call (CreateUser \<lparr>cu_username = ''testuser'', cu_email = ''test@example.com''\<rparr>)]"
proof -
  have v: "reg_view reg_init (ctx_load (ctx_init Map.empty)) = RegFormView None False"
    by (simp add: reg_view_def reg_init_def ctx_load_def ctx_init_def)
  have e: "email_sanitize ''  test@example.com  '' = ''test@example.com''"
    by (simp add: email_sanitize_def html_ws_def)
  have t: "js_trim '' testuser'' = ''testuser''" "js_trim ''test@example.com'' = ''test@example.com''"
    "email_regex_test ''test@example.com''"
    by (simp_all add: js_trim_def js_ws_def email_regex_test_def email_char_def)
  show ?thesis
    using reg_fill_and_submit [OF v, of "'' testuser''" "''  test@example.com  ''"]
    by (simp add: e t reg_init_def)
qed

end
