(* ===== verification/App.thy ===== *)
theory App
  imports Home ProductDetail CartPage Register
begin

text \<open>
  The application around the pages: the route table of \<open>App\<close> and the \<open>Header\<close>
  (both in \<open>src/src/pages/Home.tsx\<close>, lines 96--159, and
  \<open>src/src/components/Header.tsx\<close>), the links of \<open>ProductCard\<close>, and one session
  of the browser as a state machine over the session context, the location, the
  mounted page and the pages that have been left. A page that is left is not
  cancelled: its awaited calls still resolve and its timers still fire; what they do
  to its own state is invisible, but the calls they issue, the navigations they make
  and the identity they set still happen. Every call issued is logged with the
  session's identity at that moment and whether a mounted or a left page issued it.
\<close>

section \<open>Routes\<close>

datatype route = RouteHome | RouteProduct string | RouteRegister | RouteCart | RouteNotFound

text \<open>React Router 6 compiles a route path to a regular expression with the \<open>i\<close>
  flag: \<open>/cart\<close> to \<open>^\/cart\/*$\<close>, \<open>/product/:id\<close> to
  \<open>^\/product\/([^\/]+)\/*$\<close>, \<open>/\<close> to \<open>^\/\/*$\<close>; \<open>*\<close> matches the rest. Below
  256, the case folding of the \<open>i\<close> flag identifies exactly the ASCII letters.\<close>

definition strip_slashes :: "string \<Rightarrow> string" where
  "strip_slashes p = rev (dropWhile (\<lambda>c. c = CHR ''/'') (rev p))"

text \<open>\<open>matchRoutes\<close> on \<open>location.pathname || "/"\<close> (decoded).\<close>

definition app_route :: "string \<Rightarrow> route" where
  "app_route pathname =
     (let p = (if pathname = [] then ''/'' else pathname); q = strip_slashes p
      in if q = [] then RouteHome
         else if map ascii_lower q = ''/register'' then RouteRegister
         else if map ascii_lower q = ''/cart'' then RouteCart
         else if map ascii_lower (take 9 q) = ''/product/'' \<and> drop 9 q \<noteq> [] \<and> CHR ''/'' \<notin> set (drop 9 q)
         then RouteProduct (drop 9 q)
         else RouteNotFound)"

section \<open>Header\<close>

datatype header_item = HeaderLink string | HeaderUserInfo int | HeaderLogout

definition header_view :: "user_ctx \<Rightarrow> header_item list" where
  "header_view c =
     [HeaderLink ''/'', HeaderLink ''/''] @
     (if id_truthy (current_user_id c)
      then [HeaderLink ''/cart'', HeaderUserInfo (the (current_user_id c)), HeaderLogout]
      else [HeaderLink ''/register''])"

fun header_link :: "header_item \<Rightarrow> string option" where
  "header_link (HeaderLink p) = Some p"
| "header_link _ = None"

section \<open>Pages\<close>

datatype page =
    PageHome home_page
  | PageProduct pd_page
  | PageRegister reg_page
  | PageCart cart_page
  | PageNotFound

text \<open>The element of the matched route, first rendered with the session's user and
  its mount effect run.\<close>

definition mount_route :: "int option \<Rightarrow> route \<Rightarrow> page" where
  "mount_route u r =
     (case r of
        RouteHome \<Rightarrow> PageHome (load_products (home_init u))
      | RouteProduct param \<Rightarrow> PageProduct (pd_mount param (pd_init u))
      | RouteRegister \<Rightarrow> PageRegister reg_init
      | RouteCart \<Rightarrow> PageCart (cart_mount (cart_init u))
      | RouteNotFound \<Rightarrow> PageNotFound)"

fun page_effects :: "page \<Rightarrow> effect list" where
  "page_effects (PageHome s) = hp_effects s"
| "page_effects (PageProduct s) = pd_effects s"
| "page_effects (PageRegister s) = rg_effects s"
| "page_effects (PageCart s) = cp_effects s"
| "page_effects PageNotFound = []"

text \<open>A new identity re-renders the mounted page; only the cart page's effect
  depends on \<open>currentUserId\<close> and runs again when it changes.\<close>

fun page_set_user :: "int option \<Rightarrow> page \<Rightarrow> page" where
  "page_set_user u (PageHome s) = PageHome (s\<lparr>hp_user := u\<rparr>)"
| "page_set_user u (PageProduct s) = PageProduct (s\<lparr>pd_user := u\<rparr>)"
| "page_set_user u (PageCart s) =
     (if cp_user s = u then PageCart s else PageCart (cart_mount (s\<lparr>cp_user := u\<rparr>)))"
| "page_set_user u p = p"

text \<open>\<open>ProductCard\<close>'s links: the product's page, and registration for an anonymous
  visitor.\<close>

definition card_link :: "product_dto \<Rightarrow> string" where
  "card_link p = ''/product/'' @ show_int (product_id p)"

definition card_links :: "int option \<Rightarrow> product_dto \<Rightarrow> string list" where
  "card_links u p = card_link p # (if id_truthy u then [] else [''/register''])"

fun page_links :: "page \<Rightarrow> string list" where
  "page_links (PageHome s) =
     (case home_view s of HomeListView _ ps \<Rightarrow> concat (map (card_links (hp_user s)) ps) | _ \<Rightarrow> [])"
| "page_links _ = []"

datatype page_event =
    EvHome home_event
  | EvProduct pd_event
  | EvRegister reg_event
  | EvCart cart_event

fun page_step :: "user_ctx \<Rightarrow> page \<Rightarrow> page_event \<Rightarrow> (page \<times> user_ctx) option" where
  "page_step c (PageHome s) (EvHome e) = map_option (\<lambda>s'. (PageHome s', c)) (home_step s e)"
| "page_step c (PageProduct s) (EvProduct e) = map_option (\<lambda>s'. (PageProduct s', c)) (pd_step s e)"
| "page_step c (PageRegister s) (EvRegister e) =
     map_option (\<lambda>(s', c'). (PageRegister s', c')) (reg_step (s, c) e)"
| "page_step c (PageCart s) (EvCart e) = map_option (\<lambda>s'. (PageCart s', c)) (cart_step s e)"
| "page_step c _ _ = None"

text \<open>What still happens to a page that has been left: its calls resolve and its
  timers fire.\<close>

fun background_event :: "page_event \<Rightarrow> bool" where
  "background_event (EvHome (HomeResolve _ _)) = True"
| "background_event (EvHome HomeFire) = True"
| "background_event (EvProduct (PdResolve _ _)) = True"
| "background_event (EvProduct (PdFire _)) = True"
| "background_event (EvRegister (RegResolve _ _)) = True"
| "background_event (EvCart (Resolve _ _)) = True"
| "background_event _ = False"

section \<open>The session\<close>

datatype call_origin = Mounted | Detached

record app_state =
  app_ctx :: user_ctx
  app_path :: string
  app_page :: page
  app_detached :: "page list"
  app_log :: "(call_origin \<times> int option \<times> api_call) list"

fun effect_call :: "effect \<Rightarrow> api_call option" where
  "effect_call (Call c) = Some c"
| "effect_call (Navigate _) = None"

fun effect_nav :: "effect \<Rightarrow> string option" where
  "effect_nav (Navigate p) = Some p"
| "effect_nav (Call _) = None"

definition last_navigation :: "effect list \<Rightarrow> string option" where
  "last_navigation es = (case rev (List.map_filter effect_nav es) of [] \<Rightarrow> None | p # _ \<Rightarrow> Some p)"

definition log_calls ::
  "call_origin \<Rightarrow> int option \<Rightarrow> effect list \<Rightarrow> (call_origin \<times> int option \<times> api_call) list" where
  "log_calls org u es = map (\<lambda>k. (org, u, k)) (List.map_filter effect_call es)"

definition app_detach :: "app_state \<Rightarrow> app_state" where
  "app_detach a = a\<lparr>app_detached := app_detached a @ [app_page a]\<rparr>"

text \<open>Two locations render the same element when they match the same route; the
  product page is kept for another \<open>id\<close>, which re-runs its effect.\<close>

fun same_element :: "route \<Rightarrow> route \<Rightarrow> bool" where
  "same_element (RouteProduct _) (RouteProduct _) = True"
| "same_element r r' = (r = r')"

fun page_rerender :: "int option \<Rightarrow> route \<Rightarrow> route \<Rightarrow> page \<Rightarrow> page" where
  "page_rerender u (RouteProduct x) (RouteProduct y) (PageProduct s) =
     PageProduct (if x = y then s\<lparr>pd_user := u\<rparr> else pd_mount y (s\<lparr>pd_user := u\<rparr>))"
| "page_rerender u r r' pg = page_set_user u pg"

text \<open>The render after an event, with identity \<open>c\<close> at location \<open>p\<close>: the element
  of \<open>p\<close>'s route is re-rendered or mounted and its effects run; a navigation from an
  effect renders again. The fuel bounds these redirects.\<close>

definition app_render_once :: "user_ctx \<Rightarrow> string \<Rightarrow> app_state \<Rightarrow> app_state \<times> effect list" where
  "app_render_once c p a =
     (let u = current_user_id c; r0 = app_route (app_path a); r = app_route p;
          keep = same_element r0 r;
          pg = (if keep then page_rerender u r0 r (app_page a) else mount_route u r);
          es = (if keep then drop (length (page_effects (app_page a))) (page_effects pg) else page_effects pg);
          a0 = (if keep then a else app_detach a)
      in (a0\<lparr>app_ctx := c, app_path := p, app_page := pg, app_log := app_log a @ log_calls Mounted u es\<rparr>, es))"

fun app_render :: "nat \<Rightarrow> user_ctx \<Rightarrow> string \<Rightarrow> app_state \<Rightarrow> app_state option" where
  "app_render 0 c p a = None"
| "app_render (Suc n) c p a =
     (case app_render_once c p a of
        (a', es) \<Rightarrow> (case last_navigation es of None \<Rightarrow> Some a' | Some q \<Rightarrow> app_render n c q a'))"

definition app_fuel :: nat where
  "app_fuel = 2"

text \<open>Loading the application at \<open>p\<close> over the browser's storage. Every route is a
  \<open>React.lazy\<close> element, so the first render suspends and the provider's mount effect
  reads the stored identity before the page mounts.\<close>

definition app_start ::
  "(string \<rightharpoonup> string) \<Rightarrow> string \<Rightarrow> (call_origin \<times> int option \<times> api_call) list \<Rightarrow> app_state option" where
  "app_start st p lg =
     (let c = ctx_load (ctx_init st); u = current_user_id c; pg = mount_route u (app_route p);
          a = \<lparr>app_ctx = c, app_path = p, app_page = pg, app_detached = [],
               app_log = lg @ log_calls Mounted u (page_effects pg)\<rparr>
      in case last_navigation (page_effects pg) of None \<Rightarrow> Some a | Some q \<Rightarrow> app_render app_fuel c q a)"

text \<open>After a page's step: its calls are logged, then the next render, at the
  location it navigated to, if any, with the identity it left.\<close>

definition app_react :: "call_origin \<Rightarrow> effect list \<Rightarrow> user_ctx \<Rightarrow> app_state \<Rightarrow> app_state option" where
  "app_react org es c a =
     app_render app_fuel c (case last_navigation es of None \<Rightarrow> app_path a | Some q \<Rightarrow> q)
       (a\<lparr>app_log := app_log a @ log_calls org (current_user_id (app_ctx a)) es\<rparr>)"

definition app_links :: "app_state \<Rightarrow> string list" where
  "app_links a = List.map_filter header_link (header_view (app_ctx a)) @ page_links (app_page a)"

datatype app_event =
    AppPage page_event
  | AppBackground nat page_event
  | AppLink string
  | AppLogout
  | AppVisit string

text \<open>An event of the mounted page, a late event of a page left before, a click on
  a link, the header's logout button, or loading a URL (typing it or reloading, and
  the \<open><a href="/">\<close> of the not-found page).\<close>

fun app_step :: "app_state \<Rightarrow> app_event \<Rightarrow> app_state option" where
  "app_step a (AppPage e) =
     (case page_step (app_ctx a) (app_page a) e of
        None \<Rightarrow> None
      | Some (pg, c) \<Rightarrow>
          app_react Mounted (drop (length (page_effects (app_page a))) (page_effects pg)) c (a\<lparr>app_page := pg\<rparr>))"
| "app_step a (AppBackground i e) =
     (if i < length (app_detached a) \<and> background_event e
      then (case page_step (app_ctx a) (app_detached a ! i) e of
              None \<Rightarrow> None
            | Some (pg, c) \<Rightarrow>
                app_react Detached (drop (length (page_effects (app_detached a ! i))) (page_effects pg)) c
                  (a\<lparr>app_detached := (app_detached a)[i := pg]\<rparr>))
      else None)"
| "app_step a (AppLink p) = (if p \<in> set (app_links a) then app_render app_fuel (app_ctx a) p a else None)"
| "app_step a AppLogout =
     (if HeaderLogout \<in> set (header_view (app_ctx a))
      then app_render app_fuel (clear_user (app_ctx a)) (app_path a) a else None)"
| "app_step a (AppVisit p) = app_start (storage (app_ctx a)) p (app_log a)"

fun app_run :: "app_state \<Rightarrow> app_event list \<Rightarrow> app_state option" where
  "app_run a [] = Some a"
| "app_run a (e # es) = (case app_step a e of None \<Rightarrow> None | Some a' \<Rightarrow> app_run a' es)"

inductive app_reach :: "app_state \<Rightarrow> bool" where
  start: "app_start st p [] = Some a \<Longrightarrow> app_reach a"
| step: "app_reach a \<Longrightarrow> app_step a e = Some a' \<Longrightarrow> app_reach a'"

section \<open>What a session guarantees\<close>

text \<open>The user a cart call acts for: the \<open>userId\<close> argument of \<open>getCart\<close>,
  \<open>addToCart\<close>, \<open>removeFromCart\<close> and \<open>checkout\<close>.\<close>

fun cart_owner :: "api_call \<Rightarrow> int option" where
  "cart_owner (GetCart u) = Some u"
| "cart_owner (AddToCart u _) = Some u"
| "cart_owner (RemoveFromCart u _) = Some u"
| "cart_owner (Checkout u) = Some u"
| "cart_owner _ = None"

definition owned_by :: "int option \<Rightarrow> api_call \<Rightarrow> bool" where
  "owned_by u k \<longleftrightarrow> (case cart_owner k of None \<Rightarrow> True | Some v \<Rightarrow> u = Some v \<and> v \<noteq> 0)"

fun effect_owned :: "int option \<Rightarrow> effect \<Rightarrow> bool" where
  "effect_owned u (Call k) = owned_by u k"
| "effect_owned u (Navigate _) = True"

definition calls_for :: "int option \<Rightarrow> effect list \<Rightarrow> bool" where
  "calls_for u es = list_all (effect_owned u) es"

fun entry_ok :: "call_origin \<times> int option \<times> api_call \<Rightarrow> bool" where
  "entry_ok (Mounted, u, k) = owned_by u k"
| "entry_ok (Detached, _, _) = True"

fun page_synced :: "int option \<Rightarrow> page \<Rightarrow> bool" where
  "page_synced u (PageHome s) = (hp_user s = u)"
| "page_synced u (PageProduct s) = (pd_user s = u)"
| "page_synced u (PageCart s) = (cp_user s = u)"
| "page_synced u _ = True"

fun page_matches :: "route \<Rightarrow> page \<Rightarrow> bool" where
  "page_matches RouteHome (PageHome _) = True"
| "page_matches (RouteProduct _) (PageProduct _) = True"
| "page_matches RouteRegister (PageRegister _) = True"
| "page_matches RouteCart (PageCart _) = True"
| "page_matches RouteNotFound PageNotFound = True"
| "page_matches _ _ = False"

fun cart_ok :: "page \<Rightarrow> bool" where
  "cart_ok (PageCart s) = (cart_inv s \<and> id_truthy (cp_user s))"
| "cart_ok _ = True"

text \<open>The invariant of a session: the mounted page renders the session's identity
  and matches the location, a mounted cart page belongs to a logged-in user and its
  calls in flight to that user, and every call a mounted page issued was a call for
  the identity of that moment.\<close>

definition app_ok :: "app_state \<Rightarrow> bool" where
  "app_ok a \<longleftrightarrow>
     page_synced (current_user_id (app_ctx a)) (app_page a) \<and>
     page_matches (app_route (app_path a)) (app_page a) \<and> cart_ok (app_page a) \<and>
     list_all entry_ok (app_log a)"

text \<open>A render that keeps a mounted cart page never gives it another logged-in user.\<close>

definition cart_stable :: "user_ctx \<Rightarrow> string \<Rightarrow> app_state \<Rightarrow> bool" where
  "cart_stable c p a \<longleftrightarrow>
     (case app_page a of
        PageCart s \<Rightarrow> \<not> same_element (app_route (app_path a)) (app_route p) \<or>
                      cp_user s = current_user_id c \<or> \<not> id_truthy (current_user_id c)
      | _ \<Rightarrow> True)"

text \<open>A browser whose storage holds user 7.\<close>

definition app_example_storage :: "string \<rightharpoonup> string" where
  "app_example_storage = [user_id_storage_key \<mapsto> ''7'']"

subsection \<open>Lemmas: the pages' steps\<close>

lemma calls_for_simps [simp]:
  "calls_for u []" "calls_for u (xs @ ys) \<longleftrightarrow> calls_for u xs \<and> calls_for u ys"
  "calls_for u (Navigate p # es) \<longleftrightarrow> calls_for u es"
  "calls_for u (Call k # es) \<longleftrightarrow> owned_by u k \<and> calls_for u es"
  by (simp_all add: calls_for_def)

lemma owned_by_simps [simp]:
  "owned_by u GetProducts" "owned_by u (GetProductById x)" "owned_by u (CreateUser r)"
  "owned_by (Some v) (GetCart v) \<longleftrightarrow> v \<noteq> 0" "owned_by (Some v) (AddToCart v q) \<longleftrightarrow> v \<noteq> 0"
  "owned_by (Some v) (RemoveFromCart v pid) \<longleftrightarrow> v \<noteq> 0" "owned_by (Some v) (Checkout v) \<longleftrightarrow> v \<noteq> 0"
  by (simp_all add: owned_by_def)

lemma home_step_delta:
  assumes "home_step s e = Some s'"
  shows "\<exists>es. hp_effects s' = hp_effects s @ es \<and> calls_for (hp_user s) es \<and> hp_user s' = hp_user s"
proof (cases e)
  case (HomeResolve i r)
  with assms show ?thesis by (auto dest: home_continue_effects split: if_splits)
qed (use assms in \<open>auto simp: load_products_def home_issue_def card_add_to_cart_def
  home_handle_add_to_cart_def split: home_view.splits if_splits option.splits\<close>)

lemma pd_step_delta:
  assumes "pd_step s e = Some s'"
  shows "\<exists>es. pd_effects s' = pd_effects s @ es \<and> calls_for (pd_user s) es \<and> pd_user s' = pd_user s"
proof (cases e)
  case (PdResolve i r)
  moreover have "pd_continue c r s0 = Some s' \<Longrightarrow> pd_user s' = pd_user s0" for c r s0 s'
    by (induction c r s0 rule: pd_continue.induct) (auto simp add: page_simps)
  ultimately show ?thesis using assms by (auto simp: pd_resolve_def dest: pd_continue_effects split: if_splits)
next
  case (PdFire i)
  let ?s0 = "s\<lparr>pd_timers := drop_at i (pd_timers s)\<rparr>"
  from PdFire assms have s': "s' = pd_timer_fire (pd_timers s ! i) ?s0"
    by (simp add: pd_fire_def split: if_splits)
  have "\<exists>es. pd_effects (pd_timer_fire t s0) = pd_effects s0 @ es \<and> calls_for u es \<and>
                   pd_user (pd_timer_fire t s0) = pd_user s0" for t s0 u
    by (cases t) (auto simp: pd_navigate_def)
  from this [of "pd_timers s ! i" ?s0 "pd_user s"] show ?thesis by (simp add: s')
next
  case PdClickAdd
  with assms show ?thesis
    by (auto simp: pd_handle_add_to_cart_def pd_login_prompt_def pd_issue_def
        split: pd_view.splits bool.splits option.splits if_splits)
qed (use assms in \<open>auto simp: quantity_input_def pd_navigate_def split: pd_view.splits bool.splits\<close>)

lemma cart_continue_delta:
  assumes "cart_call (cp_user s) c" and "cart_continue c r s = Some s'"
  shows "\<exists>es. cp_effects s' = cp_effects s @ es \<and> calls_for (cp_user s) es"
  using assms(1)
proof (cases rule: cart_call_cases)
  case (1 uid)
  with assms(2) show ?thesis
    by (cases r rule: sum.exhaust; cases "projr r") (auto simp add: page_simps)
next
  case (2 uid p)
  with assms(2) show ?thesis
    by (cases r rule: sum.exhaust; cases "projr r") (auto simp add: page_simps)
next
  case (3 uid)
  with assms(2) show ?thesis
    by (cases r rule: sum.exhaust; cases "projr r") (auto simp add: page_simps)
qed

lemma cart_step_delta:
  assumes inv: "cart_inv s" and st: "cart_step s e = Some s'"
  shows "\<exists>es. cp_effects s' = cp_effects s @ es \<and> calls_for (cp_user s) es"
proof (cases e)
  case (Resolve i r)
  with st have i: "i < length (cp_pending s)"
    and c: "cart_continue (cp_pending s ! i) r (s\<lparr>cp_pending := drop_at i (cp_pending s)\<rparr>) = Some s'"
    by (auto simp: cart_resolve_def split: if_splits)
  have "cart_call (cp_user s) (cp_pending s ! i)" using inv i by (simp add: cart_inv_def list_all_length)
  with cart_continue_delta [OF _ c] show ?thesis by simp
next
  case (ClickRemove pid)
  with st show ?thesis
    by (auto simp: page_simps split: cart_view.splits option.splits if_splits)
next
  case ClickCheckout
  with st show ?thesis
    by (auto simp: page_simps split: cart_view.splits option.splits if_splits)
qed (use st in \<open>auto simp: page_simps split: cart_view.splits\<close>)

lemma last_navigation_simps [simp]:
  "last_navigation [] = None" "last_navigation [Navigate p] = Some p"
  by (simp_all add: last_navigation_def)

lemma reg_step_delta:
  assumes st: "reg_step (s, c) e = Some (s', c')"
  shows "\<exists>es. rg_effects s' = rg_effects s @ es \<and> calls_for u es \<and>
           (current_user_id c' \<noteq> current_user_id c \<longrightarrow> last_navigation es = Some ''/'')"
proof (cases e)
  case (RegResolve i r)
  with st obtain r' where "(s', c') = reg_submit_done r' (s\<lparr>rg_pending := drop_at i (rg_pending s)\<rparr>, c)"
    using reg_step_resolve by metis
  then show ?thesis by (cases r') (auto simp: reg_submit_done_def)
next
  case RegSubmit
  with st have "s' = reg_handle_submit s" "c' = c" using reg_step_submit by blast+
  then show ?thesis by (auto simp: reg_handle_submit_def reg_issue_def Let_def)
qed (use st in \<open>auto split: reg_view.splits bool.splits\<close>)

lemma page_matches_iff [simp]:
  "page_matches r (PageHome s) \<longleftrightarrow> r = RouteHome"
  "page_matches r (PageProduct t) \<longleftrightarrow> (\<exists>x. r = RouteProduct x)"
  "page_matches r (PageRegister g) \<longleftrightarrow> r = RouteRegister"
  "page_matches r (PageCart k) \<longleftrightarrow> r = RouteCart"
  "page_matches r PageNotFound \<longleftrightarrow> r = RouteNotFound"
  by (cases r; simp)+

lemma page_step_mounted:
  assumes st: "page_step c pg e = Some (pg', c')" and sy: "page_synced u pg" and ok: "cart_ok pg"
  shows "\<exists>es. page_effects pg' = page_effects pg @ es \<and> calls_for u es \<and> page_synced u pg' \<and>
           cart_ok pg' \<and> (\<forall>r. page_matches r pg' = page_matches r pg)"
proof (cases pg)
  case (PageHome s)
  with st obtain e' s'' where h: "home_step s e' = Some s''" and pg': "pg' = PageHome s''"
    by (cases e) auto
  from home_step_delta [OF h] show ?thesis using PageHome sy pg' by auto
next
  case (PageProduct s)
  with st obtain e' s'' where h: "pd_step s e' = Some s''" and pg': "pg' = PageProduct s''"
    by (cases e) auto
  from pd_step_delta [OF h] show ?thesis using PageProduct sy pg' by auto
next
  case (PageRegister s)
  with st obtain e' s'' where h: "reg_step (s, c) e' = Some (s'', c')" and pg': "pg' = PageRegister s''"
    by (cases e) (auto split: prod.splits)
  from reg_step_delta [OF h, of u] show ?thesis using PageRegister pg' by auto
next
  case (PageCart s)
  with st obtain e' s'' where h: "cart_step s e' = Some s''" and pg': "pg' = PageCart s''"
    by (cases e) auto
  from PageCart ok have inv: "cart_inv s" and t: "id_truthy (cp_user s)" by simp_all
  from cart_step_delta [OF inv h] cart_inv_step [OF inv h] cart_step_user [OF h]
  show ?thesis using PageCart sy pg' t by auto
next
  case PageNotFound
  with st show ?thesis by simp
qed

lemma page_step_ctx_register:
  "page_step c pg e = Some (pg', c') \<Longrightarrow> c' \<noteq> c \<Longrightarrow> \<exists>s. pg = PageRegister s"
  by (cases "(c, pg, e)" rule: page_step.cases) auto

lemma page_step_ctx:
  assumes st: "page_step c pg e = Some (pg', c')" and ch: "current_user_id c' \<noteq> current_user_id c"
  shows "last_navigation (drop (length (page_effects pg)) (page_effects pg')) = Some ''/''"
proof -
  from ch have "c' \<noteq> c" by auto
  with st obtain s where pg: "pg = PageRegister s" using page_step_ctx_register by blast
  with st obtain e' s'' where h: "reg_step (s, c) e' = Some (s'', c')" and pg': "pg' = PageRegister s''"
    by (cases e) (auto split: prod.splits)
  from reg_step_delta [OF h, of None] ch show ?thesis using pg pg' by auto
qed

subsection \<open>Lemmas: renders\<close>

lemma last_navigation_calls [simp]: "last_navigation [Call k] = None"
  by (simp add: last_navigation_def)

lemma app_route_register [simp]: "app_route ''/register'' = RouteRegister"
  by (simp add: app_route_def strip_slashes_def ascii_lower_def)

lemma log_calls_ok: "calls_for u es \<Longrightarrow> list_all entry_ok (log_calls Mounted u es)"
proof (induction es)
  case (Cons e es)
  then show ?case by (cases e) (simp_all add: log_calls_def)
qed (simp add: log_calls_def)

lemma log_calls_detached [simp]: "list_all entry_ok (log_calls Detached u es)"
  by (simp add: log_calls_def list_all_iff)

lemma mount_route_ok:
  "page_synced u (mount_route u r) \<and> page_matches r (mount_route u r) \<and>
   calls_for u (page_effects (mount_route u r)) \<and>
   (last_navigation (page_effects (mount_route u r)) = None \<longrightarrow> cart_ok (mount_route u r)) \<and>
   (\<forall>q. last_navigation (page_effects (mount_route u r)) = Some q \<longrightarrow> q = ''/register'')"
proof (cases r)
  case RouteCart
  then show ?thesis using cart_inv_mount [of u]
    by (auto simp: mount_route_def cart_init_def page_simps split: option.splits)
qed (auto simp: mount_route_def load_products_def home_issue_def home_init_def pd_mount_def
  load_product_def pd_issue_def pd_init_def reg_init_def)

lemma page_rerender_ok:
  assumes m: "page_matches r0 pg" and keep: "same_element r0 r" and ok: "cart_ok pg"
    and stable: "case pg of PageCart s \<Rightarrow> cp_user s = u \<or> \<not> id_truthy u | _ \<Rightarrow> True"
  shows "page_synced u (page_rerender u r0 r pg) \<and> page_matches r (page_rerender u r0 r pg) \<and>
    calls_for u (drop (length (page_effects pg)) (page_effects (page_rerender u r0 r pg))) \<and>
    (last_navigation (drop (length (page_effects pg)) (page_effects (page_rerender u r0 r pg))) = None
       \<longrightarrow> cart_ok (page_rerender u r0 r pg)) \<and>
    (\<forall>q. last_navigation (drop (length (page_effects pg)) (page_effects (page_rerender u r0 r pg))) = Some q
       \<longrightarrow> q = ''/register'')"
proof (cases pg)
  case (PageProduct s)
  with m keep obtain x y where "r0 = RouteProduct x" "r = RouteProduct y" by (cases r) auto
  with PageProduct show ?thesis by (auto simp: pd_mount_def load_product_def pd_issue_def)
next
  case (PageCart s)
  with m keep have "r0 = RouteCart" "r = RouteCart" by (cases r; simp)+
  with PageCart ok stable show ?thesis by (auto simp: page_simps)
qed (use m keep in \<open>(cases r; simp)+\<close>)

lemma app_render_once_ok:
  assumes ok: "app_ok a" and st: "cart_stable c p a" and ro: "app_render_once c p a = (a', es)"
  shows "page_synced (current_user_id c) (app_page a') \<and> page_matches (app_route p) (app_page a') \<and>
         app_ctx a' = c \<and> app_path a' = p \<and> list_all entry_ok (app_log a') \<and>
         (last_navigation es = None \<longrightarrow> cart_ok (app_page a')) \<and>
         (\<forall>q. last_navigation es = Some q \<longrightarrow> q = ''/register'')"
proof (cases "same_element (app_route (app_path a)) (app_route p)")
  case True
  let ?u = "current_user_id c"
  let ?pg = "page_rerender ?u (app_route (app_path a)) (app_route p) (app_page a)"
  have a': "a' = a\<lparr>app_ctx := c, app_path := p, app_page := ?pg, app_log := app_log a @ log_calls Mounted ?u es\<rparr>"
    and es: "es = drop (length (page_effects (app_page a))) (page_effects ?pg)"
    using ro True unfolding app_render_once_def Let_def by auto
  have stable: "case app_page a of PageCart s \<Rightarrow> cp_user s = ?u \<or> \<not> id_truthy ?u | _ \<Rightarrow> True"
    using st True by (auto simp: cart_stable_def split: page.splits)
  have m: "page_matches (app_route (app_path a)) (app_page a)" and c: "cart_ok (app_page a)"
    and lg: "list_all entry_ok (app_log a)" using ok by (simp_all add: app_ok_def)
  from page_rerender_ok [OF m True c stable] show ?thesis
    using a' es lg log_calls_ok by auto
next
  case False
  let ?u = "current_user_id c"
  let ?pg = "mount_route ?u (app_route p)"
  have a': "a' = (app_detach a)\<lparr>app_ctx := c, app_path := p, app_page := ?pg,
                    app_log := app_log a @ log_calls Mounted ?u es\<rparr>"
    and es: "es = page_effects ?pg"
    using ro False unfolding app_render_once_def Let_def by auto
  have lg: "list_all entry_ok (app_log a)" using ok by (simp add: app_ok_def)
  from mount_route_ok [of ?u "app_route p"] show ?thesis
    using a' es lg log_calls_ok by (auto simp: app_detach_def)
qed

lemma app_render_register:
  assumes m: "page_matches (app_route (app_path a)) (app_page a)" and lg: "list_all entry_ok (app_log a)"
    and r: "app_render n c ''/register'' a = Some a''"
  shows "app_ok a'' \<and> app_ctx a'' = c"
proof (cases n)
  case 0
  with r show ?thesis by simp
next
  case (Suc k)
  show ?thesis
  proof (cases "app_route (app_path a) = RouteRegister")
    case True
    with m obtain g where "app_page a = PageRegister g" by (cases "app_page a") auto
    with r Suc True lg show ?thesis by (auto simp: app_render_once_def app_ok_def log_calls_def)
  next
    case False
    with r Suc lg show ?thesis
      by (auto simp: app_render_once_def app_ok_def app_detach_def mount_route_def reg_init_def log_calls_def)
  qed
qed

lemma app_render_ok:
  assumes ok: "app_ok a" and st: "cart_stable c p a" and r: "app_render n c p a = Some a''"
  shows "app_ok a'' \<and> app_ctx a'' = c"
proof (cases n)
  case 0
  with r show ?thesis by simp
next
  case (Suc k)
  obtain a' es where ro: "app_render_once c p a = (a', es)" by fastforce
  note facts = app_render_once_ok [OF ok st ro]
  show ?thesis
  proof (cases "last_navigation es")
    case None
    with r Suc ro have "a'' = a'" by simp
    with None facts show ?thesis by (simp add: app_ok_def)
  next
    case (Some q)
    with facts have q: "q = ''/register''" by simp
    with Some r Suc ro have "app_render k c ''/register'' a' = Some a''" by simp
    moreover have "page_matches (app_route (app_path a')) (app_page a')" "list_all entry_ok (app_log a')"
      using facts by simp_all
    ultimately show ?thesis using app_render_register by blast
  qed
qed

text \<open>The fuel is enough: a render navigates at most once, to the registration page,
  whose render never navigates.\<close>

lemma app_render_total:
  assumes ok: "app_ok a" and st: "cart_stable c p a"
  shows "\<exists>a''. app_render app_fuel c p a = Some a''"
proof -
  obtain a' es where ro: "app_render_once c p a = (a', es)" by fastforce
  note facts = app_render_once_ok [OF ok st ro]
  have reg: "\<exists>a''. app_render (Suc 0) c ''/register'' a' = Some a''"
  proof (cases "app_route (app_path a') = RouteRegister")
    case True
    with facts obtain g where "app_page a' = PageRegister g" by (cases "app_page a'") auto
    with True show ?thesis by (simp add: app_render_once_def)
  next
    case False
    then show ?thesis by (simp add: app_render_once_def mount_route_def reg_init_def)
  qed
  show ?thesis
  proof (cases "last_navigation es")
    case None
    with ro show ?thesis by (simp add: app_fuel_def numeral_2_eq_2)
  next
    case (Some q)
    with facts reg ro show ?thesis by (simp add: app_fuel_def numeral_2_eq_2)
  qed
qed

subsection \<open>Lemmas: the session invariant\<close>

lemma app_route_root [simp]: "app_route ''/'' = RouteHome"
  by (simp add: app_route_def strip_slashes_def)

lemma app_start_ok:
  assumes st: "app_start stg p lg = Some a" and lg: "list_all entry_ok lg"
  shows "app_ok a"
proof -
  let ?c = "ctx_load (ctx_init stg)"
  let ?u = "current_user_id ?c"
  let ?pg = "mount_route ?u (app_route p)"
  let ?a0 = "\<lparr>app_ctx = ?c, app_path = p, app_page = ?pg, app_detached = [],
              app_log = lg @ log_calls Mounted ?u (page_effects ?pg)\<rparr>"
  note m = mount_route_ok [of ?u "app_route p"]
  show ?thesis
  proof (cases "last_navigation (page_effects ?pg)")
    case None
    with st have "a = ?a0" by (simp add: app_start_def Let_def)
    with None m lg log_calls_ok show ?thesis by (simp add: app_ok_def)
  next
    case (Some q)
    with m have "q = ''/register''" by simp
    with Some st have "app_render app_fuel ?c ''/register'' ?a0 = Some a" by (simp add: app_start_def Let_def)
    moreover have "page_matches (app_route (app_path ?a0)) (app_page ?a0)" using m by simp
    moreover have "list_all entry_ok (app_log ?a0)" using m lg log_calls_ok by simp
    ultimately show ?thesis using app_render_register by blast
  qed
qed

lemma app_step_ok:
  assumes ok: "app_ok a" and st: "app_step a e = Some a'"
  shows "app_ok a'"
proof (cases e)
  case (AppPage pe)
  with st obtain pg c where ps: "page_step (app_ctx a) (app_page a) pe = Some (pg, c)"
    by (auto split: option.splits)
  let ?u = "current_user_id (app_ctx a)"
  let ?es = "drop (length (page_effects (app_page a))) (page_effects pg)"
  let ?a1 = "a\<lparr>app_page := pg\<rparr>\<lparr>app_log := app_log a @ log_calls Mounted ?u ?es\<rparr>"
  let ?q = "case last_navigation ?es of None \<Rightarrow> app_path a | Some q \<Rightarrow> q"
  have sy: "page_synced ?u (app_page a)" and co: "cart_ok (app_page a)"
    and m: "page_matches (app_route (app_path a)) (app_page a)" and lg: "list_all entry_ok (app_log a)"
    using ok by (simp_all add: app_ok_def)
  from page_step_mounted [OF ps sy co] m lg have ok1: "app_ok ?a1"
    by (auto simp: app_ok_def intro: log_calls_ok)
  have stable: "cart_stable c ?q ?a1"
  proof (cases pg)
    case (PageCart s)
    have "c = app_ctx a"
    proof (rule ccontr)
      assume "c \<noteq> app_ctx a"
      with ps obtain g where "app_page a = PageRegister g" using page_step_ctx_register by blast
      with ps PageCart show False by (cases pe) (auto split: prod.splits)
    qed
    with PageCart page_step_mounted [OF ps sy co] show ?thesis by (auto simp: cart_stable_def)
  qed (simp_all add: cart_stable_def)
  from AppPage st ps have "app_render app_fuel c ?q ?a1 = Some a'"
    by (cases "last_navigation ?es") (simp_all add: app_react_def)
  with app_render_ok [OF ok1 stable] show ?thesis by blast
next
  case (AppBackground i pe)
  with st have i: "i < length (app_detached a)" and bg: "background_event pe" by (simp_all split: if_splits)
  with AppBackground st obtain pg c where ps: "page_step (app_ctx a) (app_detached a ! i) pe = Some (pg, c)"
    by (auto split: option.splits if_splits)
  let ?es = "drop (length (page_effects (app_detached a ! i))) (page_effects pg)"
  let ?a1 = "a\<lparr>app_detached := (app_detached a)[i := pg]\<rparr>
               \<lparr>app_log := app_log a @ log_calls Detached (current_user_id (app_ctx a)) ?es\<rparr>"
  let ?q = "case last_navigation ?es of None \<Rightarrow> app_path a | Some q \<Rightarrow> q"
  have ok1: "app_ok ?a1" using ok by (simp add: app_ok_def)
  have stable: "cart_stable c ?q ?a1"
  proof (cases "current_user_id c = current_user_id (app_ctx a)")
    case True
    with ok show ?thesis by (auto simp: cart_stable_def app_ok_def split: page.splits)
  next
    case False
    with ps have "?q = ''/''" using page_step_ctx by simp
    with ok show ?thesis by (auto simp: cart_stable_def app_ok_def split: page.splits)
  qed
  from AppBackground st ps i bg have "app_render app_fuel c ?q ?a1 = Some a'"
    by (cases "last_navigation ?es") (simp_all add: app_react_def)
  with app_render_ok [OF ok1 stable] show ?thesis by blast
next
  case (AppLink p)
  with st have "app_render app_fuel (app_ctx a) p a = Some a'" by (simp split: if_splits)
  moreover have "cart_stable (app_ctx a) p a" using ok by (auto simp: cart_stable_def app_ok_def split: page.splits)
  ultimately show ?thesis using app_render_ok [OF ok] by blast
next
  case AppLogout
  with st have "app_render app_fuel (clear_user (app_ctx a)) (app_path a) a = Some a'" by (simp split: if_splits)
  moreover have "cart_stable (clear_user (app_ctx a)) (app_path a) a"
    by (auto simp: cart_stable_def clear_user_def split: page.splits)
  ultimately show ?thesis using app_render_ok [OF ok] by blast
next
  case (AppVisit p)
  with st ok show ?thesis using app_start_ok by (simp add: app_ok_def)
qed

lemma app_reach_ok: "app_reach a \<Longrightarrow> app_ok a"
proof (induction rule: app_reach.induct)
  case (start st p a)
  then show ?case by (rule app_start_ok) simp
next
  case (step a e a')
  then show ?case using app_step_ok by blast
qed

subsection \<open>Lemmas: links\<close>

lemma slash_not_in_show_int: "CHR ''/'' \<notin> set (show_int i)"
proof -
  have "\<not> is_digit CHR ''/''" by (simp add: is_digit_def)
  then show ?thesis using show_nat_digits by (auto simp: show_int_def)
qed

lemma strip_slashes_append:
  assumes "CHR ''/'' \<notin> set ys" and "ys \<noteq> []"
  shows "strip_slashes (xs @ ys) = xs @ ys"
proof -
  have "dropWhile (\<lambda>c. c = CHR ''/'') (rev ys) = rev ys"
    using assms by (cases "rev ys") (auto simp: dropWhile_eq_self_iff)
  moreover have "\<exists>y \<in> set ys. y \<noteq> CHR ''/''" using assms by (cases ys) auto
  ultimately show ?thesis by (auto simp: strip_slashes_def dropWhile_append)
qed

lemma app_route_card_link: "app_route (card_link p) = RouteProduct (show_int (product_id p))"
proof -
  let ?x = "show_int (product_id p)"
  have q: "strip_slashes (''/product/'' @ ?x) = ''/product/'' @ ?x"
    by (rule strip_slashes_append) (simp_all add: slash_not_in_show_int)
  have "length (''/product/'' @ ?x) \<ge> 10" using show_int_ne [of "product_id p"]
    by (cases ?x) simp_all
  then have ne: "map ascii_lower (''/product/'' @ ?x) \<noteq> ''/register''"
                "map ascii_lower (''/product/'' @ ?x) \<noteq> ''/cart''"
    by (auto dest: arg_cong [where f = length])
  show ?thesis
    using q ne slash_not_in_show_int [of "product_id p"]
    by (simp add: app_route_def card_link_def ascii_lower_def)
qed

lemma card_link_in_links:
  "home_view s = HomeListView m ps \<Longrightarrow> p \<in> set ps \<Longrightarrow> card_link p \<in> set (page_links (PageHome s))"
  by (auto simp: card_links_def)

lemma app_example_ctx: "current_user_id (ctx_load (ctx_init app_example_storage)) = Some 7"
  by (simp add: ctx_load_fresh app_example_storage_def parse_int_def is_digit_def js_ws_def
      parse_digits_def digit_val_def)

lemma app_route_cart [simp]: "app_route ''/cart'' = RouteCart"
  by (simp add: app_route_def strip_slashes_def ascii_lower_def)

subsection \<open>Properties\<close>

text \<open>(C38) In every session, every cart call that the mounted page issues
  (\<open>getCart\<close>, \<open>addToCart\<close>, \<open>removeFromCart\<close>, \<open>checkout\<close>) is for the user logged
  in at that moment, never for an anonymous session or the id 0: logout, registration
  and the cart page's redirect keep every mounted page in step with the session.\<close>

theorem app_mounted_calls_owned:
  assumes "app_reach a" and "(Mounted, u, k) \<in> set (app_log a)" and "cart_owner k = Some v"
  shows "u = Some v \<and> v \<noteq> 0"
proof -
  from app_reach_ok [OF assms(1)] have "list_all entry_ok (app_log a)" by (simp add: app_ok_def)
  with assms(2) have "owned_by u k" by (auto simp: list_all_iff)
  with assms(3) show ?thesis by (simp add: owned_by_def)
qed

theorem app_mounted_calls_owned_witness:
  "\<exists>a. app_start app_example_storage ''/cart'' [] = Some a \<and> (Mounted, Some 7, GetCart 7) \<in> set (app_log a) \<and>
     Some 7 = Some (7::int) \<and> (7::int) \<noteq> 0"
proof -
  have "\<exists>a. app_start app_example_storage ''/cart'' [] = Some a \<and> (Mounted, Some 7, GetCart 7) \<in> set (app_log a)"
    by (simp add: app_start_def Let_def app_example_ctx mount_route_def cart_mount_def cart_init_def
        load_cart_def load_cart_as_def cart_issue_def log_calls_def)
  then obtain a where st: "app_start app_example_storage ''/cart'' [] = Some a"
    and lg: "(Mounted, Some 7, GetCart 7) \<in> set (app_log a)" by blast
  from app_mounted_calls_owned [OF app_reach.start [OF st] lg] st lg show ?thesis by simp
qed

text \<open>(C39) A product card's link is a round trip through the router: on the product
  list, following the link \<open>/product/${product.id}\<close> of a listed product mounts the
  product page, whose \<open>parseInt\<close> of the route parameter gives back the id, so it
  fetches exactly that product for the same session user.\<close>

theorem card_link_opens_product:
  assumes "app_page a = PageHome s" and "app_route (app_path a) = RouteHome"
    and "home_view s = HomeListView m ps" and "p \<in> set ps"
  shows "\<exists>a' t. app_step a (AppLink (card_link p)) = Some a' \<and>
           app_route (app_path a') = RouteProduct (show_int (product_id p)) \<and> app_page a' = PageProduct t \<and>
           pd_pending t = [GetProductById (Some (product_id p))] \<and> pd_user t = current_user_id (app_ctx a)"
proof -
  have "card_link p \<in> set (app_links a)"
    using card_link_in_links [OF assms(3,4)] assms(1) by (simp add: app_links_def)
  then show ?thesis using assms(1,2)
    by (simp add: app_route_card_link app_render_once_def Let_def app_fuel_def numeral_2_eq_2
        mount_route_def pd_mount_def load_product_def pd_issue_def pd_init_def)
qed

theorem card_link_opens_product_witness:
  "\<exists>a' t. app_step \<lparr>app_ctx = ctx_load (ctx_init app_example_storage), app_path = ''/'',
                      app_page = PageHome home_example, app_detached = [], app_log = []\<rparr>
             (AppLink ''/product/3'') = Some a' \<and>
           app_page a' = PageProduct t \<and> pd_pending t = [GetProductById (Some 3)] \<and> pd_user t = Some 7"
proof -
  let ?a = "\<lparr>app_ctx = ctx_load (ctx_init app_example_storage), app_path = ''/'',
             app_page = PageHome home_example, app_detached = [], app_log = []\<rparr>"
  let ?p = "\<lparr>product_id = 3, product_name = ''Desk Lamp'', product_description = None,
             product_price = 2500, product_stock_quantity = 5\<rparr> :: product_dto"
  have h1: "app_page ?a = PageHome home_example" by simp
  have h2: "app_route (app_path ?a) = RouteHome" by simp
  have h3: "home_view home_example = HomeListView None [?p]" by (simp add: home_view_def home_example_def)
  have h4: "?p \<in> set [?p]" by simp
  obtain a' t where st: "app_step ?a (AppLink (card_link ?p)) = Some a'" and pg: "app_page a' = PageProduct t"
    and pe: "pd_pending t = [GetProductById (Some (product_id ?p))]"
    and u: "pd_user t = current_user_id (app_ctx ?a)"
    using card_link_opens_product [OF h1 h2 h3 h4] by blast
  have l: "card_link ?p = ''/product/3''" by (simp add: card_link_def show_eval)
  show ?thesis using st pg pe u by (auto simp: l app_example_ctx)
qed

end
