(* ===== verification/Lighthouse.thy ===== *)
theory Lighthouse
  imports Complex_Main Api
begin

text \<open>
  The helpers of \<open>src/lighthouse/utils.ts\<close>, which the Lighthouse test suites use to
  read an audit result and to wait for the server under test. A Lighthouse result is
  given by what the helpers read of it: the score of each category and, for each
  audit, its score, numeric value, title and description; a missing entry, \<open>null\<close>
  and \<open>undefined\<close> are \<open>None\<close>. Scores and values are JavaScript numbers, modelled as
  rationals (\<open>NaN\<close> and infinities do not occur in a Lighthouse result). The box
  drawing of \<open>formatScoreReport\<close> is text outside the 8-bit characters and is not
  modelled; its rows are. \<open>waitForServer\<close> is a loop over the clock: the environment
  says how long each \<open>fetch\<close> takes (\<open>None\<close> when it never settles), how it ends,
  and how late the one-second timer fires.
\<close>

section \<open>Reading a result\<close>

text \<open>A number's truthiness: \<open>0\<close> and a missing value are falsy.\<close>

definition num_truthy :: "rat option \<Rightarrow> bool" where
  "num_truthy v = (case v of None \<Rightarrow> False | Some x \<Rightarrow> x \<noteq> 0)"

type_synonym categories = "string \<rightharpoonup> rat option"

record audit =
  au_score :: "rat option"
  au_numeric :: "rat option"
  au_title :: string
  au_description :: string

type_synonym audits = "string \<rightharpoonup> audit"

text \<open>\<open>result.lhr.categories[k]?.score\<close>.\<close>

definition category_score :: "categories \<Rightarrow> string \<Rightarrow> rat option" where
  "category_score cats k = (case cats k of None \<Rightarrow> None | Some s \<Rightarrow> s)"

text \<open>\<open>score ? score * 100 : 0\<close>.\<close>

definition score_percent :: "categories \<Rightarrow> string \<Rightarrow> rat" where
  "score_percent cats k =
     (if num_truthy (category_score cats k) then the (category_score cats k) * 100 else 0)"

record scores =
  sc_performance :: rat
  sc_accessibility :: rat
  sc_best_practices :: rat
  sc_seo :: rat

definition extract_scores :: "categories \<Rightarrow> scores" where
  "extract_scores cats =
     \<lparr>sc_performance = score_percent cats ''performance'',
      sc_accessibility = score_percent cats ''accessibility'',
      sc_best_practices = score_percent cats ''best-practices'',
      sc_seo = score_percent cats ''seo''\<rparr>"

text \<open>\<open>result.lhr.audits[k]?.numericValue\<close>.\<close>

definition numeric_value :: "audits \<Rightarrow> string \<Rightarrow> rat option" where
  "numeric_value aus k = (case aus k of None \<Rightarrow> None | Some a \<Rightarrow> au_numeric a)"

text \<open>\<open>v ? v / d : null\<close>.\<close>

definition truthy_scaled :: "audits \<Rightarrow> string \<Rightarrow> rat \<Rightarrow> rat option" where
  "truthy_scaled aus k d =
     (if num_truthy (numeric_value aus k) then Some (the (numeric_value aus k) / d) else None)"

record web_vitals =
  wv_lcp :: "rat option"
  wv_fid :: "rat option"
  wv_cls :: "rat option"

definition extract_core_web_vitals :: "audits \<Rightarrow> web_vitals" where
  "extract_core_web_vitals aus =
     \<lparr>wv_lcp = truthy_scaled aus ''largest-contentful-paint'' 1000,
      wv_fid = truthy_scaled aus ''max-potential-fid'' 1,
      wv_cls = truthy_scaled aus ''cumulative-layout-shift'' 1\<rparr>"

record perf_metrics =
  pm_fcp :: "rat option"
  pm_si :: "rat option"
  pm_lcp :: "rat option"
  pm_tti :: "rat option"
  pm_tbt :: "rat option"
  pm_cls :: "rat option"

text \<open>The last field uses \<open>?? null\<close>, which keeps a value \<open>0\<close>.\<close>

definition extract_performance_metrics :: "audits \<Rightarrow> perf_metrics" where
  "extract_performance_metrics aus =
     \<lparr>pm_fcp = truthy_scaled aus ''first-contentful-paint'' 1000,
      pm_si = truthy_scaled aus ''speed-index'' 1000,
      pm_lcp = truthy_scaled aus ''largest-contentful-paint'' 1000,
      pm_tti = truthy_scaled aus ''interactive'' 1000,
      pm_tbt = truthy_scaled aus ''total-blocking-time'' 1,
      pm_cls = numeric_value aus ''cumulative-layout-shift''\<rparr>"

section \<open>Failed accessibility audits\<close>

definition a11y_audits :: "string list" where
  "a11y_audits =
     [''accesskeys'', ''aria-allowed-attr'', ''aria-required-attr'', ''aria-required-children'',
      ''aria-required-parent'', ''aria-roles'', ''aria-valid-attr'', ''aria-valid-attr-value'',
      ''button-name'', ''bypass'', ''color-contrast'', ''document-title'', ''duplicate-id-active'',
      ''duplicate-id-aria'', ''form-field-multiple-labels'', ''frame-title'', ''html-has-lang'',
      ''html-lang-valid'', ''image-alt'', ''input-image-alt'', ''label'', ''link-name'', ''list'',
      ''listitem'', ''meta-refresh'', ''meta-viewport'', ''object-alt'', ''tabindex'',
      ''td-headers-attr'', ''th-has-data-cells'', ''valid-lang'', ''video-caption'']"

record failed_audit =
  fa_id :: string
  fa_title :: string
  fa_description :: string

text \<open>\<open>audit && audit.score !== null && audit.score < 1\<close>; an \<open>undefined\<close> score
  fails \<open>< 1\<close> as \<open>null\<close> fails \<open>!== null\<close>.\<close>

definition audit_failed :: "audit option \<Rightarrow> bool" where
  "audit_failed a = (case a of None \<Rightarrow> False
                     | Some x \<Rightarrow> (case au_score x of None \<Rightarrow> False | Some s \<Rightarrow> s < 1))"

definition failed_entry :: "audits \<Rightarrow> string \<Rightarrow> failed_audit list" where
  "failed_entry aus k =
     (if audit_failed (aus k)
      then [\<lparr>fa_id = k, fa_title = au_title (the (aus k)), fa_description = au_description (the (aus k))\<rparr>]
      else [])"

text \<open>The \<open>forEach\<close> that pushes onto \<open>failed\<close>, in the order of the list.\<close>

definition get_failed_accessibility_audits :: "audits \<Rightarrow> failed_audit list" where
  "get_failed_accessibility_audits aus = concat (map (failed_entry aus) a11y_audits)"

section \<open>The score report\<close>

datatype emoji = GreenCircle | OrangeCircle | RedCircle

definition get_emoji :: "rat \<Rightarrow> emoji" where
  "get_emoji score = (if score \<ge> 90 then GreenCircle else if score \<ge> 50 then OrangeCircle else RedCircle)"

text \<open>\<open>x.toFixed(0)\<close> for \<open>|x| < 10^21\<close>: the nearest integer, the larger one on a tie,
  after taking the sign off.\<close>

definition to_fixed0 :: "rat \<Rightarrow> string" where
  "to_fixed0 x =
     (if x < 0 then CHR ''-'' # show_int (floor (- x + 1/2)) else show_int (floor (x + 1/2)))"

definition pad_start :: "nat \<Rightarrow> string \<Rightarrow> string" where
  "pad_start n s = replicate (n - length s) CHR '' '' @ s"

definition score_cell :: "rat \<Rightarrow> string" where
  "score_cell x = pad_start 3 (to_fixed0 x)"

text \<open>The four rows of \<open>formatScoreReport\<close>: emoji, label and score cell.\<close>

definition report_rows :: "scores \<Rightarrow> (emoji \<times> string \<times> string) list" where
  "report_rows sc =
     [(get_emoji (sc_performance sc), ''Performance:    '', score_cell (sc_performance sc)),
      (get_emoji (sc_accessibility sc), ''Accessibility:  '', score_cell (sc_accessibility sc)),
      (get_emoji (sc_best_practices sc), ''Best Practices: '', score_cell (sc_best_practices sc)),
      (get_emoji (sc_seo sc), ''SEO:             '', score_cell (sc_seo sc))]"

section \<open>Waiting for the server\<close>

text \<open>One round of the loop as the environment decides it: how many milliseconds the
  \<open>fetch\<close> takes (\<open>None\<close>: it never settles, there is no timeout), whether it
  rejects or which response it gives, and how late the 1000 ms timer fires.\<close>

record probe =
  pr_fetch_ms :: "nat option"
  pr_outcome :: "rejection + http_response"
  pr_late_ms :: nat

definition probe_ok :: "probe \<Rightarrow> bool" where
  "probe_ok p = (case pr_outcome p of Inl _ \<Rightarrow> False | Inr res \<Rightarrow> res_ok res)"

text \<open>The loop from round \<open>k\<close> at clock \<open>now\<close>: \<open>Some (found, fetches)\<close> when it
  returns, \<open>None\<close> when a fetch never settles. Every round that goes on advances the
  clock by at least 1000 ms, which is the termination measure.\<close>

function wait_loop :: "(nat \<Rightarrow> probe) \<Rightarrow> int \<Rightarrow> int \<Rightarrow> nat \<Rightarrow> int \<Rightarrow> (bool \<times> nat) option" where
  "wait_loop env start timeout k now =
     (if now - start < timeout then
        (case pr_fetch_ms (env k) of
           None \<Rightarrow> None
         | Some d \<Rightarrow>
             if probe_ok (env k) then Some (True, Suc k)
             else wait_loop env start timeout (Suc k) (now + int d + 1000 + int (pr_late_ms (env k))))
      else Some (False, k))"
  by pat_completeness auto
termination
  by (relation "measure (\<lambda>(env, start, timeout, k, now). nat (start + timeout - now))") auto

declare wait_loop.simps [simp del]

text \<open>\<open>waitForServer(url, timeout)\<close> started at clock \<open>t0\<close>.\<close>

definition wait_for_server :: "(nat \<Rightarrow> probe) \<Rightarrow> int \<Rightarrow> int \<Rightarrow> (bool \<times> nat) option" where
  "wait_for_server env timeout t0 = wait_loop env t0 timeout 0 t0"

section \<open>Lemmas\<close>

lemma wait_loop_bound:
  "\<forall>j. pr_fetch_ms (env j) \<noteq> None \<Longrightarrow>
   1000 * int k \<le> now - start \<Longrightarrow> k = 0 \<or> 1000 * (int k - 1) < timeout \<Longrightarrow>
         \<exists>r n. wait_loop env start timeout k now = Some (r, n) \<and> 1000 * int n < max timeout 0 + 1000"
proof (induction env start timeout k now rule: wait_loop.induct)
  case (1 env start timeout k now)
  show ?case
  proof (cases "now - start < timeout")
    case False
    with "1.prems" show ?thesis by (auto simp: wait_loop.simps [of env start timeout k now])
  next
    case guard: True
    from "1.prems"(1) have "pr_fetch_ms (env k) \<noteq> None" by blast
    then obtain d where d: "pr_fetch_ms (env k) = Some d" by auto
    show ?thesis
    proof (cases "probe_ok (env k)")
      case True
      with guard d "1.prems" show ?thesis by (auto simp: wait_loop.simps [of env start timeout k now])
    next
      case False
      let ?now' = "now + int d + 1000 + int (pr_late_ms (env k))"
      have "\<exists>r n. wait_loop env start timeout (Suc k) ?now' = Some (r, n) \<and> 1000 * int n < max timeout 0 + 1000"
        by (rule "1.IH" [OF guard d False]) (use "1.prems" guard in auto)
      with guard d False show ?thesis by (simp add: wait_loop.simps [of env start timeout k now])
    qed
  qed
qed

lemma wait_loop_result:
  "wait_loop env start timeout k now = Some (r, n) \<Longrightarrow>
   k \<le> n \<and> (\<forall>j. k \<le> j \<and> j < n \<and> (r \<longrightarrow> Suc j < n) \<longrightarrow> \<not> probe_ok (env j)) \<and>
   (r \<longrightarrow> k < n \<and> probe_ok (env (n - 1)))"
proof (induction env start timeout k now arbitrary: r n rule: wait_loop.induct)
  case (1 env start timeout k now)
  show ?case
  proof (cases "now - start < timeout")
    case False
    with "1.prems" show ?thesis by (auto simp: wait_loop.simps [of env start timeout k now])
  next
    case guard: True
    show ?thesis
    proof (cases "pr_fetch_ms (env k)")
      case None
      with guard "1.prems" show ?thesis by (simp add: wait_loop.simps [of env start timeout k now])
    next
      case (Some d)
      show ?thesis
      proof (cases "probe_ok (env k)")
        case True
        with guard Some "1.prems" show ?thesis by (auto simp: wait_loop.simps [of env start timeout k now])
      next
        case nok: False
        let ?now' = "now + int d + 1000 + int (pr_late_ms (env k))"
        from guard Some nok "1.prems"
        have "wait_loop env start timeout (Suc k) ?now' = Some (r, n)"
          by (simp add: wait_loop.simps [of env start timeout k now])
        note ih = "1.IH" [OF guard Some nok this]
        have "\<not> probe_ok (env j)" if "k \<le> j" "j < n" "r \<longrightarrow> Suc j < n" for j
        proof (cases "j = k")
          case True
          with nok show ?thesis by simp
        next
          case False
          with that ih show ?thesis by auto
        qed
        with ih show ?thesis by auto
      qed
    qed
  qed
qed

lemma length_show_nat_le: "n < 10 ^ Suc m \<Longrightarrow> length (show_nat n) \<le> Suc m"
proof (induction n arbitrary: m rule: show_nat.induct)
  case (1 n)
  show ?case
  proof (cases "n < 10")
    case True
    then show ?thesis by (simp add: show_nat.simps [of n])
  next
    case False
    then obtain m' where m: "m = Suc m'" using "1.prems" by (cases m) auto
    have "n div 10 < 10 ^ Suc m'" using "1.prems" m by auto
    with "1.IH" [OF False] False m show ?thesis by (simp add: show_nat.simps [of n])
  qed
qed

lemma to_fixed0_nonneg: "0 \<le> x \<Longrightarrow> to_fixed0 x = show_nat (nat (floor (x + 1/2)))"
  by (simp add: to_fixed0_def show_int_def)

lemma pad_start_length: "length s \<le> n \<Longrightarrow> length (pad_start n s) = n"
  by (simp add: pad_start_def)

lemma failed_entries_filter:
  "concat (map (failed_entry aus) ks) =
     map (\<lambda>k. \<lparr>fa_id = k, fa_title = au_title (the (aus k)), fa_description = au_description (the (aus k))\<rparr>)
       (filter (\<lambda>k. audit_failed (aus k)) ks)"
  by (induction ks) (simp_all add: failed_entry_def)

section \<open>Properties\<close>

text \<open>(C20) \<open>waitForServer\<close> terminates whenever every \<open>fetch\<close> settles, after at most
  \<open>\<lceil>timeout / 1000\<rceil>\<close> fetches (30 for the default 30000 ms): each round that does
  not return waits at least one second before the clock is read again.\<close>

theorem wait_for_server_terminates:
  assumes "\<forall>j. pr_fetch_ms (env j) \<noteq> None"
  shows "\<exists>r n. wait_for_server env timeout t0 = Some (r, n) \<and> 1000 * int n < max timeout 0 + 1000"
  unfolding wait_for_server_def by (rule wait_loop_bound [OF assms]) simp_all

theorem wait_for_server_terminates_witness:
  "\<exists>r n. wait_for_server (\<lambda>j. \<lparr>pr_fetch_ms = Some 5, pr_outcome = Inl RejOther, pr_late_ms = 0\<rparr>) 30000 0
           = Some (r, n) \<and> 1000 * int n < 31000"
  using wait_for_server_terminates [of "\<lambda>j. \<lparr>pr_fetch_ms = Some 5, pr_outcome = Inl RejOther, pr_late_ms = 0\<rparr>"
      30000 0] by simp

text \<open>What the answer means: \<open>true\<close> exactly when the last fetch made gave an \<open>ok\<close>
  response and none before it did; \<open>false\<close> when none of the fetches made did.\<close>

theorem wait_for_server_result:
  assumes "wait_for_server env timeout t0 = Some (r, n)"
  shows "(\<forall>j < n. (r \<longrightarrow> Suc j < n) \<longrightarrow> \<not> probe_ok (env j)) \<and> (r \<longrightarrow> 0 < n \<and> probe_ok (env (n - 1)))"
  using wait_loop_result [OF assms [unfolded wait_for_server_def]] by auto

text \<open>The loop's timeout does not bound a \<open>fetch\<close> that never settles: the helper
  then never returns, whatever the timeout.\<close>

theorem wait_for_server_hangs:
  "wait_for_server (\<lambda>j. \<lparr>pr_fetch_ms = None, pr_outcome = Inl RejOther, pr_late_ms = 0\<rparr>) 30000 0 = None"
  by (simp add: wait_for_server_def wait_loop.simps)

text \<open>A layout shift of exactly 0, the best value, is \<open>null\<close> for
  \<open>extractCoreWebVitals\<close> (a truthiness test) but \<open>0\<close> for
  \<open>extractPerformanceMetrics\<close> (\<open>?? null\<close>).\<close>

theorem cls_zero_divergence:
  "wv_cls (extract_core_web_vitals [''cumulative-layout-shift'' \<mapsto>
       \<lparr>au_score = Some 1, au_numeric = Some 0, au_title = [], au_description = []\<rparr>]) = None \<and>
   pm_cls (extract_performance_metrics [''cumulative-layout-shift'' \<mapsto>
       \<lparr>au_score = Some 1, au_numeric = Some 0, au_title = [], au_description = []\<rparr>]) = Some 0"
  by (simp add: extract_core_web_vitals_def extract_performance_metrics_def truthy_scaled_def
      numeric_value_def num_truthy_def)

text \<open>A score between 0 and 100 fills its cell of the report exactly: three
  characters.\<close>

theorem score_cell_width:
  assumes "0 \<le> x" and "x \<le> 100"
  shows "length (score_cell x) = 3"
proof -
  have "floor (x + 1/2) \<le> 100" using assms(2) by linarith
  then have "nat (floor (x + 1/2)) < 1000" by linarith
  then have "nat (floor (x + 1/2)) < 10 ^ Suc 2" by simp
  then have "length (show_nat (nat (floor (x + 1/2)))) \<le> 3" using length_show_nat_le by fastforce
  then show ?thesis using assms(1) by (simp add: score_cell_def to_fixed0_nonneg pad_start_length)
qed

text \<open>The failed audits are the listed audits whose score is below 1, in the
  order of the list.\<close>

theorem failed_audits_filter:
  "map fa_id (get_failed_accessibility_audits aus) = filter (\<lambda>k. audit_failed (aus k)) a11y_audits"
  by (simp add: get_failed_accessibility_audits_def failed_entries_filter comp_def)

end
