(* ===== verification/CartTests.thy ===== *)
theory CartTests
  imports CartPage UserContext
begin

text \<open>
  The unit tests of the cart page (\<open>CartPage.test.tsx\<close>, stored in
  \<open>src/vitest.lighthouse.prod.config.ts\<close> from line 21) run on the model. Each test
  is its storage and the events it causes: a mocked API answer is the resolution of
  the call it answers, a \<open>fireEvent.click\<close> is a click; its \<open>expect\<close>s are the
  theorem about the page the run ends in. Prices of the test data are written in
  cents, so that the sums the page computes are exact as in decimal.

  The harness renders the page directly under the provider, without the lazy loading
  of the application: the page's mount effect runs before the provider's, with no
  user yet, and the provider's stored id then re-runs it.
\<close>

section \<open>Harness and data\<close>

text \<open>\<open>renderWithProviders(<CartPage />)\<close> over the storage of the test.\<close>

definition render_cart_with_providers :: "(string \<rightharpoonup> string) \<Rightarrow> cart_page" where
  "render_cart_with_providers st =
     (let s0 = cart_mount (cart_init None); u = current_user_id (ctx_load (ctx_init st))
      in if u = None then s0 else cart_mount (s0\<lparr>cp_user := u\<rparr>))"

text \<open>\<open>localStorage.setItem("ai-store-user-id", "123")\<close>.\<close>

definition test_storage_123 :: "string \<rightharpoonup> string" where
  "test_storage_123 = [user_id_storage_key \<mapsto> ''123'']"

definition mock_cart_items :: "cart_item_dto list" where
  "mock_cart_items =
     [\<lparr>item_id = 1, item_product_id = 10, item_product_name = ''Laptop'', item_price = 99999,
       item_quantity = 1, item_subtotal = 99999\<rparr>,
      \<lparr>item_id = 2, item_product_id = 20, item_product_name = ''Mouse'', item_price = 2999,
       item_quantity = 2, item_subtotal = 5998\<rparr>]"

definition mock_checkout_success :: checkout_result_dto where
  "mock_checkout_success = \<lparr>co_success = True, co_message = ''Order placed successfully'',
     co_total_amount = Some 105997, co_purchased_items = Some mock_cart_items\<rparr>"

definition mock_checkout_failed :: checkout_result_dto where
  "mock_checkout_failed = \<lparr>co_success = False, co_message = ''Payment failed'',
     co_total_amount = None, co_purchased_items = None\<rparr>"

section \<open>The tests\<close>

text \<open>A test: the storage it sets before rendering and the events that follow; a
  \<open>mockResolvedValue\<close> or \<open>mockRejectedValue\<close> answers the page's pending call
  (always the oldest, index 0, as the page awaits one call at a time in these runs).\<close>

type_synonym cart_test = "(string \<rightharpoonup> string) \<times> cart_event list"

definition run_cart_test :: "cart_test \<Rightarrow> cart_page option" where
  "run_cart_test t = cart_run (render_cart_with_providers (fst t)) (snd t)"

definition load_items :: cart_event where
  "load_items = Resolve 0 (Inr (VCartItems mock_cart_items))"

definition load_empty :: cart_event where
  "load_empty = Resolve 0 (Inr (VCartItems []))"

definition test_redirects_unauthenticated :: cart_test where
  "test_redirects_unauthenticated = (Map.empty, [])"

text \<open>\<open>getCart\<close> never settles: no event.\<close>

definition test_loading_initially :: cart_test where
  "test_loading_initially = (test_storage_123, [])"

definition test_displays_items :: cart_test where
  "test_displays_items = (test_storage_123, [load_items])"

definition test_empty_message :: cart_test where
  "test_empty_message = (test_storage_123, [load_empty])"

definition test_start_shopping :: cart_test where
  "test_start_shopping = (test_storage_123, [load_empty, ClickStartShopping])"

definition test_calculates_total :: cart_test where
  "test_calculates_total = (test_storage_123, [load_items])"

text \<open>The first Remove button is the Laptop's, product 10; the reload after the removal
  gets the second \<open>mockResolvedValueOnce\<close>, the Mouse alone.\<close>

definition test_remove_item :: cart_test where
  "test_remove_item = (test_storage_123, [load_items, ClickRemove 10, Resolve 0 (Inr VVoid),
     Resolve 0 (Inr (VCartItems [mock_cart_items ! 1]))])"

definition test_remove_fails :: cart_test where
  "test_remove_fails = (test_storage_123,
     [load_items, ClickRemove 10, Resolve 0 (Inl (RejError ''Failed to remove item''))])"

definition test_checkout_button :: cart_test where
  "test_checkout_button = (test_storage_123, [load_items])"

definition test_checkout_success :: cart_test where
  "test_checkout_success = (test_storage_123,
     [load_items, ClickCheckout, Resolve 0 (Inr (VCheckout mock_checkout_success))])"

definition test_purchased_items :: cart_test where
  "test_purchased_items = (test_storage_123,
     [load_items, ClickCheckout, Resolve 0 (Inr (VCheckout mock_checkout_success))])"

definition test_checkout_fails :: cart_test where
  "test_checkout_fails = (test_storage_123,
     [load_items, ClickCheckout, Resolve 0 (Inl (RejError ''Insufficient stock''))])"

definition test_no_checkout_when_empty :: cart_test where
  "test_no_checkout_when_empty = (test_storage_123, [load_empty])"

definition test_continue_home :: cart_test where
  "test_continue_home = (test_storage_123,
     [load_items, ClickCheckout, Resolve 0 (Inr (VCheckout mock_checkout_success)), ClickContinue])"

definition test_load_failure :: cart_test where
  "test_load_failure = (test_storage_123, [Resolve 0 (Inl (RejError ''Failed to load cart''))])"

definition test_page_title :: cart_test where
  "test_page_title = (test_storage_123, [load_items])"

definition test_failed_result :: cart_test where
  "test_failed_result = (test_storage_123,
     [load_items, ClickCheckout, Resolve 0 (Inr (VCheckout mock_checkout_failed))])"

lemmas cart_test_defs = mock_cart_items_def
  mock_checkout_success_def mock_checkout_failed_def load_items_def load_empty_def
  test_loading_initially_def test_displays_items_def test_empty_message_def
  test_start_shopping_def test_calculates_total_def test_remove_item_def test_remove_fails_def
  test_checkout_button_def test_checkout_success_def test_purchased_items_def
  test_checkout_fails_def test_no_checkout_when_empty_def test_continue_home_def
  test_load_failure_def test_page_title_def test_failed_result_def

section \<open>The tests pass\<close>

lemma test_storage_123_ctx: "current_user_id (ctx_load (ctx_init test_storage_123)) = Some 123"
  by (simp add: ctx_load_def ctx_init_def test_storage_123_def parse_int_def is_digit_def js_ws_def
      parse_digits_def digit_val_def)

text \<open>Under the provider the page's first run finds no user and redirects; the second
  fetches the cart of user 123.\<close>

lemma render_cart_123:
  "render_cart_with_providers test_storage_123 =
     \<lparr>cp_user = Some 123, cp_items = [], cp_loading = True, cp_error = None, cp_result = None,
      cp_pending = [GetCart 123], cp_effects = [Navigate ''/register'', Call (GetCart 123)]\<rparr>"
  by (simp add: render_cart_with_providers_def test_storage_123_ctx page_simps cart_init_def)

lemma render_cart_anonymous:
  "render_cart_with_providers Map.empty =
     \<lparr>cp_user = None, cp_items = [], cp_loading = True, cp_error = None, cp_result = None,
      cp_pending = [], cp_effects = [Navigate ''/register'']\<rparr>"
  by (simp add: render_cart_with_providers_def ctx_load_def ctx_init_def page_simps cart_init_def)

lemmas cart_test_run = run_cart_test_def render_cart_123 cart_test_defs cart_resolve_def page_simps
  cart_view_def calculate_total_def drop_at_def caught_message_def

text \<open>Each test's expectations of the page the run ends in: the text it looks for is
  in the rendered branch (the title, the checkout button and the total are in the
  items branch; the success banner, message, amount and purchased items in the
  result), a \<open>mockNavigate\<close> or API call is among the effects.\<close>

theorem cart_test_redirects_unauthenticated:
  "\<exists>s. run_cart_test test_redirects_unauthenticated = Some s \<and>
     Navigate ''/register'' \<in> set (cp_effects s) \<and> cart_view s = CartNull"
  by (simp add: run_cart_test_def test_redirects_unauthenticated_def render_cart_anonymous cart_view_def)

theorem cart_test_loading_initially:
  "\<exists>s. run_cart_test test_loading_initially = Some s \<and> cart_view s = CartLoadingView"
  by (simp add: cart_test_run)

theorem cart_test_displays_items:
  "\<exists>s. run_cart_test test_displays_items = Some s \<and>
     (\<exists>e t. cart_view s = CartItemsView e mock_cart_items t) \<and>
     map item_product_name mock_cart_items = [''Laptop'', ''Mouse'']"
  by (simp add: cart_test_run)

theorem cart_test_empty_message:
  "\<exists>s. run_cart_test test_empty_message = Some s \<and> (\<exists>e. cart_view s = CartEmptyView e)"
  by (simp add: cart_test_run)

theorem cart_test_start_shopping:
  "\<exists>s. run_cart_test test_start_shopping = Some s \<and> Navigate ''/'' \<in> set (cp_effects s)"
  by (simp add: cart_test_run)

theorem cart_test_calculates_total:
  "\<exists>s. run_cart_test test_calculates_total = Some s \<and> cart_view s = CartItemsView None mock_cart_items 105997"
  by (simp add: cart_test_run)

theorem cart_test_removes_item:
  "\<exists>s. run_cart_test test_remove_item = Some s \<and> Call (RemoveFromCart 123 10) \<in> set (cp_effects s) \<and>
     cart_view s = CartItemsView None [mock_cart_items ! 1] 5998"
  by (simp add: cart_test_run)

theorem cart_test_remove_fails:
  "\<exists>s. run_cart_test test_remove_fails = Some s \<and>
     cart_view s = CartItemsView (Some ''Failed to remove item'') mock_cart_items 105997"
  by (simp add: cart_test_run)

theorem cart_test_checkout_button:
  "\<exists>s. run_cart_test test_checkout_button = Some s \<and> cart_step s ClickCheckout \<noteq> None"
  by (simp add: cart_test_run)

theorem cart_test_checkout_success:
  "\<exists>s. run_cart_test test_checkout_success = Some s \<and> cart_view s = CartResultView mock_checkout_success \<and>
     co_success mock_checkout_success \<and> co_total_amount mock_checkout_success \<noteq> None"
  by (simp add: cart_test_run)

theorem cart_test_purchased_items:
  "\<exists>s r. run_cart_test test_purchased_items = Some s \<and> cart_view s = CartResultView r \<and>
     co_purchased_items r = Some mock_cart_items"
  by (simp add: cart_test_run)

theorem cart_test_checkout_fails:
  "\<exists>s. run_cart_test test_checkout_fails = Some s \<and>
     cart_view s = CartItemsView (Some ''Insufficient stock'') mock_cart_items 105997"
  by (simp add: cart_test_run)

theorem cart_test_no_checkout_when_empty:
  "\<exists>s. run_cart_test test_no_checkout_when_empty = Some s \<and> cart_view s = CartEmptyView None \<and>
     cart_step s ClickCheckout = None"
  by (simp add: cart_test_run)

theorem cart_test_continue_home:
  "\<exists>s. run_cart_test test_continue_home = Some s \<and> last (cp_effects s) = Navigate ''/''"
  by (simp add: cart_test_run)

theorem cart_test_load_failure:
  "\<exists>s. run_cart_test test_load_failure = Some s \<and> cart_view s = CartEmptyView (Some ''Failed to load cart'')"
  by (simp add: cart_test_run)

theorem cart_test_page_title:
  "\<exists>s. run_cart_test test_page_title = Some s \<and> (\<exists>e xs t. cart_view s = CartItemsView e xs t)"
  by (simp add: cart_test_run)

theorem cart_test_failed_result:
  "\<exists>s. run_cart_test test_failed_result = Some s \<and> cart_view s = CartResultView mock_checkout_failed \<and>
     \<not> co_success mock_checkout_failed"
  by (simp add: cart_test_run)

end
