(* ===== verification/RegisterTests.thy ===== *)
theory RegisterTests
  imports Register
begin

text \<open>
  The advanced unit tests of the registration page (\<open>src/unnamed/part_000\<close>,
  \<open>Register.advanced.test.tsx\<close>) run on the model of \<open>Register\<close>. A test is
  the storage it sets and its events: a \<open>fireEvent.change\<close> is a typing event, a
  click a click, and the mocked \<open>createUser\<close> answer the resolution of the
  pending call. The page has no mount effect, so rendering it under the provider
  is the first render with the context the provider loads from storage.

  Every test's expectations hold of the model. In \<open>trims whitespace from email\<close>
  the e-mail input sanitizes the padded address before \<open>handleSubmit\<close> reads it,
  so the regular expression, run before the trim, sees it unpadded.
\<close>

section \<open>Harness\<close>

definition render_register_with_providers :: "(string \<rightharpoonup> string) \<Rightarrow> reg_page \<times> user_ctx" where
  "render_register_with_providers st = (reg_init, ctx_load (ctx_init st))"

fun reg_run :: "reg_page \<times> user_ctx \<Rightarrow> reg_event list \<Rightarrow> (reg_page \<times> user_ctx) option" where
  "reg_run sc [] = Some sc"
| "reg_run sc (e # es) = (case reg_step sc e of None \<Rightarrow> None | Some sc' \<Rightarrow> reg_run sc' es)"

type_synonym reg_test = "(string \<rightharpoonup> string) \<times> reg_event list"

definition run_reg_test :: "reg_test \<Rightarrow> (reg_page \<times> user_ctx) option" where
  "run_reg_test t = reg_run (render_register_with_providers (fst t)) (snd t)"

definition reg_storage_123 :: "string \<rightharpoonup> string" where
  "reg_storage_123 = [user_id_storage_key \<mapsto> ''123'']"

text \<open>Typing a user name and an address, then clicking Register.\<close>

definition fill_form :: "string \<Rightarrow> string \<Rightarrow> reg_event list" where
  "fill_form u e = [RegTypeUsername u, RegTypeEmail e, RegSubmit]"

definition reject_with :: "rejection \<Rightarrow> reg_event" where
  "reject_with e = RegResolve 0 (Inl e)"

definition resolve_user :: "int \<Rightarrow> string \<Rightarrow> string \<Rightarrow> reg_event" where
  "resolve_user i u e = RegResolve 0 (Inr (VUser \<lparr>user_id = i, user_username = u, user_email = e\<rparr>))"

section \<open>The tests\<close>

definition test_accepts_valid_email :: reg_test where
  "test_accepts_valid_email = (Map.empty, fill_form ''testuser'' ''test@example.com'')"

definition test_email_without_tld :: reg_test where
  "test_email_without_tld = (Map.empty, fill_form ''testuser'' ''test@domain'')"

definition test_email_subdomain :: reg_test where
  "test_email_subdomain = (Map.empty, fill_form ''testuser'' ''test@mail.example.com'')"

definition test_email_plus_sign :: reg_test where
  "test_email_plus_sign = (Map.empty, fill_form ''testuser'' ''test+tag@example.com'')"

definition test_email_numbers :: reg_test where
  "test_email_numbers = (Map.empty, fill_form ''testuser'' ''test123@example.com'')"

definition test_empty_username :: reg_test where
  "test_empty_username = (Map.empty, [RegTypeEmail ''test@example.com'', RegSubmit])"

definition test_whitespace_username :: reg_test where
  "test_whitespace_username = (Map.empty, fill_form ''   '' ''test@example.com'')"

definition test_tab_username :: reg_test where
  "test_tab_username = (Map.empty, fill_form [CHR 0x09, CHR 0x09] ''test@example.com'')"

definition test_trims_username :: reg_test where
  "test_trims_username = (Map.empty, fill_form ''  testuser  '' ''test@example.com'')"

definition test_empty_email :: reg_test where
  "test_empty_email = (Map.empty, [RegTypeUsername ''testuser'', RegSubmit])"

definition test_whitespace_email :: reg_test where
  "test_whitespace_email = (Map.empty, fill_form ''testuser'' ''   '')"

definition test_trims_email :: reg_test where
  "test_trims_email = (Map.empty, fill_form ''testuser'' ''  test@example.com  '')"

definition test_api_error_instance :: reg_test where
  "test_api_error_instance = (Map.empty, fill_form ''testuser'' ''test@example.com'' @ [reject_with (RejError ''Username already exists'')])"

definition test_api_unknown_error :: reg_test where
  "test_api_unknown_error = (Map.empty, fill_form ''testuser'' ''test@example.com'' @ [reject_with RejOther])"

definition test_api_null :: reg_test where
  "test_api_null = (Map.empty, fill_form ''testuser'' ''test@example.com'' @ [reject_with RejOther])"

definition test_network_timeout :: reg_test where
  "test_network_timeout = (Map.empty, fill_form ''testuser'' ''test@example.com'' @ [reject_with (RejError ''Network request timeout'')])"

definition test_email_in_use :: reg_test where
  "test_email_in_use = (Map.empty, fill_form ''testuser'' ''test@example.com'' @ [reject_with (RejError ''Email already registered'')])"

definition test_logged_in_message :: reg_test where
  "test_logged_in_message = (reg_storage_123, [])"

definition test_go_to_products :: reg_test where
  "test_go_to_products = (reg_storage_123, [RegGoProducts])"

definition test_view_cart :: reg_test where
  "test_view_cart = (reg_storage_123, [RegViewCart])"

definition test_both_buttons :: reg_test where
  "test_both_buttons = (reg_storage_123, [])"

definition test_no_form_logged_in :: reg_test where
  "test_no_form_logged_in = (reg_storage_123, [])"

definition test_disables_form :: reg_test where
  "test_disables_form = (Map.empty, fill_form ''testuser'' ''test@example.com'')"

definition test_reenables_after_success :: reg_test where
  "test_reenables_after_success = (Map.empty, fill_form ''testuser'' ''test@example.com'' @ [resolve_user 1 ''testuser'' ''test@example.com''])"

definition test_reenables_after_error :: reg_test where
  "test_reenables_after_error = (Map.empty, fill_form ''testuser'' ''test@example.com'' @ [reject_with (RejError ''Server error'')])"

definition test_clears_error :: reg_test where
  "test_clears_error = (Map.empty, fill_form ''testuser'' ''test@example.com'' @ [reject_with (RejError ''First error''), RegSubmit])"

definition test_prevents_invalid_submission :: reg_test where
  "test_prevents_invalid_submission = (Map.empty, [RegSubmit])"

definition test_navigates_home :: reg_test where
  "test_navigates_home = (Map.empty, fill_form ''newuser'' ''new@example.com'' @ [resolve_user 42 ''newuser'' ''new@example.com''])"

definition test_stores_user_id :: reg_test where
  "test_stores_user_id = (Map.empty, fill_form ''testuser'' ''test@example.com'' @ [resolve_user 999 ''testuser'' ''test@example.com''])"

definition test_updates_username :: reg_test where
  "test_updates_username = (Map.empty, [RegTypeUsername ''myusername''])"

definition test_updates_email :: reg_test where
  "test_updates_email = (Map.empty, [RegTypeEmail ''my@email.com''])"

definition test_username_many_times :: reg_test where
  "test_username_many_times = (Map.empty, [RegTypeUsername ''first'', RegTypeUsername ''second'', RegTypeUsername ''third''])"

section \<open>The tests pass\<close>

lemma render_register_anonymous:
  "render_register_with_providers Map.empty = (reg_init, \<lparr>current_user_id = None, storage = Map.empty\<rparr>)"
  by (simp add: render_register_with_providers_def ctx_load_def ctx_init_def)

lemma render_register_123:
  "render_register_with_providers reg_storage_123 =
     (reg_init, \<lparr>current_user_id = Some 123, storage = reg_storage_123\<rparr>)"
  by (simp add: render_register_with_providers_def ctx_load_def ctx_init_def reg_storage_123_def
      parse_int_def is_digit_def js_ws_def parse_digits_def digit_val_def)

lemmas reg_test_eval = run_reg_test_def render_register_anonymous render_register_123 fill_form_def
  reject_with_def resolve_user_def reg_init_def reg_view_def reg_handle_submit_def reg_issue_def
  reg_submit_done_def js_trim_def js_ws_def email_regex_test_def email_char_def drop_at_def
  email_sanitize_def html_ws_def

text \<open>Each test's expectations of the state its run ends in: the message it looks
  for is the form's error, a \<open>toHaveBeenCalledWith\<close> of \<open>createUser\<close> or
  \<open>mockNavigate\<close> is an effect, a disabled input is an event that is no step.\<close>

theorem reg_test_accepts_valid_email:
  "\<exists>s c. run_reg_test test_accepts_valid_email = Some (s, c) \<and>
     Call (CreateUser \<lparr>cu_username = ''testuser'', cu_email = ''test@example.com''\<rparr>) \<in> set (rg_effects s)"
  by (simp add: reg_test_eval test_accepts_valid_email_def)

theorem reg_test_email_without_tld:
  "\<exists>s c. run_reg_test test_email_without_tld = Some (s, c) \<and>
     reg_view s c = RegFormView (Some ''Please enter a valid email address'') False"
  by (simp add: reg_test_eval test_email_without_tld_def)

theorem reg_test_email_subdomain:
  "\<exists>s c. run_reg_test test_email_subdomain = Some (s, c) \<and>
     Call (CreateUser \<lparr>cu_username = ''testuser'', cu_email = ''test@mail.example.com''\<rparr>) \<in> set (rg_effects s)"
  by (simp add: reg_test_eval test_email_subdomain_def)

theorem reg_test_email_plus_sign:
  "\<exists>s c. run_reg_test test_email_plus_sign = Some (s, c) \<and>
     Call (CreateUser \<lparr>cu_username = ''testuser'', cu_email = ''test+tag@example.com''\<rparr>) \<in> set (rg_effects s)"
  by (simp add: reg_test_eval test_email_plus_sign_def)

theorem reg_test_email_numbers:
  "\<exists>s c. run_reg_test test_email_numbers = Some (s, c) \<and>
     Call (CreateUser \<lparr>cu_username = ''testuser'', cu_email = ''test123@example.com''\<rparr>) \<in> set (rg_effects s)"
  by (simp add: reg_test_eval test_email_numbers_def)

theorem reg_test_empty_username:
  "\<exists>s c. run_reg_test test_empty_username = Some (s, c) \<and>
     reg_view s c = RegFormView (Some ''Username is required'') False"
  by (simp add: reg_test_eval test_empty_username_def)

theorem reg_test_whitespace_username:
  "\<exists>s c. run_reg_test test_whitespace_username = Some (s, c) \<and>
     reg_view s c = RegFormView (Some ''Username is required'') False"
  by (simp add: reg_test_eval test_whitespace_username_def)

theorem reg_test_tab_username:
  "\<exists>s c. run_reg_test test_tab_username = Some (s, c) \<and>
     reg_view s c = RegFormView (Some ''Username is required'') False"
  by (simp add: reg_test_eval test_tab_username_def)

theorem reg_test_trims_username:
  "\<exists>s c. run_reg_test test_trims_username = Some (s, c) \<and>
     Call (CreateUser \<lparr>cu_username = ''testuser'', cu_email = ''test@example.com''\<rparr>) \<in> set (rg_effects s)"
  by (simp add: reg_test_eval test_trims_username_def)

theorem reg_test_empty_email:
  "\<exists>s c. run_reg_test test_empty_email = Some (s, c) \<and>
     reg_view s c = RegFormView (Some ''Email is required'') False"
  by (simp add: reg_test_eval test_empty_email_def)

theorem reg_test_whitespace_email:
  "\<exists>s c. run_reg_test test_whitespace_email = Some (s, c) \<and>
     reg_view s c = RegFormView (Some ''Email is required'') False"
  by (simp add: reg_test_eval test_whitespace_email_def)

theorem reg_test_api_error_instance:
  "\<exists>s c. run_reg_test test_api_error_instance = Some (s, c) \<and>
     reg_view s c = RegFormView (Some ''Username already exists'') False"
  by (simp add: reg_test_eval test_api_error_instance_def)

theorem reg_test_api_unknown_error:
  "\<exists>s c. run_reg_test test_api_unknown_error = Some (s, c) \<and>
     reg_view s c = RegFormView (Some ''Failed to create user'') False"
  by (simp add: reg_test_eval test_api_unknown_error_def)

theorem reg_test_api_null:
  "\<exists>s c. run_reg_test test_api_null = Some (s, c) \<and>
     reg_view s c = RegFormView (Some ''Failed to create user'') False"
  by (simp add: reg_test_eval test_api_null_def)

theorem reg_test_network_timeout:
  "\<exists>s c. run_reg_test test_network_timeout = Some (s, c) \<and>
     reg_view s c = RegFormView (Some ''Network request timeout'') False"
  by (simp add: reg_test_eval test_network_timeout_def)

theorem reg_test_email_in_use:
  "\<exists>s c. run_reg_test test_email_in_use = Some (s, c) \<and>
     reg_view s c = RegFormView (Some ''Email already registered'') False"
  by (simp add: reg_test_eval test_email_in_use_def)

theorem reg_test_logged_in_message:
  "\<exists>s c. run_reg_test test_logged_in_message = Some (s, c) \<and>
     reg_view s c = RegAlreadyView 123"
  by (simp add: reg_test_eval test_logged_in_message_def)

theorem reg_test_go_to_products:
  "\<exists>s c. run_reg_test test_go_to_products = Some (s, c) \<and>
     Navigate ''/'' \<in> set (rg_effects s)"
  by (simp add: reg_test_eval test_go_to_products_def)

theorem reg_test_view_cart:
  "\<exists>s c. run_reg_test test_view_cart = Some (s, c) \<and>
     Navigate ''/cart'' \<in> set (rg_effects s)"
  by (simp add: reg_test_eval test_view_cart_def)

theorem reg_test_both_buttons:
  "\<exists>s c. run_reg_test test_both_buttons = Some (s, c) \<and>
     reg_step (s, c) RegGoProducts \<noteq> None \<and> reg_step (s, c) RegViewCart \<noteq> None"
  by (simp add: reg_test_eval test_both_buttons_def)

theorem reg_test_no_form_logged_in:
  "\<exists>s c. run_reg_test test_no_form_logged_in = Some (s, c) \<and>
     reg_step (s, c) (RegTypeUsername u) = None \<and> reg_step (s, c) (RegTypeEmail u) = None \<and> reg_step (s, c) RegSubmit = None"
  by (simp add: reg_test_eval test_no_form_logged_in_def)

theorem reg_test_disables_form:
  "\<exists>s c. run_reg_test test_disables_form = Some (s, c) \<and>
     reg_view s c = RegFormView None True \<and> reg_step (s, c) (RegTypeUsername u) = None \<and> reg_step (s, c) (RegTypeEmail u) = None \<and> reg_step (s, c) RegSubmit = None"
  by (simp add: reg_test_eval test_disables_form_def)

theorem reg_test_reenables_after_success:
  "\<exists>s c. run_reg_test test_reenables_after_success = Some (s, c) \<and>
     Navigate ''/'' \<in> set (rg_effects s)"
  by (simp add: reg_test_eval test_reenables_after_success_def set_current_user_id_def show_eval)

theorem reg_test_reenables_after_error:
  "\<exists>s c. run_reg_test test_reenables_after_error = Some (s, c) \<and>
     reg_view s c = RegFormView (Some ''Server error'') False \<and> reg_step (s, c) (RegTypeUsername u) \<noteq> None \<and> reg_step (s, c) RegSubmit \<noteq> None"
  by (simp add: reg_test_eval test_reenables_after_error_def)

theorem reg_test_clears_error:
  "\<exists>s c. run_reg_test test_clears_error = Some (s, c) \<and>
     reg_view s c = RegFormView None True"
  by (simp add: reg_test_eval test_clears_error_def)

theorem reg_test_prevents_invalid_submission:
  "\<exists>s c. run_reg_test test_prevents_invalid_submission = Some (s, c) \<and>
     reg_view s c = RegFormView (Some ''Username is required'') False \<and> (\<forall>k. Call k \<notin> set (rg_effects s))"
  by (simp add: reg_test_eval test_prevents_invalid_submission_def)

theorem reg_test_navigates_home:
  "\<exists>s c. run_reg_test test_navigates_home = Some (s, c) \<and>
     Navigate ''/'' \<in> set (rg_effects s) \<and> current_user_id c = Some 42"
  by (simp add: reg_test_eval test_navigates_home_def set_current_user_id_def show_eval)

theorem reg_test_stores_user_id:
  "\<exists>s c. run_reg_test test_stores_user_id = Some (s, c) \<and>
     storage c user_id_storage_key = Some ''999''"
  by (simp add: reg_test_eval test_stores_user_id_def set_current_user_id_def show_eval)

theorem reg_test_updates_username:
  "\<exists>s c. run_reg_test test_updates_username = Some (s, c) \<and>
     rg_username s = ''myusername''"
  by (simp add: reg_test_eval test_updates_username_def)

theorem reg_test_updates_email:
  "\<exists>s c. run_reg_test test_updates_email = Some (s, c) \<and>
     rg_email s = ''my@email.com''"
  by (simp add: reg_test_eval test_updates_email_def)

theorem reg_test_username_many_times:
  "\<exists>s c. run_reg_test test_username_many_times = Some (s, c) \<and>
     rg_username s = ''third''"
  by (simp add: reg_test_eval test_username_many_times_def)

text \<open>\<open>trims whitespace from email\<close>: \<open>createUser\<close> is called with the trimmed
  address.\<close>

theorem reg_test_trims_email:
  "\<exists>s c. run_reg_test test_trims_email = Some (s, c) \<and>
     Call (CreateUser \<lparr>cu_username = ''testuser'', cu_email = ''test@example.com''\<rparr>) \<in> set (rg_effects s)"
  by (simp add: reg_test_eval test_trims_email_def)

end
