(* ===== verification/ProductDetailTests.thy ===== *)
theory ProductDetailTests
  imports ProductDetail CartItem UserContext
begin

text \<open>
  The advanced unit tests of the product page (\<open>src/unnamed/part_001\<close>,
  \<open>ProductDetail.advanced.test.tsx\<close>) run on the model of \<open>ProductDetail\<close>,
  together with the text the product view renders (\<open>src/src/pages/CartPage.tsx\<close>
  256--342), which the tests look for. A test is its storage, the path it pushes
  before rendering, and its events.

  The harness renders the page under the provider and a \<open>/product/:id\<close> route:
  the page's mount effect loads the product with no user yet, then the provider's
  effect sets the stored id, which re-renders the page without re-running its effect
  (its dependency is the id alone). A click on a disabled control is no step of the
  model: such a test ends before the click and its theorem says the click does
  nothing. \<open>shows generic error when product is null\<close> resolves \<open>getProductById\<close>
  with \<open>null\<close>, outside the typed replies of the model, and is not run.
\<close>

section \<open>The product view's text\<close>

text \<open>The strings of each branch of the render, in document order (the back
  button's arrow label is left out; the button is the event \<open>PdClickBack\<close>).\<close>

fun pd_texts :: "pd_view \<Rightarrow> string list" where
  "pd_texts PdLoadingView = [''Loading product...'']"
| "pd_texts (PdErrorView e) = [e, ''Back to Products'']"
| "pd_texts (PdProductView p msg logged oos) =
     [product_name p, ''$'' @ to_fixed2 (product_price p)] @
     (case product_description p of Some d \<Rightarrow> if d = [] then [] else [d] | None \<Rightarrow> []) @
     [if oos then ''Out of Stock'' else show_int (product_stock_quantity p) @ '' available''] @
     (case msg of Some m \<Rightarrow> if m = [] then [] else [m] | None \<Rightarrow> []) @
     (if logged then [''Quantity:'', if oos then ''Out of Stock'' else ''Add to Cart'']
      else [''Please register or login to purchase this product'', ''Register / Login''])"

section \<open>Harness and data\<close>

definition route_param :: "string \<Rightarrow> string" where
  "route_param path = drop (length ''/product/'') path"

definition render_pd_with_providers :: "(string \<rightharpoonup> string) \<Rightarrow> string \<Rightarrow> pd_page" where
  "render_pd_with_providers st path =
     (pd_mount (route_param path) (pd_init None))\<lparr>pd_user := current_user_id (ctx_load (ctx_init st))\<rparr>"

type_synonym pd_test = "(string \<rightharpoonup> string) \<times> string \<times> pd_event list"

definition run_pd_test :: "pd_test \<Rightarrow> pd_page option" where
  "run_pd_test t = (case t of (st, path, es) \<Rightarrow> pd_run (render_pd_with_providers st path) es)"

definition pd_storage_123 :: "string \<rightharpoonup> string" where
  "pd_storage_123 = [user_id_storage_key \<mapsto> ''123'']"

definition mock_product :: product_dto where
  "mock_product = \<lparr>product_id = 1, product_name = ''Gaming Laptop'',
     product_description = Some ''High-performance laptop'', product_price = 149999,
     product_stock_quantity = 5\<rparr>"

definition out_of_stock_product :: product_dto where
  "out_of_stock_product = mock_product\<lparr>product_stock_quantity := 0\<rparr>"

definition load_product_as :: "product_dto \<Rightarrow> pd_event" where
  "load_product_as p = PdResolve 0 (Inr (VProduct p))"

definition load_mock :: pd_event where
  "load_mock = load_product_as mock_product"

section \<open>The tests\<close>

definition test_quantity_zero :: pd_test where
  "test_quantity_zero = (pd_storage_123, ''/product/1'', [load_mock, PdQuantityInput ''0'', PdClickAdd])"

definition test_quantity_negative :: pd_test where
  "test_quantity_negative = (pd_storage_123, ''/product/1'', [load_mock, PdQuantityInput ''-5'', PdClickAdd])"

definition test_quantity_exceeds_stock :: pd_test where
  "test_quantity_exceeds_stock = (pd_storage_123, ''/product/1'', [load_mock, PdQuantityInput ''10'', PdClickAdd])"

definition test_quantity_exceeds_by_one :: pd_test where
  "test_quantity_exceeds_by_one = (pd_storage_123, ''/product/1'', [load_mock, PdQuantityInput ''6'', PdClickAdd])"

definition test_exact_stock :: pd_test where
  "test_exact_stock = (pd_storage_123, ''/product/1'', [load_mock, PdQuantityInput ''5'', PdClickAdd, PdResolve 0 (Inr VVoid)])"

definition test_nan_quantity :: pd_test where
  "test_nan_quantity = (pd_storage_123, ''/product/1'', [load_mock, PdQuantityInput ''abc''])"

definition test_empty_quantity :: pd_test where
  "test_empty_quantity = (pd_storage_123, ''/product/1'', [load_mock, PdQuantityInput ''''])"

definition test_decimal_quantity :: pd_test where
  "test_decimal_quantity = (pd_storage_123, ''/product/1'', [load_mock, PdQuantityInput ''2.5''])"

definition test_back_home :: pd_test where
  "test_back_home = (Map.empty, ''/product/1'', [load_mock, PdClickBack])"

definition test_back_not_found :: pd_test where
  "test_back_not_found = (Map.empty, ''/product/999'', [PdResolve 0 (Inl (RejError ''Product not found'')), PdClickBack])"

definition test_register_button :: pd_test where
  "test_register_button = (Map.empty, ''/product/1'', [load_mock, PdClickRegister])"

definition test_not_found_error :: pd_test where
  "test_not_found_error = (Map.empty, ''/product/999'', [PdResolve 0 (Inl (RejError ''Product with ID 999 not found''))])"

definition test_network_error :: pd_test where
  "test_network_error = (Map.empty, ''/product/1'', [PdResolve 0 (Inl (RejError ''Network connection failed''))])"

definition test_unknown_error :: pd_test where
  "test_unknown_error = (Map.empty, ''/product/1'', [PdResolve 0 (Inl RejOther)])"

definition test_invalid_route_param :: pd_test where
  "test_invalid_route_param = (Map.empty, ''/product/abc'', [])"

definition test_add_fails :: pd_test where
  "test_add_fails = (pd_storage_123, ''/product/1'', [load_mock, PdClickAdd, PdResolve 0 (Inl (RejError ''Server error occurred''))])"

definition test_add_fails_unknown :: pd_test where
  "test_add_fails_unknown = (pd_storage_123, ''/product/1'', [load_mock, PdClickAdd, PdResolve 0 (Inl RejOther)])"

definition test_clears_previous_message :: pd_test where
  "test_clears_previous_message = (pd_storage_123, ''/product/1'', [load_mock, PdQuantityInput ''0'', PdClickAdd, PdQuantityInput ''1'', PdClickAdd, PdResolve 0 (Inr VVoid)])"

definition test_out_of_stock_message :: pd_test where
  "test_out_of_stock_message = (Map.empty, ''/product/1'', [load_product_as out_of_stock_product])"

definition test_out_of_stock_button :: pd_test where
  "test_out_of_stock_button = (pd_storage_123, ''/product/1'', [load_product_as out_of_stock_product])"

definition test_out_of_stock_input :: pd_test where
  "test_out_of_stock_input = (pd_storage_123, ''/product/1'', [load_product_as out_of_stock_product])"

definition test_out_of_stock_no_call :: pd_test where
  "test_out_of_stock_no_call = (pd_storage_123, ''/product/1'', [load_product_as out_of_stock_product])"

definition test_success_message :: pd_test where
  "test_success_message = (pd_storage_123, ''/product/1'', [load_mock, PdClickAdd, PdResolve 0 (Inr VVoid)])"

definition test_with_description :: pd_test where
  "test_with_description = (Map.empty, ''/product/1'', [load_mock])"

definition test_without_description :: pd_test where
  "test_without_description = (Map.empty, ''/product/1'', [load_product_as (mock_product\<lparr>product_description := None\<rparr>)])"

definition test_stock_availability :: pd_test where
  "test_stock_availability = (Map.empty, ''/product/1'', [load_mock])"

definition test_stock_single :: pd_test where
  "test_stock_single = (Map.empty, ''/product/1'', [load_product_as (mock_product\<lparr>product_stock_quantity := 1\<rparr>)])"

definition test_formatted_price :: pd_test where
  "test_formatted_price = (Map.empty, ''/product/1'', [load_mock])"

definition test_login_prompt :: pd_test where
  "test_login_prompt = (Map.empty, ''/product/1'', [load_mock])"

definition test_add_form_authenticated :: pd_test where
  "test_add_form_authenticated = (pd_storage_123, ''/product/1'', [load_mock])"

text \<open>\<open>getProductById\<close> mocked to resolve with \<open>null\<close>, a reply outside the typed
  ones: \<open>setProduct(null)\<close>, then \<open>finally\<close> ends the loading state; the awaited call
  is no longer in flight.\<close>

definition resolve_null_product :: "pd_page \<Rightarrow> pd_page" where
  "resolve_null_product s = s\<lparr>pd_pending := drop_at 0 (pd_pending s), pd_product := None, pd_loading := False\<rparr>"

definition test_null_product :: "(string \<rightharpoonup> string) \<times> string" where
  "test_null_product = (Map.empty, ''/product/1'')"

section \<open>The tests pass\<close>

lemma pd_test_ctx:
  "current_user_id (ctx_load (ctx_init pd_storage_123)) = Some 123"
  "current_user_id (ctx_load (ctx_init Map.empty)) = None"
  by (simp_all add: ctx_load_def ctx_init_def pd_storage_123_def parse_int_def is_digit_def js_ws_def
      parse_digits_def digit_val_def)

lemma route_param_simps:
  "route_param ''/product/1'' = ''1''" "route_param ''/product/999'' = ''999''"
  "route_param ''/product/abc'' = ''abc''"
  by (simp_all add: route_param_def)

lemmas pd_test_eval = run_pd_test_def render_pd_with_providers_def pd_test_ctx route_param_simps
  pd_mount_def pd_init_def load_product_def pd_issue_def pd_navigate_def pd_resolve_def drop_at_def
  pd_view_def load_product_done_def quantity_input_def pd_handle_add_to_cart_def
  pd_add_to_cart_done_def load_mock_def load_product_as_def mock_product_def out_of_stock_product_def
  to_fixed2_def two_digits_def show_eval char_of_digits parse_int_def is_digit_def js_ws_def parse_digits_def digit_val_def

text \<open>Each test's expectations of the page its run ends in.\<close>

theorem pd_test_quantity_zero:
  "\<exists>s. run_pd_test test_quantity_zero = Some s \<and> pd_view s = PdProductView mock_product (Some ''Quantity must be greater than 0'') True False"
  by (simp add: pd_test_eval test_quantity_zero_def)

theorem pd_test_quantity_negative:
  "\<exists>s. run_pd_test test_quantity_negative = Some s \<and> pd_view s = PdProductView mock_product (Some ''Quantity must be greater than 0'') True False"
  by (simp add: pd_test_eval test_quantity_negative_def)

theorem pd_test_quantity_exceeds_stock:
  "\<exists>s. run_pd_test test_quantity_exceeds_stock = Some s \<and> pd_view s = PdProductView mock_product (Some ''Only 5 items available in stock'') True False"
  by (simp add: pd_test_eval test_quantity_exceeds_stock_def)

theorem pd_test_quantity_exceeds_by_one:
  "\<exists>s. run_pd_test test_quantity_exceeds_by_one = Some s \<and> pd_view s = PdProductView mock_product (Some ''Only 5 items available in stock'') True False"
  by (simp add: pd_test_eval test_quantity_exceeds_by_one_def)

theorem pd_test_exact_stock:
  "\<exists>s. run_pd_test test_exact_stock = Some s \<and> pd_message s = Some ''Item added to cart!'' \<and> Call (AddToCart 123 \<lparr>add_product_id = 1, add_quantity = 5\<rparr>) \<in> set (pd_effects s)"
  by (simp add: pd_test_eval test_exact_stock_def)

theorem pd_test_nan_quantity:
  "\<exists>s. run_pd_test test_nan_quantity = Some s \<and> pd_quantity s = 1"
  by (simp add: pd_test_eval test_nan_quantity_def)

theorem pd_test_empty_quantity:
  "\<exists>s. run_pd_test test_empty_quantity = Some s \<and> pd_quantity s = 1"
  by (simp add: pd_test_eval test_empty_quantity_def)

theorem pd_test_decimal_quantity:
  "\<exists>s. run_pd_test test_decimal_quantity = Some s \<and> pd_quantity s = 2"
  by (simp add: pd_test_eval test_decimal_quantity_def)

theorem pd_test_back_home:
  "\<exists>s. run_pd_test test_back_home = Some s \<and> Navigate ''/'' \<in> set (pd_effects s)"
  by (simp add: pd_test_eval test_back_home_def)

theorem pd_test_back_not_found:
  "\<exists>s. run_pd_test test_back_not_found = Some s \<and> Navigate ''/'' \<in> set (pd_effects s) \<and> pd_view s = PdErrorView ''Product not found''"
  by (simp add: pd_test_eval test_back_not_found_def)

theorem pd_test_register_button:
  "\<exists>s. run_pd_test test_register_button = Some s \<and> Navigate ''/register'' \<in> set (pd_effects s)"
  by (simp add: pd_test_eval test_register_button_def)

theorem pd_test_not_found_error:
  "\<exists>s. run_pd_test test_not_found_error = Some s \<and> pd_view s = PdErrorView ''Product with ID 999 not found''"
  by (simp add: pd_test_eval test_not_found_error_def)

theorem pd_test_network_error:
  "\<exists>s. run_pd_test test_network_error = Some s \<and> pd_view s = PdErrorView ''Network connection failed''"
  by (simp add: pd_test_eval test_network_error_def)

theorem pd_test_unknown_error:
  "\<exists>s. run_pd_test test_unknown_error = Some s \<and> pd_view s = PdErrorView ''Failed to load product''"
  by (simp add: pd_test_eval test_unknown_error_def)

theorem pd_test_invalid_route_param:
  "\<exists>s. run_pd_test test_invalid_route_param = Some s \<and> Call (GetProductById None) \<in> set (pd_effects s)"
  by (simp add: pd_test_eval test_invalid_route_param_def)

theorem pd_test_add_fails:
  "\<exists>s. run_pd_test test_add_fails = Some s \<and> pd_view s = PdErrorView ''Server error occurred''"
  by (simp add: pd_test_eval test_add_fails_def)

theorem pd_test_add_fails_unknown:
  "\<exists>s. run_pd_test test_add_fails_unknown = Some s \<and> pd_view s = PdErrorView ''Failed to add to cart''"
  by (simp add: pd_test_eval test_add_fails_unknown_def)

theorem pd_test_clears_previous_message:
  "\<exists>s. run_pd_test test_clears_previous_message = Some s \<and> pd_view s = PdProductView mock_product (Some ''Item added to cart!'') True False"
  by (simp add: pd_test_eval test_clears_previous_message_def)

theorem pd_test_out_of_stock_message:
  "\<exists>s. run_pd_test test_out_of_stock_message = Some s \<and> ''Out of Stock'' \<in> set (pd_texts (pd_view s))"
  by (simp add: pd_test_eval test_out_of_stock_message_def)

theorem pd_test_out_of_stock_button:
  "\<exists>s. run_pd_test test_out_of_stock_button = Some s \<and> ''Out of Stock'' \<in> set (pd_texts (pd_view s)) \<and> pd_step s PdClickAdd = None"
  by (simp add: pd_test_eval test_out_of_stock_button_def)

theorem pd_test_out_of_stock_input:
  "\<exists>s. run_pd_test test_out_of_stock_input = Some s \<and> pd_step s (PdQuantityInput v) = None"
  by (simp add: pd_test_eval test_out_of_stock_input_def)

theorem pd_test_out_of_stock_no_call:
  "\<exists>s. run_pd_test test_out_of_stock_no_call = Some s \<and> pd_step s PdClickAdd = None \<and> (\<forall>u r. Call (AddToCart u r) \<notin> set (pd_effects s))"
  by (simp add: pd_test_eval test_out_of_stock_no_call_def)

theorem pd_test_success_message:
  "\<exists>s. run_pd_test test_success_message = Some s \<and> ''Item added to cart!'' \<in> set (pd_texts (pd_view s))"
  by (simp add: pd_test_eval test_success_message_def)

theorem pd_test_with_description:
  "\<exists>s. run_pd_test test_with_description = Some s \<and> ''Gaming Laptop'' \<in> set (pd_texts (pd_view s)) \<and> ''High-performance laptop'' \<in> set (pd_texts (pd_view s))"
  by (simp add: pd_test_eval test_with_description_def)

theorem pd_test_without_description:
  "\<exists>s. run_pd_test test_without_description = Some s \<and> ''Gaming Laptop'' \<in> set (pd_texts (pd_view s)) \<and> ''High-performance laptop'' \<notin> set (pd_texts (pd_view s))"
  by (simp add: pd_test_eval test_without_description_def)

theorem pd_test_stock_availability:
  "\<exists>s. run_pd_test test_stock_availability = Some s \<and> ''5 available'' \<in> set (pd_texts (pd_view s))"
  by (simp add: pd_test_eval test_stock_availability_def)

theorem pd_test_stock_single:
  "\<exists>s. run_pd_test test_stock_single = Some s \<and> ''1 available'' \<in> set (pd_texts (pd_view s))"
  by (simp add: pd_test_eval test_stock_single_def)

theorem pd_test_formatted_price:
  "\<exists>s. run_pd_test test_formatted_price = Some s \<and> ''$1499.99'' \<in> set (pd_texts (pd_view s))"
  by (simp add: pd_test_eval test_formatted_price_def)

theorem pd_test_login_prompt:
  "\<exists>s. run_pd_test test_login_prompt = Some s \<and> ''Please register or login to purchase this product'' \<in> set (pd_texts (pd_view s))"
  by (simp add: pd_test_eval test_login_prompt_def)

theorem pd_test_add_form_authenticated:
  "\<exists>s. run_pd_test test_add_form_authenticated = Some s \<and> ''Quantity:'' \<in> set (pd_texts (pd_view s)) \<and> ''Add to Cart'' \<in> set (pd_texts (pd_view s))"
  by (simp add: pd_test_eval test_add_form_authenticated_def)

text \<open>The product resolved as \<open>null\<close>: the page shows its generic message.\<close>

theorem pd_test_null_product:
  "count_list (pd_texts (pd_view (resolve_null_product
     (render_pd_with_providers (fst test_null_product) (snd test_null_product))))) ''Product not found'' = 1"
  by (simp add: pd_test_eval test_null_product_def resolve_null_product_def)

end
