(* ===== verification/LighthouseTests.thy ===== *)
theory LighthouseTests
  imports Lighthouse
begin

text \<open>
  The Lighthouse test suites (\<open>src/unnamed/part_008\<close>: \<open>Lighthouse Audits\<close> and
  \<open>Lighthouse Detailed Metrics\<close>; \<open>src/unnamed/part_009\<close>: \<open>Lighthouse Example
  Tests\<close>, which use the helpers of \<open>utils.ts\<close>). Each test audits a page of the
  running shop and judges the result; the model is the judgement, a predicate on the
  result saying whether every \<open>expect\<close> of the test holds. A property read through
  \<open>!\<close> of an entry Lighthouse did not produce throws a \<open>TypeError\<close>, which fails the
  test as a failed expectation does. The browser, the server and the audit itself are
  outside the model: a result is any value of \<open>lh_result\<close>.
\<close>

record lh_result =
  lhr_categories :: categories
  lhr_audits :: audits

record thresholds =
  th_performance :: rat
  th_accessibility :: rat
  th_best_practices :: rat
  th_seo :: rat

text \<open>\<open>THRESHOLDS\<close>, lowered for the development server.\<close>

definition dev_thresholds :: thresholds where
  "dev_thresholds = \<lparr>th_performance = 55, th_accessibility = 85, th_best_practices = 80, th_seo = 80\<rparr>"

section \<open>Reading a result with non-null assertions\<close>

text \<open>\<open>result.lhr.categories[k].score! * 100\<close>: an absent category throws
  (\<open>None\<close>); a \<open>null\<close> score is multiplied as \<open>0\<close>.\<close>

definition score_bang_pct :: "categories \<Rightarrow> string \<Rightarrow> rat option" where
  "score_bang_pct cats k = map_option (\<lambda>sc. case sc of None \<Rightarrow> 0 | Some x \<Rightarrow> x * 100) (cats k)"

text \<open>\<open>expect(v).toBeGreaterThanOrEqual(t)\<close> on a value that may have thrown.\<close>

definition at_least :: "rat option \<Rightarrow> rat \<Rightarrow> bool" where
  "at_least v t = (case v of None \<Rightarrow> False | Some x \<Rightarrow> t \<le> x)"

text \<open>\<open>audits[k].numericValue! / d\<close> then \<open>toBeLessThan(bound)\<close>: an absent audit
  throws; an undefined value divides to \<open>NaN\<close>, which is less than nothing.\<close>

definition metric_below :: "audits \<Rightarrow> string \<Rightarrow> rat \<Rightarrow> rat \<Rightarrow> bool" where
  "metric_below aus k d bound =
     (case aus k of None \<Rightarrow> False | Some a \<Rightarrow> (case au_numeric a of None \<Rightarrow> False | Some v \<Rightarrow> v / d < bound))"

section \<open>Lighthouse Audits\<close>

definition lh_test_performance :: "lh_result \<Rightarrow> bool" where
  "lh_test_performance r =
     at_least (score_bang_pct (lhr_categories r) ''performance'') (th_performance dev_thresholds)"

definition lh_test_accessibility :: "lh_result \<Rightarrow> bool" where
  "lh_test_accessibility r =
     at_least (score_bang_pct (lhr_categories r) ''accessibility'') (th_accessibility dev_thresholds)"

definition lh_test_best_practices :: "lh_result \<Rightarrow> bool" where
  "lh_test_best_practices r =
     at_least (score_bang_pct (lhr_categories r) ''best-practices'') (th_best_practices dev_thresholds)"

definition lh_test_seo :: "lh_result \<Rightarrow> bool" where
  "lh_test_seo r = at_least (score_bang_pct (lhr_categories r) ''seo'') (th_seo dev_thresholds)"

text \<open>The product page's audit: both scores are read before either is checked.\<close>

definition lh_test_product_page :: "lh_result \<Rightarrow> bool" where
  "lh_test_product_page r =
     (let p = score_bang_pct (lhr_categories r) ''performance'';
          a = score_bang_pct (lhr_categories r) ''accessibility''
      in p \<noteq> None \<and> a \<noteq> None \<and> at_least p (th_performance dev_thresholds) \<and>
         at_least a (th_accessibility dev_thresholds))"

definition lh_test_comprehensive :: "lh_result \<Rightarrow> bool" where
  "lh_test_comprehensive r =
     (let cats = lhr_categories r
      in at_least (score_bang_pct cats ''performance'') (th_performance dev_thresholds) \<and>
         at_least (score_bang_pct cats ''accessibility'') (th_accessibility dev_thresholds) \<and>
         at_least (score_bang_pct cats ''best-practices'') (th_best_practices dev_thresholds) \<and>
         at_least (score_bang_pct cats ''seo'') (th_seo dev_thresholds))"

section \<open>Lighthouse Detailed Metrics\<close>

definition lh_test_fcp :: "lh_result \<Rightarrow> bool" where
  "lh_test_fcp r = metric_below (lhr_audits r) ''first-contentful-paint'' 1000 7"

definition lh_test_lcp :: "lh_result \<Rightarrow> bool" where
  "lh_test_lcp r = metric_below (lhr_audits r) ''largest-contentful-paint'' 1000 12"

definition lh_test_cls :: "lh_result \<Rightarrow> bool" where
  "lh_test_cls r = metric_below (lhr_audits r) ''cumulative-layout-shift'' 1 (1/10)"

definition lh_test_tbt :: "lh_result \<Rightarrow> bool" where
  "lh_test_tbt r = metric_below (lhr_audits r) ''total-blocking-time'' 1 300"

definition lh_test_speed_index :: "lh_result \<Rightarrow> bool" where
  "lh_test_speed_index r = metric_below (lhr_audits r) ''speed-index'' 1000 7"

definition detailed_a11y_audits :: "string list" where
  "detailed_a11y_audits =
     [''aria-allowed-attr'', ''aria-required-attr'', ''button-name'', ''color-contrast'',
      ''document-title'', ''html-has-lang'', ''image-alt'', ''label'', ''link-name'']"

text \<open>The audits pushed onto \<open>failedAudits\<close>, with the test of \<open>utils.ts\<close>.\<close>

definition detailed_failed :: "audits \<Rightarrow> string list" where
  "detailed_failed aus = filter (\<lambda>k. audit_failed (aus k)) detailed_a11y_audits"

definition lh_test_a11y_issues :: "lh_result \<Rightarrow> bool" where
  "lh_test_a11y_issues r = (length (detailed_failed (lhr_audits r)) \<le> 2)"

definition image_audits :: "string list" where
  "image_audits = [''modern-image-formats'', ''uses-optimized-images'', ''uses-responsive-images'']"

definition lh_test_images :: "lh_result \<Rightarrow> bool" where
  "lh_test_images r =
     (filter (\<lambda>k. case lhr_audits r k of None \<Rightarrow> False | Some a \<Rightarrow> au_score a = Some 1) image_audits \<noteq> [])"

section \<open>Lighthouse Example Tests\<close>

definition lh_example_report :: "lh_result \<Rightarrow> bool" where
  "lh_example_report r =
     (let s = extract_scores (lhr_categories r)
      in 0 < sc_performance s \<and> 0 < sc_accessibility s \<and> 0 < sc_best_practices s \<and> 0 < sc_seo s)"

text \<open>\<open>if (cwv.lcp)\<close> and \<open>if (cwv.cls)\<close>: a missing vital is not checked.\<close>

definition lh_example_cwv :: "lh_result \<Rightarrow> bool" where
  "lh_example_cwv r =
     (let c = extract_core_web_vitals (lhr_audits r)
      in (case wv_lcp c of None \<Rightarrow> True | Some l \<Rightarrow> l < 12) \<and>
         (case wv_cls c of None \<Rightarrow> True | Some x \<Rightarrow> x < 1/4))"

text \<open>The three pages in order (home, registration, a product); the loop stops at
  the first failed expectation, so the test passes when every page passes.\<close>

definition lh_example_pages :: "lh_result list \<Rightarrow> bool" where
  "lh_example_pages rs =
     list_all (\<lambda>r. let s = extract_scores (lhr_categories r)
                   in 40 < sc_performance s \<and> 70 < sc_accessibility s) rs"

section \<open>Lemmas\<close>

lemma length_filter_distinct_subset:
  assumes "distinct xs" and "set xs \<subseteq> set ys"
  shows "length (filter P xs) \<le> length (filter P ys)"
proof -
  have "distinct (filter P xs)" using assms(1) by simp
  then have "length (filter P xs) = card (set (filter P xs))"
    by (simp only: distinct_card)
  also have "\<dots> \<le> card (set (filter P ys))"
    using assms(2) by (intro card_mono) auto
  also have "\<dots> \<le> length (filter P ys)" by (rule card_length)
  finally show ?thesis .
qed

lemma detailed_a11y_audits_distinct: "distinct detailed_a11y_audits"
  by (simp add: detailed_a11y_audits_def)

lemma detailed_a11y_audits_listed: "set detailed_a11y_audits \<subseteq> set a11y_audits"
  by (simp add: detailed_a11y_audits_def a11y_audits_def)

lemma length_failed_accessibility_audits:
  "length (get_failed_accessibility_audits aus) = length (filter (\<lambda>k. audit_failed (aus k)) a11y_audits)"
  using failed_entries_filter [of aus a11y_audits]
  by (metis get_failed_accessibility_audits_def length_map)

section \<open>Properties\<close>

text \<open>The inline reading of the audit tests and the helper \<open>extractScores\<close> agree on
  every category Lighthouse produced: \<open>score! * 100\<close> and \<open>score ? score * 100 : 0\<close>
  give the same number, \<open>null\<close> and \<open>0\<close> included; they differ only on an absent
  category, which the inline reading turns into a thrown error and the helper into 0.\<close>

theorem score_bang_pct_extract:
  "score_bang_pct cats k = (if cats k = None then None else Some (score_percent cats k))"
  by (cases "cats k")
     (auto simp add: score_bang_pct_def score_percent_def category_score_def num_truthy_def
           split: option.splits)

text \<open>The detailed accessibility test is implied by the helper's report: when
  \<open>getFailedAccessibilityAudits\<close> finds at most two failed audits, at most two of
  the nine audits the test checks have failed, since they are among the helper's.\<close>

theorem a11y_report_bounds_test:
  assumes "length (get_failed_accessibility_audits (lhr_audits r)) \<le> 2"
  shows "lh_test_a11y_issues r"
proof -
  have "length (detailed_failed (lhr_audits r)) \<le>
          length (filter (\<lambda>k. audit_failed (lhr_audits r k)) a11y_audits)"
    unfolding detailed_failed_def
    by (rule length_filter_distinct_subset [OF detailed_a11y_audits_distinct detailed_a11y_audits_listed])
  with assms show ?thesis
    by (simp add: lh_test_a11y_issues_def length_failed_accessibility_audits)
qed

theorem a11y_report_bounds_test_witness:
  "length (get_failed_accessibility_audits (lhr_audits \<lparr>lhr_categories = Map.empty, lhr_audits = Map.empty\<rparr>)) \<le> 2
   \<and> lh_test_a11y_issues \<lparr>lhr_categories = Map.empty, lhr_audits = Map.empty\<rparr>"
proof -
  have h: "length (get_failed_accessibility_audits (lhr_audits \<lparr>lhr_categories = Map.empty, lhr_audits = Map.empty\<rparr>)) \<le> 2"
    by (simp add: length_failed_accessibility_audits audit_failed_def)
  show ?thesis using h a11y_report_bounds_test [OF h] by simp
qed

text \<open>The example test's Core Web Vitals check passes on a result with no vitals at
  all, which fails the detailed LCP and CLS tests: a missing or zero value is skipped
  by \<open>if (cwv.lcp)\<close>. The two suites also disagree on the layout shift they accept:
  0.2 passes the example test and fails the detailed one.\<close>

theorem lh_cwv_vacuous:
  "lh_example_cwv \<lparr>lhr_categories = Map.empty, lhr_audits = Map.empty\<rparr> \<and>
   \<not> lh_test_lcp \<lparr>lhr_categories = Map.empty, lhr_audits = Map.empty\<rparr> \<and>
   \<not> lh_test_cls \<lparr>lhr_categories = Map.empty, lhr_audits = Map.empty\<rparr>"
  by (simp add: lh_example_cwv_def lh_test_lcp_def lh_test_cls_def metric_below_def
      extract_core_web_vitals_def truthy_scaled_def numeric_value_def num_truthy_def)

theorem lh_cls_thresholds_disagree:
  "lh_example_cwv \<lparr>lhr_categories = Map.empty,
      lhr_audits = [''cumulative-layout-shift'' \<mapsto> \<lparr>au_score = Some (1/2), au_numeric = Some (1/5),
                     au_title = [], au_description = []\<rparr>]\<rparr> \<and>
   \<not> lh_test_cls \<lparr>lhr_categories = Map.empty,
      lhr_audits = [''cumulative-layout-shift'' \<mapsto> \<lparr>au_score = Some (1/2), au_numeric = Some (1/5),
                     au_title = [], au_description = []\<rparr>]\<rparr>"
  by (simp add: lh_example_cwv_def lh_test_cls_def metric_below_def
      extract_core_web_vitals_def truthy_scaled_def numeric_value_def num_truthy_def)

text \<open>The audit of all four categories passes exactly when the four audits of one
  category each pass on the same result.\<close>

theorem lh_comprehensive_iff:
  "lh_test_comprehensive r \<longleftrightarrow>
     lh_test_performance r \<and> lh_test_accessibility r \<and> lh_test_best_practices r \<and> lh_test_seo r"
  by (simp add: lh_test_comprehensive_def lh_test_performance_def lh_test_accessibility_def
      lh_test_best_practices_def lh_test_seo_def Let_def)

end
