(* ===== verification/ProductCard.thy ===== *)
theory ProductCard
  imports Home CartItem
begin

text \<open>
  The text of the product card (\<open>src/unnamed/part_005\<close>, \<open>components/ProductCard.tsx\<close>)
  that the product list renders for each product: the name (the link to the product
  page), the truncated description when there is one, the price through
  \<open>toFixed(2)\<close>, the stock label, and last either the add button (for a logged-in
  visitor) or the link to registration. The card's handler and its guards are part of
  the product list's model (\<open>card_add_to_cart\<close>, \<open>card_out_of_stock\<close> in \<open>Home\<close>);
  the theorem here says that the button the card shows agrees with the step the page
  takes for it.
\<close>

definition card_texts :: "bool \<Rightarrow> product_dto \<Rightarrow> string list" where
  "card_texts logged p =
     [product_name p] @
     (case product_description p of Some d \<Rightarrow> if d = [] then [] else [card_description d] | None \<Rightarrow> []) @
     [''$'' @ to_fixed2 (product_price p),
      if card_out_of_stock p then ''Out of Stock'' else show_int (product_stock_quantity p) @ '' in stock''] @
     (if logged then [if card_out_of_stock p then ''Out of Stock'' else ''Add to Cart'']
      else [''Register to purchase''])"

text \<open>The cards of the list view, one per product, for the page's visitor.\<close>

definition home_cards :: "home_page \<Rightarrow> string list list" where
  "home_cards s =
     (case home_view s of HomeListView _ ps \<Rightarrow> map (card_texts (id_truthy (hp_user s))) ps | _ \<Rightarrow> [])"

text \<open>\<open>handleAddToCart\<close> of a card rendered on its own: the calls its optional
  \<open>onAddToCart\<close> receives, \<open>onAddToCart(product.id, 1)\<close> when it is given and a user is
  logged in.\<close>

definition card_handle_add :: "bool \<Rightarrow> int option \<Rightarrow> product_dto \<Rightarrow> (int \<times> int) list" where
  "card_handle_add has_callback u p = (if has_callback \<and> id_truthy u then [(product_id p, 1)] else [])"

text \<open>The card's button, shown to a logged-in visitor: its label and whether it is
  disabled (\<open>disabled={isOutOfStock}\<close>).\<close>

definition card_button :: "bool \<Rightarrow> product_dto \<Rightarrow> (string \<times> bool) option" where
  "card_button logged p =
     (if logged then Some (if card_out_of_stock p then ''Out of Stock'' else ''Add to Cart'', card_out_of_stock p)
      else None)"

text \<open>On the product list the callback is the page's handler: \<open>card_add_to_cart\<close> of
  \<open>Home\<close> is that handler applied to the card's calls.\<close>

lemma card_add_to_cart_handle:
  "card_add_to_cart cb p s =
     (case card_handle_add cb (hp_user s) p of [] \<Rightarrow> s | (pid, q) # _ \<Rightarrow> home_handle_add_to_cart pid q s)"
  by (simp add: card_add_to_cart_def card_handle_add_def)

text \<open>The button's label is the card's last text, and the button is enabled exactly
  when that label is \<open>Add to Cart\<close>.\<close>

lemma card_button_last_text:
  "card_button logged p = Some (t, d) \<Longrightarrow> last (card_texts logged p) = t \<and> (d \<longleftrightarrow> t \<noteq> ''Add to Cart'')"
  by (auto simp: card_button_def card_texts_def split: if_splits)

text \<open>The last element of a card is its action: the enabled add button, the disabled
  one, or the registration link.\<close>

theorem card_button_matches_step:
  assumes "home_view s = HomeListView m ps" and "p \<in> set ps"
  shows "(home_step s (HomeClickCardAdd p) \<noteq> None) \<longleftrightarrow>
           last (card_texts (id_truthy (hp_user s)) p) = ''Add to Cart''"
  using assms by (simp add: card_texts_def)

theorem card_button_matches_step_witness:
  "(home_step home_example (HomeClickCardAdd (hd (hp_products home_example))) \<noteq> None) \<longleftrightarrow>
     last (card_texts (id_truthy (hp_user home_example)) (hd (hp_products home_example))) = ''Add to Cart''"
proof -
  have v: "home_view home_example = HomeListView None (hp_products home_example)"
    by (simp add: home_example_def home_view_def)
  have p: "hd (hp_products home_example) \<in> set (hp_products home_example)"
    by (simp add: home_example_def)
  show ?thesis by (rule card_button_matches_step [OF v p])
qed

theorem card_texts_example:
  "card_texts True \<lparr>product_id = 1, product_name = ''Gaming Laptop'',
     product_description = Some ''High-performance laptop'', product_price = 149999,
     product_stock_quantity = 5\<rparr> =
   [''Gaming Laptop'', ''High-performance laptop'', ''$1499.99'', ''5 in stock'', ''Add to Cart'']"
  by (simp add: card_texts_def card_description_def card_out_of_stock_def to_fixed2_def two_digits_def
      show_eval char_of_digits)

end
