(* ===== verification/TestConfig.thy ===== *)
theory TestConfig
  imports LighthouseTests "HOL-Library.Sublist"
begin

text \<open>
  The test and audit configuration: \<open>src/lighthouse.config.js\<close>, which holds the
  Lighthouse settings (lines 1--25) followed by the unit-test configuration of
  \<open>vitest.config.ts\<close> (lines 26--65), and \<open>src/vitest.lighthouse.prod.config.ts\<close>
  (lines 1--20), the configuration of the Lighthouse suites against the preview
  server. A configuration decides which files a run collects (\<open>include\<close> minus
  \<open>exclude\<close>) and which sources count for coverage; both are lists of glob patterns.

  The glob semantics are those of the matcher Vitest uses, for the forms the
  patterns of the repository use: \<open>*\<close> matches any characters but \<open>/\<close> within one
  path segment, a segment \<open>**\<close> matches any number of whole segments, and
  \<open>{a,b}\<close> stands for its alternatives. Paths are relative to the project root
  (the repository's \<open>src/\<close> directory), segments separated by \<open>/\<close>. When a
  configuration gives no \<open>include\<close>, Vitest's default applies, the test and spec
  files of every script extension.
\<close>

section \<open>Glob patterns\<close>

text \<open>\<open>*\<close> within a segment.\<close>

fun seg_glob :: "string \<Rightarrow> string \<Rightarrow> bool" where
  "seg_glob [] s = (s = [])"
| "seg_glob (a # p) [] = (a = CHR ''*'' \<and> seg_glob p [])"
| "seg_glob (a # p) (c # s) =
     (if a = CHR ''*'' then seg_glob p (c # s) \<or> seg_glob (a # p) s
      else a = c \<and> seg_glob p s)"

text \<open>A pattern and a path as their segments; \<open>**\<close> as a segment is the globstar.\<close>

fun segs_glob :: "string list \<Rightarrow> string list \<Rightarrow> bool" where
  "segs_glob [] xs = (xs = [])"
| "segs_glob (p # ps) [] = (p = ''**'' \<and> segs_glob ps [])"
| "segs_glob (p # ps) (x # xs) =
     (if p = ''**'' then segs_glob ps (x # xs) \<or> segs_glob (p # ps) xs
      else seg_glob p x \<and> segs_glob ps xs)"

fun split_on :: "char \<Rightarrow> string \<Rightarrow> string list" where
  "split_on d [] = [[]]"
| "split_on d (c # s) =
     (if c = d then [] # split_on d s
      else (case split_on d s of w # ws \<Rightarrow> (c # w) # ws | [] \<Rightarrow> [[c]]))"

text \<open>Brace expansion: the first group \<open>{a,b,...}\<close> is replaced by each of its
  alternatives in turn, and the results are expanded again.\<close>

definition brace_group :: "string \<Rightarrow> (string \<times> string list \<times> string) option" where
  "brace_group s =
     (let pre = takeWhile (\<lambda>c. c \<noteq> CHR ''{'') s; r = drop (length pre) s
      in if r = [] then None
         else (let body = takeWhile (\<lambda>c. c \<noteq> CHR ''}'') (tl r); post = drop (length body) (tl r)
               in if post = [] then None
                  else Some (pre, split_on CHR '','' body, tl post)))"

function expand_braces :: "string \<Rightarrow> string list" where
  "expand_braces s =
     (case brace_group s of
        None \<Rightarrow> [s]
      | Some (pre, alts, post) \<Rightarrow>
          concat (map (\<lambda>a. expand_braces (pre @ a @ post)) alts))"
  by pat_completeness auto

definition glob :: "string \<Rightarrow> string \<Rightarrow> bool" where
  "glob pat path =
     list_ex (\<lambda>p. segs_glob (split_on CHR ''/'' p) (split_on CHR ''/'' path)) (expand_braces pat)"

definition any_glob :: "string list \<Rightarrow> string \<Rightarrow> bool" where
  "any_glob pats path = list_ex (\<lambda>p. glob p path) pats"

section \<open>The configurations\<close>

text \<open>The Lighthouse settings of \<open>lighthouse.config.js\<close>.\<close>

record lighthouse_settings =
  ls_extends :: string
  ls_form_factor :: string
  ls_mobile :: bool
  ls_width :: nat
  ls_height :: nat
  ls_scale :: nat
  ls_emulation_disabled :: bool
  ls_rtt_ms :: nat
  ls_throughput_kbps :: nat
  ls_cpu_slowdown :: nat
  ls_only_categories :: "string list"

definition lighthouse_config :: lighthouse_settings where
  "lighthouse_config =
     \<lparr>ls_extends = ''lighthouse:default'', ls_form_factor = ''desktop'', ls_mobile = False,
      ls_width = 1350, ls_height = 940, ls_scale = 1, ls_emulation_disabled = False,
      ls_rtt_ms = 40, ls_throughput_kbps = 10 * 1024, ls_cpu_slowdown = 1,
      ls_only_categories = [''performance'', ''accessibility'', ''best-practices'', ''seo'']\<rparr>"

text \<open>A Vitest configuration, as far as it selects files: \<open>None\<close> where the file
  leaves Vitest's default in place.\<close>

record vitest_config =
  vc_include :: "string list option"
  vc_exclude :: "string list option"
  vc_environment :: string
  vc_setup_files :: "string list"
  vc_test_timeout :: "nat option"
  vc_env :: "string \<rightharpoonup> string"
  vc_cov_include :: "string list"
  vc_cov_exclude :: "string list"
  vc_cov_threshold :: nat

text \<open>Vitest's defaults (a library setting, not code of the repository): the test and
  spec files of every script extension, \<open>**/*.{test,spec}.?(c|m)[jt]s?(x)\<close>
  written with braces, and the dependency and build directories.\<close>

definition vitest_default_include :: "string list" where
  "vitest_default_include =
     [''**/*.{test,spec}.{js,ts,jsx,tsx,cjs,cts,cjsx,ctsx,mjs,mts,mjsx,mtsx}'']"

definition vitest_default_exclude :: "string list" where
  "vitest_default_exclude = [''**/node_modules/**'', ''**/dist/**'', ''**/cypress/**'']"

text \<open>\<open>vitest.config.ts\<close> (the second half of \<open>lighthouse.config.js\<close>): the unit
  tests, with the coverage thresholds of 80 per cent.\<close>

definition unit_config :: vitest_config where
  "unit_config =
     \<lparr>vc_include = None,
      vc_exclude = Some [''**/node_modules/**'', ''**/e2e/**'', ''**/lighthouse/**''],
      vc_environment = ''jsdom'', vc_setup_files = [''./src/setupTests.ts''], vc_test_timeout = None,
      vc_env = Map.empty,
      vc_cov_include = [''src/**/*.{ts,tsx}''],
      vc_cov_exclude = [''**/node_modules/**'', ''**/e2e/**'', ''**/lighthouse/**'', ''**/*.config.*'',
        ''**/*.d.ts'', ''**/dist/**'', ''**/__tests__/**'', ''**/setupTests.ts'', ''**/vite-env.d.ts'',
        ''**/css-modules.d.ts''],
      vc_cov_threshold = 80\<rparr>"

text \<open>\<open>vitest.lighthouse.prod.config.ts\<close>: the Lighthouse suites against the preview
  server, whose address it passes as \<open>APP_URL\<close>.\<close>

definition prod_lighthouse_config :: vitest_config where
  "prod_lighthouse_config =
     \<lparr>vc_include = Some [''lighthouse/**/*.test.ts''], vc_exclude = None,
      vc_environment = ''node'', vc_setup_files = [], vc_test_timeout = Some 90000,
      vc_env = [''APP_URL'' \<mapsto> ''http://localhost:4173''],
      vc_cov_include = [], vc_cov_exclude = [], vc_cov_threshold = 0\<rparr>"

text \<open>The files a run collects, and the sources its coverage counts.\<close>

definition collects :: "vitest_config \<Rightarrow> string \<Rightarrow> bool" where
  "collects cfg path =
     (any_glob (case vc_include cfg of None \<Rightarrow> vitest_default_include | Some i \<Rightarrow> i) path \<and>
      \<not> any_glob (case vc_exclude cfg of None \<Rightarrow> vitest_default_exclude | Some e \<Rightarrow> e) path)"

definition covers :: "vitest_config \<Rightarrow> string \<Rightarrow> bool" where
  "covers cfg path = (any_glob (vc_cov_include cfg) path \<and> \<not> any_glob (vc_cov_exclude cfg) path)"

text \<open>The address the Lighthouse suites audit: \<open>const APP_URL\<close> of each suite.\<close>

definition lighthouse_app_url :: string where
  "lighthouse_app_url = ''http://localhost:5173''"

text \<open>Each expansion removes the opening brace of a group: the alternatives are
  pieces of the group's body.\<close>

lemma split_on_piece_filter:
  "a \<in> set (split_on d s) \<Longrightarrow> length (filter P a) \<le> length (filter P s)"
proof (induction d s arbitrary: a rule: split_on.induct)
  case (1 d)
  then show ?case by simp
next
  case (2 d c s)
  then show ?case by (auto split: if_splits list.splits intro: le_SucI)
qed

lemma brace_group_Some:
  assumes "brace_group s = Some (pre, alts, post)"
  shows "\<exists>body. alts = split_on CHR '','' body \<and>
           length (filter (\<lambda>c. c = CHR ''{'') s) =
             Suc (length (filter (\<lambda>c. c = CHR ''{'') body) + length (filter (\<lambda>c. c = CHR ''{'') post)) \<and>
           length (filter (\<lambda>c. c = CHR ''{'') pre) = 0"
proof -
  define q where "q = takeWhile (\<lambda>c. c \<noteq> CHR ''{'') s"
  define r where "r = drop (length q) s"
  define body where "body = takeWhile (\<lambda>c. c \<noteq> CHR ''}'') (tl r)"
  define post0 where "post0 = drop (length body) (tl r)"
  have bg: "brace_group s = (if r = [] then None else if post0 = [] then None
             else Some (q, split_on CHR '','' body, tl post0))"
    unfolding brace_group_def Let_def q_def [symmetric] r_def [symmetric] body_def [symmetric]
      post0_def [symmetric] by (rule refl)
  have ne: "r \<noteq> []" and ne2: "post0 \<noteq> []"
    and eq: "pre = q" "alts = split_on CHR '','' body" "post = tl post0"
    using assms unfolding bg by (auto split: if_splits)
  have s: "s = q @ r" by (simp add: q_def r_def flip: dropWhile_eq_drop)
  have hr: "hd r = CHR ''{''"
    using ne hd_dropWhile [of "\<lambda>c. c \<noteq> CHR ''{''" s] by (simp add: r_def q_def dropWhile_eq_drop)
  have r: "r = CHR ''{'' # tl r" using ne hr by (cases r) auto
  have t: "tl r = body @ post0" by (simp add: body_def post0_def flip: dropWhile_eq_drop)
  have hp: "hd post0 = CHR ''}''"
    using ne2 hd_dropWhile [of "\<lambda>c. c \<noteq> CHR ''}''" "tl r"] by (simp add: body_def post0_def dropWhile_eq_drop)
  have p: "post0 = CHR ''}'' # tl post0" using ne2 hp by (cases post0) auto
  have q0: "filter (\<lambda>c. c = CHR ''{'') q = []"
    unfolding q_def by (induction s) auto
  have "length (filter (\<lambda>c. c = CHR ''{'') s) =
          Suc (length (filter (\<lambda>c. c = CHR ''{'') body) + length (filter (\<lambda>c. c = CHR ''{'') post))"
    using eq q0 by (subst s, subst r, subst t, subst p) simp
  then show ?thesis using eq q0 by blast
qed

lemma brace_group_decreases:
  assumes "brace_group s = Some (pre, alts, post)" and "a \<in> set alts"
  shows "length (filter (\<lambda>c. c = CHR ''{'') (pre @ a @ post)) < length (filter (\<lambda>c. c = CHR ''{'') s)"
proof -
  obtain body where alts: "alts = split_on CHR '','' body"
    and cnt: "length (filter (\<lambda>c. c = CHR ''{'') s) =
                Suc (length (filter (\<lambda>c. c = CHR ''{'') body) + length (filter (\<lambda>c. c = CHR ''{'') post))"
    and pre: "length (filter (\<lambda>c. c = CHR ''{'') pre) = 0"
    using brace_group_Some [OF assms(1)] by blast
  have "length (filter (\<lambda>c. c = CHR ''{'') a) \<le> length (filter (\<lambda>c. c = CHR ''{'') body)"
    using assms(2) alts by (simp add: split_on_piece_filter)
  then show ?thesis using cnt pre by simp
qed

termination expand_braces
  by (relation "measure (\<lambda>s. length (filter (\<lambda>c. c = CHR ''{'') s))") (auto dest: brace_group_decreases)

declare expand_braces.simps [simp del]

lemma brace_group_None:
  assumes "CHR ''{'' \<notin> set s" shows "brace_group s = None"
proof -
  have "takeWhile (\<lambda>c. c \<noteq> CHR ''{'') s = s" using assms by (auto simp add: takeWhile_eq_all_conv)
  then show ?thesis by (simp add: brace_group_def Let_def del: takeWhile_eq_all_conv)
qed

lemma no_brace_expand: "CHR ''{'' \<notin> set s \<Longrightarrow> expand_braces s = [s]"
  by (subst expand_braces.simps) (simp add: brace_group_None)

text \<open>A segment without \<open>*\<close> matches itself only; \<open>**\<close> skips any number of
  segments.\<close>

lemma seg_glob_literal: "CHR ''*'' \<notin> set p \<Longrightarrow> seg_glob p x \<longleftrightarrow> p = x"
  by (induction p x rule: seg_glob.induct) auto

lemma segs_glob_dstar:
  "segs_glob (''**'' # ps) xs \<longleftrightarrow> (\<exists>k \<le> length xs. segs_glob ps (drop k xs))"
proof (induction xs)
  case Nil
  then show ?case by simp
next
  case (Cons x xs)
  have "(\<exists>k \<le> length (x # xs). segs_glob ps (drop k (x # xs))) \<longleftrightarrow>
          segs_glob ps (x # xs) \<or> (\<exists>k \<le> length xs. segs_glob ps (drop k xs))"
    unfolding less_Suc_eq_le [symmetric] list.size by (subst Ex_less_Suc2) simp
  with Cons show ?case by simp
qed

lemma segs_glob_literal_cons:
  "CHR ''*'' \<notin> set d \<Longrightarrow> d \<noteq> ''**'' \<Longrightarrow> segs_glob (d # ps) xs \<longleftrightarrow> (\<exists>ys. xs = d # ys \<and> segs_glob ps ys)"
  by (cases xs) (auto simp add: seg_glob_literal)

lemma segs_glob_dstar_all [simp]: "segs_glob [''**''] xs"
  by (subst segs_glob_dstar) (auto intro: exI [of _ "length xs"])

lemma segs_glob_has_segment:
  assumes "CHR ''*'' \<notin> set d" "d \<noteq> ''**''"
  shows "segs_glob [''**'', d, ''**''] xs \<longleftrightarrow> d \<in> set xs"
proof -
  have "segs_glob [''**'', d, ''**''] xs \<longleftrightarrow> (\<exists>k \<le> length xs. \<exists>ys. drop k xs = d # ys)"
    by (simp add: segs_glob_dstar [of "[d, ''**'']"] segs_glob_literal_cons assms del: segs_glob.simps)
  also have "\<dots> \<longleftrightarrow> d \<in> set xs"
  proof
    assume "\<exists>k \<le> length xs. \<exists>ys. drop k xs = d # ys"
    then obtain k ys where "drop k xs = d # ys" by blast
    then show "d \<in> set xs" by (metis in_set_dropD list.set_intros(1))
  next
    assume "d \<in> set xs"
    then obtain as bs where "xs = as @ d # bs" by (auto simp add: in_set_conv_decomp)
    then show "\<exists>k \<le> length xs. \<exists>ys. drop k xs = d # ys"
      by (intro exI [of _ "length as"] conjI exI [of _ bs]) simp_all
  qed
  finally show ?thesis .
qed

text \<open>A leading \<open>*\<close> followed by literal characters matches the names ending in them;
  \<open>**/\<close> followed by one segment pattern matches on the last segment.\<close>

lemma seg_glob_star_suffix:
  "CHR ''*'' \<notin> set t \<Longrightarrow> seg_glob (CHR ''*'' # t) x \<longleftrightarrow> suffix t x"
  by (induction x) (auto simp add: seg_glob_literal suffix_Cons)

lemma segs_glob_dstar_last:
  "p \<noteq> ''**'' \<Longrightarrow> segs_glob [''**'', p] xs \<longleftrightarrow> xs \<noteq> [] \<and> seg_glob p (last xs)"
  by (induction xs) auto

lemmas glob_eval = any_glob_def glob_def no_brace_expand

lemma prod_collects_under_lighthouse:
  "collects prod_lighthouse_config path \<Longrightarrow> \<exists>ys. split_on CHR ''/'' path = ''lighthouse'' # ys"
  by (auto simp add: collects_def prod_lighthouse_config_def glob_eval segs_glob_literal_cons
      simp del: segs_glob.simps)

lemma unit_excludes_segment:
  "d \<in> {''node_modules'', ''e2e'', ''lighthouse''} \<Longrightarrow> d \<in> set (split_on CHR ''/'' path) \<Longrightarrow>
   \<not> collects unit_config path"
  by (auto simp add: collects_def unit_config_def glob_eval segs_glob_has_segment
      simp del: segs_glob.simps)

lemma default_include_expanded:
  "any_glob vitest_default_include path \<longleftrightarrow>
   list_ex (\<lambda>p. segs_glob [''**'', p] (split_on CHR ''/'' path))
    [''*.test.js'', ''*.test.ts'', ''*.test.jsx'', ''*.test.tsx'', ''*.test.cjs'', ''*.test.cts'',
     ''*.test.cjsx'', ''*.test.ctsx'', ''*.test.mjs'', ''*.test.mts'', ''*.test.mjsx'', ''*.test.mtsx'',
     ''*.spec.js'', ''*.spec.ts'', ''*.spec.jsx'', ''*.spec.tsx'', ''*.spec.cjs'', ''*.spec.cts'',
     ''*.spec.cjsx'', ''*.spec.ctsx'', ''*.spec.mjs'', ''*.spec.mts'', ''*.spec.mjsx'', ''*.spec.mtsx'']"
  by (simp add: any_glob_def glob_def vitest_default_include_def expand_braces.simps brace_group_def)

section \<open>Properties of the configuration\<close>

text \<open>(C16) The unit-test run and the production Lighthouse run never collect the same
  file: the Lighthouse suites run only against the preview server, in the node
  environment, never in the unit run's jsdom environment.\<close>

theorem runs_disjoint:
  "\<not> (collects unit_config path \<and> collects prod_lighthouse_config path)"
  using prod_collects_under_lighthouse unit_excludes_segment by fastforce

text \<open>The unit run collects the eight suites of \<open>src/__tests__\<close> and not the
  Playwright suite, whose \<open>.spec.ts\<close> name the default include would match; the
  production Lighthouse run collects the three Lighthouse suites and not their helpers.\<close>

theorem unit_run_suites:
  "list_all (collects unit_config)
     [''src/__tests__/App.test.tsx'', ''src/__tests__/CartPage.advanced.test.tsx'',
      ''src/__tests__/Home.advanced.test.tsx'', ''src/__tests__/Home.test.tsx'',
      ''src/__tests__/ProductDetail.test.tsx'', ''src/__tests__/Register.test.tsx'',
      ''src/__tests__/UserContext.test.tsx'', ''src/__tests__/api.advanced.test.ts''] \<and>
   \<not> collects unit_config ''e2e/store.spec.ts'' \<and>
   \<not> collects unit_config ''lighthouse/lighthouse.test.ts''"
  by code_simp

theorem prod_run_suites:
  "list_all (collects prod_lighthouse_config)
     [''lighthouse/lighthouse.test.ts'', ''lighthouse/lighthouse-detailed.test.ts'',
      ''lighthouse/lighthouse-example.test.ts''] \<and>
   \<not> collects prod_lighthouse_config ''lighthouse/utils.ts'' \<and>
   \<not> collects prod_lighthouse_config ''src/__tests__/Home.test.tsx''"
  by (simp add: collects_def prod_lighthouse_config_def glob_eval vitest_default_exclude_def)

text \<open>Without an \<open>include\<close> of its own, the unit run collects only test and spec
  files: the last segment of every path it collects ends in \<open>.test.\<close> or \<open>.spec.\<close>
  and a script extension.\<close>

theorem unit_collects_only_tests:
  assumes "collects unit_config path"
  shows "\<exists>k \<in> {''test'', ''spec''}. \<exists>e \<in> set [''js'', ''ts'', ''jsx'', ''tsx'', ''cjs'', ''cts'',
           ''cjsx'', ''ctsx'', ''mjs'', ''mts'', ''mjsx'', ''mtsx''].
           suffix (''.'' @ k @ ''.'' @ e) (last (split_on CHR ''/'' path))"
proof -
  define pats where "pats =
      [''*.test.js'', ''*.test.ts'', ''*.test.jsx'', ''*.test.tsx'', ''*.test.cjs'', ''*.test.cts'',
       ''*.test.cjsx'', ''*.test.ctsx'', ''*.test.mjs'', ''*.test.mts'', ''*.test.mjsx'', ''*.test.mtsx'',
       ''*.spec.js'', ''*.spec.ts'', ''*.spec.jsx'', ''*.spec.tsx'', ''*.spec.cjs'', ''*.spec.cts'',
       ''*.spec.cjsx'', ''*.spec.ctsx'', ''*.spec.mjs'', ''*.spec.mts'', ''*.spec.mjsx'', ''*.spec.mtsx'']"
  have "list_ex (\<lambda>p. segs_glob [''**'', p] (split_on CHR ''/'' path)) pats"
    using assms by (simp add: collects_def unit_config_def default_include_expanded pats_def
        del: segs_glob.simps)
  then obtain p where p: "p \<in> set pats" "segs_glob [''**'', p] (split_on CHR ''/'' path)"
    unfolding list_ex_iff by blast
  have "\<forall>p \<in> set pats. p \<noteq> ''**'' \<and> p = CHR ''*'' # tl p \<and> CHR ''*'' \<notin> set (tl p) \<and>
      (\<exists>k \<in> {''test'', ''spec''}. \<exists>e \<in> set [''js'', ''ts'', ''jsx'', ''tsx'', ''cjs'', ''cts'',
           ''cjsx'', ''ctsx'', ''mjs'', ''mts'', ''mjsx'', ''mtsx'']. tl p = ''.'' @ k @ ''.'' @ e)"
    unfolding pats_def by code_simp
  with p show ?thesis
    by (metis segs_glob_dstar_last seg_glob_star_suffix)
qed

theorem unit_collects_only_tests_witness:
  "collects unit_config ''src/__tests__/Home.test.tsx'' \<and>
   (\<exists>k \<in> {''test'', ''spec''}. \<exists>e \<in> set [''js'', ''ts'', ''jsx'', ''tsx'', ''cjs'', ''cts'',
      ''cjsx'', ''ctsx'', ''mjs'', ''mts'', ''mjsx'', ''mtsx''].
      suffix (''.'' @ k @ ''.'' @ e) (last (split_on CHR ''/'' ''src/__tests__/Home.test.tsx'')))"
proof -
  have c: "collects unit_config ''src/__tests__/Home.test.tsx''" by code_simp
  show ?thesis using unit_collects_only_tests [OF c] c by blast
qed

text \<open>Coverage counts only sources under \<open>src/\<close> outside \<open>__tests__\<close>.\<close>

theorem covers_unit_sources:
  "covers unit_config path \<Longrightarrow>
   \<exists>ys. split_on CHR ''/'' path = ''src'' # ys \<and> ''__tests__'' \<notin> set ys"
  by (auto simp add: covers_def unit_config_def glob_eval expand_braces.simps brace_group_def
      segs_glob_literal_cons segs_glob_has_segment simp del: segs_glob.simps)

theorem covers_examples:
  "covers unit_config ''src/pages/CartPage.tsx'' \<and> covers unit_config ''src/main.tsx'' \<and>
   \<not> covers unit_config ''src/__tests__/App.test.tsx'' \<and>
   \<not> covers unit_config ''src/vite-env.d.ts'' \<and> \<not> covers unit_config ''src/setupTests.ts''"
  by code_simp

text \<open>The production configuration passes the preview server's address as
  \<open>APP_URL\<close>, but every Lighthouse suite audits its own constant address, the
  development server's.\<close>

theorem prod_app_url_unused:
  "vc_env prod_lighthouse_config ''APP_URL'' = Some ''http://localhost:4173'' \<and>
   Some lighthouse_app_url \<noteq> vc_env prod_lighthouse_config ''APP_URL''"
  by (simp add: prod_lighthouse_config_def lighthouse_app_url_def)

end
