(* ===== verification/ApiTests.thy ===== *)
theory ApiTests
  imports Api "HOL-Library.Sublist"
begin

text \<open>
  The advanced unit tests of the API client (\<open>src/src/__tests__/api.advanced.test.ts\<close>)
  against the model of \<open>src/unnamed/part_006\<close>. Each test replaces the global
  \<open>fetch\<close> by a mock, calls one exported function and checks the promise it returns
  and the arguments \<open>fetch\<close> received. A test is the call with what the mocked
  \<open>fetch\<close> yields; \<open>run_api_test\<close> is the request the function builds and its
  outcome (\<open>api_result\<close>), with \<open>VITE_API_BASE_URL\<close> unset, as under Vitest.

  The mocks are partial \<open>Response\<close> objects. An error mock
  \<open>{ ok: false, status, statusText }\<close> has no \<open>json\<close> method: \<open>res.json()\<close> throws a
  \<open>TypeError\<close>, which the \<open>try\<close> of \<open>handleResponse\<close> catches, so the body is the
  failure branch. A success mock \<open>{ ok: true, json }\<close> has no \<open>status\<close>;
  \<open>handleResponse\<close> reads the status only to compare it with 204, which
  \<open>undefined\<close> is not, so the status 200 stands for it. Amounts in the mocked bodies
  are integers in cents, as throughout the model. The two tests that pass \<open>null\<close>
  as an id (\<open>null as any\<close>) are outside the typed calls and not modelled; both only
  expect the mocked 400 to reject.
\<close>

section \<open>Mocks and matchers\<close>

definition mock_error_response :: "int \<Rightarrow> string \<Rightarrow> http_response" where
  "mock_error_response st t =
     \<lparr>res_status = st, res_status_text = t, res_body = Inl ''res.json is not a function''\<rparr>"

definition mock_json_response :: "json \<Rightarrow> http_response" where
  "mock_json_response v = \<lparr>res_status = 200, res_status_text = [], res_body = Inr v\<rparr>"

definition mock_json_rejecting :: "string \<Rightarrow> http_response" where
  "mock_json_rejecting m = \<lparr>res_status = 200, res_status_text = [], res_body = Inl m\<rparr>"

text \<open>Mocks of the other suite (\<open>src/src/__tests__/Register.test.tsx\<close>, "API Client"):
  an error whose \<open>json\<close> yields a body, and a success with a status and no body.\<close>

definition mock_error_json :: "int \<Rightarrow> string \<Rightarrow> json \<Rightarrow> http_response" where
  "mock_error_json st t v = \<lparr>res_status = st, res_status_text = t, res_body = Inr v\<rparr>"

definition mock_status_only :: "int \<Rightarrow> http_response" where
  "mock_status_only st = \<lparr>res_status = st, res_status_text = [], res_body = Inl ''res.json is not a function''\<rparr>"

type_synonym api_test = "api_call \<times> (rejection + http_response)"

definition run_api_test :: "api_test \<Rightarrow> http_request \<times> (rejection + json option)" where
  "run_api_test t = (case t of (c, fetched) \<Rightarrow> (call_request (api_base None) c, api_result fetched))"

text \<open>The expectations the tests make: \<open>rejects.toThrow()\<close>, \<open>rejects.toThrow(s)\<close>
  (the message contains \<open>s\<close>), \<open>toEqual\<close> of the resolved value,
  \<open>Array.isArray\<close>, \<open>typeof result === "object"\<close> (also true of arrays and
  \<open>null\<close>), \<open>toHaveProperty\<close>, and \<open>toHaveBeenCalledWith\<close> with
  \<open>expect.stringContaining\<close> on the URL and \<open>expect.objectContaining\<close> on the
  method, the body (\<open>JSON.stringify\<close> of an object literal) and the headers, one of
  them or, given as an object literal inside \<open>objectContaining\<close>, all of them.\<close>

datatype api_expect =
    Rejects
  | RejectsWith string
  | ResolvesTo "json option"
  | ResolvesArray
  | ResolvesTypeofObject
  | ResolvesHasProperty string
  | UrlContains string
  | MethodIs http_method
  | BodyIs json
  | HeaderIs string string
  | HeadersAre "(string \<times> string) list"

fun expect_holds :: "http_request \<times> (rejection + json option) \<Rightarrow> api_expect \<Rightarrow> bool" where
  "expect_holds (req, r) Rejects = isl r"
| "expect_holds (req, r) (RejectsWith s) = (case r of Inl (RejError m) \<Rightarrow> sublist s m | _ \<Rightarrow> False)"
| "expect_holds (req, r) (ResolvesTo v) = (r = Inr v)"
| "expect_holds (req, r) ResolvesArray = (case r of Inr (Some (JArr _)) \<Rightarrow> True | _ \<Rightarrow> False)"
| "expect_holds (req, r) ResolvesTypeofObject =
     (case r of Inr (Some (JObj _)) \<Rightarrow> True | Inr (Some (JArr _)) \<Rightarrow> True | Inr (Some JNull) \<Rightarrow> True
      | _ \<Rightarrow> False)"
| "expect_holds (req, r) (ResolvesHasProperty k) =
     (case r of Inr (Some v) \<Rightarrow> js_prop v k \<noteq> None | _ \<Rightarrow> False)"
| "expect_holds (req, r) (UrlContains s) = sublist s (req_url req)"
| "expect_holds (req, r) (MethodIs m) = (req_method req = m)"
| "expect_holds (req, r) (BodyIs j) = (req_body req = Some j)"
| "expect_holds (req, r) (HeaderIs k v) = (map_of (req_headers req) k = Some v)"
| "expect_holds (req, r) (HeadersAre hs) = (set (req_headers req) = set hs)"

definition api_test_passes :: "api_test \<times> api_expect list \<Rightarrow> bool" where
  "api_test_passes te = (case te of (t, es) \<Rightarrow> list_all (expect_holds (run_api_test t)) es)"

section \<open>The tests, one list per \<open>describe\<close> block\<close>

definition get_products_error_tests :: "(api_test \<times> api_expect list) list" where
  "get_products_error_tests =
     [((GetProducts, Inr (mock_error_response 500 ''Internal Server Error'')), [Rejects]),
      ((GetProducts, Inl (RejError ''Network error'')), [RejectsWith ''Network error'']),
      ((GetProducts, Inr (mock_json_rejecting ''Invalid JSON'')), [RejectsWith ''Invalid JSON'']),
      ((GetProducts, Inr (mock_error_response 404 ''Not Found'')), [Rejects]),
      ((GetProducts, Inr (mock_error_response 403 ''Forbidden'')), [Rejects]),
      ((GetProducts, Inl (RejError ''Request timeout'')), [RejectsWith ''Request timeout'']),
      ((GetProducts, Inr (mock_json_response (JArr []))), [ResolvesTo (Some (JArr []))])]"

definition get_product_by_id_error_tests :: "(api_test \<times> api_expect list) list" where
  "get_product_by_id_error_tests =
     [((GetProductById (Some 999), Inr (mock_error_response 404 ''Product not found'')), [Rejects]),
      ((GetProductById (Some 1), Inl (RejError ''Connection refused'')), [RejectsWith ''Connection refused'']),
      ((GetProductById (Some (-1)), Inr (mock_error_response 400 ''Bad Request'')), [Rejects]),
      ((GetProductById (Some 0), Inr (mock_error_response 400 ''Bad Request'')), [Rejects]),
      ((GetProductById (Some 42), Inr (mock_json_response (JObj [(''id'', JNum 42), (''name'', JStr ''Product''),
          (''price'', JNum 9999), (''stockQuantity'', JNum 10)]))),
       [UrlContains ''/api/products/42''])]"

definition create_user_error_tests :: "(api_test \<times> api_expect list) list" where
  "create_user_error_tests =
     [((CreateUser \<lparr>cu_username = [], cu_email = ''test@example.com''\<rparr>,
        Inr (mock_error_response 400 ''Bad Request'')), [Rejects]),
      ((CreateUser \<lparr>cu_username = ''testuser'', cu_email = ''invalid''\<rparr>,
        Inr (mock_error_response 400 ''Invalid email format'')), [Rejects]),
      ((CreateUser \<lparr>cu_username = ''existing'', cu_email = ''test@example.com''\<rparr>,
        Inr (mock_error_response 409 ''Conflict'')), [Rejects]),
      ((CreateUser \<lparr>cu_username = ''test'', cu_email = ''test@example.com''\<rparr>,
        Inr (mock_error_response 500 ''Internal Server Error'')), [Rejects]),
      ((CreateUser \<lparr>cu_username = ''test'', cu_email = ''test@example.com''\<rparr>,
        Inr (mock_json_response (JObj [(''id'', JNum 1), (''username'', JStr ''test''),
          (''email'', JStr ''test@example.com'')]))),
       [MethodIs POST, BodyIs (JObj [(''username'', JStr ''test''), (''email'', JStr ''test@example.com'')])])]"

definition add_to_cart_error_tests :: "(api_test \<times> api_expect list) list" where
  "add_to_cart_error_tests =
     [((AddToCart 999 \<lparr>add_product_id = 1, add_quantity = 1\<rparr>,
        Inr (mock_error_response 404 ''User not found'')), [Rejects]),
      ((AddToCart 1 \<lparr>add_product_id = 999, add_quantity = 1\<rparr>,
        Inr (mock_error_response 404 ''Product not found'')), [Rejects]),
      ((AddToCart 1 \<lparr>add_product_id = 1, add_quantity = 0\<rparr>,
        Inr (mock_error_response 400 ''Invalid quantity'')), [Rejects]),
      ((AddToCart 1 \<lparr>add_product_id = 1, add_quantity = 1000\<rparr>,
        Inr (mock_error_response 400 ''Insufficient stock'')), [Rejects]),
      ((AddToCart 1 \<lparr>add_product_id = 1, add_quantity = -5\<rparr>,
        Inr (mock_error_response 400 ''Quantity must be positive'')), [Rejects]),
      ((AddToCart 123 \<lparr>add_product_id = 456, add_quantity = 2\<rparr>, Inr (mock_json_response (JObj []))),
       [UrlContains ''/api/cart/add?userId=123'', MethodIs POST,
        BodyIs (JObj [(''productId'', JNum 456), (''quantity'', JNum 2)])])]"

definition get_cart_error_tests :: "(api_test \<times> api_expect list) list" where
  "get_cart_error_tests =
     [((GetCart 999, Inr (mock_error_response 404 ''User not found'')), [Rejects]),
      ((GetCart 1, Inr (mock_json_response (JArr []))), [ResolvesTo (Some (JArr []))]),
      ((GetCart 1, Inr (mock_error_response 401 ''Unauthorized'')), [Rejects]),
      ((GetCart 789, Inr (mock_json_response (JArr []))), [UrlContains ''/api/cart?userId=789''])]"

definition remove_from_cart_error_tests :: "(api_test \<times> api_expect list) list" where
  "remove_from_cart_error_tests =
     [((RemoveFromCart 1 999, Inr (mock_error_response 404 ''Item not found in cart'')), [Rejects]),
      ((RemoveFromCart 999 1, Inr (mock_error_response 404 ''User not found'')), [Rejects]),
      ((RemoveFromCart 1 1, Inr (mock_error_response 403 ''Forbidden'')), [Rejects]),
      ((RemoveFromCart 123 456, Inr (mock_json_response (JObj [(''success'', JBool True)]))),
       [UrlContains ''/api/cart/remove/456?userId=123'', MethodIs DELETE])]"

definition mock_checkout_result :: json where
  "mock_checkout_result = JObj [(''success'', JBool True), (''message'', JStr ''Order placed''),
     (''totalAmount'', JNum 9999), (''purchasedItems'', JArr [])]"

definition checkout_error_tests :: "(api_test \<times> api_expect list) list" where
  "checkout_error_tests =
     [((Checkout 1, Inr (mock_error_response 400 ''Cart is empty'')), [Rejects]),
      ((Checkout 999, Inr (mock_error_response 404 ''User not found'')), [Rejects]),
      ((Checkout 1, Inr (mock_error_response 402 ''Payment Required'')), [Rejects]),
      ((Checkout 1, Inr (mock_error_response 409 ''Items out of stock'')), [Rejects]),
      ((Checkout 1, Inr (mock_json_response mock_checkout_result)), [ResolvesTo (Some mock_checkout_result)]),
      ((Checkout 123, Inr (mock_json_response (JObj [(''success'', JBool True)]))),
       [UrlContains ''/api/cart/checkout?userId=123'', MethodIs POST])]"

text \<open>The slow mock resolves after a timer; the delay does not change the outcome.\<close>

definition network_tests :: "(api_test \<times> api_expect list) list" where
  "network_tests =
     [((GetProducts, Inr (mock_json_response (JArr []))), [ResolvesTo (Some (JArr []))]),
      ((GetProducts, Inl (RejError ''ECONNRESET'')), [RejectsWith ''ECONNRESET'']),
      ((GetProducts, Inl (RejError ''ENOTFOUND'')), [RejectsWith ''ENOTFOUND'']),
      ((GetProducts, Inl (RejError ''ECONNREFUSED'')), [RejectsWith ''ECONNREFUSED''])]"

definition header_tests :: "(api_test \<times> api_expect list) list" where
  "header_tests =
     [((CreateUser \<lparr>cu_username = ''test'', cu_email = ''test@example.com''\<rparr>,
        Inr (mock_json_response (JObj [(''id'', JNum 1), (''username'', JStr ''test''),
          (''email'', JStr ''test@example.com'')]))),
       [HeaderIs ''Content-Type'' ''application/json'']),
      ((AddToCart 1 \<lparr>add_product_id = 1, add_quantity = 1\<rparr>, Inr (mock_json_response (JObj []))),
       [HeaderIs ''Content-Type'' ''application/json'']),
      ((Checkout 1, Inr (mock_json_response (JObj [(''success'', JBool True)]))),
       [HeaderIs ''Accept'' ''application/json''])]"

text \<open>The loop over the endpoints ignores the outcome of each call and checks the URL.\<close>

definition base_url_tests :: "(api_test \<times> api_expect list) list" where
  "base_url_tests =
     map (\<lambda>(c, path). ((c, Inr (mock_json_response (JObj []))), [UrlContains path]))
       [(GetProducts, ''/api/products''), (GetProductById (Some 1), ''/api/products/1''),
        (CreateUser \<lparr>cu_username = ''test'', cu_email = ''test@example.com''\<rparr>, ''/api/users''),
        (AddToCart 1 \<lparr>add_product_id = 1, add_quantity = 1\<rparr>, ''/api/cart/add''),
        (GetCart 1, ''/api/cart''), (RemoveFromCart 1 1, ''/api/cart/remove''),
        (Checkout 1, ''/api/cart/checkout'')]"

definition data_type_tests :: "(api_test \<times> api_expect list) list" where
  "data_type_tests =
     [((GetProducts, Inr (mock_json_response (JArr [JObj [(''id'', JNum 1), (''name'', JStr ''Product''),
          (''price'', JNum 1000), (''stockQuantity'', JNum 5)]]))), [ResolvesArray]),
      ((GetProductById (Some 1), Inr (mock_json_response (JObj [(''id'', JNum 1), (''name'', JStr ''Product''),
          (''price'', JNum 1000), (''stockQuantity'', JNum 5)]))),
       [ResolvesTypeofObject, ResolvesHasProperty ''id'']),
      ((CreateUser \<lparr>cu_username = ''test'', cu_email = ''test@example.com''\<rparr>,
        Inr (mock_json_response (JObj [(''id'', JNum 1), (''username'', JStr ''test''),
          (''email'', JStr ''test@example.com'')]))),
       [ResolvesHasProperty ''id'', ResolvesHasProperty ''username''])]"

text \<open>The suite "API Client" of \<open>src/src/__tests__/Register.test.tsx\<close>, one list per
  \<open>describe\<close> block.\<close>

definition client_get_products_tests :: "(api_test \<times> api_expect list) list" where
  "client_get_products_tests =
     [((GetProducts, Inr (mock_json_response (JArr [JObj [(''id'', JNum 1), (''name'', JStr ''Laptop''), (''price'', JNum 99999), (''stockQuantity'', JNum 10)], JObj [(''id'', JNum 2), (''name'', JStr ''Mouse''), (''price'', JNum 2999), (''stockQuantity'', JNum 50)]]))), [UrlContains ''/api/products'', HeadersAre [(''Accept'', ''application/json'')], ResolvesTo (Some (JArr [JObj [(''id'', JNum 1), (''name'', JStr ''Laptop''), (''price'', JNum 99999), (''stockQuantity'', JNum 10)], JObj [(''id'', JNum 2), (''name'', JStr ''Mouse''), (''price'', JNum 2999), (''stockQuantity'', JNum 50)]]))]),
      ((GetProducts, Inr (mock_error_json 500 ''Internal Server Error'' (JObj [(''message'', JStr ''Server error'')]))), [RejectsWith ''Server error''])]"

definition client_create_user_tests :: "(api_test \<times> api_expect list) list" where
  "client_create_user_tests =
     [((CreateUser \<lparr>cu_username = ''testuser'', cu_email = ''test@example.com''\<rparr>, Inr (mock_json_response (JObj [(''id'', JNum 1), (''username'', JStr ''testuser''), (''email'', JStr ''test@example.com'')]))), [UrlContains ''/api/users'', MethodIs POST, HeadersAre [(''Content-Type'', ''application/json''), (''Accept'', ''application/json'')], BodyIs (JObj [(''username'', JStr ''testuser''), (''email'', JStr ''test@example.com'')]), ResolvesTo (Some (JObj [(''id'', JNum 1), (''username'', JStr ''testuser''), (''email'', JStr ''test@example.com'')]))]),
      ((CreateUser \<lparr>cu_username = ''existing'', cu_email = ''test@example.com''\<rparr>, Inr (mock_error_json 400 ''Bad Request'' (JObj [(''message'', JStr ''Username already taken'')]))), [RejectsWith ''Username already taken''])]"

definition client_add_to_cart_tests :: "(api_test \<times> api_expect list) list" where
  "client_add_to_cart_tests =
     [((AddToCart 1 \<lparr>add_product_id = 2, add_quantity = 3\<rparr>, Inr (mock_json_response (JObj []))), [UrlContains ''/api/cart/add?userId=1'', MethodIs POST, BodyIs (JObj [(''productId'', JNum 2), (''quantity'', JNum 3)])]),
      ((AddToCart 1 \<lparr>add_product_id = 2, add_quantity = 100\<rparr>, Inr (mock_error_json 400 ''Bad Request'' (JObj [(''message'', JStr ''Insufficient stock'')]))), [RejectsWith ''Insufficient stock''])]"

definition client_checkout_tests :: "(api_test \<times> api_expect list) list" where
  "client_checkout_tests =
     [((Checkout 1, Inr (mock_json_response (JObj [(''success'', JBool True), (''message'', JStr ''Checkout completed''), (''totalAmount'', JNum 15000), (''purchasedItems'', JArr [])]))), [UrlContains ''/api/cart/checkout?userId=1'', MethodIs POST, ResolvesTo (Some (JObj [(''success'', JBool True), (''message'', JStr ''Checkout completed''), (''totalAmount'', JNum 15000), (''purchasedItems'', JArr [])]))])]"

definition client_get_users_tests :: "(api_test \<times> api_expect list) list" where
  "client_get_users_tests =
     [((GetUsers, Inr (mock_json_response (JArr [JObj [(''id'', JNum 1), (''username'', JStr ''user1''), (''email'', JStr ''user1@example.com'')], JObj [(''id'', JNum 2), (''username'', JStr ''user2''), (''email'', JStr ''user2@example.com'')]]))), [UrlContains ''/api/users'', HeadersAre [(''Accept'', ''application/json'')], ResolvesTo (Some (JArr [JObj [(''id'', JNum 1), (''username'', JStr ''user1''), (''email'', JStr ''user1@example.com'')], JObj [(''id'', JNum 2), (''username'', JStr ''user2''), (''email'', JStr ''user2@example.com'')]]))]),
      ((GetUsers, Inr (mock_json_response (JArr []))), [ResolvesTo (Some (JArr []))])]"

definition client_get_user_by_id_tests :: "(api_test \<times> api_expect list) list" where
  "client_get_user_by_id_tests =
     [((GetUserById 5, Inr (mock_json_response (JObj [(''id'', JNum 5), (''username'', JStr ''specificuser''), (''email'', JStr ''specific@example.com'')]))), [UrlContains ''/api/users/5'', HeadersAre [(''Accept'', ''application/json'')], ResolvesTo (Some (JObj [(''id'', JNum 5), (''username'', JStr ''specificuser''), (''email'', JStr ''specific@example.com'')]))]),
      ((GetUserById 999, Inr (mock_error_json 404 ''Not Found'' (JObj [(''message'', JStr ''User not found'')]))), [RejectsWith ''User not found''])]"

definition client_update_user_tests :: "(api_test \<times> api_expect list) list" where
  "client_update_user_tests =
     [((UpdateUser 1 \<lparr>uu_username = Some ''updated'', uu_email = Some ''updated@example.com''\<rparr>, Inr (mock_json_response (JObj [(''id'', JNum 1), (''username'', JStr ''updated''), (''email'', JStr ''updated@example.com'')]))), [UrlContains ''/api/users/1'', MethodIs PUT, HeadersAre [(''Content-Type'', ''application/json''), (''Accept'', ''application/json'')], BodyIs (JObj [(''username'', JStr ''updated''), (''email'', JStr ''updated@example.com'')]), ResolvesTo (Some (JObj [(''id'', JNum 1), (''username'', JStr ''updated''), (''email'', JStr ''updated@example.com'')]))]),
      ((UpdateUser 1 \<lparr>uu_username = Some ''test'', uu_email = Some ''invalid''\<rparr>, Inr (mock_error_json 400 ''Bad Request'' (JObj [(''message'', JStr ''Invalid email format'')]))), [RejectsWith ''Invalid email format''])]"

definition client_delete_user_tests :: "(api_test \<times> api_expect list) list" where
  "client_delete_user_tests =
     [((DeleteUser 1, Inr (mock_status_only 204)), [UrlContains ''/api/users/1'', MethodIs DELETE]),
      ((DeleteUser 999, Inr (mock_error_json 404 ''Not Found'' (JObj [(''message'', JStr ''User not found'')]))), [RejectsWith ''User not found''])]"

definition client_get_product_by_id_tests :: "(api_test \<times> api_expect list) list" where
  "client_get_product_by_id_tests =
     [((GetProductById (Some 10), Inr (mock_json_response (JObj [(''id'', JNum 10), (''name'', JStr ''Specific Product''), (''description'', JStr ''Product details''), (''price'', JNum 19999), (''stockQuantity'', JNum 25)]))), [UrlContains ''/api/products/10'', HeadersAre [(''Accept'', ''application/json'')], ResolvesTo (Some (JObj [(''id'', JNum 10), (''name'', JStr ''Specific Product''), (''description'', JStr ''Product details''), (''price'', JNum 19999), (''stockQuantity'', JNum 25)]))]),
      ((GetProductById (Some 9999), Inr (mock_error_json 404 ''Not Found'' (JObj [(''message'', JStr ''Product not found'')]))), [RejectsWith ''Product not found''])]"

definition client_get_cart_tests :: "(api_test \<times> api_expect list) list" where
  "client_get_cart_tests =
     [((GetCart 5, Inr (mock_json_response (JArr [JObj [(''id'', JNum 1), (''productId'', JNum 10), (''productName'', JStr ''Product 1''), (''price'', JNum 5000), (''quantity'', JNum 2), (''subtotal'', JNum 10000)]]))), [UrlContains ''/api/cart?userId=5'', HeadersAre [(''Accept'', ''application/json'')], ResolvesTo (Some (JArr [JObj [(''id'', JNum 1), (''productId'', JNum 10), (''productName'', JStr ''Product 1''), (''price'', JNum 5000), (''quantity'', JNum 2), (''subtotal'', JNum 10000)]]))]),
      ((GetCart 1, Inr (mock_json_response (JArr []))), [ResolvesTo (Some (JArr []))])]"

definition client_remove_from_cart_tests :: "(api_test \<times> api_expect list) list" where
  "client_remove_from_cart_tests =
     [((RemoveFromCart 1 10, Inr (mock_status_only 204)), [UrlContains ''/api/cart/remove/10?userId=1'', MethodIs DELETE]),
      ((RemoveFromCart 1 999, Inr (mock_error_json 404 ''Not Found'' (JObj [(''message'', JStr ''Item not found in cart'')]))), [RejectsWith ''Item not found in cart''])]"

definition client_error_tests :: "(api_test \<times> api_expect list) list" where
  "client_error_tests =
     [((GetProducts, Inl (RejError ''Network error'')), [RejectsWith ''Network error'']),
      ((GetProducts, Inr \<lparr>res_status = 500, res_status_text = ''Internal Server Error'', res_body = Inl ''Invalid JSON''\<rparr>), [Rejects]),
      ((DeleteUser 1, Inr (mock_status_only 204)), [ResolvesTo None])]"

section \<open>Every test passes\<close>

theorem get_products_error_tests_pass: "list_all api_test_passes get_products_error_tests"
  by code_simp

theorem get_product_by_id_error_tests_pass: "list_all api_test_passes get_product_by_id_error_tests"
  by code_simp

theorem create_user_error_tests_pass: "list_all api_test_passes create_user_error_tests"
  by code_simp

theorem add_to_cart_error_tests_pass: "list_all api_test_passes add_to_cart_error_tests"
  by code_simp

theorem get_cart_error_tests_pass: "list_all api_test_passes get_cart_error_tests"
  by code_simp

theorem remove_from_cart_error_tests_pass: "list_all api_test_passes remove_from_cart_error_tests"
  by code_simp

theorem checkout_error_tests_pass: "list_all api_test_passes checkout_error_tests"
  by code_simp

theorem network_tests_pass: "list_all api_test_passes network_tests"
  by code_simp

theorem header_tests_pass: "list_all api_test_passes header_tests"
  by code_simp

theorem base_url_tests_pass: "list_all api_test_passes base_url_tests"
  by code_simp

theorem data_type_tests_pass: "list_all api_test_passes data_type_tests"
  by code_simp

text \<open>The suite "API Client" passes.\<close>

theorem client_get_products_tests_pass: "list_all api_test_passes client_get_products_tests"
  by code_simp

theorem client_create_user_tests_pass: "list_all api_test_passes client_create_user_tests"
  by code_simp

theorem client_add_to_cart_tests_pass: "list_all api_test_passes client_add_to_cart_tests"
  by code_simp

theorem client_checkout_tests_pass: "list_all api_test_passes client_checkout_tests"
  by code_simp

theorem client_get_users_tests_pass: "list_all api_test_passes client_get_users_tests"
  by code_simp

theorem client_get_user_by_id_tests_pass: "list_all api_test_passes client_get_user_by_id_tests"
  by code_simp

theorem client_update_user_tests_pass: "list_all api_test_passes client_update_user_tests"
  by code_simp

theorem client_delete_user_tests_pass: "list_all api_test_passes client_delete_user_tests"
  by code_simp

theorem client_get_product_by_id_tests_pass: "list_all api_test_passes client_get_product_by_id_tests"
  by (simp add: client_get_product_by_id_tests_def api_test_passes_def run_api_test_def get_product_by_id_def
      api_base_def show_js_int_def show_eval char_of_digits api_result_def handle_response_def res_ok_def
      mock_json_response_def mock_error_json_def error_value_def body_message_def sublist_Cons_right
      accept_headers_def)

theorem client_get_cart_tests_pass: "list_all api_test_passes client_get_cart_tests"
  by code_simp

theorem client_remove_from_cart_tests_pass: "list_all api_test_passes client_remove_from_cart_tests"
  by code_simp

theorem client_error_tests_pass: "list_all api_test_passes client_error_tests"
  by code_simp

end
