(* ===== verification/UserContextTests.thy ===== *)
theory UserContextTests
  imports UserContext
begin

text \<open>
  The unit tests of the session identity (\<open>src/src/__tests__/UserContext.test.tsx\<close>)
  against the model of \<open>src/unnamed/part_007\<close>. A test renders the hook
  \<open>useUser\<close> with \<open>renderHook\<close>, inside \<open>UserContextProvider\<close> or not, over the
  entries \<open>localStorage\<close> holds (cleared before each test), and then calls
  \<open>setCurrentUserId\<close> and \<open>clearUser\<close> inside \<open>act\<close>. \<open>renderHook\<close> and \<open>act\<close>
  flush effects, so the first value the test reads is the context after the mount
  effect; it then reads \<open>result.current\<close> after each action.
\<close>

datatype ctx_action = ActSetUserId "int option" | ActClearUser

fun ctx_act :: "ctx_action \<Rightarrow> user_ctx \<Rightarrow> user_ctx" where
  "ctx_act (ActSetUserId u) c = set_current_user_id u c"
| "ctx_act ActClearUser c = clear_user c"

text \<open>The contexts the test reads: after the mount, then after each action.\<close>

fun ctx_states :: "user_ctx \<Rightarrow> ctx_action list \<Rightarrow> user_ctx list" where
  "ctx_states c [] = [c]"
| "ctx_states c (a # as) = c # ctx_states (ctx_act a c) as"

type_synonym ctx_test = "(string \<rightharpoonup> string) \<times> bool \<times> ctx_action list"

definition run_ctx_test :: "ctx_test \<Rightarrow> rejection + user_ctx list" where
  "run_ctx_test t =
     (case t of (st, wrapped, acts) \<Rightarrow>
        (case use_user (if wrapped then Some (ctx_load (ctx_init st)) else None) of
           Inl e \<Rightarrow> Inl e
         | Inr c \<Rightarrow> Inr (ctx_states c acts)))"

definition ctx_test_initial_null :: ctx_test where
  "ctx_test_initial_null = (Map.empty, True, [])"

definition ctx_test_set_persists :: ctx_test where
  "ctx_test_set_persists = (Map.empty, True, [ActSetUserId (Some 123)])"

definition ctx_test_loads_on_mount :: ctx_test where
  "ctx_test_loads_on_mount = ([''ai-store-user-id'' \<mapsto> ''456''], True, [])"

definition ctx_test_clear_removes :: ctx_test where
  "ctx_test_clear_removes = (Map.empty, True, [ActSetUserId (Some 789), ActClearUser])"

definition ctx_test_invalid_value :: ctx_test where
  "ctx_test_invalid_value = ([''ai-store-user-id'' \<mapsto> ''not-a-number''], True, [])"

definition ctx_test_outside_provider :: ctx_test where
  "ctx_test_outside_provider = (Map.empty, False, [])"

definition ctx_test_set_null :: ctx_test where
  "ctx_test_set_null = (Map.empty, True, [ActSetUserId (Some 100), ActSetUserId None])"

lemma parse_int_test_values:
  "parse_int ''456'' = Some 456" "parse_int ''not-a-number'' = None"
  by code_simp+

lemmas ctx_test_eval = run_ctx_test_def use_user_def ctx_load_def ctx_init_def set_current_user_id_def
  clear_user_def user_id_storage_key_def

text \<open>Each test's expectations, on the contexts it reads (\<open>toBeNull\<close> is \<open>None\<close>;
  \<open>localStorage.getItem\<close> is the storage entry).\<close>

theorem ctx_test_initial_null_passes:
  "\<exists>c. run_ctx_test ctx_test_initial_null = Inr [c] \<and> current_user_id c = None"
  by (simp add: ctx_test_eval ctx_test_initial_null_def)

theorem ctx_test_set_persists_passes:
  "\<exists>c0 c1. run_ctx_test ctx_test_set_persists = Inr [c0, c1] \<and>
     current_user_id c1 = Some 123 \<and> storage c1 ''ai-store-user-id'' = Some ''123''"
  by (simp add: ctx_test_eval ctx_test_set_persists_def show_eval)

theorem ctx_test_loads_on_mount_passes:
  "\<exists>c. run_ctx_test ctx_test_loads_on_mount = Inr [c] \<and> current_user_id c = Some 456"
  by (simp add: ctx_test_eval ctx_test_loads_on_mount_def parse_int_test_values)

theorem ctx_test_clear_removes_passes:
  "\<exists>c0 c1 c2. run_ctx_test ctx_test_clear_removes = Inr [c0, c1, c2] \<and>
     current_user_id c1 = Some 789 \<and> storage c1 ''ai-store-user-id'' = Some ''789'' \<and>
     current_user_id c2 = None \<and> storage c2 ''ai-store-user-id'' = None"
  by (simp add: ctx_test_eval ctx_test_clear_removes_def show_eval)

theorem ctx_test_invalid_value_passes:
  "\<exists>c. run_ctx_test ctx_test_invalid_value = Inr [c] \<and> current_user_id c = None"
  by (simp add: ctx_test_eval ctx_test_invalid_value_def parse_int_test_values)

theorem ctx_test_outside_provider_passes:
  "run_ctx_test ctx_test_outside_provider =
     Inl (RejError ''useUser must be used within a UserContextProvider'')"
  by (simp add: ctx_test_eval ctx_test_outside_provider_def)

theorem ctx_test_set_null_passes:
  "\<exists>c0 c1 c2. run_ctx_test ctx_test_set_null = Inr [c0, c1, c2] \<and>
     current_user_id c1 = Some 100 \<and> current_user_id c2 = None \<and> storage c2 ''ai-store-user-id'' = None"
  by (simp add: ctx_test_eval ctx_test_set_null_def)

end
