(* ===== verification/HomeTests.thy ===== *)
theory HomeTests
  imports ProductCard UserContext
begin

text \<open>
  The unit tests of the product list (\<open>src/src/__tests__/Home.test.tsx\<close>) against
  the model of \<open>src/src/pages/Home.tsx\<close> and the cards of
  \<open>src/unnamed/part_005\<close>. As for the cart page's tests, a test is the storage it
  sets and the events that follow the render: a mocked API answer resolves the call
  it answers, a click is a click on a rendered control. The page is rendered under
  the provider: its mount effect issues \<open>getProducts\<close> first, the provider's effect
  then sets the stored id, which the page reads at its next render. Prices are in
  cents.
\<close>

section \<open>Harness\<close>

text \<open>The texts the page shows, in document order: the loading line, the error
  with its Retry button, or the title, the message and either the empty line or
  the cards.\<close>

definition home_texts :: "home_page \<Rightarrow> string list" where
  "home_texts s =
     (case home_view s of
        HomeLoadingView \<Rightarrow> [''Loading products...'']
      | HomeErrorView e \<Rightarrow> [e, ''Retry'']
      | HomeListView m ps \<Rightarrow>
          [''Products''] @ (if str_truthy m then [the m] else []) @
          (if ps = [] then [''No products available''] else concat (home_cards s)))"

text \<open>\<open>getByText\<close> succeeds when exactly one element shows the text;
  \<open>getAllByText\<close> when at least one does.\<close>

definition get_by_text_home :: "string \<Rightarrow> home_page \<Rightarrow> bool" where
  "get_by_text_home t s = (count_list (home_texts s) t = 1)"

definition render_home_with_providers :: "(string \<rightharpoonup> string) \<Rightarrow> home_page" where
  "render_home_with_providers st =
     (load_products (home_init None))\<lparr>hp_user := current_user_id (ctx_load (ctx_init st))\<rparr>"

fun home_run :: "home_page \<Rightarrow> home_event list \<Rightarrow> home_page option" where
  "home_run s [] = Some s"
| "home_run s (e # es) = (case home_step s e of None \<Rightarrow> None | Some s' \<Rightarrow> home_run s' es)"

type_synonym home_test = "(string \<rightharpoonup> string) \<times> home_event list"

definition run_home_test :: "home_test \<Rightarrow> home_page option" where
  "run_home_test t = home_run (render_home_with_providers (fst t)) (snd t)"

section \<open>Data and tests\<close>

definition home_mock_products :: "product_dto list" where
  "home_mock_products =
     [\<lparr>product_id = 1, product_name = ''Laptop'', product_description = Some ''Great laptop'',
       product_price = 99999, product_stock_quantity = 10\<rparr>,
      \<lparr>product_id = 2, product_name = ''Mouse'', product_description = Some ''Wireless mouse'',
       product_price = 2999, product_stock_quantity = 50\<rparr>]"

definition home_storage_123 :: "string \<rightharpoonup> string" where
  "home_storage_123 = [user_id_storage_key \<mapsto> ''123'']"

definition home_load_mock :: home_event where
  "home_load_mock = HomeResolve 0 (Inr (VProducts home_mock_products))"

definition home_reject :: "string \<Rightarrow> home_event" where
  "home_reject m = HomeResolve 0 (Inl (RejError m))"

definition home_add_first :: home_event where
  "home_add_first = HomeClickCardAdd (hd home_mock_products)"

text \<open>\<open>getProducts\<close> never settles: no event.\<close>

definition home_test_loading :: home_test where
  "home_test_loading = (Map.empty, [])"

definition home_test_displays :: home_test where
  "home_test_displays = (Map.empty, [home_load_mock])"

definition home_test_error :: home_test where
  "home_test_error = (Map.empty, [home_reject ''Failed to load products''])"

definition home_test_retry_button :: home_test where
  "home_test_retry_button = (Map.empty, [home_reject ''Network error''])"

definition home_test_retry_click :: home_test where
  "home_test_retry_click = (Map.empty, [home_reject ''Network error'', HomeRetry, home_load_mock])"

definition home_test_empty :: home_test where
  "home_test_empty = (Map.empty, [HomeResolve 0 (Inr (VProducts []))])"

definition home_test_add_logged_in :: home_test where
  "home_test_add_logged_in = (home_storage_123, [home_load_mock, home_add_first])"

definition home_test_add_success :: home_test where
  "home_test_add_success = (home_storage_123, [home_load_mock, home_add_first, HomeResolve 0 (Inr VVoid)])"

definition home_test_add_fails :: home_test where
  "home_test_add_fails = (home_storage_123, [home_load_mock, home_add_first, home_reject ''Insufficient stock''])"

definition home_test_register_prompt :: home_test where
  "home_test_register_prompt = (Map.empty, [home_load_mock])"

definition home_test_title :: home_test where
  "home_test_title = (Map.empty, [home_load_mock])"

definition home_test_grid :: home_test where
  "home_test_grid = (Map.empty, [home_load_mock])"

definition home_test_fetch_once :: home_test where
  "home_test_fetch_once = (Map.empty, [home_load_mock])"

section \<open>Every test passes\<close>

lemma parse_int_123: "parse_int ''123'' = Some 123"
  by code_simp

lemma render_home_storage_123:
  "render_home_with_providers home_storage_123 = (load_products (home_init None))\<lparr>hp_user := Some 123\<rparr>"
  by (simp add: render_home_with_providers_def home_storage_123_def ctx_load_def ctx_init_def
      user_id_storage_key_def parse_int_123)

lemma render_home_empty:
  "render_home_with_providers Map.empty = load_products (home_init None)"
  by (simp add: render_home_with_providers_def ctx_load_def ctx_init_def load_products_def home_init_def
      home_issue_def)

lemmas home_test_eval = run_home_test_def render_home_storage_123 render_home_empty
  load_products_def home_init_def home_issue_def home_load_mock_def home_reject_def home_add_first_def
  home_mock_products_def load_products_done_def home_handle_add_to_cart_def home_add_to_cart_done_def
  card_add_to_cart_def drop_at_def home_view_def home_texts_def home_cards_def card_texts_def
  get_by_text_home_def card_out_of_stock_def card_description_def id_truthy_def str_truthy_def
  caught_message_def to_fixed2_def two_digits_def show_eval

text \<open>Each theorem: the run succeeds and the page it ends in satisfies every
  \<open>expect\<close> of the test. The retry test also expects the first failure's message
  before its click: the run up to there ends on the error view.\<close>

theorem home_test_loading_passes:
  "run_home_test home_test_loading \<noteq> None \<and>
     get_by_text_home ''Loading products...'' (the (run_home_test home_test_loading))"
  by (simp add: home_test_eval home_test_loading_def)

theorem home_test_displays_passes:
  "run_home_test home_test_displays \<noteq> None \<and>
     get_by_text_home ''Laptop'' (the (run_home_test home_test_displays)) \<and>
     get_by_text_home ''Mouse'' (the (run_home_test home_test_displays))"
  by (simp add: home_test_eval home_test_displays_def)

theorem home_test_error_passes:
  "run_home_test home_test_error \<noteq> None \<and>
     get_by_text_home ''Failed to load products'' (the (run_home_test home_test_error))"
  by (simp add: home_test_eval home_test_error_def)

theorem home_test_retry_button_passes:
  "run_home_test home_test_retry_button \<noteq> None \<and>
     get_by_text_home ''Retry'' (the (run_home_test home_test_retry_button))"
  by (simp add: home_test_eval home_test_retry_button_def)

theorem home_test_retry_click_passes:
  "run_home_test home_test_retry_click \<noteq> None \<and>
     get_by_text_home ''Laptop'' (the (run_home_test home_test_retry_click))"
  by (simp add: home_test_eval home_test_retry_click_def)

theorem home_test_empty_passes:
  "run_home_test home_test_empty \<noteq> None \<and>
     get_by_text_home ''No products available'' (the (run_home_test home_test_empty))"
  by (simp add: home_test_eval home_test_empty_def)

theorem home_test_add_logged_in_passes:
  "run_home_test home_test_add_logged_in \<noteq> None \<and>
     last (hp_effects (the (run_home_test home_test_add_logged_in))) = Call (AddToCart 123 \<lparr>add_product_id = 1, add_quantity = 1\<rparr>)"
  by (simp add: home_test_eval home_test_add_logged_in_def)

theorem home_test_add_success_passes:
  "run_home_test home_test_add_success \<noteq> None \<and>
     get_by_text_home ''Item added to cart!'' (the (run_home_test home_test_add_success))"
  by (simp add: home_test_eval home_test_add_success_def)

theorem home_test_add_fails_passes:
  "run_home_test home_test_add_fails \<noteq> None \<and>
     get_by_text_home ''Insufficient stock'' (the (run_home_test home_test_add_fails))"
  by (simp add: home_test_eval home_test_add_fails_def)

theorem home_test_register_prompt_passes:
  "run_home_test home_test_register_prompt \<noteq> None \<and>
     0 < count_list (home_texts (the (run_home_test home_test_register_prompt))) ''Register to purchase''"
  by (simp add: home_test_eval home_test_register_prompt_def)

theorem home_test_title_passes:
  "run_home_test home_test_title \<noteq> None \<and>
     get_by_text_home ''Products'' (the (run_home_test home_test_title))"
  by (simp add: home_test_eval home_test_title_def)

theorem home_test_grid_passes:
  "run_home_test home_test_grid \<noteq> None \<and>
     get_by_text_home ''Laptop'' (the (run_home_test home_test_grid)) \<and>
     get_by_text_home ''Mouse'' (the (run_home_test home_test_grid))"
  by (simp add: home_test_eval home_test_grid_def)

theorem home_test_fetch_once_passes:
  "run_home_test home_test_fetch_once \<noteq> None \<and>
     count_list (hp_effects (the (run_home_test home_test_fetch_once))) (Call GetProducts) = 1"
  by (simp add: home_test_eval home_test_fetch_once_def)

theorem home_test_retry_click_first_error:
  "run_home_test (Map.empty, [home_reject ''Network error'']) \<noteq> None \<and>
     get_by_text_home ''Network error'' (the (run_home_test (Map.empty, [home_reject ''Network error''])))"
  by (simp add: home_test_eval)

end
