(* ===== verification/CartAdvancedTests.thy ===== *)
theory CartAdvancedTests
  imports CartTests CartItem
begin

text \<open>
  The advanced unit tests of the cart page (\<open>src/src/__tests__/CartPage.advanced.test.tsx\<close>)
  on the harness of \<open>CartTests\<close>: the same \<open>renderWithProviders\<close>, the storage of
  user 123, the mocked answers as resolutions of the page's oldest pending call.
  A value the page ignores (the \<open>{ success: true }\<close> that a mocked
  \<open>removeFromCart\<close> resolves with) is the \<open>void\<close> of the signature; a rejection
  with a string, \<open>null\<close> or a plain object is a rejection that is not an \<open>Error\<close>.

  These tests look for texts, so the page's render is given here as the own text
  of each element, in document order, as \<open>getByText\<close> matches it: the texts
  of the line items are those of \<open>CartItem\<close>, the result card's lines those of
  \<open>CartPage.tsx\<close> 113--136. The result card's title is told by \<open>co_success\<close>:
  its check mark is outside the 8-bit strings of the model.
\<close>

section \<open>The rendered texts\<close>

definition error_texts :: "string option \<Rightarrow> string list" where
  "error_texts e = (if str_truthy e then [the e] else [])"

definition purchased_line :: "cart_item_dto \<Rightarrow> string" where
  "purchased_line item =
     item_product_name item @ '' x '' @ show_int (item_quantity item) @ '' - $'' @ to_fixed2 (item_subtotal item)"

definition cart_result_texts :: "checkout_result_dto \<Rightarrow> string list" where
  "cart_result_texts r =
     [co_message r] @
     (case co_total_amount r of
        Some t \<Rightarrow> if co_success r then [''Total Amount:'', ''$'' @ to_fixed2 t] else []
      | None \<Rightarrow> []) @
     (case co_purchased_items r of
        Some xs \<Rightarrow> if xs \<noteq> [] then ''Purchased Items:'' # map purchased_line xs else []
      | None \<Rightarrow> []) @
     [''Continue Shopping'']"

definition cart_texts :: "cart_page \<Rightarrow> string list" where
  "cart_texts s =
     (case cart_view s of
        CartNull \<Rightarrow> []
      | CartLoadingView \<Rightarrow> [''Loading cart...'']
      | CartResultView r \<Rightarrow> cart_result_texts r
      | CartEmptyView e \<Rightarrow> [''Shopping Cart''] @ error_texts e @ [''Your cart is empty'', ''Start Shopping'']
      | CartItemsView e xs t \<Rightarrow>
          [''Shopping Cart''] @ error_texts e @ concat (map (\<lambda>x. map item_node_text (cart_item_render x)) xs) @
          [''Total:'', ''$'' @ to_fixed2 t, ''Proceed to Checkout''])"

definition get_by_text_cart :: "string \<Rightarrow> cart_page \<Rightarrow> bool" where
  "get_by_text_cart t s = (count_list (cart_texts s) t = 1)"

definition result_shown :: "bool \<Rightarrow> cart_page \<Rightarrow> bool" where
  "result_shown ok s = (case cart_view s of CartResultView r \<Rightarrow> co_success r = ok | _ \<Rightarrow> False)"

section \<open>Data and tests\<close>

definition adv_laptop :: cart_item_dto where
  "adv_laptop = \<lparr>item_id = 1, item_product_id = 10, item_product_name = ''Laptop'', item_price = 99999,
     item_quantity = 1, item_subtotal = 99999\<rparr>"

definition adv_mouse :: cart_item_dto where
  "adv_mouse = \<lparr>item_id = 2, item_product_id = 20, item_product_name = ''Mouse'', item_price = 2999,
     item_quantity = 1, item_subtotal = 2999\<rparr>"

definition adv_load :: cart_event where
  "adv_load = Resolve 0 (Inr (VCartItems [adv_laptop]))"

definition adv_reject :: "string \<Rightarrow> cart_event" where
  "adv_reject m = Resolve 0 (Inl (RejError m))"

definition adv_result :: "bool \<Rightarrow> string \<Rightarrow> int option \<Rightarrow> cart_item_dto list option \<Rightarrow> cart_event" where
  "adv_result ok m t xs = Resolve 0 (Inr (VCheckout \<lparr>co_success = ok, co_message = m,
     co_total_amount = t, co_purchased_items = xs\<rparr>))"

definition adv_checkout_network :: cart_test where
  "adv_checkout_network = (test_storage_123,
     [adv_load, ClickCheckout, adv_reject ''Network error: Failed to connect''])"

definition adv_checkout_unknown :: cart_test where
  "adv_checkout_unknown = (test_storage_123, [adv_load, ClickCheckout, Resolve 0 (Inl RejOther)])"

definition adv_checkout_timeout :: cart_test where
  "adv_checkout_timeout = (test_storage_123, [adv_load, ClickCheckout, adv_reject ''Request timeout''])"

definition adv_empty_after_remove :: cart_test where
  "adv_empty_after_remove = (test_storage_123,
     [adv_load, ClickRemove 10, Resolve 0 (Inr VVoid), Resolve 0 (Inr (VCartItems []))])"

definition adv_partial_success :: cart_test where
  "adv_partial_success = (test_storage_123,
     [adv_load, ClickCheckout, adv_result False ''Some items out of stock'' (Some 0) (Some [])])"

definition adv_load_error :: cart_test where
  "adv_load_error = (test_storage_123, [adv_reject ''Failed to fetch cart data''])"

definition adv_load_string_error :: cart_test where
  "adv_load_string_error = (test_storage_123, [Resolve 0 (Inl RejOther)])"

definition adv_load_null_error :: cart_test where
  "adv_load_null_error = (test_storage_123, [Resolve 0 (Inl RejOther)])"

definition adv_reload_after_remove :: cart_test where
  "adv_reload_after_remove = (test_storage_123,
     [Resolve 0 (Inr (VCartItems [adv_laptop, adv_mouse])), ClickRemove 20, Resolve 0 (Inr VVoid)])"

definition adv_remove_error :: cart_test where
  "adv_remove_error = (test_storage_123, [adv_load, ClickRemove 10, adv_reject ''Product not found in cart''])"

definition adv_remove_unknown :: cart_test where
  "adv_remove_unknown = (test_storage_123, [adv_load, ClickRemove 10, Resolve 0 (Inl RejOther)])"

definition adv_success_details :: cart_test where
  "adv_success_details = (test_storage_123,
     [adv_load, ClickCheckout, adv_result True ''Order placed successfully!'' (Some 99999) (Some [adv_laptop])])"

definition adv_success_no_total :: cart_test where
  "adv_success_no_total = (test_storage_123,
     [adv_load, ClickCheckout, adv_result True ''Order confirmed'' None (Some [])])"

definition adv_success_no_items :: cart_test where
  "adv_success_no_items = (test_storage_123,
     [adv_load, ClickCheckout, adv_result True ''Payment processed'' (Some 99999) None])"

definition adv_success_continue :: cart_test where
  "adv_success_continue = (test_storage_123,
     [adv_load, ClickCheckout, adv_result True ''Success'' (Some 99999) None, ClickContinue])"

definition adv_success_many_items :: cart_test where
  "adv_success_many_items = (test_storage_123,
     [adv_load, ClickCheckout, adv_result True ''All items purchased'' (Some 102998) (Some [adv_laptop, adv_mouse])])"

definition adv_keyboard :: cart_item_dto where
  "adv_keyboard = \<lparr>item_id = 1, item_product_id = 10, item_product_name = ''Keyboard'', item_price = 7999,
     item_quantity = 1, item_subtotal = 7999\<rparr>"

definition adv_total_single :: cart_test where
  "adv_total_single = (test_storage_123, [Resolve 0 (Inr (VCartItems [adv_keyboard]))])"

definition adv_total_many :: cart_test where
  "adv_total_many = (test_storage_123,
     [Resolve 0 (Inr (VCartItems [adv_keyboard\<lparr>item_quantity := 2, item_subtotal := 15998\<rparr>, adv_mouse]))])"

definition adv_total_empty :: cart_test where
  "adv_total_empty = (test_storage_123, [Resolve 0 (Inr (VCartItems []))])"

definition adv_loads_for_user :: cart_test where
  "adv_loads_for_user = (test_storage_123, [adv_load])"

definition adv_checkout_called :: cart_test where
  "adv_checkout_called = (test_storage_123, [adv_load, ClickCheckout])"

definition adv_clears_remove_error :: cart_test where
  "adv_clears_remove_error = (test_storage_123,
     [adv_load, ClickRemove 10, adv_reject ''Network error'',
      ClickRemove 10, Resolve 0 (Inr VVoid), Resolve 0 (Inr (VCartItems []))])"

definition adv_clears_checkout_error :: cart_test where
  "adv_clears_checkout_error = (test_storage_123,
     [adv_load, ClickCheckout, adv_reject ''Payment failed'', ClickCheckout, adv_result True ''Success'' None None])"

section \<open>Every test passes\<close>

lemmas adv_eval = cart_test_run cart_texts_def cart_result_texts_def error_texts_def purchased_line_def
  get_by_text_cart_def result_shown_def adv_laptop_def adv_mouse_def adv_keyboard_def adv_load_def
  adv_reject_def adv_result_def cart_item_eval item_node_text.simps

theorem adv_checkout_network_passes:
  "\<exists>s. run_cart_test adv_checkout_network = Some s \<and> get_by_text_cart ''Network error: Failed to connect'' s"
  by (simp add: adv_eval adv_checkout_network_def)

theorem adv_checkout_unknown_passes:
  "\<exists>s. run_cart_test adv_checkout_unknown = Some s \<and>
     get_by_text_cart ''Checkout failed'' s"
  by (simp add: adv_eval adv_checkout_unknown_def)

theorem adv_checkout_timeout_passes:
  "\<exists>s. run_cart_test adv_checkout_timeout = Some s \<and>
     get_by_text_cart ''Request timeout'' s"
  by (simp add: adv_eval adv_checkout_timeout_def)

theorem adv_empty_after_remove_passes:
  "\<exists>s. run_cart_test adv_empty_after_remove = Some s \<and>
     get_by_text_cart ''Your cart is empty'' s"
  by (simp add: adv_eval adv_empty_after_remove_def)

theorem adv_partial_success_passes:
  "\<exists>s. run_cart_test adv_partial_success = Some s \<and>
     result_shown False s \<and>
     get_by_text_cart ''Some items out of stock'' s"
  by (simp add: adv_eval adv_partial_success_def)

theorem adv_load_error_passes:
  "\<exists>s. run_cart_test adv_load_error = Some s \<and>
     get_by_text_cart ''Failed to fetch cart data'' s"
  by (simp add: adv_eval adv_load_error_def)

theorem adv_load_string_error_passes:
  "\<exists>s. run_cart_test adv_load_string_error = Some s \<and>
     get_by_text_cart ''Failed to load cart'' s"
  by (simp add: adv_eval adv_load_string_error_def)

theorem adv_load_null_error_passes:
  "\<exists>s. run_cart_test adv_load_null_error = Some s \<and>
     get_by_text_cart ''Failed to load cart'' s"
  by (simp add: adv_eval adv_load_null_error_def)

theorem adv_reload_after_remove_passes:
  "\<exists>s. run_cart_test adv_reload_after_remove = Some s \<and>
     count_list (cp_effects s) (Call (GetCart 123)) = 2"
  by (simp add: adv_eval adv_reload_after_remove_def)

theorem adv_remove_error_passes:
  "\<exists>s. run_cart_test adv_remove_error = Some s \<and>
     get_by_text_cart ''Product not found in cart'' s"
  by (simp add: adv_eval adv_remove_error_def)

theorem adv_remove_unknown_passes:
  "\<exists>s. run_cart_test adv_remove_unknown = Some s \<and>
     get_by_text_cart ''Failed to remove item'' s"
  by (simp add: adv_eval adv_remove_unknown_def)

theorem adv_success_details_passes:
  "\<exists>s. run_cart_test adv_success_details = Some s \<and>
     result_shown True s \<and>
     get_by_text_cart ''Order placed successfully!'' s \<and>
     get_by_text_cart ''$999.99'' s"
  by (simp add: adv_eval adv_success_details_def)

theorem adv_success_no_total_passes:
  "\<exists>s. run_cart_test adv_success_no_total = Some s \<and>
     result_shown True s \<and>
     ''Total Amount:'' \<notin> set (cart_texts s)"
  by (simp add: adv_eval adv_success_no_total_def)

theorem adv_success_no_items_passes:
  "\<exists>s. run_cart_test adv_success_no_items = Some s \<and>
     result_shown True s \<and>
     ''Purchased Items:'' \<notin> set (cart_texts s)"
  by (simp add: adv_eval adv_success_no_items_def)

theorem adv_success_continue_passes:
  "\<exists>s. run_cart_test adv_success_continue = Some s \<and>
     last (cp_effects s) = Navigate ''/''"
  by (simp add: adv_eval adv_success_continue_def)

theorem adv_success_many_items_passes:
  "\<exists>s. run_cart_test adv_success_many_items = Some s \<and>
     get_by_text_cart ''Laptop x 1 - $999.99'' s \<and>
     get_by_text_cart ''Mouse x 1 - $29.99'' s"
  by (simp add: adv_eval adv_success_many_items_def)

theorem adv_total_single_passes:
  "\<exists>s. run_cart_test adv_total_single = Some s \<and>
     get_by_text_cart ''Keyboard'' s"
  by (simp add: adv_eval adv_total_single_def)

theorem adv_total_many_passes:
  "\<exists>s. run_cart_test adv_total_many = Some s \<and>
     get_by_text_cart ''$189.97'' s"
  by (simp add: adv_eval adv_total_many_def)

theorem adv_total_empty_passes:
  "\<exists>s. run_cart_test adv_total_empty = Some s \<and>
     get_by_text_cart ''Your cart is empty'' s"
  by (simp add: adv_eval adv_total_empty_def)

theorem adv_loads_for_user_passes:
  "\<exists>s. run_cart_test adv_loads_for_user = Some s \<and>
     Call (GetCart 123) \<in> set (cp_effects s) \<and>
     get_by_text_cart ''Laptop'' s"
  by (simp add: adv_eval adv_loads_for_user_def)

theorem adv_checkout_called_passes:
  "\<exists>s. run_cart_test adv_checkout_called = Some s \<and>
     Call (Checkout 123) \<in> set (cp_effects s)"
  by (simp add: adv_eval adv_checkout_called_def)

theorem adv_clears_remove_error_passes:
  "\<exists>s. run_cart_test adv_clears_remove_error = Some s \<and>
     ''Network error'' \<notin> set (cart_texts s)"
  by (simp add: adv_eval adv_clears_remove_error_def)

theorem adv_clears_checkout_error_passes:
  "\<exists>s. run_cart_test adv_clears_checkout_error = Some s \<and>
     ''Payment failed'' \<notin> set (cart_texts s)"
  by (simp add: adv_eval adv_clears_checkout_error_def)

text \<open>The intermediate expectations of the multi-step tests: the first failure is
  shown before the next click, and the result card offers Continue Shopping before
  it is clicked.\<close>

theorem adv_clears_remove_error_first_failure:
  "\<exists>s. run_cart_test (test_storage_123, [adv_load, ClickRemove 10, adv_reject ''Network error'']) = Some s \<and>
     get_by_text_cart ''Network error'' s \<and> cart_step s (ClickRemove 10) \<noteq> None"
  by (simp add: adv_eval)

theorem adv_clears_checkout_error_first_failure:
  "\<exists>s. run_cart_test (test_storage_123, [adv_load, ClickCheckout, adv_reject ''Payment failed'']) = Some s \<and>
     get_by_text_cart ''Payment failed'' s \<and> cart_step s ClickCheckout \<noteq> None"
  by (simp add: adv_eval)

theorem adv_success_continue_button:
  "\<exists>s. run_cart_test (test_storage_123, [adv_load, ClickCheckout, adv_result True ''Success'' (Some 99999) None])
     = Some s \<and> get_by_text_cart ''Continue Shopping'' s"
  by (simp add: adv_eval)

end
