(* ===== verification/ProductDetailBasicTests.thy ===== *)
theory ProductDetailBasicTests
  imports ProductDetailTests
begin

text \<open>
  The unit tests of the product page in \<open>src/src/__tests__/ProductDetail.test.tsx\<close>
  (lines 1--305 of the file) on the harness of \<open>ProductDetailTests\<close>: the same
  rendering under the provider and the \<open>/product/:id\<close> route, the same text of the
  product view. The back button's label carries an arrow outside the 8-bit strings
  of the model; the tests that look for it are stated with the button's event
  \<open>PdClickBack\<close>. The number input shows the page's \<open>quantity\<close>.
\<close>

definition pdb_product :: product_dto where
  "pdb_product = \<lparr>product_id = 1, product_name = ''Gaming Laptop'',
     product_description = Some ''High-performance gaming laptop with RGB keyboard'',
     product_price = 149999, product_stock_quantity = 5\<rparr>"

definition pdb_load :: pd_event where
  "pdb_load = load_product_as pdb_product"

text \<open>\<open>getByText\<close>: exactly one element of the view shows the text.\<close>

definition pdb_text :: "string \<Rightarrow> pd_page \<Rightarrow> bool" where
  "pdb_text t s = (count_list (pd_texts (pd_view s)) t = 1)"

definition pdb_loading :: pd_test where
  "pdb_loading = (Map.empty, ''/product/1'', [])"

definition pdb_details :: pd_test where
  "pdb_details = (Map.empty, ''/product/1'', [pdb_load])"

definition pdb_error :: pd_test where
  "pdb_error = (Map.empty, ''/product/1'', [PdResolve 0 (Inl (RejError ''Product not found''))])"

definition pdb_back_button :: pd_test where
  "pdb_back_button = (Map.empty, ''/product/1'', [pdb_load])"

definition pdb_back_click :: pd_test where
  "pdb_back_click = (Map.empty, ''/product/1'', [pdb_load, PdClickBack])"

definition pdb_out_of_stock :: pd_test where
  "pdb_out_of_stock = (Map.empty, ''/product/1'', [load_product_as (pdb_product\<lparr>product_stock_quantity := 0\<rparr>)])"

definition pdb_out_of_stock_disabled :: pd_test where
  "pdb_out_of_stock_disabled = (pd_storage_123, ''/product/1'', [load_product_as (pdb_product\<lparr>product_stock_quantity := 0\<rparr>)])"

definition pdb_quantity_input :: pd_test where
  "pdb_quantity_input = (pd_storage_123, ''/product/1'', [pdb_load])"

definition pdb_quantity_change :: pd_test where
  "pdb_quantity_change = (pd_storage_123, ''/product/1'', [pdb_load, PdQuantityInput ''3''])"

definition pdb_add_quantity :: pd_test where
  "pdb_add_quantity = (pd_storage_123, ''/product/1'', [pdb_load, PdQuantityInput ''2'', PdClickAdd])"

definition pdb_add_success :: pd_test where
  "pdb_add_success = (pd_storage_123, ''/product/1'', [pdb_load, PdClickAdd, PdResolve 0 (Inr VVoid)])"

definition pdb_positive :: pd_test where
  "pdb_positive = (pd_storage_123, ''/product/1'', [pdb_load, PdQuantityInput ''0'', PdClickAdd])"

definition pdb_exceeds_stock :: pd_test where
  "pdb_exceeds_stock = (pd_storage_123, ''/product/1'', [pdb_load, PdQuantityInput ''10'', PdClickAdd])"

definition pdb_register_prompt :: pd_test where
  "pdb_register_prompt = (Map.empty, ''/product/1'', [pdb_load])"

definition pdb_register_click :: pd_test where
  "pdb_register_click = (Map.empty, ''/product/1'', [pdb_load, PdClickRegister])"

definition pdb_no_description :: pd_test where
  "pdb_no_description = (Map.empty, ''/product/1'', [load_product_as (pdb_product\<lparr>product_description := None\<rparr>)])"

section \<open>Every test passes\<close>

lemmas pdb_eval = pd_test_eval pdb_product_def pdb_load_def pdb_text_def pd_fire_def

theorem pdb_loading_passes:
  "\<exists>s. run_pd_test pdb_loading = Some s \<and>
     pd_view s = PdLoadingView \<and>
     ''Loading product...'' \<in> set (pd_texts (pd_view s))"
  by (simp add: pdb_eval pdb_loading_def)

theorem pdb_details_passes:
  "\<exists>s. run_pd_test pdb_details = Some s \<and>
     pdb_text ''Gaming Laptop'' s \<and>
     pdb_text ''$1499.99'' s \<and>
     pdb_text ''5 available'' s \<and>
     pdb_text ''High-performance gaming laptop with RGB keyboard'' s"
  by (simp add: pdb_eval pdb_details_def)

theorem pdb_error_passes:
  "\<exists>s. run_pd_test pdb_error = Some s \<and>
     pdb_text ''Product not found'' s"
  by (simp add: pdb_eval pdb_error_def)

theorem pdb_back_button_passes:
  "\<exists>s. run_pd_test pdb_back_button = Some s \<and>
     pd_step s PdClickBack \<noteq> None"
  by (simp add: pdb_eval pdb_back_button_def)

theorem pdb_back_click_passes:
  "\<exists>s. run_pd_test pdb_back_click = Some s \<and>
     last (pd_effects s) = Navigate ''/''"
  by (simp add: pdb_eval pdb_back_click_def)

theorem pdb_out_of_stock_passes:
  "\<exists>s. run_pd_test pdb_out_of_stock = Some s \<and>
     pdb_text ''Out of Stock'' s"
  by (simp add: pdb_eval pdb_out_of_stock_def)

theorem pdb_out_of_stock_disabled_passes:
  "\<exists>s. run_pd_test pdb_out_of_stock_disabled = Some s \<and>
     last (pd_texts (pd_view s)) = ''Out of Stock'' \<and>
     pd_step s PdClickAdd = None"
  by (simp add: pdb_eval pdb_out_of_stock_disabled_def)

theorem pdb_quantity_input_passes:
  "\<exists>s. run_pd_test pdb_quantity_input = Some s \<and>
     ''Quantity:'' \<in> set (pd_texts (pd_view s)) \<and>
     pd_quantity s = 1"
  by (simp add: pdb_eval pdb_quantity_input_def)

theorem pdb_quantity_change_passes:
  "\<exists>s. run_pd_test pdb_quantity_change = Some s \<and>
     pd_quantity s = 3"
  by (simp add: pdb_eval pdb_quantity_change_def)

theorem pdb_add_quantity_passes:
  "\<exists>s. run_pd_test pdb_add_quantity = Some s \<and>
     Call (AddToCart 123 \<lparr>add_product_id = 1, add_quantity = 2\<rparr>) \<in> set (pd_effects s)"
  by (simp add: pdb_eval pdb_add_quantity_def)

theorem pdb_add_success_passes:
  "\<exists>s. run_pd_test pdb_add_success = Some s \<and>
     pdb_text ''Item added to cart!'' s"
  by (simp add: pdb_eval pdb_add_success_def)

theorem pdb_positive_passes:
  "\<exists>s. run_pd_test pdb_positive = Some s \<and>
     ''Quantity must be greater than 0'' \<in> set (pd_texts (pd_view s)) \<and>
     list_all (\<lambda>e. case e of Call (AddToCart _ _) \<Rightarrow> False | _ \<Rightarrow> True) (pd_effects s)"
  by (simp add: pdb_eval pdb_positive_def)

theorem pdb_exceeds_stock_passes:
  "\<exists>s. run_pd_test pdb_exceeds_stock = Some s \<and>
     ''Only 5 items available in stock'' \<in> set (pd_texts (pd_view s))"
  by (simp add: pdb_eval pdb_exceeds_stock_def)

theorem pdb_register_prompt_passes:
  "\<exists>s. run_pd_test pdb_register_prompt = Some s \<and>
     pdb_text ''Please register or login to purchase this product'' s"
  by (simp add: pdb_eval pdb_register_prompt_def)

theorem pdb_register_click_passes:
  "\<exists>s. run_pd_test pdb_register_click = Some s \<and>
     last (pd_effects s) = Navigate ''/register''"
  by (simp add: pdb_eval pdb_register_click_def)

theorem pdb_no_description_passes:
  "\<exists>s. run_pd_test pdb_no_description = Some s \<and>
     pdb_text ''Gaming Laptop'' s \<and>
     ''High-performance gaming laptop'' \<notin> set (pd_texts (pd_view s))"
  by (simp add: pdb_eval pdb_no_description_def)

end
