(* ===== verification/HeaderTests.thy ===== *)
theory HeaderTests
  imports App
begin

text \<open>
  The unit tests of the header (the \<open>Header\<close> tests stored at the end of
  \<open>src/src/__tests__/ProductDetail.test.tsx\<close>, lines 306--405) against
  \<open>src/src/components/Header.tsx\<close>. \<open>header_texts\<close> is what the header shows,
  each element's own text with the address of the link it belongs to; its
  addresses are those of \<open>header_view\<close>, the header of the session model
  (\<open>header_texts_links\<close>). A test renders the header under the provider over its
  storage and, in one test, clicks Logout.
\<close>

definition header_texts :: "user_ctx \<Rightarrow> (string \<times> string option) list" where
  "header_texts c =
     [(''AI Store'', Some ''/''), (''Products'', Some ''/'')] @
     (if id_truthy (current_user_id c)
      then [(''Cart'', Some ''/cart''), (''User ID: '' @ show_int (the (current_user_id c)), None),
            (''Logout'', None)]
      else [(''Register / Login'', Some ''/register'')])"

text \<open>\<open>getByText\<close> (exactly one element) and the \<open>href\<close> of the link around it.\<close>

definition hdr_text :: "string \<Rightarrow> user_ctx \<Rightarrow> bool" where
  "hdr_text t c = (length (filter (\<lambda>(x, _). x = t) (header_texts c)) = 1)"

definition hdr_href :: "string \<Rightarrow> user_ctx \<Rightarrow> string option" where
  "hdr_href t c = (case map_of (header_texts c) t of Some h \<Rightarrow> h | None \<Rightarrow> None)"

definition hdr_storage :: "string \<Rightarrow> (string \<rightharpoonup> string)" where
  "hdr_storage v = [user_id_storage_key \<mapsto> v]"

type_synonym header_test = "(string \<rightharpoonup> string) \<times> bool"

definition run_header_test :: "header_test \<Rightarrow> user_ctx option" where
  "run_header_test t =
     (case t of (st, logout) \<Rightarrow>
        let c = ctx_load (ctx_init st) in
        if \<not> logout then Some c
        else if HeaderLogout \<in> set (header_view c) then Some (clear_user c) else None)"

definition header_test_logo_nav :: header_test where
  "header_test_logo_nav = (Map.empty, False)"

definition header_test_anonymous :: header_test where
  "header_test_anonymous = (Map.empty, False)"

definition header_test_logged_in :: header_test where
  "header_test_logged_in = (hdr_storage ''123'', False)"

definition header_test_logout :: header_test where
  "header_test_logout = (hdr_storage ''456'', True)"

definition header_test_links :: header_test where
  "header_test_links = (Map.empty, False)"

definition header_test_cart_href :: header_test where
  "header_test_cart_href = (hdr_storage ''789'', False)"

definition header_test_register_href :: header_test where
  "header_test_register_href = (Map.empty, False)"

section \<open>Lemmas\<close>

lemma header_texts_links:
  "List.map_filter snd (header_texts c) = List.map_filter header_link (header_view c)"
  by (simp add: header_texts_def header_view_def map_filter_simps)

lemma parse_int_header_values:
  "parse_int ''123'' = Some 123" "parse_int ''456'' = Some 456" "parse_int ''789'' = Some 789"
  by code_simp+

lemmas header_test_eval = run_header_test_def hdr_storage_def ctx_load_def ctx_init_def user_id_storage_key_def
  parse_int_header_values header_view_def clear_user_def set_current_user_id_def header_texts_def
  hdr_text_def hdr_href_def id_truthy_def show_eval regex_ci_def ascii_lower_def

section \<open>Every test passes\<close>

theorem header_test_logo_nav_passes:
  "\<exists>c. run_header_test header_test_logo_nav = Some c \<and>
     hdr_text ''AI Store'' c \<and>
     hdr_text ''Products'' c"
  by (simp add: header_test_eval header_test_logo_nav_def)

theorem header_test_anonymous_passes:
  "\<exists>c. run_header_test header_test_anonymous = Some c \<and>
     hdr_text ''Register / Login'' c \<and>
     ''Cart'' \<notin> fst ` set (header_texts c) \<and>
     ''Logout'' \<notin> fst ` set (header_texts c)"
  by (simp add: header_test_eval header_test_anonymous_def)

theorem header_test_logged_in_passes:
  "\<exists>c. run_header_test header_test_logged_in = Some c \<and>
     hdr_text ''Cart'' c \<and>
     list_ex (\<lambda>(t, _). regex_ci ''User ID: 123'' t) (header_texts c) \<and>
     hdr_text ''Logout'' c \<and>
     ''Register / Login'' \<notin> fst ` set (header_texts c)"
  by (simp add: header_test_eval header_test_logged_in_def)

theorem header_test_logout_passes:
  "\<exists>c. run_header_test header_test_logout = Some c \<and>
     storage c ''ai-store-user-id'' = None"
  by (simp add: header_test_eval header_test_logout_def)

theorem header_test_links_passes:
  "\<exists>c. run_header_test header_test_links = Some c \<and>
     hdr_href ''Products'' c = Some ''/'' \<and>
     hdr_href ''AI Store'' c = Some ''/''"
  by (simp add: header_test_eval header_test_links_def)

theorem header_test_cart_href_passes:
  "\<exists>c. run_header_test header_test_cart_href = Some c \<and>
     hdr_href ''Cart'' c = Some ''/cart''"
  by (simp add: header_test_eval header_test_cart_href_def)

theorem header_test_register_href_passes:
  "\<exists>c. run_header_test header_test_register_href = Some c \<and>
     hdr_href ''Register / Login'' c = Some ''/register''"
  by (simp add: header_test_eval header_test_register_href_def)

theorem header_test_logout_shows_user:
  "\<exists>c. run_header_test (hdr_storage ''456'', False) = Some c \<and>
     list_ex (\<lambda>(t, _). regex_ci ''User ID: 456'' t) (header_texts c)"
  by (simp add: header_test_eval)

end
