(* ===== verification/HomeAdvancedTests.thy ===== *)
theory HomeAdvancedTests
  imports HomeTests
begin

text \<open>
  The advanced unit tests of the product list
  (\<open>src/src/__tests__/Home.advanced.test.tsx\<close>) on the harness of \<open>HomeTests\<close>.
  A rejection with a string, \<open>null\<close> or a plain object is a rejection that is not
  an \<open>Error\<close>; \<open>Array.from({ length: 20 }, ...)\<close> is a map over the indices.
  The test "does not show product grid when no products" asks for no element of
  role \<open>article\<close>; the cards are \<open>div\<close>s, so there is none with or without
  products, and the test is stated with what its name promises: no card.
\<close>

definition home_adv_laptop :: product_dto where
  "home_adv_laptop = \<lparr>product_id = 1, product_name = ''Laptop'', product_description = Some ''Gaming laptop'',
     product_price = 99999, product_stock_quantity = 10\<rparr>"

definition home_adv_products :: "product_dto list" where
  "home_adv_products =
     [home_adv_laptop,
      \<lparr>product_id = 2, product_name = ''Mouse'', product_description = Some ''Wireless mouse'',
       product_price = 2999, product_stock_quantity = 50\<rparr>]"

definition home_many_products :: "product_dto list" where
  "home_many_products =
     map (\<lambda>i. \<lparr>product_id = int i + 1, product_name = ''Product '' @ show_int (int i + 1),
                product_description = Some (''Description '' @ show_int (int i + 1)),
                product_price = 1099 * (int i + 1), product_stock_quantity = 10\<rparr>) [0..<20]"

definition home_storage_456 :: "string \<rightharpoonup> string" where
  "home_storage_456 = [user_id_storage_key \<mapsto> ''456'']"

definition hadv_load_error :: home_test where
  "hadv_load_error = (Map.empty, [home_reject ''Network connection failed''])"

definition hadv_unknown_error :: home_test where
  "hadv_unknown_error = (Map.empty, [HomeResolve 0 (Inl RejOther)])"

definition hadv_null_error :: home_test where
  "hadv_null_error = (Map.empty, [HomeResolve 0 (Inl RejOther)])"

definition hadv_retry_button :: home_test where
  "hadv_retry_button = (Map.empty, [home_reject ''Server timeout''])"

definition hadv_retry_loads :: home_test where
  "hadv_retry_loads = (Map.empty, [home_reject ''Network error'', HomeRetry, HomeResolve 0 (Inr (VProducts home_adv_products))])"

definition hadv_retry_clears_error :: home_test where
  "hadv_retry_clears_error = (Map.empty, [home_reject ''First error'', HomeRetry, home_reject ''Second error''])"

definition hadv_multiple_retries :: home_test where
  "hadv_multiple_retries = (Map.empty, [home_reject ''Error 1'', HomeRetry, home_reject ''Error 2'', HomeRetry, HomeResolve 0 (Inr (VProducts home_adv_products))])"

definition hadv_add_error :: home_test where
  "hadv_add_error = (home_storage_123, [HomeResolve 0 (Inr (VProducts home_adv_products)), HomeClickCardAdd home_adv_laptop, home_reject ''Product out of stock''])"

definition hadv_add_unknown_error :: home_test where
  "hadv_add_unknown_error = (home_storage_123, [HomeResolve 0 (Inr (VProducts home_adv_products)), HomeClickCardAdd home_adv_laptop, HomeResolve 0 (Inl RejOther)])"

definition hadv_add_timeout :: home_test where
  "hadv_add_timeout = (home_storage_123, [HomeResolve 0 (Inr (VProducts home_adv_products)), HomeClickCardAdd home_adv_laptop, home_reject ''Request timeout after 30s''])"

definition hadv_add_success :: home_test where
  "hadv_add_success = (home_storage_123, [HomeResolve 0 (Inr (VProducts home_adv_products)), HomeClickCardAdd home_adv_laptop, HomeResolve 0 (Inr VVoid)])"

definition hadv_empty :: home_test where
  "hadv_empty = (Map.empty, [HomeResolve 0 (Inr (VProducts []))])"

definition hadv_empty_no_grid :: home_test where
  "hadv_empty_no_grid = (Map.empty, [HomeResolve 0 (Inr (VProducts []))])"

definition hadv_all_products :: home_test where
  "hadv_all_products = (Map.empty, [HomeResolve 0 (Inr (VProducts home_adv_products))])"

definition hadv_many_products :: home_test where
  "hadv_many_products = (Map.empty, [HomeResolve 0 (Inr (VProducts home_many_products))])"

definition hadv_zero_stock :: home_test where
  "hadv_zero_stock = (Map.empty, [HomeResolve 0 (Inr (VProducts [\<lparr>product_id = 1, product_name = ''Out of Stock Item'', product_description = Some ''Not available'', product_price = 9999, product_stock_quantity = 0\<rparr>]))])"

definition hadv_high_stock :: home_test where
  "hadv_high_stock = (Map.empty, [HomeResolve 0 (Inr (VProducts [\<lparr>product_id = 1, product_name = ''Popular Item'', product_description = Some ''In stock'', product_price = 4999, product_stock_quantity = 99999\<rparr>]))])"

definition hadv_default_quantity :: home_test where
  "hadv_default_quantity = (home_storage_123, [HomeResolve 0 (Inr (VProducts home_adv_products)), HomeClickCardAdd home_adv_laptop])"

definition hadv_rapid_additions :: home_test where
  "hadv_rapid_additions = (home_storage_123, [HomeResolve 0 (Inr (VProducts home_adv_products)), HomeClickCardAdd home_adv_laptop, HomeClickCardAdd home_adv_laptop, HomeClickCardAdd home_adv_laptop])"

definition hadv_loading_before :: home_test where
  "hadv_loading_before = (Map.empty, [])"

definition hadv_loading_hidden :: home_test where
  "hadv_loading_hidden = (Map.empty, [HomeResolve 0 (Inr (VProducts home_adv_products))])"

definition hadv_loading_hidden_error :: home_test where
  "hadv_loading_hidden_error = (Map.empty, [home_reject ''Error''])"

definition hadv_loading_retry :: home_test where
  "hadv_loading_retry = (Map.empty, [home_reject ''Error'', HomeRetry])"

definition hadv_context_user :: home_test where
  "hadv_context_user = (home_storage_456, [HomeResolve 0 (Inr (VProducts home_adv_products)), HomeClickCardAdd home_adv_laptop])"

section \<open>Every test passes\<close>

lemma render_home_storage_456:
  "render_home_with_providers home_storage_456 = (load_products (home_init None))\<lparr>hp_user := Some 456\<rparr>"
proof -
  have "parse_int ''456'' = Some 456" by code_simp
  then show ?thesis
    by (simp add: render_home_with_providers_def home_storage_456_def ctx_load_def ctx_init_def
        user_id_storage_key_def)
qed

lemmas hadv_eval = home_test_eval render_home_storage_456 home_adv_laptop_def home_adv_products_def

theorem hadv_load_error_passes:
  "run_home_test hadv_load_error \<noteq> None \<and>
     get_by_text_home ''Network connection failed'' (the (run_home_test hadv_load_error))"
  by (simp add: hadv_eval hadv_load_error_def)

theorem hadv_unknown_error_passes:
  "run_home_test hadv_unknown_error \<noteq> None \<and>
     get_by_text_home ''Failed to load products'' (the (run_home_test hadv_unknown_error))"
  by (simp add: hadv_eval hadv_unknown_error_def)

theorem hadv_null_error_passes:
  "run_home_test hadv_null_error \<noteq> None \<and>
     get_by_text_home ''Failed to load products'' (the (run_home_test hadv_null_error))"
  by (simp add: hadv_eval hadv_null_error_def)

theorem hadv_retry_button_passes:
  "run_home_test hadv_retry_button \<noteq> None \<and>
     get_by_text_home ''Retry'' (the (run_home_test hadv_retry_button))"
  by (simp add: hadv_eval hadv_retry_button_def)

theorem hadv_retry_loads_passes:
  "run_home_test hadv_retry_loads \<noteq> None \<and>
     get_by_text_home ''Laptop'' (the (run_home_test hadv_retry_loads)) \<and>
     get_by_text_home ''Mouse'' (the (run_home_test hadv_retry_loads))"
  by (simp add: hadv_eval hadv_retry_loads_def)

theorem hadv_retry_clears_error_passes:
  "run_home_test hadv_retry_clears_error \<noteq> None \<and>
     ''First error'' \<notin> set (home_texts (the (run_home_test hadv_retry_clears_error))) \<and>
     get_by_text_home ''Second error'' (the (run_home_test hadv_retry_clears_error))"
  by (simp add: hadv_eval hadv_retry_clears_error_def)

theorem hadv_multiple_retries_passes:
  "run_home_test hadv_multiple_retries \<noteq> None \<and>
     get_by_text_home ''Laptop'' (the (run_home_test hadv_multiple_retries))"
  by (simp add: hadv_eval hadv_multiple_retries_def)

theorem hadv_add_error_passes:
  "run_home_test hadv_add_error \<noteq> None \<and>
     get_by_text_home ''Product out of stock'' (the (run_home_test hadv_add_error))"
  by (simp add: hadv_eval hadv_add_error_def)

theorem hadv_add_unknown_error_passes:
  "run_home_test hadv_add_unknown_error \<noteq> None \<and>
     get_by_text_home ''Failed to add to cart'' (the (run_home_test hadv_add_unknown_error))"
  by (simp add: hadv_eval hadv_add_unknown_error_def)

theorem hadv_add_timeout_passes:
  "run_home_test hadv_add_timeout \<noteq> None \<and>
     get_by_text_home ''Request timeout after 30s'' (the (run_home_test hadv_add_timeout))"
  by (simp add: hadv_eval hadv_add_timeout_def)

theorem hadv_add_success_passes:
  "run_home_test hadv_add_success \<noteq> None \<and>
     get_by_text_home ''Item added to cart!'' (the (run_home_test hadv_add_success))"
  by (simp add: hadv_eval hadv_add_success_def)

theorem hadv_empty_passes:
  "run_home_test hadv_empty \<noteq> None \<and>
     get_by_text_home ''No products available'' (the (run_home_test hadv_empty))"
  by (simp add: hadv_eval hadv_empty_def)

theorem hadv_empty_no_grid_passes:
  "run_home_test hadv_empty_no_grid \<noteq> None \<and>
     get_by_text_home ''No products available'' (the (run_home_test hadv_empty_no_grid)) \<and>
     home_cards (the (run_home_test hadv_empty_no_grid)) = []"
  by (simp add: hadv_eval hadv_empty_no_grid_def)

theorem hadv_all_products_passes:
  "run_home_test hadv_all_products \<noteq> None \<and>
     get_by_text_home ''Laptop'' (the (run_home_test hadv_all_products)) \<and>
     get_by_text_home ''Mouse'' (the (run_home_test hadv_all_products))"
  by (simp add: hadv_eval hadv_all_products_def)

theorem hadv_many_products_passes:
  "run_home_test hadv_many_products \<noteq> None \<and>
     get_by_text_home ''Product 1'' (the (run_home_test hadv_many_products)) \<and>
     get_by_text_home ''Product 20'' (the (run_home_test hadv_many_products))"
  by (simp add: hadv_eval hadv_many_products_def home_many_products_def upt_rec)

theorem hadv_zero_stock_passes:
  "run_home_test hadv_zero_stock \<noteq> None \<and>
     get_by_text_home ''Out of Stock Item'' (the (run_home_test hadv_zero_stock))"
  by (simp add: hadv_eval hadv_zero_stock_def)

theorem hadv_high_stock_passes:
  "run_home_test hadv_high_stock \<noteq> None \<and>
     get_by_text_home ''Popular Item'' (the (run_home_test hadv_high_stock))"
  by (simp add: hadv_eval hadv_high_stock_def)

theorem hadv_default_quantity_passes:
  "run_home_test hadv_default_quantity \<noteq> None \<and>
     Call (AddToCart 123 \<lparr>add_product_id = 1, add_quantity = 1\<rparr>) \<in> set (hp_effects (the (run_home_test hadv_default_quantity)))"
  by (simp add: hadv_eval hadv_default_quantity_def)

theorem hadv_rapid_additions_passes:
  "run_home_test hadv_rapid_additions \<noteq> None \<and>
     length (filter (\<lambda>e. case e of Call (AddToCart _ _) \<Rightarrow> True | _ \<Rightarrow> False) (hp_effects (the (run_home_test hadv_rapid_additions)))) = 3"
  by (simp add: hadv_eval hadv_rapid_additions_def)

theorem hadv_loading_before_passes:
  "run_home_test hadv_loading_before \<noteq> None \<and>
     get_by_text_home ''Loading products...'' (the (run_home_test hadv_loading_before))"
  by (simp add: hadv_eval hadv_loading_before_def)

theorem hadv_loading_hidden_passes:
  "run_home_test hadv_loading_hidden \<noteq> None \<and>
     ''Loading products...'' \<notin> set (home_texts (the (run_home_test hadv_loading_hidden)))"
  by (simp add: hadv_eval hadv_loading_hidden_def)

theorem hadv_loading_hidden_error_passes:
  "run_home_test hadv_loading_hidden_error \<noteq> None \<and>
     ''Loading products...'' \<notin> set (home_texts (the (run_home_test hadv_loading_hidden_error)))"
  by (simp add: hadv_eval hadv_loading_hidden_error_def)

theorem hadv_loading_retry_passes:
  "run_home_test hadv_loading_retry \<noteq> None \<and>
     get_by_text_home ''Loading products...'' (the (run_home_test hadv_loading_retry))"
  by (simp add: hadv_eval hadv_loading_retry_def)

theorem hadv_context_user_passes:
  "run_home_test hadv_context_user \<noteq> None \<and>
     Call (AddToCart 456 \<lparr>add_product_id = 1, add_quantity = 1\<rparr>) \<in> set (hp_effects (the (run_home_test hadv_context_user)))"
  by (simp add: hadv_eval hadv_context_user_def)

end
