(* ===== verification/ProductCardTests.thy ===== *)
theory ProductCardTests
  imports ProductCard App "HOL-Library.Sublist"
begin

text \<open>
  The unit tests of the product card (the \<open>ProductCard Component\<close> suite bundled in
  \<open>src/src/__tests__/Register.test.tsx\<close>) against the model of
  \<open>src/unnamed/part_005\<close>. A test renders one card under the provider, over the
  entries \<open>localStorage\<close> holds, with or without an \<open>onAddToCart\<close> mock, and may click
  the element showing \<open>Add to Cart\<close>. The card reads the visitor from the context
  after the provider's mount effect. Prices are in cents; \<open>description: undefined\<close>
  is \<open>None\<close>.
\<close>

section \<open>Harness\<close>

text \<open>The visitor the card sees under the provider.\<close>

definition render_card_user :: "(string \<rightharpoonup> string) \<Rightarrow> int option" where
  "render_card_user st = current_user_id (ctx_load (ctx_init st))"

text \<open>\<open>fireEvent.click(getByText(''Add to Cart''))\<close>: the element must be there; a click
  on a disabled button runs no handler; an enabled one runs \<open>handleAddToCart\<close>.\<close>

definition card_click_add :: "bool \<Rightarrow> int option \<Rightarrow> product_dto \<Rightarrow> (int \<times> int) list option" where
  "card_click_add cb u p =
     (case card_button (id_truthy u) p of
        Some (t, dis) \<Rightarrow> if t = ''Add to Cart'' then Some (if dis then [] else card_handle_add cb u p) else None
      | None \<Rightarrow> None)"

text \<open>A test: the storage, whether \<open>onAddToCart\<close> is passed, the product, and whether
  the test clicks. Its run gives the card's texts and the calls the mock received,
  or \<open>None\<close> when a query of the test throws.\<close>

type_synonym card_test = "(string \<rightharpoonup> string) \<times> bool \<times> product_dto \<times> bool"

definition run_card_test :: "card_test \<Rightarrow> (string list \<times> (int \<times> int) list) option" where
  "run_card_test t =
     (case t of (st, cb, p, click) \<Rightarrow>
        let u = render_card_user st in
        (if click then map_option (\<lambda>cs. (card_texts (id_truthy u) p, cs)) (card_click_add cb u p)
         else Some (card_texts (id_truthy u) p, [])))"

definition get_by_text_card :: "string \<Rightarrow> string list \<Rightarrow> bool" where
  "get_by_text_card x ts = (count_list ts x = 1)"

section \<open>Data and tests\<close>

definition pc_mock_product :: product_dto where
  "pc_mock_product =
     \<lparr>product_id = 1, product_name = ''Test Laptop'',
      product_description = Some ''A great laptop for testing purposes with many features'',
      product_price = 99999, product_stock_quantity = 10\<rparr>"

definition pc_storage_123 :: "string \<rightharpoonup> string" where
  "pc_storage_123 = [user_id_storage_key \<mapsto> ''123'']"

definition pc_long_description :: string where
  "pc_long_description =
     ''This is a very long description that should be truncated to show only the first 100 characters and then add ellipsis''"

definition pc_test_renders :: card_test where
  "pc_test_renders = (Map.empty, False, pc_mock_product, False)"

definition pc_test_truncates :: card_test where
  "pc_test_truncates = (Map.empty, False, pc_mock_product\<lparr>product_description := Some pc_long_description\<rparr>, False)"

definition pc_test_short_description :: card_test where
  "pc_test_short_description = (Map.empty, False, pc_mock_product\<lparr>product_description := Some ''Short description''\<rparr>, False)"

definition pc_test_no_description :: card_test where
  "pc_test_no_description = (Map.empty, False, pc_mock_product\<lparr>product_description := None\<rparr>, False)"

definition pc_test_out_of_stock :: card_test where
  "pc_test_out_of_stock = (Map.empty, False, pc_mock_product\<lparr>product_stock_quantity := 0\<rparr>, False)"

definition pc_test_disabled :: card_test where
  "pc_test_disabled = (pc_storage_123, True, pc_mock_product\<lparr>product_stock_quantity := 0\<rparr>, False)"

definition pc_test_register_link :: card_test where
  "pc_test_register_link = (Map.empty, False, pc_mock_product, False)"

definition pc_test_add_button :: card_test where
  "pc_test_add_button = (pc_storage_123, True, pc_mock_product, False)"

definition pc_test_calls_handler :: card_test where
  "pc_test_calls_handler = (pc_storage_123, True, pc_mock_product, True)"

definition pc_test_not_logged_no_call :: card_test where
  "pc_test_not_logged_no_call = (Map.empty, True, pc_mock_product, False)"

definition pc_test_link :: card_test where
  "pc_test_link = (Map.empty, False, pc_mock_product, False)"

definition pc_test_price :: card_test where
  "pc_test_price = (Map.empty, False, pc_mock_product\<lparr>product_price := 123450\<rparr>, False)"

definition pc_test_stock_text :: card_test where
  "pc_test_stock_text = (Map.empty, False, pc_mock_product\<lparr>product_stock_quantity := 5\<rparr>, False)"

section \<open>Every test passes\<close>

lemma render_card_user_values:
  "render_card_user Map.empty = None" "render_card_user pc_storage_123 = Some 123"
  by (simp_all add: render_card_user_def ctx_load_def ctx_init_def pc_storage_123_def user_id_storage_key_def
      parse_int_def is_digit_def js_ws_def parse_digits_def digit_val_def)

lemmas pc_test_eval = run_card_test_def render_card_user_values card_click_add_def card_button_def
  card_handle_add_def card_texts_def card_description_def card_out_of_stock_def pc_mock_product_def
  get_by_text_card_def id_truthy_def to_fixed2_def two_digits_def show_eval char_of_digits

theorem pc_test_renders_passes:
  "\<exists>ts cs. run_card_test pc_test_renders = Some (ts, cs) \<and>
     get_by_text_card ''Test Laptop'' ts \<and> get_by_text_card ''$999.99'' ts \<and> get_by_text_card ''10 in stock'' ts"
  by (simp add: pc_test_eval pc_test_renders_def)

text \<open>\<open>getByText(/This is a very long description/)\<close> finds one element; its text
  contains \<open>...\<close> and is shorter than the description.\<close>

theorem pc_test_truncates_passes:
  "\<exists>ts cs d. run_card_test pc_test_truncates = Some (ts, cs) \<and>
     filter (sublist ''This is a very long description'') ts = [d] \<and>
     sublist ''...'' d \<and> length d < length pc_long_description"
  by (simp add: pc_test_eval pc_test_truncates_def pc_long_description_def sublist_Cons_right)

theorem pc_test_short_description_passes:
  "\<exists>ts cs. run_card_test pc_test_short_description = Some (ts, cs) \<and> get_by_text_card ''Short description'' ts"
  by (simp add: pc_test_eval pc_test_short_description_def)

theorem pc_test_no_description_passes:
  "\<exists>ts cs. run_card_test pc_test_no_description = Some (ts, cs) \<and>
     get_by_text_card ''Test Laptop'' ts \<and> \<not> list_ex (regex_ci ''description'') ts"
  by (simp add: pc_test_eval pc_test_no_description_def regex_ci_def ascii_lower_def)

theorem pc_test_out_of_stock_passes:
  "\<exists>ts cs. run_card_test pc_test_out_of_stock = Some (ts, cs) \<and> get_by_text_card ''Out of Stock'' ts"
  by (simp add: pc_test_eval pc_test_out_of_stock_def)

text \<open>\<open>getByRole(''button'', {name: /Out of Stock/i})\<close> is the card's button, and it is
  disabled.\<close>

theorem pc_test_disabled_passes:
  "\<exists>ts cs. run_card_test pc_test_disabled = Some (ts, cs) \<and>
     card_button (id_truthy (render_card_user (fst pc_test_disabled))) (fst (snd (snd pc_test_disabled))) =
       Some (''Out of Stock'', True)"
  by (simp add: pc_test_eval pc_test_disabled_def)

theorem pc_test_register_link_passes:
  "\<exists>ts cs. run_card_test pc_test_register_link = Some (ts, cs) \<and>
     get_by_text_card ''Register to purchase'' ts \<and> ''Add to Cart'' \<notin> set ts"
  by (simp add: pc_test_eval pc_test_register_link_def)

theorem pc_test_add_button_passes:
  "\<exists>ts cs. run_card_test pc_test_add_button = Some (ts, cs) \<and>
     get_by_text_card ''Add to Cart'' ts \<and> ''Register to purchase'' \<notin> set ts"
  by (simp add: pc_test_eval pc_test_add_button_def)

theorem pc_test_calls_handler_passes:
  "\<exists>ts. run_card_test pc_test_calls_handler = Some (ts, [(1, 1)])"
  by (simp add: pc_test_eval pc_test_calls_handler_def)

text \<open>Not logged in, the card shows no add button and the mock receives nothing; the
  handler itself would call nothing either.\<close>

theorem pc_test_not_logged_no_call_passes:
  "\<exists>ts. run_card_test pc_test_not_logged_no_call = Some (ts, []) \<and> ''Add to Cart'' \<notin> set ts \<and>
     card_handle_add True (render_card_user Map.empty) pc_mock_product = []"
  by (simp add: pc_test_eval pc_test_not_logged_no_call_def)

text \<open>The name's enclosing link points at the product's page.\<close>

theorem pc_test_link_passes:
  "\<exists>ts cs. run_card_test pc_test_link = Some (ts, cs) \<and> hd ts = ''Test Laptop'' \<and>
     card_link pc_mock_product = ''/product/1''"
  by (simp add: pc_test_eval pc_test_link_def card_link_def)

theorem pc_test_price_passes:
  "\<exists>ts cs. run_card_test pc_test_price = Some (ts, cs) \<and> get_by_text_card ''$1234.50'' ts"
  by (simp add: pc_test_eval pc_test_price_def)

theorem pc_test_stock_text_passes:
  "\<exists>ts cs. run_card_test pc_test_stock_text = Some (ts, cs) \<and> get_by_text_card ''5 in stock'' ts"
  by (simp add: pc_test_eval pc_test_stock_text_def)

end
