(* ===== verification/RegisterSuiteTests.thy ===== *)
theory RegisterSuiteTests
  imports RegisterTests
begin

text \<open>
  The basic unit tests of the registration page (the \<open>Register Component\<close> suite of
  \<open>src/src/__tests__/Register.test.tsx\<close>), on the harness of \<open>RegisterTests\<close>. They
  query the rendered page by text, by label and by role, so this theory adds the
  page's elements as (tag, text) pairs, read from the view: the logged-in card or the
  form with its optional error.
\<close>

section \<open>The rendered elements\<close>

text \<open>The card a logged-in visitor sees.\<close>

definition reg_already_elems :: "int \<Rightarrow> (string \<times> string) list" where
  "reg_already_elems uid =
     [(''h2'', ''Already Logged In''), (''p'', ''You are currently logged in as User ID: '' @ show_int uid),
      (''button'', ''Go to Products''), (''button'', ''View Cart'')]"

text \<open>The form: title, subtitle, the error when it is set, the two labels and the
  submit button, whose label follows \<open>loading\<close>.\<close>

definition reg_form_elems :: "string option \<Rightarrow> bool \<Rightarrow> (string \<times> string) list" where
  "reg_form_elems err loading =
     [(''h2'', ''Register / Login''), (''p'', ''Create a new account or login with your existing credentials'')] @
     (case err of Some e \<Rightarrow> if e = [] then [] else [(''div'', e)] | None \<Rightarrow> []) @
     [(''label'', ''Username''), (''label'', ''Email''),
      (''button'', if loading then ''Creating Account...'' else ''Register'')]"

definition reg_elems :: "reg_view \<Rightarrow> (string \<times> string) list" where
  "reg_elems v = (case v of RegAlreadyView uid \<Rightarrow> reg_already_elems uid | RegFormView e l \<Rightarrow> reg_form_elems e l)"

text \<open>A query with a case-insensitive pattern, restricted to a tag (\<open>getByLabelText\<close>
  looks at labels, \<open>getByRole(''button'')\<close> at buttons) or not (\<open>getByText\<close>):
  it succeeds when exactly one element matches.\<close>

definition get_by_ci :: "string option \<Rightarrow> string \<Rightarrow> (string \<times> string) list \<Rightarrow> bool" where
  "get_by_ci tag pat els =
     (length (filter (\<lambda>(g, t). (case tag of Some g' \<Rightarrow> g = g' | None \<Rightarrow> True) \<and> regex_ci pat t) els) = 1)"

section \<open>The tests\<close>

definition rs_test_renders :: reg_test where
  "rs_test_renders = (Map.empty, [])"

definition rs_test_empty_username :: reg_test where
  "rs_test_empty_username = (Map.empty, [RegSubmit])"

definition rs_test_empty_email :: reg_test where
  "rs_test_empty_email = (Map.empty, [RegTypeUsername ''testuser'', RegSubmit])"

text \<open>\<open>fireEvent.submit(form)\<close> runs the same \<open>handleSubmit\<close> as the button.\<close>

definition rs_test_invalid_email :: reg_test where
  "rs_test_invalid_email = (Map.empty, [RegTypeUsername ''testuser'', RegTypeEmail ''invalid-email'', RegSubmit])"

definition rs_test_success :: reg_test where
  "rs_test_success =
     (Map.empty, fill_form ''testuser'' ''test@example.com'' @ [resolve_user 1 ''testuser'' ''test@example.com''])"

definition rs_test_api_failure :: reg_test where
  "rs_test_api_failure =
     (Map.empty, fill_form ''testuser'' ''test@example.com'' @ [reject_with (RejError ''User already exists'')])"

section \<open>Every test passes\<close>

lemmas rs_test_eval = reg_test_eval reg_elems_def reg_form_elems_def get_by_ci_def regex_ci_def ascii_lower_def

theorem rs_test_renders_passes:
  "\<exists>s c. run_reg_test rs_test_renders = Some (s, c) \<and>
     get_by_ci None ''Register / Login'' (reg_elems (reg_view s c)) \<and>
     get_by_ci (Some ''label'') ''Username'' (reg_elems (reg_view s c)) \<and>
     get_by_ci (Some ''label'') ''Email'' (reg_elems (reg_view s c)) \<and>
     get_by_ci (Some ''button'') ''Register'' (reg_elems (reg_view s c))"
  by (simp add: rs_test_eval rs_test_renders_def)

theorem rs_test_empty_username_passes:
  "\<exists>s c. run_reg_test rs_test_empty_username = Some (s, c) \<and>
     get_by_ci None ''Username is required'' (reg_elems (reg_view s c))"
  by (simp add: rs_test_eval rs_test_empty_username_def)

theorem rs_test_empty_email_passes:
  "\<exists>s c. run_reg_test rs_test_empty_email = Some (s, c) \<and>
     get_by_ci None ''Email is required'' (reg_elems (reg_view s c))"
  by (simp add: rs_test_eval rs_test_empty_email_def)

theorem rs_test_invalid_email_passes:
  "\<exists>s c. run_reg_test rs_test_invalid_email = Some (s, c) \<and>
     get_by_ci None ''Please enter a valid email address'' (reg_elems (reg_view s c)) \<and>
     (\<forall>k. Call k \<notin> set (rg_effects s))"
  by (simp add: rs_test_eval rs_test_invalid_email_def)

theorem rs_test_success_passes:
  "\<exists>s c. run_reg_test rs_test_success = Some (s, c) \<and>
     Call (CreateUser \<lparr>cu_username = ''testuser'', cu_email = ''test@example.com''\<rparr>) \<in> set (rg_effects s) \<and>
     Navigate ''/'' \<in> set (rg_effects s)"
  by (simp add: rs_test_eval rs_test_success_def set_current_user_id_def show_eval)

theorem rs_test_api_failure_passes:
  "\<exists>s c. run_reg_test rs_test_api_failure = Some (s, c) \<and>
     get_by_ci None ''User already exists'' (reg_elems (reg_view s c))"
  by (simp add: rs_test_eval rs_test_api_failure_def)

end
