(* ===== verification/AppTests.thy ===== *)
theory AppTests
  imports HeaderTests RegisterSuiteTests HomeTests ProductDetailTests CartAdvancedTests
begin

text \<open>
  The unit tests of the application shell (\<open>src/src/__tests__/App.test.tsx\<close>) on the
  session model of \<open>App\<close>: a test loads the application at a path over the storage
  it sets (\<open>app_start\<close>, the \<open>MemoryRouter\<close> of the test in place of the browser's
  location), and what it queries is the text of the header followed by the text of
  the mounted page. The API is not mocked in this file: under the test environment
  a \<open>fetch\<close> of the relative URLs of \<open>api.ts\<close> rejects with a \<open>TypeError\<close>
  (\<open>Failed to parse URL from ...\<close>), which is the answer the page's call receives.
\<close>

section \<open>The text of the application\<close>

text \<open>\<open>NotFound\<close>: its heading, its line and the link home.\<close>

definition not_found_texts :: "string list" where
  "not_found_texts =
     [''404 - Page Not Found'', ''The page you'' @ [CHR 0x27] @ ''re looking for doesn'' @ [CHR 0x27] @ ''t exist.'',
      ''Go back to home'']"

text \<open>The text of the mounted page, each page by its own text function.\<close>

fun page_texts :: "user_ctx \<Rightarrow> page \<Rightarrow> string list" where
  "page_texts c (PageHome s) = home_texts s"
| "page_texts c (PageProduct s) = pd_texts (pd_view s)"
| "page_texts c (PageRegister s) = map snd (reg_elems (reg_view s c))"
| "page_texts c (PageCart s) = cart_texts s"
| "page_texts c PageNotFound = not_found_texts"

text \<open>\<open>App\<close>: the header, then the main element holding the matched route.\<close>

definition app_texts :: "app_state \<Rightarrow> string list" where
  "app_texts a = map fst (header_texts (app_ctx a)) @ page_texts (app_ctx a) (app_page a)"

definition get_by_text_app :: "string \<Rightarrow> app_state \<Rightarrow> bool" where
  "get_by_text_app t a = (count_list (app_texts a) t = 1)"

type_synonym app_test = "(string \<rightharpoonup> string) \<times> string \<times> app_event list"

definition run_app_test :: "app_test \<Rightarrow> app_state option" where
  "run_app_test t = (case t of (st, p, es) \<Rightarrow> (case app_start st p [] of None \<Rightarrow> None | Some a \<Rightarrow> app_run a es))"

definition fetch_failure :: "string \<Rightarrow> rejection" where
  "fetch_failure path = RejError (''Failed to parse URL from '' @ path)"

section \<open>The tests\<close>

definition app_test_home :: app_test where
  "app_test_home = (Map.empty, ''/'', [])"

definition app_test_header :: app_test where
  "app_test_header = (Map.empty, ''/'', [])"

definition app_test_register :: app_test where
  "app_test_register = (Map.empty, ''/register'', [])"

text \<open>The cart's \<open>getCart\<close> fails: the page shows its title with the error.\<close>

definition app_test_cart :: app_test where
  "app_test_cart =
     ([user_id_storage_key \<mapsto> ''123''], ''/cart'',
      [AppPage (EvCart (Resolve 0 (Inl (fetch_failure ''/api/cart?userId=123''))))])"

definition app_test_product :: app_test where
  "app_test_product =
     (Map.empty, ''/product/1'', [AppPage (EvProduct (PdResolve 0 (Inl (fetch_failure ''/api/products/1''))))])"

definition app_test_not_found :: app_test where
  "app_test_not_found = (Map.empty, ''/invalid-route'', [])"

definition app_test_user_context :: app_test where
  "app_test_user_context = ([user_id_storage_key \<mapsto> ''456''], ''/'', [])"

definition app_test_layout_home :: app_test where
  "app_test_layout_home = (Map.empty, ''/'', [])"

definition app_test_layout_register :: app_test where
  "app_test_layout_register = (Map.empty, ''/register'', [])"

section \<open>Every test passes\<close>

lemma parse_int_app_values: "parse_int ''123'' = Some 123" "parse_int ''456'' = Some 456"
  by code_simp+

lemma parse_int_one: "parse_int ''1'' = Some 1"
  by code_simp

lemma app_route_values:
  "app_route ''/'' = RouteHome" "app_route ''/register'' = RouteRegister" "app_route ''/cart'' = RouteCart"
  "app_route ''/product/1'' = RouteProduct ''1''" "app_route ''/invalid-route'' = RouteNotFound"
  by code_simp+

lemma app_ctx_values:
  "ctx_load (ctx_init Map.empty) = \<lparr>current_user_id = None, storage = Map.empty\<rparr>"
  "ctx_load (ctx_init [user_id_storage_key \<mapsto> ''123'']) =
     \<lparr>current_user_id = Some 123, storage = [user_id_storage_key \<mapsto> ''123'']\<rparr>"
  "ctx_load (ctx_init [user_id_storage_key \<mapsto> ''456'']) =
     \<lparr>current_user_id = Some 456, storage = [user_id_storage_key \<mapsto> ''456'']\<rparr>"
  by (simp_all add: ctx_load_def ctx_init_def parse_int_app_values)

lemmas app_test_eval = run_app_test_def app_start_def app_route_values mount_route_def
  last_navigation_def log_calls_def app_texts_def get_by_text_app_def header_texts_def id_truthy_def
  app_ctx_values show_eval
  load_products_def home_init_def home_issue_def home_view_def home_texts_def
  reg_elems_def reg_form_elems_def reg_init_def reg_view_def not_found_texts_def

text \<open>Each test's expectations of the state its run ends in. The first test waits
  for \<open>Products\<close>; at the moment it looks the list is still loading, and the one
  element with that text is the header's link (\<open>app_test_home_matches_header\<close>).\<close>

theorem app_test_home_passes:
  "run_app_test app_test_home \<noteq> None \<and> get_by_text_app ''Products'' (the (run_app_test app_test_home))"
  by (simp add: app_test_eval app_test_home_def)

theorem app_test_header_passes:
  "run_app_test app_test_header \<noteq> None \<and> get_by_text_app ''AI Store'' (the (run_app_test app_test_header))"
  by (simp add: app_test_eval app_test_header_def)

text \<open>\<open>getByRole(''heading'', {name: ''Register / Login''})\<close>: the header's link has the
  same text, the page's \<open>h2\<close> is the one heading.\<close>

theorem app_test_register_passes:
  "\<exists>a s. run_app_test app_test_register = Some a \<and> app_page a = PageRegister s \<and>
     length (filter (\<lambda>(g, t). g = ''h2'' \<and> t = ''Register / Login'') (reg_elems (reg_view s (app_ctx a)))) = 1"
  by (simp add: app_test_eval app_test_register_def)

theorem app_test_cart_passes:
  "run_app_test app_test_cart \<noteq> None \<and> get_by_text_app ''Shopping Cart'' (the (run_app_test app_test_cart))"
  by (simp add: app_test_eval app_test_cart_def cart_init_def cart_mount_def load_cart_def cart_issue_def
      load_cart_as_def cart_resolve_def app_react_def fetch_failure_def load_cart_done_def cart_texts_def cart_view_def
      error_texts_def caught_message_def drop_at_def app_fuel_def app_render_once_def numeral_2_eq_2 Let_def)

theorem app_test_product_passes:
  "run_app_test app_test_product \<noteq> None \<and> get_by_text_app ''Back to Products'' (the (run_app_test app_test_product))"
  by (simp add: app_test_eval app_test_product_def pd_init_def pd_mount_def load_product_def pd_issue_def
      pd_resolve_def app_react_def fetch_failure_def load_product_done_def pd_view_def caught_message_def drop_at_def
      app_fuel_def app_render_once_def parse_int_one numeral_2_eq_2 Let_def)

theorem app_test_not_found_passes:
  "run_app_test app_test_not_found \<noteq> None \<and> get_by_text_app ''404 - Page Not Found'' (the (run_app_test app_test_not_found))"
  by (simp add: app_test_eval app_test_not_found_def)

lemma app_test_user_context_run:
  "run_app_test app_test_user_context \<noteq> None \<and>
     app_texts (the (run_app_test app_test_user_context)) =
       [''AI Store'', ''Products'', ''Cart'', ''User ID: 456'', ''Logout'', ''Loading products...'']"
  by (simp add: app_test_eval app_test_user_context_def Let_def)

lemma regex_ci_user_id_456:
  "filter (regex_ci ''User ID: 456'') [''AI Store'', ''Products'', ''Cart'', ''User ID: 456'', ''Logout'',
     ''Loading products...''] = [''User ID: 456'']"
  by code_simp

theorem app_test_user_context_passes:
  "run_app_test app_test_user_context \<noteq> None \<and>
     length (filter (regex_ci ''User ID: 456'') (app_texts (the (run_app_test app_test_user_context)))) = 1"
proof -
  have r: "run_app_test app_test_user_context \<noteq> None"
    and t: "app_texts (the (run_app_test app_test_user_context)) =
      [''AI Store'', ''Products'', ''Cart'', ''User ID: 456'', ''Logout'', ''Loading products...'']"
    using app_test_user_context_run by simp_all
  show ?thesis unfolding t regex_ci_user_id_456 using r by simp
qed

theorem app_test_layout_passes:
  "run_app_test app_test_layout_home \<noteq> None \<and> get_by_text_app ''AI Store'' (the (run_app_test app_test_layout_home)) \<and>
   run_app_test app_test_layout_register \<noteq> None \<and> get_by_text_app ''AI Store'' (the (run_app_test app_test_layout_register))"
  by (simp add: app_test_eval app_test_layout_home_def app_test_layout_register_def)

text \<open>When the first test looks, the page shows only its loading line: the
  \<open>Products\<close> it finds is the header's link to \<open>/\<close>, not the page's title. Once the
  list has loaded, the header's link and the page's title both read \<open>Products\<close>,
  whatever the products, and \<open>getByText(''Products'')\<close> would throw.\<close>

theorem app_test_home_matches_header:
  "\<exists>a. run_app_test app_test_home = Some a \<and>
     page_texts (app_ctx a) (app_page a) = [''Loading products...''] \<and> hdr_href ''Products'' (app_ctx a) = Some ''/''"
  by (simp add: app_test_eval app_test_home_def hdr_href_def)

theorem app_home_loaded_title_twice:
  "\<exists>a. run_app_test (Map.empty, ''/'', [AppPage (EvHome (HomeResolve 0 (Inr (VProducts ps))))]) = Some a \<and>
     2 \<le> count_list (app_texts a) ''Products''"
  by (simp add: app_test_eval app_react_def load_products_done_def drop_at_def app_fuel_def
      app_render_once_def numeral_2_eq_2 Let_def)

end
