(* ===== verification/LighthouseSuites.thy ===== *)
theory LighthouseSuites
  imports LighthouseTests
begin

text \<open>
  The lifecycle of the three Lighthouse suites (\<open>Lighthouse Audits\<close> and
  \<open>Lighthouse Detailed Metrics\<close> in \<open>src/unnamed/part_008\<close>,
  \<open>Lighthouse Example Tests\<close> in \<open>src/unnamed/part_009\<close>). Each suite declares
  \<open>let chrome\<close>, launches a headless Chrome in \<open>beforeAll\<close> with a hook timeout of
  30000 ms, runs its tests against \<open>chrome.port\<close>, and kills the browser in
  \<open>afterAll\<close> when \<open>chrome\<close> is set. The suite runner (Vitest) runs the tests only
  when \<open>beforeAll\<close> settles in time and without error, and runs \<open>afterAll\<close> in every
  case. A hook that times out is abandoned, not cancelled: its launch may still
  resolve later and then assign \<open>chrome\<close>.

  The launch is an outcome with its duration; the environment is the suite's
  \<open>chrome\<close> variable and the list of browsers alive, by port. A launch that settles
  exactly at the timeout is taken to lose the race to the timer.
\<close>

datatype launch = Launched nat nat | LaunchFailed string nat

record lh_env =
  chrome :: "nat option"
  alive :: "nat list"

datatype lh_suite_event =
    HookLaunched nat
  | HookRejected string
  | HookTimedOut
  | TestRan nat nat
  | ChromeKilled nat
  | LateLaunch nat

definition hook_timeout :: nat where
  "hook_timeout = 30000"

text \<open>\<open>beforeAll\<close>: the launch settles before the timer (the browser is alive and
  \<open>chrome\<close> holds it) or the hook fails; a launch still pending at the timeout is
  returned as pending.\<close>

definition lh_before_all :: "nat \<Rightarrow> launch \<Rightarrow> lh_env \<Rightarrow> lh_env \<times> lh_suite_event \<times> bool \<times> launch option" where
  "lh_before_all t l e =
     (case l of
        Launched p d \<Rightarrow>
          if d < t then (e\<lparr>chrome := Some p, alive := alive e @ [p]\<rparr>, HookLaunched p, True, None)
          else (e, HookTimedOut, False, Some l)
      | LaunchFailed m d \<Rightarrow> if d < t then (e, HookRejected m, False, None) else (e, HookTimedOut, False, Some l))"

text \<open>\<open>afterAll\<close>: \<open>if (chrome) await chrome.kill()\<close>.\<close>

definition lh_after_all :: "lh_env \<Rightarrow> lh_env \<times> lh_suite_event list" where
  "lh_after_all e =
     (case chrome e of
        Some p \<Rightarrow> (e\<lparr>alive := remove1 p (alive e)\<rparr>, [ChromeKilled p])
      | None \<Rightarrow> (e, []))"

text \<open>The abandoned launch settling after the suite: a browser that comes up is
  assigned to \<open>chrome\<close> and stays alive; a late failure changes nothing.\<close>

definition lh_settle_late :: "launch option \<Rightarrow> lh_env \<Rightarrow> lh_env \<times> lh_suite_event list" where
  "lh_settle_late l e =
     (case l of
        Some (Launched p _) \<Rightarrow> (e\<lparr>chrome := Some p, alive := alive e @ [p]\<rparr>, [LateLaunch p])
      | _ \<Rightarrow> (e, []))"

text \<open>A suite of \<open>n\<close> tests: the hook, the tests on \<open>chrome.port\<close> when the hook
  succeeded, \<open>afterAll\<close>, then whatever the abandoned launch does.\<close>

definition lh_suite_run :: "nat \<Rightarrow> launch \<Rightarrow> nat \<Rightarrow> lh_env \<Rightarrow> lh_env \<times> lh_suite_event list" where
  "lh_suite_run t l n e0 =
     (let (e1, h, ok, late) = lh_before_all t l e0;
          tests = (if ok then map (\<lambda>i. TestRan i (the (chrome e1))) [0..<n] else []);
          (e2, ka) = lh_after_all e1;
          (e3, lt) = lh_settle_late late e2
      in (e3, [h] @ tests @ ka @ lt))"

text \<open>The three suites, by their number of \<open>it\<close> blocks.\<close>

definition lh_suites :: "(string \<times> nat) list" where
  "lh_suites = [(''Lighthouse Audits'', 6), (''Lighthouse Detailed Metrics'', 7), (''Lighthouse Example Tests'', 3)]"

text \<open>The suites one after the other, each with its own \<open>chrome\<close> and its own
  launch, over the browsers alive.\<close>

fun lh_run_suites :: "launch list \<Rightarrow> (string \<times> nat) list \<Rightarrow> nat list \<Rightarrow> nat list \<times> lh_suite_event list" where
  "lh_run_suites (l # ls) ((_, n) # ss) xs =
     (let (e, es) = lh_suite_run hook_timeout l n \<lparr>chrome = None, alive = xs\<rparr>;
          (ys, es') = lh_run_suites ls ss (alive e)
      in (ys, es @ es'))"
| "lh_run_suites _ _ xs = (xs, [])"

section \<open>What the hooks guarantee\<close>

text \<open>A launch that settles in time: every test runs on the launched browser, and
  \<open>afterAll\<close> kills it, leaving the browsers alive as they were.\<close>

theorem lh_suite_in_time_no_leak:
  assumes "d < t" and "p \<notin> set xs"
  shows "lh_suite_run t (Launched p d) n \<lparr>chrome = None, alive = xs\<rparr> =
     (\<lparr>chrome = Some p, alive = xs\<rparr>, [HookLaunched p] @ map (\<lambda>i. TestRan i p) [0..<n] @ [ChromeKilled p])"
  using assms by (simp add: lh_suite_run_def lh_before_all_def lh_after_all_def lh_settle_late_def remove1_append)

text \<open>A launch that outlasts the hook timeout: no test runs, \<open>afterAll\<close> finds
  \<open>chrome\<close> unset and kills nothing, and the browser the launch then brings up is
  left running.\<close>

theorem lh_suite_late_launch_leaks:
  assumes "\<not> d < t"
  shows "lh_suite_run t (Launched p d) n \<lparr>chrome = None, alive = xs\<rparr> =
     (\<lparr>chrome = Some p, alive = xs @ [p]\<rparr>, [HookTimedOut, LateLaunch p])"
  using assms by (simp add: lh_suite_run_def lh_before_all_def lh_after_all_def lh_settle_late_def)

theorem lh_suite_failed_launch:
  "lh_suite_run t (LaunchFailed m d) n \<lparr>chrome = None, alive = xs\<rparr> =
     (\<lparr>chrome = None, alive = xs\<rparr>, [if d < t then HookRejected m else HookTimedOut])"
  by (simp add: lh_suite_run_def lh_before_all_def lh_after_all_def lh_settle_late_def)

text \<open>(C28) A suite leaves a browser behind exactly when its launch succeeds after the
  hook timeout: \<open>afterAll\<close> kills whatever \<open>chrome\<close> holds when it runs, and only a
  launch abandoned by the timeout assigns \<open>chrome\<close> later.\<close>

theorem lh_suite_leak_iff:
  assumes "\<forall>p d. l = Launched p d \<longrightarrow> p \<notin> set xs"
  shows "alive (fst (lh_suite_run t l n \<lparr>chrome = None, alive = xs\<rparr>)) \<noteq> xs \<longleftrightarrow>
     (\<exists>p d. l = Launched p d \<and> t \<le> d)"
proof (cases l)
  case (Launched p d)
  with assms show ?thesis
    by (cases "d < t") (simp_all add: lh_suite_in_time_no_leak lh_suite_late_launch_leaks)
next
  case (LaunchFailed m d)
  then show ?thesis by (simp add: lh_suite_failed_launch)
qed

text \<open>The three suites with launches that settle in time on fresh ports: all
  sixteen tests run and no browser is left.\<close>

theorem lh_suites_clean_in_time:
  "lh_run_suites [Launched 9222 2000, Launched 9223 2500, Launched 9224 1800] lh_suites [] =
     ([], [HookLaunched 9222] @ map (\<lambda>i. TestRan i 9222) [0..<6] @ [ChromeKilled 9222] @
          [HookLaunched 9223] @ map (\<lambda>i. TestRan i 9223) [0..<7] @ [ChromeKilled 9223] @
          [HookLaunched 9224] @ map (\<lambda>i. TestRan i 9224) [0..<3] @ [ChromeKilled 9224])"
  by (simp add: lh_suites_def hook_timeout_def lh_suite_in_time_no_leak Let_def del: upt_Suc)

theorem lh_suite_leak_iff_witness:
  "alive (fst (lh_suite_run hook_timeout (Launched 9222 31000) 6 \<lparr>chrome = None, alive = []\<rparr>)) \<noteq> [] \<longleftrightarrow>
     (\<exists>p d. Launched 9222 31000 = Launched p d \<and> hook_timeout \<le> d)"
  using lh_suite_leak_iff [of "Launched 9222 31000" "[]" hook_timeout 6] by simp

end
