(* ===== verification/E2ETests.thy ===== *)
theory E2ETests
  imports AppTests TestConfig
begin

text \<open>
  The Playwright suite \<open>src/e2e/store.spec.ts\<close> on the session model of \<open>App\<close>. A
  test starts a fresh browser context (empty storage) at a URL and drives the page
  with Playwright actions; the backend at \<open>localhost:5000\<close> is outside the
  repository, so its answers are events of the run, chosen as the replies the
  suite's comments expect. Two parts of the browser matter to the suite and are
  modelled from the HTML standard. The value sanitization of an
  \<open><input type="email">\<close> is part of the page's model (\<open>email_sanitize\<close> in
  \<open>Register\<close>). The constraint validation that blocks a form's submission while a
  non-empty e-mail field does not hold a valid e-mail address is modelled here. A
  \<open>text=\<close> locator matches an element whose text contains the string, ignoring case.
\<close>

section \<open>The browser's e-mail field\<close>

definition ascii_alnum :: "char \<Rightarrow> bool" where
  "ascii_alnum c =
     (let n = (of_char c :: nat) in (48 \<le> n \<and> n \<le> 57) \<or> (65 \<le> n \<and> n \<le> 90) \<or> (97 \<le> n \<and> n \<le> 122))"

text \<open>A valid e-mail address: a local part of \<open>atext\<close> characters and dots, \<open>@\<close>,
  and a domain of labels of at most 63 letters, digits and hyphens, neither
  starting nor ending with a hyphen.\<close>

definition email_atext :: "char \<Rightarrow> bool" where
  "email_atext c =
     (ascii_alnum c \<or> c \<in> set (''.!#$%&'' @ [CHR 0x27] @ ''*+/=?^_'' @ [CHR 0x60] @ ''{|}~-''))"

definition email_label :: "string \<Rightarrow> bool" where
  "email_label l =
     (l \<noteq> [] \<and> length l \<le> 63 \<and> list_all (\<lambda>c. ascii_alnum c \<or> c = CHR ''-'') l \<and>
      ascii_alnum (hd l) \<and> ascii_alnum (last l))"

definition html_valid_email :: "string \<Rightarrow> bool" where
  "html_valid_email s =
     (let loc = takeWhile (\<lambda>c. c \<noteq> CHR ''@'') s; rest = dropWhile (\<lambda>c. c \<noteq> CHR ''@'') s
      in loc \<noteq> [] \<and> list_all email_atext loc \<and> rest \<noteq> [] \<and> list_all email_label (split_on CHR ''.'' (tl rest)))"

text \<open>The e-mail input of the registration form is not \<open>required\<close>: an empty value
  is valid.\<close>

definition email_input_valid :: "string \<Rightarrow> bool" where
  "email_input_valid v = (v = [] \<or> html_valid_email v)"

section \<open>Playwright actions\<close>

datatype pw_action =
    PwGoto string
  | PwSetItem string string
  | PwReload
  | PwFillUsername string
  | PwFillEmail string
  | PwClickRegister
  | PwClickLogout
  | PwClickLink string
  | PwEvent page_event

text \<open>\<open>page.goto\<close> and \<open>page.reload\<close> load the application; \<open>page.evaluate\<close> writes
  the storage behind the running application; \<open>page.fill\<close> on the form's text and
  e-mail inputs types the (sanitized) value; the click on the form's Register button
  submits only when the form is valid, and otherwise does nothing; a click on a
  link, on the header's Logout button, or an event of the page (a button of the page
  or the backend's answer) is the session's step. An action whose element is not
  there is \<open>None\<close> (Playwright waits, then fails).\<close>

fun pw_step :: "app_state \<Rightarrow> pw_action \<Rightarrow> app_state option" where
  "pw_step a (PwGoto p) = app_step a (AppVisit p)"
| "pw_step a (PwSetItem k v) = Some (a\<lparr>app_ctx := (app_ctx a)\<lparr>storage := (storage (app_ctx a))(k \<mapsto> v)\<rparr>\<rparr>)"
| "pw_step a PwReload = app_step a (AppVisit (app_path a))"
| "pw_step a (PwFillUsername v) = app_step a (AppPage (EvRegister (RegTypeUsername v)))"
| "pw_step a (PwFillEmail v) = app_step a (AppPage (EvRegister (RegTypeEmail v)))"
| "pw_step a PwClickRegister =
     (case app_page a of
        PageRegister s \<Rightarrow>
          (case reg_view s (app_ctx a) of
             RegFormView _ False \<Rightarrow>
               if email_input_valid (rg_email s) then app_step a (AppPage (EvRegister RegSubmit)) else Some a
           | _ \<Rightarrow> None)
      | _ \<Rightarrow> None)"
| "pw_step a PwClickLogout = app_step a AppLogout"
| "pw_step a (PwClickLink p) = app_step a (AppLink p)"
| "pw_step a (PwEvent e) = app_step a (AppPage e)"

fun pw_run :: "app_state \<Rightarrow> pw_action list \<Rightarrow> app_state option" where
  "pw_run a [] = Some a"
| "pw_run a (x # xs) = (case pw_step a x of None \<Rightarrow> None | Some a' \<Rightarrow> pw_run a' xs)"

type_synonym e2e_test = "string \<times> pw_action list"

definition run_e2e :: "e2e_test \<Rightarrow> app_state option" where
  "run_e2e t = (case app_start Map.empty (fst t) [] of None \<Rightarrow> None | Some a \<Rightarrow> pw_run a (snd t))"

text \<open>\<open>expect(page.locator(''text=...'')).toBeVisible()\<close>.\<close>

definition pw_visible :: "string \<Rightarrow> app_state \<Rightarrow> bool" where
  "pw_visible t a = list_ex (regex_ci t) (app_texts a)"

section \<open>The tests\<close>

definition e2e_validation :: e2e_test where
  "e2e_validation =
     (''/register'', [PwClickRegister, PwFillUsername ''testuser'', PwClickRegister,
                      PwFillEmail ''invalid-email'', PwClickRegister])"

definition e2e_logout :: e2e_test where
  "e2e_logout = (''/'', [PwSetItem user_id_storage_key ''1'', PwReload, PwClickLogout])"

text \<open>The backend's data for the two flows: one product in stock, the user the
  registration creates (\<open>Date.now()\<close> taken as 1700000000000), the cart line of
  the added product, and a successful checkout.\<close>

definition e2e_laptop :: product_dto where
  "e2e_laptop = \<lparr>product_id = 1, product_name = ''Laptop'', product_description = Some ''Fast laptop'',
     product_price = 999, product_stock_quantity = 5\<rparr>"

definition e2e_username :: string where
  "e2e_username = ''testuser_1700000000000''"

definition e2e_email :: string where
  "e2e_email = ''test_1700000000000@example.com''"

definition e2e_item :: cart_item_dto where
  "e2e_item = \<lparr>item_id = 1, item_product_id = 1, item_product_name = ''Laptop'', item_price = 999,
     item_quantity = 1, item_subtotal = 999\<rparr>"

definition e2e_checkout :: checkout_result_dto where
  "e2e_checkout = \<lparr>co_success = True, co_message = ''Order placed'', co_total_amount = Some 999,
     co_purchased_items = Some [e2e_item]\<rparr>"

text \<open>The purchase flow, cut at the points where the test looks: the list, the
  registration, the add, the cart, the checkout, and Continue Shopping.\<close>

definition e2e_purchase_list :: "pw_action list" where
  "e2e_purchase_list = [PwEvent (EvHome (HomeResolve 0 (Inr (VProducts [e2e_laptop]))))]"

definition e2e_purchase_register :: "pw_action list" where
  "e2e_purchase_register =
     [PwClickLink ''/register'', PwFillUsername e2e_username, PwFillEmail e2e_email, PwClickRegister,
      PwEvent (EvRegister (RegResolve 0 (Inr (VUser \<lparr>user_id = 7, user_username = e2e_username,
        user_email = e2e_email\<rparr>))))]"

definition e2e_purchase_add :: "pw_action list" where
  "e2e_purchase_add =
     [PwEvent (EvHome (HomeResolve 0 (Inr (VProducts [e2e_laptop])))), PwEvent (EvHome (HomeClickCardAdd e2e_laptop)),
      PwEvent (EvHome (HomeResolve 0 (Inr VVoid)))]"

definition e2e_purchase_cart :: "pw_action list" where
  "e2e_purchase_cart = [PwClickLink ''/cart'', PwEvent (EvCart (Resolve 0 (Inr (VCartItems [e2e_item]))))]"

definition e2e_purchase_checkout :: "pw_action list" where
  "e2e_purchase_checkout = [PwEvent (EvCart ClickCheckout), PwEvent (EvCart (Resolve 0 (Inr (VCheckout e2e_checkout))))]"

definition e2e_purchase_continue :: "pw_action list" where
  "e2e_purchase_continue = [PwEvent (EvCart ClickContinue)]"

text \<open>The product detail flow as the test means it: the list loads, the first card's
  name opens the product, the product loads, and Back to Products returns.\<close>

definition e2e_detail :: e2e_test where
  "e2e_detail =
     (''/'', [PwEvent (EvHome (HomeResolve 0 (Inr (VProducts [e2e_laptop])))), PwClickLink (card_link e2e_laptop),
              PwEvent (EvProduct (PdResolve 0 (Inr (VProduct e2e_laptop)))), PwEvent (EvProduct PdClickBack)])"

section \<open>What the suite sees\<close>

text \<open>The validation test: the empty form shows \<open>Username is required\<close>, the form
  with a user name \<open>Email is required\<close>; with \<open>invalid-email\<close> typed, the browser
  refuses to submit the form, \<open>handleSubmit\<close> never runs, and the page still shows
  \<open>Email is required\<close>: the test's last expectation fails.\<close>

theorem e2e_validation_last_check_fails:
  "run_e2e (''/register'', take 1 (snd e2e_validation)) \<noteq> None \<and>
     pw_visible ''Username is required'' (the (run_e2e (''/register'', take 1 (snd e2e_validation)))) \<and>
   run_e2e (''/register'', take 3 (snd e2e_validation)) \<noteq> None \<and>
     pw_visible ''Email is required'' (the (run_e2e (''/register'', take 3 (snd e2e_validation)))) \<and>
   run_e2e e2e_validation \<noteq> None \<and>
     \<not> pw_visible ''valid email address'' (the (run_e2e e2e_validation)) \<and>
     pw_visible ''Email is required'' (the (run_e2e e2e_validation))"
  by code_simp

text \<open>The logout test: after the stored id and a reload the header offers Logout;
  after the click it offers the registration link and no Logout.\<close>

theorem e2e_logout_passes:
  "run_e2e (''/'', take 2 (snd e2e_logout)) \<noteq> None \<and>
     HeaderLogout \<in> set (header_view (app_ctx (the (run_e2e (''/'', take 2 (snd e2e_logout)))))) \<and>
   run_e2e e2e_logout \<noteq> None \<and>
     HeaderLink ''/register'' \<in> set (header_view (app_ctx (the (run_e2e e2e_logout)))) \<and>
     HeaderLogout \<notin> set (header_view (app_ctx (the (run_e2e e2e_logout))))"
  by code_simp

text \<open>The product detail flow as meant: the product page shows the name and
  \<open>available\<close>, and Back to Products returns to \<open>/\<close>.\<close>

theorem e2e_detail_flow:
  "run_e2e (''/'', take 3 (snd e2e_detail)) \<noteq> None \<and>
     app_path (the (run_e2e (''/'', take 3 (snd e2e_detail)))) = ''/product/1'' \<and>
     pw_visible ''available'' (the (run_e2e (''/'', take 3 (snd e2e_detail)))) \<and>
   run_e2e e2e_detail \<noteq> None \<and> app_path (the (run_e2e e2e_detail)) = ''/''"
  by code_simp

text \<open>The purchase flow as meant: the list's title, then after registering the
  user id in the header on \<open>/\<close>, the add's message, the cart with its subtotal, the
  checkout's result with its total, and Continue Shopping back on \<open>/\<close>.\<close>

theorem e2e_purchase_flow:
  "run_e2e (''/'', e2e_purchase_list) \<noteq> None \<and>
     ''Products'' \<in> set (page_texts (app_ctx (the (run_e2e (''/'', e2e_purchase_list))))
                                 (app_page (the (run_e2e (''/'', e2e_purchase_list))))) \<and>
   run_e2e (''/'', e2e_purchase_list @ e2e_purchase_register) \<noteq> None \<and>
     app_path (the (run_e2e (''/'', e2e_purchase_list @ e2e_purchase_register))) = ''/'' \<and>
     pw_visible ''User ID:'' (the (run_e2e (''/'', e2e_purchase_list @ e2e_purchase_register))) \<and>
   run_e2e (''/'', e2e_purchase_list @ e2e_purchase_register @ e2e_purchase_add) \<noteq> None \<and>
     pw_visible ''Item added to cart'' (the (run_e2e (''/'', e2e_purchase_list @ e2e_purchase_register @ e2e_purchase_add))) \<and>
   run_e2e (''/'', e2e_purchase_list @ e2e_purchase_register @ e2e_purchase_add @ e2e_purchase_cart) \<noteq> None \<and>
     app_path (the (run_e2e (''/'', e2e_purchase_list @ e2e_purchase_register @ e2e_purchase_add @ e2e_purchase_cart))) = ''/cart'' \<and>
     pw_visible ''Subtotal:'' (the (run_e2e (''/'', e2e_purchase_list @ e2e_purchase_register @ e2e_purchase_add @ e2e_purchase_cart))) \<and>
   run_e2e (''/'', e2e_purchase_list @ e2e_purchase_register @ e2e_purchase_add @ e2e_purchase_cart @ e2e_purchase_checkout) \<noteq> None \<and>
     pw_visible ''Total Amount:'' (the (run_e2e (''/'', e2e_purchase_list @ e2e_purchase_register @ e2e_purchase_add @ e2e_purchase_cart @ e2e_purchase_checkout))) \<and>
   run_e2e (''/'', e2e_purchase_list @ e2e_purchase_register @ e2e_purchase_add @ e2e_purchase_cart @ e2e_purchase_checkout @ e2e_purchase_continue) \<noteq> None \<and>
     app_path (the (run_e2e (''/'', e2e_purchase_list @ e2e_purchase_register @ e2e_purchase_add @ e2e_purchase_cart @ e2e_purchase_checkout @ e2e_purchase_continue))) = ''/''"
  by code_simp

text \<open>As in the unit test that trims the e-mail: the e-mail input strips the padding
  itself, so the padded address reaches \<open>handleSubmit\<close> trimmed and the
  registration request is sent.\<close>

theorem e2e_padded_email_sent_trimmed:
  "run_e2e (''/register'', [PwFillUsername ''testuser'', PwFillEmail ''  test@example.com  '', PwClickRegister]) \<noteq> None \<and>
   (Mounted, None, CreateUser \<lparr>cu_username = ''testuser'', cu_email = ''test@example.com''\<rparr>) \<in>
     set (app_log (the (run_e2e (''/register'', [PwFillUsername ''testuser'', PwFillEmail ''  test@example.com  '', PwClickRegister]))))"
  by code_simp

end
