(* ===== verification/StrictMode.thy ===== *)
theory StrictMode
  imports App
begin

text \<open>
  The development build of \<open>main.tsx\<close> (stored in \<open>src/src/pages/Home.tsx\<close>, lines
  172--188) renders the application inside \<open>React.StrictMode\<close> when
  \<open>import.meta.env.DEV\<close> holds. On mount, StrictMode runs every effect, runs its
  cleanup, and runs it again. None of the mount effects of the provider or the
  pages returns a cleanup, so in development each of them runs twice: the provider
  loads the stored id twice, and each page issues its first call twice.
  \<open>dev_mount_route\<close> is \<open>mount_route\<close> of \<open>App\<close> with the effect run twice.
\<close>

definition dev_mount_route :: "int option \<Rightarrow> route \<Rightarrow> page" where
  "dev_mount_route u r =
     (case r of
        RouteHome \<Rightarrow> PageHome (load_products (load_products (home_init u)))
      | RouteProduct param \<Rightarrow> PageProduct (pd_mount param (pd_mount param (pd_init u)))
      | RouteRegister \<Rightarrow> PageRegister reg_init
      | RouteCart \<Rightarrow> PageCart (cart_mount (cart_mount (cart_init u)))
      | RouteNotFound \<Rightarrow> PageNotFound)"

section \<open>The provider\<close>

text \<open>Loading the stored id twice is loading it once.\<close>

theorem dev_ctx_load_twice:
  "ctx_load (ctx_load c) = ctx_load c"
  by (simp add: ctx_load_def split: option.split)

section \<open>The product list\<close>

text \<open>In development the list issues \<open>getProducts\<close> twice, where production issues
  it once; the rendered branch before any answer is the same.\<close>

theorem dev_home_fetches_twice:
  "dev_mount_route u RouteHome = PageHome s \<Longrightarrow>
     hp_pending s = [GetProducts, GetProducts] \<and>
     hp_pending (load_products (home_init u)) = [GetProducts] \<and>
     home_view s = home_view (load_products (home_init u))"
  by (auto simp: dev_mount_route_def load_products_def home_init_def home_issue_def home_view_def)

text \<open>When both calls return the same list, the page ends as in production.\<close>

theorem dev_home_same_reply:
  "\<exists>s1 s2. home_step (load_products (load_products (home_init u))) (HomeResolve 0 (Inr (VProducts ps))) = Some s1 \<and>
     home_step s1 (HomeResolve 0 (Inr (VProducts ps))) = Some s2 \<and>
     (\<exists>t. home_step (load_products (home_init u)) (HomeResolve 0 (Inr (VProducts ps))) = Some t \<and>
          home_view s2 = home_view t)"
  by (simp add: load_products_def home_init_def home_issue_def home_view_def load_products_done_def drop_at_def)

text \<open>When the first of the two calls fails and the second succeeds, the error the
  first left is never cleared: the page shows the error, where production with the
  successful answer shows the list.\<close>

theorem dev_home_first_failure_sticks:
  assumes "m \<noteq> []"
  shows "\<exists>s1 s2. home_step (load_products (load_products (home_init u))) (HomeResolve 0 (Inl (RejError m))) = Some s1 \<and>
     home_step s1 (HomeResolve 0 (Inr (VProducts ps))) = Some s2 \<and>
     home_view s2 = HomeErrorView m \<and>
     (\<exists>t. home_step (load_products (home_init u)) (HomeResolve 0 (Inr (VProducts ps))) = Some t \<and>
          home_view t = HomeListView None ps)"
  using assms
  by (simp add: load_products_def home_init_def home_issue_def home_view_def load_products_done_def drop_at_def
      caught_message_def str_truthy_def)

theorem dev_home_first_failure_sticks_witness:
  "\<exists>s1 s2. home_step (load_products (load_products (home_init None))) (HomeResolve 0 (Inl (RejError ''Network error''))) = Some s1 \<and>
     home_step s1 (HomeResolve 0 (Inr (VProducts []))) = Some s2 \<and>
     home_view s2 = HomeErrorView ''Network error'' \<and>
     (\<exists>t. home_step (load_products (home_init None)) (HomeResolve 0 (Inr (VProducts []))) = Some t \<and>
          home_view t = HomeListView None [])"
  using dev_home_first_failure_sticks [of "''Network error''" None "[]"] by simp

section \<open>The cart page\<close>

text \<open>An anonymous visitor of the cart is sent to registration twice, and the
  location both navigations name is the same; a logged-in one fetches the cart twice.\<close>

theorem dev_cart_mount:
  "cp_effects (cart_mount (cart_mount (cart_init None))) = [Navigate ''/register'', Navigate ''/register''] \<and>
   (uid \<noteq> 0 \<longrightarrow> cp_pending (cart_mount (cart_mount (cart_init (Some uid)))) = [GetCart uid, GetCart uid])"
  by (simp add: cart_mount_def cart_init_def cart_navigate_def load_cart_def load_cart_as_def cart_issue_def
      id_truthy_def)

end
