(* ===== verification/Spec2Isabelle.thy ===== *)
theory Spec2Isabelle
  imports UserContext CartPage CartSpec CartItem ProductDetail Home Register App Lighthouse CartTests
    RegisterTests ProductDetailTests LighthouseTests ProductCard TestConfig
    ApiTests UserContextTests HomeTests CartAdvancedTests ProductDetailBasicTests HeaderTests
    HomeAdvancedTests ProductCardTests RegisterSuiteTests AppTests LighthouseSuites
    E2ETests StrictMode
begin

text \<open>
  \<^bold>\<open>A verification library for the storefront client (ai-generated-store-client).\<close>

  The repository is a React single-page shop over a REST backend. Its logic is the API
  client, which turns every HTTP outcome into a value or a rejection with a message,
  the session identity kept in \<open>localStorage\<close>, the small state machines of the four
  pages, which issue calls, await them and render one of a few views, and the router
  and header that tie them into one browser session. The library models these parts
  as plain HOL definitions, one theory per part, each importing the parts it calls:

  \<^item> \<open>Prelude\<close>: the JavaScript built-ins the code calls (\<open>parseInt(s, 10)\<close> as
    \<open>parse_int\<close>, number printing as \<open>show_int\<close>, \<open>trim\<close> as \<open>js_trim\<close>, the class
    \<open>\s\<close> as \<open>js_ws\<close>), the catch idiom \<open>err instanceof Error ? err.message : fallback\<close>
    (\<open>caught_message\<close>), truthiness of ids and strings, and the list of calls in
    flight (\<open>drop_at\<close>). Strings are lists of code units below 256 (where \<open>\s\<close> is
    exactly \<open>js_ws\<close> and the \<open>i\<close> flag folds exactly the ASCII letters); numbers the code
    uses as integers are \<open>int\<close>, and \<open>NaN\<close> is \<open>None\<close>. The round trip
    \<open>parse_int (show_int i) = Some i\<close> is proved here and carries C7 and C39.
  \<^item> \<open>Dto\<close>: the interfaces of \<open>src/unnamed/part_003\<close> (\<open>types/api.ts\<close>) as records.
  \<^item> \<open>Api\<close>: \<open>src/unnamed/part_006\<close> (\<open>api/api.ts\<close>). \<open>handle_response\<close> is
    \<open>handleResponse\<close> over a response given by its status, status text and what
    \<open>res.json()\<close> yields; \<open>api_result\<close> composes it with \<open>fetch\<close>. Each exported
    function is a request builder; \<open>api_call\<close> names the calls the pages issue. Lemmas:
    the contract of \<open>handleResponse\<close> (C1--C4), the headers of every request (C5, C6),
    and what an error body whose \<open>message\<close> is an array yields (C19).
  \<^item> \<open>UserContext\<close>: \<open>src/unnamed/part_007\<close>. The provider's state and the storage are
    one record; \<open>ctx_load\<close> is the mount effect, \<open>set_current_user_id\<close> and
    \<open>clear_user\<close> the operations, \<open>ctx_reach\<close> the reachable contexts. Lemmas: a stored
    id survives a reload (C7), logout forgets it (C8), state and storage agree (C9).
  \<^item> The pages, each a record of its \<open>useState\<close> cells with the calls it awaits and the
    effects it issued; an async handler is split at its \<open>await\<close> into a synchronous
    part and a continuation; a view function picks the branch the render returns, and
    a step function takes a click on a rendered control or the resolution of any
    pending call, in any order (with \<open>*_reach\<close> the inductive set of reachable pages):
    \<^item> \<open>CartPage\<close> (\<open>CartPage\<close>, \<open>src/src/pages/CartPage.tsx\<close> 1--183): redirect of an
      anonymous visitor (C10), the invariant that loading has a fetch in flight (C11),
      checkout results (C12, C13, C17), error messages (C14, C15), two failed checkouts
      in a row.
    \<^item> \<open>ProductDetail\<close> (\<open>ProductDetail\<close>, \<open>CartPage.tsx\<close> 184--343): the two quantity
      guards before any request (C22, C23), the input's normalisation (C24), failures
      (C25), the message timer, which is never cancelled and erases any later
      message (C26), the loading invariant (C40); also a non-numeric route.
    \<^item> \<open>Home\<close> (\<open>Home\<close>, \<open>src/src/pages/Home.tsx\<close> 1--95, with \<open>ProductCard\<close> of
      \<open>src/unnamed/part_005\<close>): every add-to-cart request is for quantity 1 of a
      listed, in-stock product (C21); a rejected add-to-cart replaces the list by the
      error view (C34); the description bound (C32); also retry.
    \<^item> \<open>Register\<close> (\<open>src/src/pages/Register.tsx\<close>): the page state and the session
      context together, since registration sets the identity. The e-mail field is an
      \<open><input type="email">\<close>, whose value the DOM sanitizes (\<open>email_sanitize\<close>:
      line breaks removed, surrounding ASCII white space stripped), under jsdom as in a
      browser. Client-side validation (C33), filling and submitting the form on every
      branch (C31), one \<open>createUser\<close> in flight at a time (C35), every request valid
      (C36). The executable e-mail test equals the language of its regular expression.
    \<^item> \<open>CartSpec\<close>: the cart page against the state machine of the specification
      (section 4.2). \<open>cart_abs\<close> reads the rendered state off \<open>cart_view\<close>.
      \<open>cart_spec_move\<close> is the abstract machine, with transitions labelled by the
      click or by the kind of call settled and its outcome (\<open>cart_label\<close>). Every
      step of a reachable page takes the transition its label names (C27). A loading
      indicator always has a fetch whose settling ends it (C29); after a result no run
      shows the cart again (\<open>cart_result_never_shows_items\<close>). Two concrete runs show
      where the code is looser than the text: a result after an empty cart, the loading
      indicator after a result.
    \<^item> \<open>CartItem\<close> (\<open>src/unnamed/part_004\<close>): the line item's text and its Remove
      handler, which is the cart page's remove step for that product (C30); amounts
      are integers in cents, printed with \<open>toFixed(2)\<close> as the integral part and two
      digits.
    \<^item> \<open>ProductCard\<close> (\<open>src/unnamed/part_005\<close>): the card's text; its action button
      reads "Add to Cart" exactly when the list page takes the click.
  \<^item> \<open>App\<close>: the route table of \<open>App\<close> (\<open>Home.tsx\<close> 96--159) with React Router 6
    matching, the \<open>Header\<close> (\<open>src/src/components/Header.tsx\<close>), the card links, and
    a browser session as a state machine (\<open>app_step\<close>, \<open>app_reach\<close>): the context, the
    location, the mounted page, the pages left behind with their pending calls and
    timers, and the log of every call with the identity of its moment. \<open>app_render\<close>
    keeps the element of the same route or mounts a new one and follows the
    navigations of mount effects; \<open>app_start\<close> is \<open>main.tsx\<close> loading a URL (the
    lazy routes let the provider read storage before a page mounts). Lemmas: the
    session invariant \<open>app_ok\<close> holds in every reachable session, so every cart call of
    a mounted page is for the current user (C38); a card link is a round trip to the
    product's fetch (C39). A page left behind keeps its pending calls, which
    still settle after the user has left it.

  The root theory holds two properties that span components: the cart's error banner
  after an HTTP failure is the non-empty message \<open>handleResponse\<close> built (C18), and a
  successful registration signs the visitor in across context, reload and the cart
  page (C37).

  Interaction: pages reach the API only through \<open>api_call\<close> values; a resolution
  delivers \<open>api_result\<close>'s rejection as it is, or a value of the type the TypeScript
  signature promises, since the code casts the parsed body without checking it. The
  pages read the identity from the context; the session re-renders them when it
  changes (\<open>page_set_user\<close>), and only the cart page's effect depends on it.

  Fuel: \<open>app_render\<close> runs with \<open>app_fuel = 2\<close>. A render navigates only when the
  cart page mounts or re-renders for an anonymous session, always to
  \<open>/register\<close>, whose page never navigates on mount; \<open>app_render_total\<close> proves that
  two renders are enough from every state satisfying the session invariant.

  \<^item> \<open>Lighthouse\<close>: the audit helpers of \<open>src/lighthouse/utils.ts\<close>. Scores, Core
    Web Vitals and performance metrics are read with JavaScript truthiness on
    rationals; the failed accessibility audits are a filter of the listed audits; the
    report's cells have fixed width. \<open>waitForServer\<close> is \<open>wait_loop\<close>, a
    \<open>function\<close> over a stream of probes (how long each \<open>fetch\<close> takes, what it
    yields, how late the timer fires), with a \<open>termination\<close> proof by the measure
    \<open>start + timeout - now\<close>: it returns whenever every fetch settles, after fewer
    than \<open>timeout / 1000 + 1\<close> fetches (C20); a fetch that never settles is \<open>None\<close>,
    and then the helper hangs whatever the timeout.
  \<^item> The unit tests, each an \<open>it\<close> block as a definition (its storage and its events:
    typing, clicks, the mocked API's answers) and a theorem of its expectations:
    \<open>CartTests\<close> (the cart page tests in \<open>src/vitest.lighthouse.prod.config.ts\<close>),
    \<open>RegisterTests\<close> (\<open>src/unnamed/part_000\<close>), \<open>ProductDetailTests\<close>
    (\<open>src/unnamed/part_001\<close>, with the text the product view renders; the \<open>null\<close>
    product reply, outside the typed ones, as the state \<open>setProduct(null)\<close> leaves) and the
    \<open>CartItem\<close> tests (\<open>src/unnamed/part_002\<close>, with the queries \<open>getByText\<close> and
    \<open>getByRole\<close>), and \<open>ApiTests\<close> (\<open>src/src/__tests__/api.advanced.test.ts\<close>: the
    mocked \<open>fetch\<close>, the call, and the matchers on the promise and on the request),
    \<open>UserContextTests\<close> (\<open>src/src/__tests__/UserContext.test.tsx\<close>: \<open>renderHook\<close>
    over the stored entries, then the actions inside \<open>act\<close>), \<open>HomeTests\<close>
    (\<open>src/src/__tests__/Home.test.tsx\<close>, with the text the list page renders) and
    \<open>CartAdvancedTests\<close> (\<open>src/src/__tests__/CartPage.advanced.test.tsx\<close>, with the
    text the cart page renders), \<open>HomeAdvancedTests\<close>
    (\<open>src/src/__tests__/Home.advanced.test.tsx\<close>), \<open>ProductDetailBasicTests\<close> and \<open>HeaderTests\<close> (the two
    suites of \<open>src/src/__tests__/ProductDetail.test.tsx\<close>; the header's text and links
    agree with the session model's \<open>header_view\<close>), \<open>ProductCardTests\<close> and
    \<open>RegisterSuiteTests\<close> (the \<open>ProductCard\<close> and \<open>Register\<close> suites of
    \<open>src/src/__tests__/Register.test.tsx\<close>: one card rendered on its own with its
    button and \<open>handleAddToCart\<close>; the page's elements queried by text, label and
    role), and \<open>AppTests\<close> (\<open>src/src/__tests__/App.test.tsx\<close>: the application
    loaded at a path by \<open>app_start\<close>, the unmocked API failing; the \<open>Products\<close> the
    first test finds is the header's link while the list loads, and once it has
    loaded two elements carry that text), and \<open>E2ETests\<close> (the Playwright suite
    \<open>src/e2e/store.spec.ts\<close>: a fresh browser driven by Playwright actions on the
    session model, the backend's answers as events; the browser's sanitization and
    constraint validation of the \<open>type="email"\<close> input from the HTML standard). Every test's expectations hold
    of the model but one: the e2e validation test's last check fails, since the browser
    refuses to submit \<open>invalid-email\<close>. The Register test that trims the e-mail passes
    because the input sanitizes the padded address before the regular expression sees
    it. The e2e flows hold as the suite means them; as written,
    \<open>page.click(...).first()\<close> calls \<open>first\<close> on a promise, which is a finding of the
    manifest and not of the model.
    \<open>LighthouseTests\<close> (\<open>src/unnamed/part_008\<close>, \<open>src/unnamed/part_009\<close>) models
    each audit test as the judgement it makes of a Lighthouse result: the inline
    \<open>score! * 100\<close> agrees with \<open>extractScores\<close> on every category present; the
    helper's failed-audit report bounds the detailed accessibility test; the example
    test's vitals check is vacuous on a result without vitals. \<open>LighthouseSuites\<close>
    models the suites' lifecycle: \<open>beforeAll\<close> launches Chrome under its 30000 ms
    hook timeout, the tests run on \<open>chrome.port\<close>, and \<open>afterAll\<close> kills the browser
    when \<open>chrome\<close> is set. A launch in time leaves no browser behind; a launch that
    succeeds after the timeout leaves one running, and only such a launch does (C28).
  \<^item> \<open>StrictMode\<close>: the development branch of \<open>main.tsx\<close>, where
    \<open>React.StrictMode\<close> runs each mount effect twice (\<open>dev_mount_route\<close>). The
    provider's doubled load is harmless; each page issues its first call twice. Equal
    answers end as in production, but a failure of the first of the two list fetches
    stays on screen after the second succeeds.
  \<^item> \<open>TestConfig\<close>: the configuration files \<open>src/lighthouse.config.js\<close> (the
    Lighthouse settings, then the unit-test configuration \<open>vitest.config.ts\<close>) and
    \<open>src/vitest.lighthouse.prod.config.ts\<close> as records, with the glob matching Vitest
    applies to their patterns (\<open>*\<close>, the globstar \<open>**\<close>, brace alternatives; the
    brace expansion is a \<open>function\<close> that terminates since each step removes a
    \<open>{\<close>). \<open>collects\<close> and \<open>covers\<close> are the files a run collects and the sources
    its coverage counts. Lemmas: the unit run and the production Lighthouse run are
    disjoint (C16); the unit run collects only test and spec files, and exactly the
    suites of \<open>src/__tests__\<close>; coverage counts only \<open>src/\<close> outside the tests;
    the \<open>APP_URL\<close> the production configuration passes is not the address the
    suites audit.

  Not modelled: markup and CSS beyond which branch renders and the text the tests
  look for; URL percent-decoding of route parameters; floating-point rounding of prices and totals (amounts are
  integers in cents); the Vite and Playwright configurations, which the sources
  only name; the Lighthouse settings' effect on an audit (no test passes them); the
  audit a Lighthouse test runs, which drives a real browser (its result is an input
  of the test's judgement); the backend of the end-to-end suite, outside the
  repository (its answers are events of the run). The
  documentation (the \<open>*.md\<close> files, \<open>src/unnamed/part_010\<close> and the markdown
  stored after the code in \<open>src/src/pages/Home.tsx\<close>) describes the code and holds
  no behaviour of its own; where it states a property of the code, the property is
  a lemma here and a disagreement is a finding of the manifest.
\<close>

text \<open>(C18) An HTTP failure of the cart fetch ends in a non-empty error banner holding
  exactly the message \<open>handleResponse\<close> built, unless the body's \<open>message\<close> is an array.\<close>

theorem cart_http_failure_banner:
  assumes "\<not> res_ok res" and "\<forall>xs. body_message res \<noteq> Some (JArr xs)"
    and "api_result (Inr res) = Inl e"
    and "cart_step s (Resolve i (Inl e)) = Some s'"
  shows "\<exists>m. e = RejError m \<and> cp_error s' = Some m \<and> m \<noteq> []"
proof -
  obtain m where hr: "handle_response res = Inl (RejError m)" and m: "m \<noteq> []"
    using handle_response_message_nonempty [OF assms(1,2)] by blast
  with assms(3) have e: "e = RejError m" by (simp add: api_result_def)
  obtain fb where "cp_error s' = Some (caught_message fb e)"
    using cart_resolve_rejection [OF assms(4)] by blast
  with e m show ?thesis by simp
qed

theorem cart_http_failure_banner_witness:
  "\<exists>m. RejError ''Unauthorized'' = RejError m \<and>
     cp_error (the (cart_step (cart_example_loaded\<lparr>cp_pending := [GetCart 7]\<rparr>)
                     (Resolve 0 (Inl (RejError ''Unauthorized''))))) = Some m \<and> m \<noteq> []"
proof -
  let ?res = "\<lparr>res_status = 401, res_status_text = ''Unauthorized'', res_body = Inl ''Unexpected end of JSON input''\<rparr>"
  let ?s = "cart_example_loaded\<lparr>cp_pending := [GetCart 7]\<rparr>"
  have ok: "\<not> res_ok ?res" by (simp add: res_ok_def)
  have bm: "\<forall>xs. body_message ?res \<noteq> Some (JArr xs)" by (simp add: body_message_def)
  have ar: "api_result (Inr ?res) = Inl (RejError ''Unauthorized'')"
    by (simp add: api_result_def res_ok_def error_value_def body_message_def)
  have st: "cart_step ?s (Resolve 0 (Inl (RejError ''Unauthorized''))) =
      Some (load_cart_done (Inl (RejError ''Unauthorized'')) (?s\<lparr>cp_pending := []\<rparr>))"
    by (simp add: cart_examples cart_resolve_def drop_at_def)
  from cart_http_failure_banner [OF ok bm ar st] show ?thesis
    unfolding st option.sel by simp
qed

text \<open>(C37) Registration signs the visitor in across the whole application: when the
  \<open>createUser\<close> call of the registration page returns a user with a non-zero id, the
  page navigates home and shows the logged-in view, a reload restores that id from
  storage, and the cart page mounted in that session fetches that user's cart.\<close>

theorem registration_signs_in:
  assumes "reg_step (s, c) (RegResolve i (Inr (VUser u))) = Some (s', c')" and "user_id u \<noteq> 0"
  shows "last (rg_effects s') = Navigate ''/'' \<and> reg_view s' c' = RegAlreadyView (user_id u) \<and>
         current_user_id (ctx_load (ctx_init (storage c'))) = Some (user_id u) \<and>
         cp_pending (cart_mount (cart_init (current_user_id c'))) = [GetCart (user_id u)]"
proof -
  from reg_step_resolve_user [OF assms(1)]
  have c': "c' = set_current_user_id (Some (user_id u)) c"
    and eff: "rg_effects s' = rg_effects s @ [Navigate ''/'']" by blast+
  have "current_user_id (ctx_load (ctx_init (storage c'))) = Some (user_id u)"
    by (simp add: c' ctx_load_fresh)
  moreover have "cp_pending (cart_mount (cart_init (current_user_id c'))) = [GetCart (user_id u)]"
    using assms(2) by (simp add: c' cart_mount_def cart_init_def load_cart_def load_cart_as_def cart_issue_def id_truthy_def)
  ultimately show ?thesis using assms(2) by (simp add: eff c' reg_view_def)
qed

theorem registration_signs_in_witness:
  "\<exists>s' c'. reg_step (reg_handle_submit reg_example_filled, ctx_load (ctx_init Map.empty))
       (RegResolve 0 (Inr (VUser \<lparr>user_id = 12, user_username = ''bob'', user_email = ''bob@shop.io''\<rparr>))) =
       Some (s', c') \<and>
     current_user_id (ctx_load (ctx_init (storage c'))) = Some 12 \<and>
     cp_pending (cart_mount (cart_init (current_user_id c'))) = [GetCart 12]"
proof -
  let ?u = "\<lparr>user_id = 12, user_username = ''bob'', user_email = ''bob@shop.io''\<rparr>"
  let ?s = "reg_handle_submit reg_example_filled"
  let ?c = "ctx_load (ctx_init Map.empty)"
  obtain s' c' where st: "reg_step (?s, ?c) (RegResolve 0 (Inr (VUser ?u))) = Some (s', c')"
    by (simp add: reg_example_submitted reg_submit_done_def drop_at_def)
  from registration_signs_in [OF st] show ?thesis using st by auto
qed

end
